(* ===== verification/Prelude.thy ===== *)
theory Prelude
  imports Main "HOL-Library.Word" "HOL-Library.State_Monad"
begin

text \<open>
  Shared material of the development: the Go standard-library notions the program uses (errors,
  \<open>time.Duration\<close> as a 64-bit word of nanoseconds, \<open>time.Time\<close>), the state monad in which the
  handlers are written, the record of the world a handler talks to together with the trace of
  that conversation, and the generic lemmas on them.
\<close>

named_theorems run_simps \<open>one-step evaluation of the operations of a handler\<close>
named_theorems dur_simps \<open>evaluation of durations\<close>
named_theorems leads_rules \<open>what a handler leads to, one statement at a time\<close>

section \<open>Errors\<close>

text \<open>
  A Go \<open>error\<close> value. The code distinguishes errors only by the predicates of
  \<open>k8s.io/apimachinery/pkg/api/errors\<close>, which look at the reason of an API status; every error
  made by \<open>errors.New\<close>, \<open>fmt.Errorf\<close> or the transport has none of these reasons.
\<close>

datatype go_error = NotFound | Conflict | AlreadyExists | Other string

definition IsNotFound :: "go_error \<Rightarrow> bool" where
  "IsNotFound e = (case e of NotFound \<Rightarrow> True | _ \<Rightarrow> False)"

definition IsConflict :: "go_error \<Rightarrow> bool" where
  "IsConflict e = (case e of Conflict \<Rightarrow> True | _ \<Rightarrow> False)"

definition IsAlreadyExists :: "go_error \<Rightarrow> bool" where
  "IsAlreadyExists e = (case e of AlreadyExists \<Rightarrow> True | _ \<Rightarrow> False)"

text \<open>
  \<open>Wrap\<close> and \<open>Wrapf\<close> of \<open>github.com/pkg/errors\<close> put a message in front and keep what the error is;
  wrapping nil gives nil.
\<close>

fun Wrap :: "go_error \<Rightarrow> string \<Rightarrow> go_error" where
  "Wrap (Other err) msg = Other (msg @ '': '' @ err)"
| "Wrap err msg = err"

definition Wrapf :: "go_error option \<Rightarrow> string \<Rightarrow> go_error option" where
  "Wrapf err msg = (case err of None \<Rightarrow> None | Some e \<Rightarrow> Some (Wrap e msg))"

section \<open>Durations and times\<close>

text \<open>
  \<open>time.Duration\<close> is an \<open>int64\<close> of nanoseconds: addition and multiplication wrap, comparison is
  signed. \<open>time.Time\<close> is counted in nanoseconds from Go's zero time, so that \<open>IsZero\<close> is
  equality with 0. \<open>Time.Sub\<close> saturates at the bounds of \<open>int64\<close>.
\<close>

type_synonym duration = "64 word"
type_synonym time = int

definition Second :: duration where
  "Second = 1000000000"

definition Minute :: duration where
  "Minute = 60 * Second"

definition dur_less :: "duration \<Rightarrow> duration \<Rightarrow> bool" where
  "dur_less a b = (sint a < sint b)"

definition zeroTime :: time where
  "zeroTime = 0"

definition time_IsZero :: "time \<Rightarrow> bool" where
  "time_IsZero t = (t = zeroTime)"

definition time_After :: "time \<Rightarrow> time \<Rightarrow> bool" where
  "time_After t u = (u < t)"

definition time_Add :: "time \<Rightarrow> duration \<Rightarrow> time" where
  "time_Add t d = t + sint d"

definition time_Sub :: "time \<Rightarrow> time \<Rightarrow> duration" where
  "time_Sub t u = word_of_int (max (- (2 ^ 63)) (min (2 ^ 63 - 1) (t - u)))"

text \<open>The JSON form of \<open>metav1.Time\<close> is RFC 3339 without fractions of a second.\<close>

definition json_time :: "time \<Rightarrow> time" where
  "json_time t = t - t mod 1000000000"

text \<open>\<open>IsZero\<close> on a pointer to \<open>metav1.Time\<close>: a nil pointer is zero too.\<close>

definition timePtr_IsZero :: "time option \<Rightarrow> bool" where
  "timePtr_IsZero p = (case p of None \<Rightarrow> True | Some t \<Rightarrow> time_IsZero t)"

section \<open>Calls\<close>

text \<open>A call in Go returns, panics, or blocks for ever.\<close>

datatype 'a call = Return 'a | Panic | Block

section \<open>Handlers that talk to the world\<close>

text \<open>
  A handler reads and changes a world of type \<open>'s\<close> that is not part of the program (the API
  server behind the client, the clock, the network, the kernel). \<open>world\<close> is that state and
  \<open>trace\<close> the record of every interaction, with the answer it got, in order. The trace is not
  read by any handler: it is there to state what a handler did.
\<close>

record ('s, 'e) io =
  world :: 's
  trace :: "'e list"

definition perform :: "('s, 'a) state \<Rightarrow> ('a \<Rightarrow> 'e) \<Rightarrow> (('s, 'e, 'z) io_scheme, 'a) state" where
  "perform m ev = State (\<lambda>st. case run_state m (world st) of
      (a, w) \<Rightarrow> (a, st\<lparr>world := w, trace := trace st @ [ev a]\<rparr>))"

definition modify :: "('s \<Rightarrow> 's) \<Rightarrow> ('s, unit) state" where
  "modify f = State (\<lambda>s. ((), f s))"

definition gets :: "('s \<Rightarrow> 'a) \<Rightarrow> ('s, 'a) state" where
  "gets f = State (\<lambda>s. (f s, s))"

text \<open>A world of two parts, and an operation on one of them.\<close>

definition on_fst :: "('a, 'r) state \<Rightarrow> ('a \<times> 'b, 'r) state" where
  "on_fst m = State (\<lambda>(a, b). case run_state m a of (r, a') \<Rightarrow> (r, (a', b)))"

definition on_snd :: "('b, 'r) state \<Rightarrow> ('a \<times> 'b, 'r) state" where
  "on_snd m = State (\<lambda>(a, b). case run_state m b of (r, b') \<Rightarrow> (r, (a, b')))"

text \<open>
  A handler of one component as a part of a handler with its own kind of events: it runs on the same
  world, and its events are put on the trace under \<open>f\<close>.
\<close>

definition embed :: "('e \<Rightarrow> 'f) \<Rightarrow> (('s, 'e) io, 'a) state \<Rightarrow> (('s, 'f, 'z) io_scheme, 'a) state" where
  "embed f m = State (\<lambda>st. case run_state m \<lparr>world = world st, trace = []\<rparr> of
      (a, st') \<Rightarrow> (a, st\<lparr>world := world st', trace := trace st @ map f (trace st')\<rparr>))"

text \<open>
  \<open>emits m Q\<close>: whatever the world answers, \<open>m\<close> extends the trace by a list of events that, with
  the value returned, satisfies \<open>Q\<close>.
\<close>

definition emits :: "(('s, 'e, 'z) io_scheme, 'a) state \<Rightarrow> ('a \<Rightarrow> 'e list \<Rightarrow> bool) \<Rightarrow> bool" where
  "emits m Q \<longleftrightarrow> (\<forall>s. \<exists>evs. trace (snd (run_state m s)) = trace s @ evs \<and>
     Q (fst (run_state m s)) evs)"

abbreviation ret :: "'a \<Rightarrow> ('s, 'a) state" where
  "ret \<equiv> State_Monad.return"

section \<open>Generic lemmas\<close>

lemma run_perform [run_simps]:
  "run_state (perform m ev) st =
     (fst (run_state m (world st)),
      st\<lparr>world := snd (run_state m (world st)),
         trace := trace st @ [ev (fst (run_state m (world st)))]\<rparr>)"
  by (simp add: perform_def split: prod.split)

lemma run_modify [run_simps]: "run_state (modify f) s = ((), f s)"
  by (simp add: modify_def)

lemma run_gets [run_simps]: "run_state (gets f) s = (f s, s)"
  by (simp add: gets_def)

lemma run_on_fst [run_simps]:
  "run_state (on_fst m) s = (fst (run_state m (fst s)), (snd (run_state m (fst s)), snd s))"
  by (simp add: on_fst_def split: prod.split)

lemma run_on_snd [run_simps]:
  "run_state (on_snd m) s = (fst (run_state m (snd s)), (fst s, snd (run_state m (snd s))))"
  by (simp add: on_snd_def split: prod.split)

subsection \<open>Rules for the events of a handler\<close>

lemma emits_ret: "Q a [] \<Longrightarrow> emits (ret a) Q"
  by (simp add: emits_def)

lemma emits_perform: "(\<And>a. Q a [ev a]) \<Longrightarrow> emits (perform m ev) Q"
  by (simp add: emits_def run_perform)

lemma emits_bind:
  assumes "emits m Q" and "\<And>a evs. Q a evs \<Longrightarrow> emits (f a) (\<lambda>b evs'. R b (evs @ evs'))"
  shows "emits (State_Monad.bind m f) R"
  unfolding emits_def
proof
  fix s
  obtain a s1 where m: "run_state m s = (a, s1)" by (cases "run_state m s")
  with assms(1) obtain evs where evs: "trace s1 = trace s @ evs" "Q a evs"
    unfolding emits_def by (metis fst_conv snd_conv)
  from assms(2) [OF evs(2)] obtain evs' where
    "trace (snd (run_state (f a) s1)) = trace s1 @ evs'"
    "R (fst (run_state (f a) s1)) (evs @ evs')"
    unfolding emits_def by blast
  with m evs(1) show "\<exists>evs. trace (snd (run_state (State_Monad.bind m f) s)) = trace s @ evs \<and>
      R (fst (run_state (State_Monad.bind m f) s)) evs"
    by (intro exI [of _ "evs @ evs'"]) simp
qed

lemma emits_perform_bind:
  "(\<And>a. emits (f a) (\<lambda>b evs. R b (ev a # evs))) \<Longrightarrow> emits (State_Monad.bind (perform m ev) f) R"
  by (rule emits_bind [where Q = "\<lambda>a evs. evs = [ev a]"]) (auto intro: emits_perform)

lemma emits_embed: "emits m Q \<Longrightarrow> emits (embed f m) (\<lambda>a evs. \<exists>evs'. evs = map f evs' \<and> Q a evs')"
  unfolding emits_def embed_def
  by (auto split: prod.split) (metis append_Nil fst_conv io.select_convs(2) snd_conv)

lemma emits_embed_any: "emits (embed f m) (\<lambda>a evs. \<exists>evs'. evs = map f evs')"
  unfolding emits_def embed_def by (auto split: prod.split)

lemma emits_embed_bind:
  assumes "emits m Q" and "\<And>a evs. Q a evs \<Longrightarrow> emits (g a) (\<lambda>b evs'. R b (map f evs @ evs'))"
  shows "emits (State_Monad.bind (embed f m) g) R"
  by (rule emits_bind [OF emits_embed [OF assms(1)]]) (use assms(2) in auto)

lemma emits_modify_bind:
  "(\<And>s. trace (g s) = trace s) \<Longrightarrow> emits (f ()) R \<Longrightarrow> emits (State_Monad.bind (modify g) f) R"
  by (rule emits_bind [where Q = "\<lambda>a evs. evs = []"]) (auto simp: emits_def run_modify)

lemma emits_mono: "emits m Q \<Longrightarrow> (\<And>a evs. Q a evs \<Longrightarrow> R a evs) \<Longrightarrow> emits m R"
  unfolding emits_def by blast

lemma emits_run: "emits m Q \<Longrightarrow> run_state m s = (a, s') \<Longrightarrow> \<exists>evs. trace s' = trace s @ evs \<and> Q a evs"
  unfolding emits_def by (metis fst_conv snd_conv)

lemma emitsD:
  "emits m Q \<Longrightarrow> run_state m s = (a, s') \<Longrightarrow> trace s = [] \<Longrightarrow> Q a (trace s')"
  unfolding emits_def by (metis append_Nil fst_conv snd_conv)

lemmas emits_intros = emits_ret emits_perform emits_perform_bind emits_modify_bind

subsection \<open>Invariants of the world\<close>

text \<open>\<open>world_inv P m\<close>: if the world satisfies \<open>P\<close>, it does so after \<open>m\<close>.\<close>

definition world_inv :: "('s \<Rightarrow> bool) \<Rightarrow> (('s, 'e, 'z) io_scheme, 'a) state \<Rightarrow> bool" where
  "world_inv P m \<longleftrightarrow> (\<forall>s. P (world s) \<longrightarrow> P (world (snd (run_state m s))))"

lemma world_inv_ret: "world_inv P (ret a)"
  by (simp add: world_inv_def)

lemma world_inv_gets: "world_inv P (gets f)"
  by (simp add: world_inv_def run_gets)

lemma world_inv_perform: "(\<And>s. P s \<Longrightarrow> P (snd (run_state m s))) \<Longrightarrow> world_inv P (perform m ev)"
  by (simp add: world_inv_def run_perform)

lemma world_inv_modify: "(\<And>s. world (f s) = world s) \<Longrightarrow> world_inv P (modify f)"
  by (simp add: world_inv_def run_modify)

lemma world_inv_bind:
  "world_inv P m \<Longrightarrow> (\<And>a. world_inv P (f a)) \<Longrightarrow> world_inv P (State_Monad.bind m f)"
  by (simp add: world_inv_def split: prod.split) (metis snd_conv)

lemma world_invD: "world_inv P m \<Longrightarrow> run_state m s = (a, s') \<Longrightarrow> P (world s) \<Longrightarrow> P (world s')"
  unfolding world_inv_def by (metis snd_conv)

lemmas world_inv_intros = world_inv_ret world_inv_gets world_inv_perform world_inv_modify world_inv_bind

subsection \<open>What a handler leads to\<close>

text \<open>\<open>leads m w Q\<close>: started in the world \<open>w\<close>, \<open>m\<close> ends with a value and a world that satisfy \<open>Q\<close>.\<close>

definition leads :: "(('s, 'e, 'z) io_scheme, 'a) state \<Rightarrow> 's \<Rightarrow> ('a \<Rightarrow> 's \<Rightarrow> bool) \<Rightarrow> bool" where
  "leads m w Q \<longleftrightarrow> (\<forall>s. world s = w \<longrightarrow> Q (fst (run_state m s)) (world (snd (run_state m s))))"

lemma leads_ret [leads_rules]: "Q a w \<Longrightarrow> leads (ret a) w Q"
  by (simp add: leads_def)

lemma leads_perform [leads_rules]:
  "Q (fst (run_state m w)) (snd (run_state m w)) \<Longrightarrow> leads (perform m ev) w Q"
  by (simp add: leads_def run_perform)

lemma leads_bind: "leads m w (\<lambda>a w'. leads (f a) w' Q) \<Longrightarrow> leads (State_Monad.bind m f) w Q"
  by (auto simp: leads_def split: prod.splits)

lemma leads_perform_bind [leads_rules]:
  "leads (f (fst (run_state m w))) (snd (run_state m w)) Q \<Longrightarrow>
    leads (State_Monad.bind (perform m ev) f) w Q"
  by (rule leads_bind) (rule leads_perform)

lemma leads_modify_bind:
  "(\<And>s. world (g s) = world s) \<Longrightarrow> leads (f ()) w Q \<Longrightarrow> leads (State_Monad.bind (modify g) f) w Q"
  by (rule leads_bind) (simp add: leads_def run_modify)

lemma leadsD: "leads m w Q \<Longrightarrow> run_state m s = (a, s') \<Longrightarrow> world s = w \<Longrightarrow> Q a (world s')"
  by (auto simp: leads_def)

lemma leads_if [leads_rules]:
  "(b \<Longrightarrow> leads m w Q) \<Longrightarrow> (\<not> b \<Longrightarrow> leads m' w Q) \<Longrightarrow> leads (if b then m else m') w Q"
  by simp

subsection \<open>Handlers in a world that keeps an invariant\<close>

text \<open>
  \<open>ensures I m Q\<close>: started in a world with \<open>I\<close>, \<open>m\<close> ends in one with \<open>I\<close>, and its value and its events
  satisfy \<open>Q\<close>.
\<close>

definition ensures :: "('s \<Rightarrow> bool) \<Rightarrow> (('s, 'e, 'z) io_scheme, 'a) state \<Rightarrow> ('a \<Rightarrow> 'e list \<Rightarrow> bool) \<Rightarrow> bool" where
  "ensures I m Q \<longleftrightarrow> (\<forall>s. I (world s) \<longrightarrow> (\<exists>evs. trace (snd (run_state m s)) = trace s @ evs \<and>
     I (world (snd (run_state m s))) \<and> Q (fst (run_state m s)) evs))"

lemma ensures_ret: "Q a [] \<Longrightarrow> ensures I (ret a) Q"
  by (simp add: ensures_def)

lemma ensures_gets: "(\<And>a. Q a []) \<Longrightarrow> ensures I (gets f) Q"
  by (simp add: ensures_def run_gets)

lemma ensures_perform:
  "(\<And>w. I w \<Longrightarrow> I (snd (run_state m w)) \<and> Q (fst (run_state m w)) [ev (fst (run_state m w))]) \<Longrightarrow>
    ensures I (perform m ev) Q"
  by (simp add: ensures_def run_perform)

lemma ensures_bind:
  assumes "ensures I m Q" and "\<And>a evs. Q a evs \<Longrightarrow> ensures I (f a) (\<lambda>b evs'. R b (evs @ evs'))"
  shows "ensures I (State_Monad.bind m f) R"
  unfolding ensures_def
proof (intro allI impI, goal_cases)
  case (1 s)
  obtain a s1 where m: "run_state m s = (a, s1)" by (cases "run_state m s")
  with assms(1) 1 obtain evs where evs: "trace s1 = trace s @ evs" "I (world s1)" "Q a evs"
    unfolding ensures_def by (metis fst_conv snd_conv)
  from assms(2) [OF evs(3)] evs(2) obtain evs' where
    "trace (snd (run_state (f a) s1)) = trace s1 @ evs'" "I (world (snd (run_state (f a) s1)))"
    "R (fst (run_state (f a) s1)) (evs @ evs')"
    unfolding ensures_def by blast
  with m evs(1) show ?case
    by (intro exI [of _ "evs @ evs'"]) simp
qed

lemma ensures_modify_bind:
  "(\<And>s. trace (g s) = trace s) \<Longrightarrow> (\<And>s. world (g s) = world s) \<Longrightarrow> ensures I (f ()) R \<Longrightarrow>
    ensures I (State_Monad.bind (modify g) f) R"
  by (rule ensures_bind [where Q = "\<lambda>a evs. evs = []"]) (auto simp: ensures_def run_modify)

lemma ensures_mono: "ensures I m Q \<Longrightarrow> (\<And>a evs. Q a evs \<Longrightarrow> R a evs) \<Longrightarrow> ensures I m R"
  unfolding ensures_def by blast

lemma ensures_emits: "ensures I m Q \<Longrightarrow> emits m R \<Longrightarrow> ensures I m (\<lambda>a evs. Q a evs \<and> R a evs)"
  unfolding ensures_def emits_def by (metis same_append_eq)

lemma ensures_conj: "ensures I m Q \<Longrightarrow> ensures I m R \<Longrightarrow> ensures I m (\<lambda>a evs. Q a evs \<and> R a evs)"
  unfolding ensures_def by (metis same_append_eq)

lemma ensures_run:
  "ensures I m Q \<Longrightarrow> run_state m s = (a, s') \<Longrightarrow> I (world s) \<Longrightarrow> \<exists>evs. trace s' = trace s @ evs \<and> I (world s') \<and> Q a evs"
  unfolding ensures_def by (metis fst_conv snd_conv)

subsection \<open>Errors and times\<close>

lemma IsNotFound_iff [simp]: "IsNotFound e \<longleftrightarrow> e = NotFound"
  by (cases e) (simp_all add: IsNotFound_def)

lemma IsConflict_iff [simp]: "IsConflict e \<longleftrightarrow> e = Conflict"
  by (cases e) (simp_all add: IsConflict_def)

lemma IsAlreadyExists_iff [simp]: "IsAlreadyExists e \<longleftrightarrow> e = AlreadyExists"
  by (cases e) (simp_all add: IsAlreadyExists_def)

lemma timePtr_IsZero_simps [simp]:
  "timePtr_IsZero None"
  "timePtr_IsZero (Some t) \<longleftrightarrow> t = 0"
  by (simp_all add: timePtr_IsZero_def time_IsZero_def zeroTime_def)

lemma json_time_bounds: "json_time t \<le> t" "t - 1000000000 < json_time t"
  by (simp_all add: json_time_def)

lemma sint_word_of_int_64: "- (2 ^ 63) \<le> k \<Longrightarrow> k < 2 ^ 63 \<Longrightarrow> sint (word_of_int k :: 64 word) = k"
  by (simp add: sint_sbintrunc' signed_take_bit_int_eq_self)

lemma sint_time_Sub:
  assumes "- (2 ^ 63) \<le> t - u" and "t - u < 2 ^ 63"
  shows "sint (time_Sub t u) = t - u"
proof -
  have "max (- (2 ^ 63)) (min (2 ^ 63 - 1) (t - u)) = t - u" using assms by linarith
  then show ?thesis using assms sint_word_of_int_64 [of "t - u"] by (simp only: time_Sub_def)
qed

lemma sint_Second [dur_simps]: "sint Second = 1000000000"
  by (simp add: Second_def)

lemma sint_plus_Second:
  "- (2 ^ 63) \<le> sint (a :: duration) \<Longrightarrow> sint a < 2 ^ 63 - 1000000000 \<Longrightarrow>
    sint (a + Second) = sint a + 1000000000"
  by (simp add: sint_word_ariths sint_Second signed_take_bit_int_eq_self)

end
