(* ===== verification/Kube_Objects.thy ===== *)
theory Kube_Objects
  imports Prelude
begin

text \<open>
  The API objects the program handles: the \<open>v1alpha1\<close> custom resources of
  \<open>src/api/v1alpha1\<close>, and of the Kubernetes types (\<open>src/vendor/k8s.io/api/core/v1\<close>,
  \<open>metav1\<close>) the fields the code reads, writes or that name the parts of a copied object: a node is
  always copied whole, so a field that is not here behaves as the ones that are. Finalizer lists, taints and the codes
  of a health response are here too, with their operations.
\<close>

section \<open>Metadata\<close>

record ObjectKey =
  key_Namespace :: string
  key_Name :: string

record TypeMeta =
  type_Kind :: string
  type_APIVersion :: string

record OwnerReference =
  ref_APIVersion :: string
  ref_Kind :: string
  ref_Name :: string
  ref_UID :: string

record ObjectMeta =
  Name :: string
  Namespace :: string
  UID :: string
  ResourceVersion :: string
  CreationTimestamp :: time
  DeletionTimestamp :: "time option"
  Labels :: "string \<rightharpoonup> string"
  Annotations :: "string \<rightharpoonup> string"
  OwnerReferences :: "OwnerReference list"
  Finalizers :: "string list"

section \<open>Nodes and machines\<close>

record Taint =
  taint_Key :: string
  taint_Value :: string
  taint_Effect :: string
  taint_TimeAdded :: "time option"

record NodeAddress =
  addr_Type :: string
  addr_Address :: string

record NodeCondition =
  cond_Type :: string
  cond_Status :: string
  cond_LastHeartbeatTime :: time
  cond_LastTransitionTime :: time
  cond_Reason :: string
  cond_Message :: string

record NodeSpec =
  spec_PodCIDR :: string
  spec_PodCIDRs :: "string list"
  spec_ProviderID :: string
  spec_Unschedulable :: bool
  spec_Taints :: "Taint list"

record NodeStatus =
  status_Phase :: string
  status_Conditions :: "NodeCondition list"
  status_Addresses :: "NodeAddress list"

record Node =
  node_Kind :: string
  node_APIVersion :: string
  node_Meta :: ObjectMeta
  node_Spec :: NodeSpec
  node_Status :: NodeStatus

text \<open>The zero value \<open>v1.NodeStatus{}\<close>.\<close>

definition emptyNodeStatus :: NodeStatus where
  "emptyNodeStatus = \<lparr>status_Phase = '''', status_Conditions = [], status_Addresses = []\<rparr>"

record Machine =
  machine_Meta :: ObjectMeta
  machine_NodeRef :: "ObjectKey option"

section \<open>Custom resources (\<open>api/v1alpha1\<close>)\<close>

record PoisonPillRemediationStatus =
  NodeBackup :: "Node option"
  TimeAssumedRebooted :: "time option"
  ppr_Phase :: "string option"

datatype PoisonPillRemediationSpec = PoisonPillRemediationSpec

record PoisonPillRemediation =
  ppr_Type :: TypeMeta
  ppr_Meta :: ObjectMeta
  ppr_Spec :: PoisonPillRemediationSpec
  ppr_Status :: PoisonPillRemediationStatus

record PoisonPillConfigSpec =
  WatchdogFilePath :: string
  SafeTimeToAssumeNodeRebootedSeconds :: int

datatype PoisonPillConfigStatus = PoisonPillConfigStatus

record PoisonPillConfig =
  ppc_Type :: TypeMeta
  ppc_Meta :: ObjectMeta
  ppc_Spec :: PoisonPillConfigSpec
  ppc_Status :: PoisonPillConfigStatus

record PoisonPillRemediationTemplateResource =
  resource_Spec :: PoisonPillRemediationSpec

record PoisonPillRemediationTemplateSpec =
  Template :: PoisonPillRemediationTemplateResource

datatype PoisonPillRemediationTemplateStatus = PoisonPillRemediationTemplateStatus

record PoisonPillRemediationTemplate =
  pprt_Type :: TypeMeta
  pprt_Meta :: ObjectMeta
  pprt_Spec :: PoisonPillRemediationTemplateSpec
  pprt_Status :: PoisonPillRemediationTemplateStatus

definition emptyType :: TypeMeta where
  "emptyType = \<lparr>type_Kind = '''', type_APIVersion = ''''\<rparr>"

definition emptyMeta :: ObjectMeta where
  "emptyMeta = \<lparr>Name = '''', Namespace = '''', UID = '''', ResourceVersion = '''',
     CreationTimestamp = zeroTime, DeletionTimestamp = None, Labels = Map.empty,
     Annotations = Map.empty, OwnerReferences = [], Finalizers = []\<rparr>"

definition configCRName :: string where
  "configCRName = ''poison-pill-config''"

definition templateCRName :: string where
  "templateCRName = ''poison-pill-default-template''"

definition defaultWatchdogPath :: string where
  "defaultWatchdogPath = ''/dev/watchdog1''"

definition defaultSafetToAssumeNodeRebootTimeout :: int where
  "defaultSafetToAssumeNodeRebootTimeout = 180"

definition NewDefaultPoisonPillConfig :: PoisonPillConfig where
  "NewDefaultPoisonPillConfig =
     \<lparr>ppc_Type = emptyType, ppc_Meta = emptyMeta\<lparr>Name := configCRName\<rparr>,
      ppc_Spec = \<lparr>WatchdogFilePath = defaultWatchdogPath,
        SafeTimeToAssumeNodeRebootedSeconds = defaultSafetToAssumeNodeRebootTimeout\<rparr>,
      ppc_Status = PoisonPillConfigStatus\<rparr>"

definition NewDefaultRemediationTemplate :: PoisonPillRemediationTemplate where
  "NewDefaultRemediationTemplate =
     \<lparr>pprt_Type = emptyType, pprt_Meta = emptyMeta\<lparr>Name := templateCRName\<rparr>,
      pprt_Spec = \<lparr>Template = \<lparr>resource_Spec = PoisonPillRemediationSpec\<rparr>\<rparr>,
      pprt_Status = PoisonPillRemediationTemplateStatus\<rparr>"

section \<open>Health check responses (\<open>api/HealthCheckResponse.go\<close>)\<close>

text \<open>
  \<open>HealthCheckResponseCode\<close> is an \<open>int\<close>. The constant block starts with \<open>-1\<close> and goes on with
  \<open>iota\<close>, which is 1 on its second line.
\<close>

type_synonym HealthCheckResponseCode = int

definition RequestFailed :: HealthCheckResponseCode where
  "RequestFailed = -1"

definition Healthy :: HealthCheckResponseCode where
  "Healthy = 1"

definition Unhealthy :: HealthCheckResponseCode where
  "Unhealthy = 2"

definition ApiError :: HealthCheckResponseCode where
  "ApiError = 3"

section \<open>Finalizers (\<open>controllerutil\<close>)\<close>

fun ContainsFinalizer :: "string list \<Rightarrow> string \<Rightarrow> bool" where
  "ContainsFinalizer [] f = False"
| "ContainsFinalizer (e # es) f = (if e = f then True else ContainsFinalizer es f)"

definition AddFinalizer :: "string list \<Rightarrow> string \<Rightarrow> string list" where
  "AddFinalizer fs f = (if ContainsFinalizer fs f then fs else fs @ [f])"

text \<open>The loop of \<open>RemoveFinalizer\<close>: cut \<open>f[i]\<close> out and stay at \<open>i\<close>, or go on to \<open>i + 1\<close>.\<close>

function RemoveFinalizer_loop :: "nat \<Rightarrow> string list \<Rightarrow> string \<Rightarrow> string list" where
  "RemoveFinalizer_loop i fs f =
     (if i < length fs then
        (if fs ! i = f then RemoveFinalizer_loop i (take i fs @ drop (Suc i) fs) f
         else RemoveFinalizer_loop (Suc i) fs f)
      else fs)"
  by pat_completeness auto
termination
  by (relation "measure (\<lambda>(i, fs, f). length fs - i)") auto

definition RemoveFinalizer :: "string list \<Rightarrow> string \<Rightarrow> string list" where
  "RemoveFinalizer fs f = RemoveFinalizer_loop 0 fs f"

section \<open>Taints (\<open>pkg/utils/taints.go\<close>)\<close>

definition MatchTaint :: "Taint \<Rightarrow> Taint \<Rightarrow> bool" where
  "MatchTaint t taintToMatch =
     (taint_Key t = taint_Key taintToMatch \<and> taint_Effect t = taint_Effect taintToMatch)"

fun TaintExists :: "Taint list \<Rightarrow> Taint \<Rightarrow> bool" where
  "TaintExists [] taintToFind = False"
| "TaintExists (taint # taints) taintToFind =
     (if MatchTaint taint taintToFind then True else TaintExists taints taintToFind)"

fun DeleteTaint_loop :: "Taint list \<Rightarrow> Taint \<Rightarrow> Taint list \<Rightarrow> bool \<Rightarrow> Taint list \<times> bool" where
  "DeleteTaint_loop [] taintToDelete newTaints deleted = (newTaints, deleted)"
| "DeleteTaint_loop (t # taints) taintToDelete newTaints deleted =
     (if MatchTaint taintToDelete t then DeleteTaint_loop taints taintToDelete newTaints True
      else DeleteTaint_loop taints taintToDelete (newTaints @ [t]) deleted)"

definition DeleteTaint :: "Taint list \<Rightarrow> Taint \<Rightarrow> Taint list \<times> bool" where
  "DeleteTaint taints taintToDelete = DeleteTaint_loop taints taintToDelete [] False"

lemmas code_defs = Healthy_def Unhealthy_def ApiError_def RequestFailed_def

section \<open>Lemmas on finalizers\<close>

declare RemoveFinalizer_loop.simps [simp del]

lemma ContainsFinalizer_iff [simp]: "ContainsFinalizer fs f \<longleftrightarrow> f \<in> set fs"
  by (induction fs) auto

lemma RemoveFinalizer_loop_filter:
  "RemoveFinalizer_loop i fs f = take i fs @ filter (\<lambda>e. e \<noteq> f) (drop i fs)"
proof (induction i fs f rule: RemoveFinalizer_loop.induct)
  case (1 i fs f)
  show ?case
  proof (cases "i < length fs")
    case True
    then have d: "drop i fs = fs ! i # drop (Suc i) fs"
      by (simp add: Cons_nth_drop_Suc)
    show ?thesis
    proof (cases "fs ! i = f")
      case eq: True
      with True "1.IH"(1) show ?thesis
        by (subst RemoveFinalizer_loop.simps) (simp add: d)
    next
      case ne: False
      with True "1.IH"(2) show ?thesis
        by (subst RemoveFinalizer_loop.simps) (simp add: d take_Suc_conv_app_nth)
    qed
  next
    case False
    then show ?thesis by (subst RemoveFinalizer_loop.simps) simp
  qed
qed

lemma RemoveFinalizer_filter [simp]: "RemoveFinalizer fs f = filter (\<lambda>e. e \<noteq> f) fs"
  by (simp add: RemoveFinalizer_def RemoveFinalizer_loop_filter)

lemma set_AddFinalizer [simp]: "set (AddFinalizer fs f) = insert f (set fs)"
  by (auto simp: AddFinalizer_def)

lemma AddFinalizer_idem [simp]: "AddFinalizer (AddFinalizer fs f) f = AddFinalizer fs f"
  by (simp add: AddFinalizer_def)

lemma distinct_AddFinalizer: "distinct fs \<Longrightarrow> distinct (AddFinalizer fs f)"
  by (simp add: AddFinalizer_def)

section \<open>Lemmas on taints\<close>

lemma MatchTaint_refl [simp]: "MatchTaint t t"
  by (simp add: MatchTaint_def)

lemma MatchTaint_sym: "MatchTaint t u = MatchTaint u t"
  by (auto simp: MatchTaint_def)

lemma TaintExists_iff: "TaintExists ts t \<longleftrightarrow> (\<exists>u \<in> set ts. MatchTaint u t)"
  by (induction ts) auto

lemma DeleteTaint_loop_eq:
  "DeleteTaint_loop ts t acc d = (acc @ filter (\<lambda>u. \<not> MatchTaint t u) ts, d \<or> TaintExists ts t)"
  by (induction ts arbitrary: acc d) (auto simp: MatchTaint_sym)

lemma DeleteTaint_eq: "DeleteTaint ts t = (filter (\<lambda>u. \<not> MatchTaint t u) ts, TaintExists ts t)"
  by (simp add: DeleteTaint_def DeleteTaint_loop_eq)

lemma TaintExists_DeleteTaint: "\<not> TaintExists (fst (DeleteTaint ts t)) t"
  by (auto simp: DeleteTaint_eq TaintExists_iff MatchTaint_sym)

end
