(* ===== verification/Remediation.thy ===== *)
theory Remediation
  imports Kube_Objects
begin

text \<open>
  The remediation controller, \<open>src/controllers/poisonpillremediation_controller.go\<close>. Every agent
  of the daemon set runs \<open>Reconcile\<close> for each \<open>PoisonPillRemediation\<close> (PPR). The API client, the
  clock and the rebooter are the fields of the argument \<open>env\<close>; each may answer as it likes, so
  that concurrent agents, stale caches and failing requests are all answers of \<open>env\<close>. The package
  variables \<open>lastSeenPprNamespace\<close> and \<open>wasLastSeenPprMachine\<close> are part of the state, and the
  trace records the conversation of the handler with its environment.
\<close>

section \<open>State and environment\<close>

datatype rec_event =
    EGetPPR ObjectKey "go_error + PoisonPillRemediation"
  | EGetNode ObjectKey "go_error + Node"
  | EGetMachine ObjectKey "go_error + Machine"
  | ENow time
  | EUpdatePPR PoisonPillRemediation "go_error option"
  | EUpdatePPRStatus PoisonPillRemediation "go_error option"
  | EUpdateNode Node "go_error option"
  | EDeleteNode Node "go_error option"
  | ECreateNode Node "go_error option"
  | EReboot "go_error option"

record 's rec_env =
  getPPR :: "ObjectKey \<Rightarrow> ('s, go_error + PoisonPillRemediation) state"
  getNode :: "ObjectKey \<Rightarrow> ('s, go_error + Node) state"
  getMachine :: "ObjectKey \<Rightarrow> ('s, go_error + Machine) state"
  updatePPR :: "PoisonPillRemediation \<Rightarrow> ('s, go_error option) state"
  updatePPRStatus :: "PoisonPillRemediation \<Rightarrow> ('s, go_error option) state"
  updateNode :: "Node \<Rightarrow> ('s, go_error option) state"
  deleteNode :: "Node \<Rightarrow> ('s, go_error option) state"
  createNode :: "Node \<Rightarrow> ('s, go_error option) state"
  now :: "('s, time) state"
  reboot :: "('s, go_error option) state"

record 's rec_state = "('s, rec_event) io" +
  lastSeenPprNamespace :: string
  wasLastSeenPprMachine :: bool

record PoisonPillRemediationReconciler =
  SafeTimeToAssumeNodeRebooted :: duration
  MyNodeName :: string

record Result =
  Requeue :: bool
  RequeueAfter :: duration

type_synonym reconcile_result = "Result \<times> go_error option"

definition finished :: reconcile_result where
  "finished = (\<lparr>Requeue = False, RequeueAfter = 0\<rparr>, None)"

definition failed :: "go_error \<Rightarrow> reconcile_result" where
  "failed err = (\<lparr>Requeue = False, RequeueAfter = 0\<rparr>, Some err)"

definition requeue :: reconcile_result where
  "requeue = (\<lparr>Requeue = True, RequeueAfter = 0\<rparr>, None)"

definition requeueAfter :: "duration \<Rightarrow> reconcile_result" where
  "requeueAfter d = (\<lparr>Requeue = False, RequeueAfter = d\<rparr>, None)"

definition PPRFinalizer :: string where
  "PPRFinalizer = ''poison-pill.medik8s.io/ppr-finalizer''"

definition NodeUnschedulableTaint :: Taint where
  "NodeUnschedulableTaint = \<lparr>taint_Key = ''node.kubernetes.io/unschedulable'', taint_Value = '''',
     taint_Effect = ''NoSchedule'', taint_TimeAdded = None\<rparr>"

section \<open>Operations\<close>

definition GetLastSeenPprNamespace :: "('s rec_state, string) state" where
  "GetLastSeenPprNamespace = gets lastSeenPprNamespace"

definition WasLastSeenPprMachine :: "('s rec_state, bool) state" where
  "WasLastSeenPprMachine = gets wasLastSeenPprMachine"

fun getReadyCond_loop :: "NodeCondition list \<Rightarrow> NodeCondition option" where
  "getReadyCond_loop [] = None"
| "getReadyCond_loop (cond # conds) =
     (if cond_Type cond = ''Ready'' then Some cond else getReadyCond_loop conds)"

definition getReadyCond :: "Node \<Rightarrow> NodeCondition option" where
  "getReadyCond node = getReadyCond_loop (status_Conditions (node_Status node))"

definition getLastHeartbeatTime :: "Node \<Rightarrow> time" where
  "getLastHeartbeatTime node =
     (case status_Conditions (node_Status node) of
        [] \<Rightarrow> zeroTime
      | cond # _ \<Rightarrow> cond_LastHeartbeatTime cond)"

definition getNodeFromMachine ::
  "'s rec_env \<Rightarrow> OwnerReference \<Rightarrow> string \<Rightarrow> ('s rec_state, go_error + Node) state" where
  "getNodeFromMachine env ref ns = do {
     let machineKey = \<lparr>key_Namespace = ns, key_Name = ref_Name ref\<rparr>;
     got \<leftarrow> perform (getMachine env machineKey) (EGetMachine machineKey);
     case got of
       Inl err \<Rightarrow> ret (Inl err)
     | Inr machine \<Rightarrow>
         (case machine_NodeRef machine of
            None \<Rightarrow> ret (Inl (Other ''nodeRef is nil''))
          | Some key \<Rightarrow> perform (getNode env key) (EGetNode key))
   }"

text \<open>
  The loop over the owner references: the first one of kind \<open>Machine\<close> decides. Without one the
  node has the name of the PPR.
\<close>

fun getNodeFromPpr_loop ::
  "'s rec_env \<Rightarrow> PoisonPillRemediation \<Rightarrow> OwnerReference list \<Rightarrow>
    ('s rec_state, go_error + Node) state" where
  "getNodeFromPpr_loop env ppr [] = do {
     let key = \<lparr>key_Namespace = '''', key_Name = Name (ppr_Meta ppr)\<rparr>;
     perform (getNode env key) (EGetNode key)
   }"
| "getNodeFromPpr_loop env ppr (ownerRef # refs) =
     (if ref_Kind ownerRef = ''Machine'' then do {
        modify (wasLastSeenPprMachine_update (\<lambda>_. True));
        getNodeFromMachine env ownerRef (Namespace (ppr_Meta ppr))
      }
      else getNodeFromPpr_loop env ppr refs)"

definition getNodeFromPpr ::
  "'s rec_env \<Rightarrow> PoisonPillRemediation \<Rightarrow> ('s rec_state, go_error + Node) state" where
  "getNodeFromPpr env ppr = getNodeFromPpr_loop env ppr (OwnerReferences (ppr_Meta ppr))"

definition markNodeAsUnschedulable ::
  "'s rec_env \<Rightarrow> Node \<Rightarrow> ('s rec_state, reconcile_result) state" where
  "markNodeAsUnschedulable env node = do {
     let node = node\<lparr>node_Spec := (node_Spec node)\<lparr>spec_Unschedulable := True\<rparr>\<rparr>;
     e \<leftarrow> perform (updateNode env node) (EUpdateNode node);
     case e of
       Some err \<Rightarrow> if IsConflict err then ret (requeueAfter (1 * Second)) else ret (failed err)
     | None \<Rightarrow> ret (requeueAfter (1 * Second))
   }"

text \<open>
  \<open>NodeBackup\<close> is set to the pointer \<open>node\<close>, so the two assignments to its \<open>Kind\<close> and
  \<open>APIVersion\<close> write the node's own values back.
\<close>

definition updatePprStatus ::
  "'s rec_env \<Rightarrow> PoisonPillRemediationReconciler \<Rightarrow> Node \<Rightarrow> PoisonPillRemediation \<Rightarrow>
    ('s rec_state, reconcile_result) state" where
  "updatePprStatus env r node ppr = do {
     t \<leftarrow> perform (now env) ENow;
     let maxTimeNodeHasRebooted = time_Add t (SafeTimeToAssumeNodeRebooted r);
     let backup = node\<lparr>node_Kind := node_Kind node, node_APIVersion := node_APIVersion node\<rparr>;
     let ppr = ppr\<lparr>ppr_Status := (ppr_Status ppr)
           \<lparr>TimeAssumedRebooted := Some maxTimeNodeHasRebooted, NodeBackup := Some backup\<rparr>\<rparr>;
     e \<leftarrow> perform (updatePPRStatus env ppr) (EUpdatePPRStatus ppr);
     case e of
       Some err \<Rightarrow> if IsConflict err then ret (requeueAfter (1 * Second)) else ret (failed err)
     | None \<Rightarrow> ret requeue
   }"

definition restoreNode :: "'s rec_env \<Rightarrow> Node \<Rightarrow> ('s rec_state, reconcile_result) state" where
  "restoreNode env nodeToRestore = do {
     let taints = fst (DeleteTaint (spec_Taints (node_Spec nodeToRestore)) NodeUnschedulableTaint);
     t \<leftarrow> perform (now env) ENow;
     let nodeToRestore = nodeToRestore
           \<lparr>node_Meta := (node_Meta nodeToRestore)\<lparr>ResourceVersion := '''', CreationTimestamp := t\<rparr>,
            node_Spec := (node_Spec nodeToRestore)\<lparr>spec_Taints := taints, spec_Unschedulable := False\<rparr>,
            node_Status := emptyNodeStatus\<rparr>;
     e \<leftarrow> perform (createNode env nodeToRestore) (ECreateNode nodeToRestore);
     case e of
       Some err \<Rightarrow> if IsAlreadyExists err then ret finished else ret (failed err)
     | None \<Rightarrow> ret requeue
   }"

definition handleDeletedNode ::
  "'s rec_env \<Rightarrow> PoisonPillRemediation \<Rightarrow> ('s rec_state, reconcile_result) state" where
  "handleDeletedNode env ppr =
     (case NodeBackup (ppr_Status ppr) of
        None \<Rightarrow> ret finished
      | Some backup \<Rightarrow> restoreNode env backup)"

text \<open>The branch of \<open>Reconcile\<close> for a node that was created after the PPR.\<close>

definition Reconcile_restored ::
  "'s rec_env \<Rightarrow> PoisonPillRemediation \<Rightarrow> Node \<Rightarrow> ('s rec_state, reconcile_result) state" where
  "Reconcile_restored env ppr node =
     (if NodeBackup (ppr_Status ppr) \<noteq> None then do {
        let ppr = ppr\<lparr>ppr_Status := (ppr_Status ppr)\<lparr>NodeBackup := None\<rparr>\<rparr>;
        e \<leftarrow> perform (updatePPRStatus env ppr) (EUpdatePPRStatus ppr);
        case e of
          Some err \<Rightarrow> if IsConflict err then ret (requeueAfter (1 * Second)) else ret (failed err)
        | None \<Rightarrow> ret requeue
      }
      else if ContainsFinalizer (Finalizers (ppr_Meta ppr)) PPRFinalizer then
        (case getReadyCond node of
           None \<Rightarrow> ret (requeueAfter (15 * Second))
         | Some readyCond \<Rightarrow>
             if cond_Status readyCond \<noteq> ''True'' then ret (requeueAfter (15 * Second))
             else do {
               let ppr = ppr\<lparr>ppr_Meta := (ppr_Meta ppr)
                     \<lparr>Finalizers := RemoveFinalizer (Finalizers (ppr_Meta ppr)) PPRFinalizer\<rparr>\<rparr>;
               e \<leftarrow> perform (updatePPR env ppr) (EUpdatePPR ppr);
               case e of
                 Some err \<Rightarrow> if IsConflict err then ret (requeueAfter (1 * Second)) else ret (failed err)
               | None \<Rightarrow> ret finished
             })
      else ret finished)"

text \<open>The steps of \<open>Reconcile\<close> once the backup is stored: wait, reboot, or delete the node.\<close>

definition Reconcile_reboot ::
  "'s rec_env \<Rightarrow> PoisonPillRemediationReconciler \<Rightarrow> time \<Rightarrow> Node \<Rightarrow>
    ('s rec_state, reconcile_result) state" where
  "Reconcile_reboot env r maxNodeRebootTime node = do {
     t \<leftarrow> perform (now env) ENow;
     if time_After maxNodeRebootTime t then
       if MyNodeName r = Name (node_Meta node) then do {
         e \<leftarrow> perform (reboot env) EReboot;
         case e of Some err \<Rightarrow> ret (failed err) | None \<Rightarrow> ret finished
       }
       else do {
         t' \<leftarrow> perform (now env) ENow;
         ret (requeueAfter (time_Sub maxNodeRebootTime t' + Second))
       }
     else if \<not> timePtr_IsZero (DeletionTimestamp (node_Meta node)) then
       ret (requeueAfter (1 * Second))
     else do {
       e \<leftarrow> perform (deleteNode env node) (EDeleteNode node);
       case e of
         Some err \<Rightarrow> if \<not> IsNotFound err then ret (failed err) else ret (requeueAfter (1 * Second))
       | None \<Rightarrow> ret (requeueAfter (1 * Second))
     }
   }"

text \<open>The steps of \<open>Reconcile\<close> for the unhealthy node, in the order of the code.\<close>

definition Reconcile_unhealthy ::
  "'s rec_env \<Rightarrow> PoisonPillRemediationReconciler \<Rightarrow> PoisonPillRemediation \<Rightarrow> Node \<Rightarrow>
    ('s rec_state, reconcile_result) state" where
  "Reconcile_unhealthy env r ppr node =
     (if \<not> ContainsFinalizer (Finalizers (ppr_Meta ppr)) PPRFinalizer then
        if \<not> timePtr_IsZero (DeletionTimestamp (ppr_Meta ppr)) then ret finished
        else do {
          let ppr = ppr\<lparr>ppr_Meta := (ppr_Meta ppr)
                \<lparr>Finalizers := AddFinalizer (Finalizers (ppr_Meta ppr)) PPRFinalizer\<rparr>\<rparr>;
          e \<leftarrow> perform (updatePPR env ppr) (EUpdatePPR ppr);
          case e of
            Some err \<Rightarrow> if IsConflict err then ret (requeueAfter (1 * Second)) else ret (failed err)
          | None \<Rightarrow> ret requeue
        }
      else if \<not> spec_Unschedulable (node_Spec node) then markNodeAsUnschedulable env node
      else if \<not> TaintExists (spec_Taints (node_Spec node)) NodeUnschedulableTaint then
        ret (requeueAfter (1 * Second))
      else
        (case (NodeBackup (ppr_Status ppr), TimeAssumedRebooted (ppr_Status ppr)) of
           (Some backup, Some maxNodeRebootTime) \<Rightarrow>
             if timePtr_IsZero (Some maxNodeRebootTime) then updatePprStatus env r node ppr
             else Reconcile_reboot env r maxNodeRebootTime node
         | _ \<Rightarrow> updatePprStatus env r node ppr))"

definition Reconcile ::
  "'s rec_env \<Rightarrow> PoisonPillRemediationReconciler \<Rightarrow> ObjectKey \<Rightarrow>
    ('s rec_state, reconcile_result) state" where
  "Reconcile env r req = do {
     got \<leftarrow> perform (getPPR env req) (EGetPPR req);
     case got of
       Inl err \<Rightarrow> if IsNotFound err then ret finished else ret (failed err)
     | Inr ppr \<Rightarrow> do {
         modify (lastSeenPprNamespace_update (\<lambda>_. key_Namespace req));
         gotNode \<leftarrow> getNodeFromPpr env ppr;
         case gotNode of
           Inl err \<Rightarrow> if IsNotFound err then handleDeletedNode env ppr else ret (failed err)
         | Inr node \<Rightarrow>
             if time_After (CreationTimestamp (node_Meta node)) (CreationTimestamp (ppr_Meta ppr))
             then Reconcile_restored env ppr node
             else Reconcile_unhealthy env r ppr node
       }
   }"

end
