(* ===== verification/Remediation_Protocol.thy ===== *)
theory Remediation_Protocol
  imports Remediation
begin

text \<open>
  The contract of one \<open>Reconcile\<close>: the conversations it may hold with the API server, the clock
  and the rebooter, as inductive predicates with one rule per step of the remediation, and the
  refinement lemma that the handler holds no other conversation, whatever the answers are.
\<close>

section \<open>Conversations\<close>

text \<open>How the node of a PPR is looked up.\<close>

definition first_machine :: "PoisonPillRemediation \<Rightarrow> OwnerReference option" where
  "first_machine ppr = find (\<lambda>ref. ref_Kind ref = ''Machine'') (OwnerReferences (ppr_Meta ppr))"

inductive node_lookup :: "PoisonPillRemediation \<Rightarrow> rec_event list \<Rightarrow> go_error + Node \<Rightarrow> bool"
  for ppr where
  by_name: "first_machine ppr = None \<Longrightarrow>
     node_lookup ppr [EGetNode \<lparr>key_Namespace = '''', key_Name = Name (ppr_Meta ppr)\<rparr> got] got"
| no_machine: "first_machine ppr = Some ref \<Longrightarrow>
     node_lookup ppr
       [EGetMachine \<lparr>key_Namespace = Namespace (ppr_Meta ppr), key_Name = ref_Name ref\<rparr> (Inl err)]
       (Inl err)"
| no_node_ref: "first_machine ppr = Some ref \<Longrightarrow> machine_NodeRef machine = None \<Longrightarrow>
     node_lookup ppr
       [EGetMachine \<lparr>key_Namespace = Namespace (ppr_Meta ppr), key_Name = ref_Name ref\<rparr> (Inr machine)]
       (Inl (Other ''nodeRef is nil''))"
| by_machine: "first_machine ppr = Some ref \<Longrightarrow> machine_NodeRef machine = Some key \<Longrightarrow>
     node_lookup ppr
       [EGetMachine \<lparr>key_Namespace = Namespace (ppr_Meta ppr), key_Name = ref_Name ref\<rparr> (Inr machine),
        EGetNode key got] got"

text \<open>The answer to a write that loses against another agent is a retry, not an error.\<close>

definition write_result :: "reconcile_result \<Rightarrow> go_error option \<Rightarrow> reconcile_result" where
  "write_result ok e = (case e of None \<Rightarrow> ok
     | Some err \<Rightarrow> if err = Conflict then requeueAfter Second else failed err)"

definition create_result :: "go_error option \<Rightarrow> reconcile_result" where
  "create_result e = (case e of None \<Rightarrow> requeue
     | Some err \<Rightarrow> if err = AlreadyExists then finished else failed err)"

definition delete_result :: "go_error option \<Rightarrow> reconcile_result" where
  "delete_result e = (case e of None \<Rightarrow> requeueAfter Second
     | Some err \<Rightarrow> if err = NotFound then requeueAfter Second else failed err)"

definition reboot_result :: "go_error option \<Rightarrow> reconcile_result" where
  "reboot_result e = (case e of None \<Rightarrow> finished | Some err \<Rightarrow> failed err)"

definition has_finalizer :: "PoisonPillRemediation \<Rightarrow> bool" where
  "has_finalizer ppr \<longleftrightarrow> PPRFinalizer \<in> set (Finalizers (ppr_Meta ppr))"

definition set_finalizers :: "string list \<Rightarrow> PoisonPillRemediation \<Rightarrow> PoisonPillRemediation" where
  "set_finalizers fs ppr = ppr\<lparr>ppr_Meta := (ppr_Meta ppr)\<lparr>Finalizers := fs\<rparr>\<rparr>"

definition cordoned :: "Node \<Rightarrow> bool" where
  "cordoned node \<longleftrightarrow> spec_Unschedulable (node_Spec node) \<and>
     TaintExists (spec_Taints (node_Spec node)) NodeUnschedulableTaint"

definition node_ready :: "Node \<Rightarrow> bool" where
  "node_ready node \<longleftrightarrow> (\<exists>cond. getReadyCond node = Some cond \<and> cond_Status cond = ''True'')"

definition is_new :: "PoisonPillRemediation \<Rightarrow> Node \<Rightarrow> bool" where
  "is_new ppr node \<longleftrightarrow> CreationTimestamp (ppr_Meta ppr) < CreationTimestamp (node_Meta node)"

text \<open>The node that is created again from a backup at time \<open>t\<close>.\<close>

definition restored_node :: "time \<Rightarrow> Node \<Rightarrow> Node" where
  "restored_node t b = b
     \<lparr>node_Meta := (node_Meta b)\<lparr>ResourceVersion := '''', CreationTimestamp := t\<rparr>,
      node_Spec := (node_Spec b)
        \<lparr>spec_Taints := filter (\<lambda>u. \<not> MatchTaint NodeUnschedulableTaint u) (spec_Taints (node_Spec b)),
         spec_Unschedulable := False\<rparr>,
      node_Status := emptyNodeStatus\<rparr>"

definition with_backup :: "time \<Rightarrow> Node \<Rightarrow> PoisonPillRemediation \<Rightarrow> PoisonPillRemediation" where
  "with_backup t node ppr = ppr\<lparr>ppr_Status := (ppr_Status ppr)
     \<lparr>TimeAssumedRebooted := Some t, NodeBackup := Some node\<rparr>\<rparr>"

definition without_backup :: "PoisonPillRemediation \<Rightarrow> PoisonPillRemediation" where
  "without_backup ppr = ppr\<lparr>ppr_Status := (ppr_Status ppr)\<lparr>NodeBackup := None\<rparr>\<rparr>"

definition marked_unschedulable :: "Node \<Rightarrow> Node" where
  "marked_unschedulable node = node\<lparr>node_Spec := (node_Spec node)\<lparr>spec_Unschedulable := True\<rparr>\<rparr>"

text \<open>The PPR says by when the node is assumed to be rebooted, and holds its backup.\<close>

definition backed_up :: "PoisonPillRemediation \<Rightarrow> time \<Rightarrow> bool" where
  "backed_up ppr tm \<longleftrightarrow> NodeBackup (ppr_Status ppr) \<noteq> None \<and>
     TimeAssumedRebooted (ppr_Status ppr) = Some tm \<and> tm \<noteq> 0"

text \<open>The steps on the unhealthy node of a PPR, and on the node that came back.\<close>

inductive unhealthy_step ::
  "PoisonPillRemediationReconciler \<Rightarrow> PoisonPillRemediation \<Rightarrow> Node \<Rightarrow> rec_event list \<Rightarrow>
    reconcile_result \<Rightarrow> bool" for r ppr node where
  already_healthy: "\<not> has_finalizer ppr \<Longrightarrow> \<not> timePtr_IsZero (DeletionTimestamp (ppr_Meta ppr)) \<Longrightarrow>
     unhealthy_step r ppr node [] finished"
| add_finalizer: "\<not> has_finalizer ppr \<Longrightarrow> timePtr_IsZero (DeletionTimestamp (ppr_Meta ppr)) \<Longrightarrow>
     unhealthy_step r ppr node
       [EUpdatePPR (set_finalizers (Finalizers (ppr_Meta ppr) @ [PPRFinalizer]) ppr) e]
       (write_result requeue e)"
| cordon: "has_finalizer ppr \<Longrightarrow> \<not> spec_Unschedulable (node_Spec node) \<Longrightarrow>
     unhealthy_step r ppr node [EUpdateNode (marked_unschedulable node) e]
       (write_result (requeueAfter Second) e)"
| await_taint: "has_finalizer ppr \<Longrightarrow> spec_Unschedulable (node_Spec node) \<Longrightarrow> \<not> cordoned node \<Longrightarrow>
     unhealthy_step r ppr node [] (requeueAfter Second)"
| back_up: "has_finalizer ppr \<Longrightarrow> cordoned node \<Longrightarrow> \<nexists>tm. backed_up ppr tm \<Longrightarrow>
     unhealthy_step r ppr node
       [ENow t, EUpdatePPRStatus
          (with_backup (time_Add t (SafeTimeToAssumeNodeRebooted r)) node ppr) e]
       (write_result requeue e)"
| reboot_self: "has_finalizer ppr \<Longrightarrow> cordoned node \<Longrightarrow> backed_up ppr tm \<Longrightarrow> t < tm \<Longrightarrow>
     MyNodeName r = Name (node_Meta node) \<Longrightarrow>
     unhealthy_step r ppr node [ENow t, EReboot e] (reboot_result e)"
| await_reboot: "has_finalizer ppr \<Longrightarrow> cordoned node \<Longrightarrow> backed_up ppr tm \<Longrightarrow> t < tm \<Longrightarrow>
     MyNodeName r \<noteq> Name (node_Meta node) \<Longrightarrow>
     unhealthy_step r ppr node [ENow t, ENow t'] (requeueAfter (time_Sub tm t' + Second))"
| deleting: "has_finalizer ppr \<Longrightarrow> cordoned node \<Longrightarrow> backed_up ppr tm \<Longrightarrow> tm \<le> t \<Longrightarrow>
     \<not> timePtr_IsZero (DeletionTimestamp (node_Meta node)) \<Longrightarrow>
     unhealthy_step r ppr node [ENow t] (requeueAfter Second)"
| delete: "has_finalizer ppr \<Longrightarrow> cordoned node \<Longrightarrow> backed_up ppr tm \<Longrightarrow> tm \<le> t \<Longrightarrow>
     timePtr_IsZero (DeletionTimestamp (node_Meta node)) \<Longrightarrow>
     unhealthy_step r ppr node [ENow t, EDeleteNode node e] (delete_result e)"

inductive restored_step ::
  "PoisonPillRemediation \<Rightarrow> Node \<Rightarrow> rec_event list \<Rightarrow> reconcile_result \<Rightarrow> bool" for ppr node where
  drop_backup: "NodeBackup (ppr_Status ppr) \<noteq> None \<Longrightarrow>
     restored_step ppr node [EUpdatePPRStatus (without_backup ppr) e] (write_result requeue e)"
| await_ready: "NodeBackup (ppr_Status ppr) = None \<Longrightarrow> has_finalizer ppr \<Longrightarrow> \<not> node_ready node \<Longrightarrow>
     restored_step ppr node [] (requeueAfter (15 * Second))"
| remove_finalizer: "NodeBackup (ppr_Status ppr) = None \<Longrightarrow> has_finalizer ppr \<Longrightarrow> node_ready node \<Longrightarrow>
     restored_step ppr node
       [EUpdatePPR (set_finalizers (filter (\<lambda>f. f \<noteq> PPRFinalizer) (Finalizers (ppr_Meta ppr))) ppr) e]
       (write_result finished e)"
| complete: "NodeBackup (ppr_Status ppr) = None \<Longrightarrow> \<not> has_finalizer ppr \<Longrightarrow>
     restored_step ppr node [] finished"

inductive reconcile_protocol ::
  "PoisonPillRemediationReconciler \<Rightarrow> ObjectKey \<Rightarrow> rec_event list \<Rightarrow> reconcile_result \<Rightarrow> bool"
  for r req where
  ppr_gone: "reconcile_protocol r req [EGetPPR req (Inl NotFound)] finished"
| ppr_error: "err \<noteq> NotFound \<Longrightarrow> reconcile_protocol r req [EGetPPR req (Inl err)] (failed err)"
| node_error: "node_lookup ppr evs (Inl err) \<Longrightarrow> err \<noteq> NotFound \<Longrightarrow>
     reconcile_protocol r req (EGetPPR req (Inr ppr) # evs) (failed err)"
| lost: "node_lookup ppr evs (Inl NotFound) \<Longrightarrow> NodeBackup (ppr_Status ppr) = None \<Longrightarrow>
     reconcile_protocol r req (EGetPPR req (Inr ppr) # evs) finished"
| restore: "node_lookup ppr evs (Inl NotFound) \<Longrightarrow> NodeBackup (ppr_Status ppr) = Some b \<Longrightarrow>
     reconcile_protocol r req
       (EGetPPR req (Inr ppr) # evs @ [ENow t, ECreateNode (restored_node t b) e]) (create_result e)"
| restored: "node_lookup ppr evs (Inr node) \<Longrightarrow> is_new ppr node \<Longrightarrow> restored_step ppr node evs' res \<Longrightarrow>
     reconcile_protocol r req (EGetPPR req (Inr ppr) # evs @ evs') res"
| unhealthy: "node_lookup ppr evs (Inr node) \<Longrightarrow> \<not> is_new ppr node \<Longrightarrow>
     unhealthy_step r ppr node evs' res \<Longrightarrow>
     reconcile_protocol r req (EGetPPR req (Inr ppr) # evs @ evs') res"

text \<open>The events that change something outside the agent.\<close>

fun is_write :: "rec_event \<Rightarrow> bool" where
  "is_write (EUpdatePPR _ _) = True"
| "is_write (EUpdatePPRStatus _ _) = True"
| "is_write (EUpdateNode _ _) = True"
| "is_write (EDeleteNode _ _) = True"
| "is_write (ECreateNode _ _) = True"
| "is_write (EReboot _) = True"
| "is_write _ = False"

text \<open>
  An environment that plays back a conversation: each request takes the next event and answers
  what it holds.
\<close>

fun answerPPR :: "rec_event \<Rightarrow> go_error + PoisonPillRemediation" where
  "answerPPR (EGetPPR _ got) = got"
| "answerPPR _ = Inl NotFound"

fun answerNode :: "rec_event \<Rightarrow> go_error + Node" where
  "answerNode (EGetNode _ got) = got"
| "answerNode _ = Inl NotFound"

fun answerMachine :: "rec_event \<Rightarrow> go_error + Machine" where
  "answerMachine (EGetMachine _ got) = got"
| "answerMachine _ = Inl NotFound"

fun answerNow :: "rec_event \<Rightarrow> time" where
  "answerNow (ENow t) = t"
| "answerNow _ = 0"

fun answerWrite :: "rec_event \<Rightarrow> go_error option" where
  "answerWrite (EUpdatePPR _ e) = e"
| "answerWrite (EUpdatePPRStatus _ e) = e"
| "answerWrite (EUpdateNode _ e) = e"
| "answerWrite (EDeleteNode _ e) = e"
| "answerWrite (ECreateNode _ e) = e"
| "answerWrite (EReboot e) = e"
| "answerWrite _ = None"

definition play :: "(rec_event \<Rightarrow> 'a) \<Rightarrow> (rec_event list, 'a) state" where
  "play f = State (\<lambda>evs. (f (hd evs), tl evs))"

definition playback :: "rec_event list rec_env" where
  "playback = \<lparr>getPPR = (\<lambda>_. play answerPPR), getNode = (\<lambda>_. play answerNode),
     getMachine = (\<lambda>_. play answerMachine), updatePPR = (\<lambda>_. play answerWrite),
     updatePPRStatus = (\<lambda>_. play answerWrite), updateNode = (\<lambda>_. play answerWrite),
     deleteNode = (\<lambda>_. play answerWrite), createNode = (\<lambda>_. play answerWrite),
     now = play answerNow, reboot = play answerWrite\<rparr>"

section \<open>The handlers keep to the protocol\<close>

lemma getNodeFromMachine_emits:
  assumes "first_machine ppr = Some ref"
  shows "emits (getNodeFromMachine env ref (Namespace (ppr_Meta ppr)))
           (\<lambda>got evs. node_lookup ppr evs got)"
  unfolding getNodeFromMachine_def Let_def
  using assms
  by (intro emits_perform_bind)
    (auto intro!: emits_intros intro: node_lookup.intros split: sum.split option.split)

lemma getNodeFromPpr_loop_emits:
  assumes "first_machine ppr = find (\<lambda>ref. ref_Kind ref = ''Machine'') refs"
  shows "emits (getNodeFromPpr_loop env ppr refs) (\<lambda>got evs. node_lookup ppr evs got)"
  using assms
  by (induction refs)
    (auto simp: Let_def intro!: emits_intros getNodeFromMachine_emits intro: node_lookup.by_name)

lemma getNodeFromPpr_emits:
  "emits (getNodeFromPpr env ppr) (\<lambda>got evs. node_lookup ppr evs got)"
  unfolding getNodeFromPpr_def
  by (rule getNodeFromPpr_loop_emits) (simp add: first_machine_def)

lemmas result_defs = write_result_def create_result_def delete_result_def reboot_result_def

text \<open>The case analysis after each write is its result, as a value.\<close>

lemma write_ret:
  "(case e of None \<Rightarrow> ret ok
    | Some err \<Rightarrow> if IsConflict err then ret (requeueAfter (1 * Second)) else ret (failed err))
   = ret (write_result ok e)"
  by (simp add: write_result_def split: option.split)

lemma create_ret:
  "(case e of None \<Rightarrow> ret requeue
    | Some err \<Rightarrow> if IsAlreadyExists err then ret finished else ret (failed err))
   = ret (create_result e)"
  by (simp add: create_result_def split: option.split)

lemma delete_ret:
  "(case e of None \<Rightarrow> ret (requeueAfter (1 * Second))
    | Some err \<Rightarrow> if \<not> IsNotFound err then ret (failed err) else ret (requeueAfter (1 * Second)))
   = ret (delete_result e)"
  by (simp add: delete_result_def split: option.split)

lemma reboot_ret:
  "(case e of None \<Rightarrow> ret finished | Some err \<Rightarrow> ret (failed err)) = ret (reboot_result e)"
  by (simp add: reboot_result_def split: option.split)

lemmas result_rets = write_ret create_ret delete_ret reboot_ret

lemmas step_folds = without_backup_def [symmetric] with_backup_def [symmetric]
  set_finalizers_def [symmetric] has_finalizer_def [symmetric] marked_unschedulable_def [symmetric]

lemma Reconcile_restored_emits:
  "emits (Reconcile_restored env ppr node) (\<lambda>res evs. restored_step ppr node evs res)"
  unfolding Reconcile_restored_def Let_def result_rets
  by (auto simp: node_ready_def step_folds intro!: emits_intros intro: restored_step.intros
      split: option.split)

lemma markNodeAsUnschedulable_emits:
  "has_finalizer ppr \<Longrightarrow> \<not> spec_Unschedulable (node_Spec node) \<Longrightarrow>
    emits (markNodeAsUnschedulable env node) (\<lambda>res evs. unhealthy_step r ppr node evs res)"
  unfolding markNodeAsUnschedulable_def Let_def result_rets
  by (auto simp: step_folds intro!: emits_intros dest: unhealthy_step.cordon)

lemma updatePprStatus_emits:
  "has_finalizer ppr \<Longrightarrow> cordoned node \<Longrightarrow> \<nexists>tm. backed_up ppr tm \<Longrightarrow>
    emits (updatePprStatus env r node ppr) (\<lambda>res evs. unhealthy_step r ppr node evs res)"
  unfolding updatePprStatus_def Let_def result_rets
  by (auto simp: step_folds intro!: emits_intros unhealthy_step.back_up)

lemma Reconcile_reboot_emits:
  assumes "has_finalizer ppr" "cordoned node" "backed_up ppr tm"
  shows "emits (Reconcile_reboot env r tm node) (\<lambda>res evs. unhealthy_step r ppr node evs res)"
  unfolding Reconcile_reboot_def result_rets
  using unhealthy_step.reboot_self [OF assms] unhealthy_step.await_reboot [OF assms]
    unhealthy_step.deleting [OF assms] unhealthy_step.delete [OF assms]
  by (auto simp: time_After_def not_less intro!: emits_intros)

lemma Reconcile_unhealthy_emits:
  "emits (Reconcile_unhealthy env r ppr node) (\<lambda>res evs. unhealthy_step r ppr node evs res)"
  unfolding Reconcile_unhealthy_def Let_def result_rets
  by (auto simp: step_folds AddFinalizer_def cordoned_def backed_up_def
      intro!: emits_intros markNodeAsUnschedulable_emits updatePprStatus_emits Reconcile_reboot_emits
      intro: unhealthy_step.already_healthy unhealthy_step.add_finalizer unhealthy_step.await_taint
      split: option.split)

lemma restoreNode_emits:
  "emits (restoreNode env b)
     (\<lambda>res evs. \<exists>t e. evs = [ENow t, ECreateNode (restored_node t b) e] \<and> res = create_result e)"
  unfolding restoreNode_def Let_def result_rets
  by (intro emits_intros) (auto simp: restored_node_def DeleteTaint_eq)

lemma handleDeletedNode_emits:
  assumes "node_lookup ppr evs (Inl NotFound)"
  shows "emits (handleDeletedNode env ppr)
    (\<lambda>res evs'. reconcile_protocol r req (EGetPPR req (Inr ppr) # evs @ evs') res)"
proof (cases "NodeBackup (ppr_Status ppr)")
  case None
  with reconcile_protocol.lost [OF assms] show ?thesis
    by (auto simp: handleDeletedNode_def intro!: emits_ret)
next
  case (Some b)
  then show ?thesis
    using reconcile_protocol.restore [OF assms Some]
    by (auto simp: handleDeletedNode_def intro: emits_mono [OF restoreNode_emits])
qed

lemma Reconcile_emits:
  "emits (Reconcile env r req) (\<lambda>res evs. reconcile_protocol r req evs res)"
  unfolding Reconcile_def
  by (intro emits_perform_bind)
    (auto simp: time_After_def is_new_def [symmetric]
      intro!: emits_ret emits_modify_bind emits_bind [OF getNodeFromPpr_emits]
        handleDeletedNode_emits emits_mono [OF Reconcile_restored_emits]
        emits_mono [OF Reconcile_unhealthy_emits] reconcile_protocol.ppr_gone
      split: sum.split;
     blast intro: reconcile_protocol.ppr_error reconcile_protocol.node_error
        reconcile_protocol.restored reconcile_protocol.unhealthy)

section \<open>Every conversation of the protocol is held\<close>

text \<open>\<open>plays m evs a\<close>: played back against \<open>evs\<close>, \<open>m\<close> records \<open>evs\<close> and returns \<open>a\<close>.\<close>

definition plays ::
  "((rec_event list, rec_event, 'z) io_scheme, 'a) state \<Rightarrow> rec_event list \<Rightarrow> 'a \<Rightarrow> bool" where
  "plays m evs a \<longleftrightarrow> (\<forall>s rest. world s = evs @ rest \<longrightarrow>
     (\<exists>s'. run_state m s = (a, s') \<and> world s' = rest \<and> trace s' = trace s @ evs))"

lemma plays_ret: "a = b \<Longrightarrow> plays (ret a) [] b"
  by (simp add: plays_def)

lemma plays_perform: "mk (ans ev) = ev \<Longrightarrow> plays (perform (play ans) mk) [ev] (ans ev)"
  by (simp add: plays_def run_perform play_def)

lemma plays_bind:
  fixes m :: "((rec_event list, rec_event, 'z) io_scheme, 'a) state"
  assumes "plays m evs a" and "plays (f a) evs' b"
  shows "plays (State_Monad.bind m f) (evs @ evs') b"
  unfolding plays_def
proof (intro allI impI)
  fix s :: "(rec_event list, rec_event, 'z) io_scheme" and rest
  assume "world s = (evs @ evs') @ rest"
  with assms(1) obtain s1 where s1: "run_state m s = (a, s1)" "world s1 = evs' @ rest"
    "trace s1 = trace s @ evs"
    unfolding plays_def by (metis append_assoc)
  with assms(2) obtain s2 where "run_state (f a) s1 = (b, s2)" "world s2 = rest"
    "trace s2 = trace s1 @ evs'"
    unfolding plays_def by blast
  with s1 show "\<exists>s'. run_state (State_Monad.bind m f) s = (b, s') \<and> world s' = rest \<and>
      trace s' = trace s @ evs @ evs'"
    by simp
qed

lemma plays_bind_Nil:
  "plays m evs a \<Longrightarrow> plays (f a) [] b \<Longrightarrow> plays (State_Monad.bind m f) evs b"
  using plays_bind [of m evs a f "[]" b] by simp

lemma plays_perform_bind:
  "mk (ans ev) = ev \<Longrightarrow> plays (f (ans ev)) evs b \<Longrightarrow>
    plays (State_Monad.bind (perform (play ans) mk) f) (ev # evs) b"
  using plays_bind [OF plays_perform [of mk ans ev]] by simp

lemma plays_modify_bind:
  "(\<And>s. trace (g s) = trace s \<and> world (g s) = world s) \<Longrightarrow> plays (f ()) evs b \<Longrightarrow>
    plays (State_Monad.bind (modify g) f) evs b"
  unfolding plays_def by (simp add: run_modify) metis

lemma playback_simps [simp]:
  "getPPR playback k = play answerPPR" "getNode playback k = play answerNode"
  "getMachine playback k = play answerMachine" "updatePPR playback p = play answerWrite"
  "updatePPRStatus playback p = play answerWrite" "updateNode playback n = play answerWrite"
  "deleteNode playback n = play answerWrite" "createNode playback n = play answerWrite"
  "now playback = play answerNow" "reboot playback = play answerWrite"
  by (simp_all add: playback_def)

lemma plays_getNodeFromMachine:
  assumes "node_lookup ppr evs got" "first_machine ppr = Some ref"
  shows "plays (getNodeFromMachine playback ref (Namespace (ppr_Meta ppr))) evs got"
  using assms
proof cases
  case (by_machine ref' machine key)
  with assms(2) show ?thesis
    unfolding getNodeFromMachine_def Let_def
    using plays_perform [of "EGetNode key" answerNode "EGetNode key got"]
    by (auto intro!: plays_perform_bind)
qed (auto simp: getNodeFromMachine_def Let_def intro!: plays_perform_bind plays_ret)

lemma plays_getNodeFromPpr_loop:
  assumes "node_lookup ppr evs got"
    and "first_machine ppr = find (\<lambda>ref. ref_Kind ref = ''Machine'') refs"
  shows "plays (getNodeFromPpr_loop playback ppr refs) evs got"
  using assms(2)
proof (induction refs)
  case Nil
  with assms(1) obtain "evs = [EGetNode \<lparr>key_Namespace = '''', key_Name = Name (ppr_Meta ppr)\<rparr> got]"
    by (cases rule: node_lookup.cases) auto
  then show ?case
    using plays_perform [of "EGetNode \<lparr>key_Namespace = '''', key_Name = Name (ppr_Meta ppr)\<rparr>"
        answerNode "EGetNode \<lparr>key_Namespace = '''', key_Name = Name (ppr_Meta ppr)\<rparr> got"]
    by simp
next
  case (Cons ref refs)
  then show ?case
    using plays_getNodeFromMachine [OF assms(1)] by (auto intro!: plays_modify_bind)
qed

lemma plays_getNodeFromPpr:
  "node_lookup ppr evs got \<Longrightarrow> plays (getNodeFromPpr playback ppr) evs got"
  unfolding getNodeFromPpr_def
  by (rule plays_getNodeFromPpr_loop) (auto simp: first_machine_def)

lemma plays_restored:
  "restored_step ppr node evs res \<Longrightarrow> plays (Reconcile_restored playback ppr node) evs res"
  unfolding Reconcile_restored_def Let_def result_rets
  by (induction rule: restored_step.induct)
    (auto simp: step_folds node_ready_def intro!: plays_perform_bind plays_ret split: option.split)

lemma plays_unhealthy:
  "unhealthy_step r ppr node evs res \<Longrightarrow> plays (Reconcile_unhealthy playback r ppr node) evs res"
  unfolding Reconcile_unhealthy_def Reconcile_reboot_def updatePprStatus_def
    markNodeAsUnschedulable_def Let_def result_rets
  by (induction rule: unhealthy_step.induct)
    (auto simp: step_folds AddFinalizer_def cordoned_def backed_up_def time_After_def
      intro!: plays_perform_bind plays_ret split: option.split)

lemma plays_restoreNode:
  "plays (restoreNode playback b) [ENow t, ECreateNode (restored_node t b) e] (create_result e)"
  unfolding restoreNode_def Let_def result_rets
  by (auto simp: restored_node_def DeleteTaint_eq intro!: plays_perform_bind plays_ret)

lemma plays_Reconcile:
  "reconcile_protocol r req evs res \<Longrightarrow> plays (Reconcile playback r req) evs res"
  unfolding Reconcile_def
proof (induction rule: reconcile_protocol.induct)
  case (node_error ppr evs err)
  then show ?case
    by (auto intro!: plays_perform_bind plays_modify_bind plays_ret
        plays_bind_Nil [OF plays_getNodeFromPpr [OF node_error(1)]])
next
  case (lost ppr evs)
  then show ?case
    by (auto simp: handleDeletedNode_def intro!: plays_perform_bind plays_modify_bind plays_ret
        plays_bind_Nil [OF plays_getNodeFromPpr [OF lost(1)]])
qed (auto simp: handleDeletedNode_def is_new_def time_After_def
      intro!: plays_perform_bind plays_ret plays_modify_bind
        plays_bind [OF plays_getNodeFromPpr] plays_restored plays_unhealthy plays_restoreNode)

lemma playsD:
  assumes "plays m evs a" and "world s = evs" and "trace s = []"
  shows "\<exists>s'. run_state m s = (a, s') \<and> trace s' = evs"
  using assms unfolding plays_def by (metis append_Nil append_Nil2)

section \<open>Properties\<close>

text \<open>
  C1. \<open>Reconcile\<close> and the protocol agree exactly: a list of events with a result is a conversation
  that \<open>Reconcile\<close> can hold with some environment if and only if the protocol allows it. So the
  handler does, on every path (errors and lost races included), one of the steps of the
  remediation, and there is no step it can never take.
\<close>

theorem Reconcile_conversations:
  "(\<exists>(env :: rec_event list rec_env) s s'. trace s = [] \<and>
      run_state (Reconcile env r req) s = (res, s') \<and> trace s' = evs) \<longleftrightarrow>
   reconcile_protocol r req evs res"
proof
  assume "\<exists>(env :: rec_event list rec_env) s s'. trace s = [] \<and>
      run_state (Reconcile env r req) s = (res, s') \<and> trace s' = evs"
  then show "reconcile_protocol r req evs res"
    using emitsD [OF Reconcile_emits] by blast
next
  assume "reconcile_protocol r req evs res"
  then have "plays (Reconcile playback r req) evs res" by (rule plays_Reconcile)
  then have "\<exists>s'. run_state (Reconcile playback r req)
      \<lparr>world = evs, trace = [], lastSeenPprNamespace = '''', wasLastSeenPprMachine = False\<rparr> = (res, s') \<and>
      trace s' = evs"
    by (rule playsD) simp_all
  then show "\<exists>(env :: rec_event list rec_env) s s'. trace s = [] \<and>
      run_state (Reconcile env r req) s = (res, s') \<and> trace s' = evs"
    by - (rule exI [of _ playback], rule exI [of _
      "\<lparr>world = evs, trace = [], lastSeenPprNamespace = '''', wasLastSeenPprMachine = False\<rparr>"], simp)
qed

end
