(* ===== verification/Remediation_Safety.thy ===== *)
theory Remediation_Safety
  imports Remediation_Protocol
begin

text \<open>
  What the protocol of \<open>Reconcile\<close> guarantees: when a node may be deleted, rebooted or created
  again, that one reconcile changes at most one thing, how it answers lost races, and how the
  package variables that the peer health server reads evolve.
\<close>

section \<open>Inversion of the protocol\<close>

inductive_cases unhealthy_stepE: "unhealthy_step r ppr node evs res"
inductive_cases restored_stepE: "restored_step ppr node evs res"
inductive_cases node_lookupE: "node_lookup ppr evs got"
inductive_cases reconcile_protocolE: "reconcile_protocol r req evs res"

lemma node_lookup_reads: "node_lookup ppr evs got \<Longrightarrow> \<forall>ev \<in> set evs. \<not> is_write ev"
  by (erule node_lookupE) auto

lemma node_lookup_no_write:
  "node_lookup ppr evs got \<Longrightarrow> filter is_write evs = []"
  by (auto elim: node_lookupE)

lemma node_lookup_notin [simp]:
  assumes "node_lookup ppr evs got" and "is_write ev"
  shows "ev \<notin> set evs"
  using assms node_lookup_reads by blast

lemma node_lookup_found: "node_lookup ppr evs (Inr node) \<Longrightarrow> \<exists>k. EGetNode k (Inr node) \<in> set evs"
  by (auto elim: node_lookupE)

lemma node_lookup_missing:
  "node_lookup ppr evs (Inl NotFound) \<Longrightarrow>
    (\<exists>k. EGetNode k (Inl NotFound) \<in> set evs) \<or> (\<exists>k. EGetMachine k (Inl NotFound) \<in> set evs)"
  by (auto elim: node_lookupE)

text \<open>Where an event that changes something can come from.\<close>

lemma delete_origin:
  assumes "reconcile_protocol r req evs res" and "EDeleteNode n e \<in> set evs"
  obtains ppr pre tm t where
    "evs = EGetPPR req (Inr ppr) # pre @ [ENow t, EDeleteNode n e]" "node_lookup ppr pre (Inr n)"
    "\<not> is_new ppr n" "has_finalizer ppr" "cordoned n" "backed_up ppr tm" "tm \<le> t"
    "timePtr_IsZero (DeletionTimestamp (node_Meta n))" "res = delete_result e"
  using assms by (auto elim!: reconcile_protocolE unhealthy_stepE restored_stepE)

lemma reboot_origin:
  assumes "reconcile_protocol r req evs res" and "EReboot e \<in> set evs"
  obtains ppr pre n tm t where
    "evs = EGetPPR req (Inr ppr) # pre @ [ENow t, EReboot e]" "node_lookup ppr pre (Inr n)"
    "\<not> is_new ppr n" "has_finalizer ppr" "cordoned n" "backed_up ppr tm" "t < tm"
    "MyNodeName r = Name (node_Meta n)" "res = reboot_result e"
  using assms by (auto elim!: reconcile_protocolE unhealthy_stepE restored_stepE)

lemma create_origin:
  assumes "reconcile_protocol r req evs res" and "ECreateNode n e \<in> set evs"
  obtains ppr pre b t where
    "evs = EGetPPR req (Inr ppr) # pre @ [ENow t, ECreateNode n e]"
    "node_lookup ppr pre (Inl NotFound)" "NodeBackup (ppr_Status ppr) = Some b"
    "n = restored_node t b" "res = create_result e"
  using assms by (auto elim!: reconcile_protocolE unhealthy_stepE restored_stepE)

lemma status_origin:
  assumes "reconcile_protocol r req evs res" and "EUpdatePPRStatus p e \<in> set evs"
  obtains (backup) ppr pre n t where
    "evs = EGetPPR req (Inr ppr) # pre @ [ENow t, EUpdatePPRStatus p e]"
    "node_lookup ppr pre (Inr n)" "has_finalizer ppr" "cordoned n"
    "p = with_backup (time_Add t (SafeTimeToAssumeNodeRebooted r)) n ppr"
  | (dropped) ppr pre n where
    "evs = EGetPPR req (Inr ppr) # pre @ [EUpdatePPRStatus p e]"
    "node_lookup ppr pre (Inr n)" "is_new ppr n" "NodeBackup (ppr_Status ppr) \<noteq> None"
    "p = without_backup ppr"
  using assms by (auto elim!: reconcile_protocolE unhealthy_stepE restored_stepE)

lemma ppr_write_origin:
  assumes "reconcile_protocol r req evs res" and "EUpdatePPR p e \<in> set evs"
  obtains (added) ppr pre n where
    "evs = EGetPPR req (Inr ppr) # pre @ [EUpdatePPR p e]"
    "node_lookup ppr pre (Inr n)" "\<not> is_new ppr n" "\<not> has_finalizer ppr"
    "timePtr_IsZero (DeletionTimestamp (ppr_Meta ppr))"
    "p = set_finalizers (Finalizers (ppr_Meta ppr) @ [PPRFinalizer]) ppr"
  | (removed) ppr pre n where
    "evs = EGetPPR req (Inr ppr) # pre @ [EUpdatePPR p e]"
    "node_lookup ppr pre (Inr n)" "is_new ppr n" "has_finalizer ppr" "node_ready n"
    "NodeBackup (ppr_Status ppr) = None"
    "p = set_finalizers (filter (\<lambda>f. f \<noteq> PPRFinalizer) (Finalizers (ppr_Meta ppr))) ppr"
  using assms by (auto elim!: reconcile_protocolE unhealthy_stepE restored_stepE)

section \<open>The environment of the witnesses\<close>

text \<open>
  A concrete conversation partner: one PPR, one node, a clock that stands still, a machine
  registry and a fixed answer to every write.
\<close>

definition fixed_env ::
  "go_error + PoisonPillRemediation \<Rightarrow> go_error + Node \<Rightarrow> go_error + Machine \<Rightarrow> time \<Rightarrow>
    go_error option \<Rightarrow> unit rec_env" where
  "fixed_env p n m t e = \<lparr>getPPR = (\<lambda>_. ret p), getNode = (\<lambda>_. ret n), getMachine = (\<lambda>_. ret m),
     updatePPR = (\<lambda>_. ret e), updatePPRStatus = (\<lambda>_. ret e), updateNode = (\<lambda>_. ret e),
     deleteNode = (\<lambda>_. ret e), createNode = (\<lambda>_. ret e), now = ret t, reboot = ret e\<rparr>"

definition start :: "unit rec_state" where
  "start = \<lparr>world = (), trace = [], lastSeenPprNamespace = '''', wasLastSeenPprMachine = False\<rparr>"

definition sample_node :: Node where
  "sample_node = \<lparr>node_Kind = ''Node'', node_APIVersion = ''v1'',
     node_Meta = emptyMeta\<lparr>Name := ''node1'', ResourceVersion := ''7'', CreationTimestamp := 10\<rparr>,
     node_Spec = \<lparr>spec_PodCIDR = '''', spec_PodCIDRs = [], spec_ProviderID = ''p1'', spec_Unschedulable = True,
       spec_Taints = [NodeUnschedulableTaint]\<rparr>,
     node_Status = \<lparr>status_Phase = '''',
       status_Conditions = [\<lparr>cond_Type = ''Ready'', cond_Status = ''True'', cond_LastHeartbeatTime = 0,
         cond_LastTransitionTime = 0, cond_Reason = '''', cond_Message = ''''\<rparr>],
       status_Addresses = []\<rparr>\<rparr>"

definition sample_ppr :: PoisonPillRemediation where
  "sample_ppr = \<lparr>ppr_Type = emptyType, ppr_Meta = emptyMeta\<lparr>Name := ''node1'', Namespace := ''default'',
       CreationTimestamp := 20, Finalizers := [PPRFinalizer]\<rparr>,
     ppr_Spec = PoisonPillRemediationSpec, ppr_Status = \<lparr>NodeBackup = Some sample_node, TimeAssumedRebooted = Some 100, ppr_Phase = None\<rparr>\<rparr>"

definition sample_req :: ObjectKey where
  "sample_req = \<lparr>key_Namespace = ''default'', key_Name = ''node1''\<rparr>"

definition sample_reconciler :: PoisonPillRemediationReconciler where
  "sample_reconciler = \<lparr>SafeTimeToAssumeNodeRebooted = 180 * Second, MyNodeName = ''node1''\<rparr>"

definition sample_run ::
  "go_error + PoisonPillRemediation \<Rightarrow> go_error + Node \<Rightarrow> go_error + Machine \<Rightarrow> time \<Rightarrow>
    go_error option \<Rightarrow> reconcile_result \<times> unit rec_state" where
  "sample_run p n m t e = run_state (Reconcile (fixed_env p n m t e) sample_reconciler sample_req) start"

lemmas sample_defs = fixed_env_def start_def sample_node_def sample_ppr_def sample_req_def
  sample_reconciler_def emptyMeta_def emptyType_def zeroTime_def

lemmas handler_defs = Reconcile_def Reconcile_restored_def Reconcile_unhealthy_def
  Reconcile_reboot_def handleDeletedNode_def restoreNode_def updatePprStatus_def
  markNodeAsUnschedulable_def getNodeFromPpr_def getNodeFromMachine_def

lemmas sample_eval = handler_defs sample_defs run_simps Let_def time_After_def
  NodeUnschedulableTaint_def

lemma trace_start [simp]: "trace start = []"
  by (simp add: start_def)

section \<open>Properties\<close>

text \<open>
  C7. A node object is deleted only when it is safe: \<open>Reconcile\<close> deletes the node it has just read,
  which is the unhealthy one (not newer than the PPR), is marked unschedulable, carries the
  unschedulable taint and is not being deleted already, the PPR it has just read holds the
  finalizer and a backup, and the clock has passed the time by which the node is assumed to have
  rebooted.
\<close>

theorem delete_only_when_safe:
  assumes "run_state (Reconcile env r req) s = (res, s')" and "trace s = []"
    and "EDeleteNode n e \<in> set (trace s')"
  shows "\<exists>ppr k tm t. EGetPPR req (Inr ppr) \<in> set (trace s') \<and> EGetNode k (Inr n) \<in> set (trace s') \<and>
    ENow t \<in> set (trace s') \<and>
    PPRFinalizer \<in> set (Finalizers (ppr_Meta ppr)) \<and> NodeBackup (ppr_Status ppr) \<noteq> None \<and>
    TimeAssumedRebooted (ppr_Status ppr) = Some tm \<and> tm \<noteq> 0 \<and> tm \<le> t \<and>
    CreationTimestamp (node_Meta n) \<le> CreationTimestamp (ppr_Meta ppr) \<and>
    spec_Unschedulable (node_Spec n) \<and>
    TaintExists (spec_Taints (node_Spec n)) NodeUnschedulableTaint \<and>
    timePtr_IsZero (DeletionTimestamp (node_Meta n))"
proof -
  from emitsD [OF Reconcile_emits assms(1,2)] assms(3) obtain ppr pre tm t where *:
    "trace s' = EGetPPR req (Inr ppr) # pre @ [ENow t, EDeleteNode n e]" "node_lookup ppr pre (Inr n)"
    "\<not> is_new ppr n" "has_finalizer ppr" "cordoned n" "backed_up ppr tm" "tm \<le> t"
    "timePtr_IsZero (DeletionTimestamp (node_Meta n))"
    by (rule delete_origin)
  then show ?thesis
    using node_lookup_found [OF *(2)]
    by (auto simp: is_new_def has_finalizer_def cordoned_def backed_up_def not_less)
qed

theorem delete_only_when_safe_witness:
  "EDeleteNode sample_node None \<in>
     set (trace (snd (sample_run (Inr sample_ppr) (Inr sample_node) (Inl NotFound) 100 None))) \<and>
   (\<exists>(ppr :: PoisonPillRemediation) tm t. ENow t \<in>
      set (trace (snd (sample_run (Inr sample_ppr) (Inr sample_node) (Inl NotFound) 100 None))) \<and>
      TimeAssumedRebooted (ppr_Status ppr) = Some tm \<and> tm \<le> t)"
proof -
  let ?run = "sample_run (Inr sample_ppr) (Inr sample_node) (Inl NotFound) 100 None"
  have del: "EDeleteNode sample_node None \<in> set (trace (snd ?run))"
    by (simp add: sample_run_def sample_eval)
  have run: "run_state (Reconcile (fixed_env (Inr sample_ppr) (Inr sample_node) (Inl NotFound) 100 None)
      sample_reconciler sample_req) start = (fst ?run, snd ?run)"
    by (simp add: sample_run_def)
  from delete_only_when_safe [OF run trace_start del] del show ?thesis by (elim exE conjE) blast
qed

text \<open>
  C13. One reconcile changes at most one thing in the cluster or on the node: of the events of a
  \<open>Reconcile\<close> at most one is a write or a reboot, and it comes last. So no reconcile is interrupted
  between two writes.
\<close>

theorem at_most_one_write:
  "emits (Reconcile env r req)
     (\<lambda>res evs. filter is_write evs = [] \<or> (\<exists>pre ev. evs = pre @ [ev] \<and> filter is_write evs = [ev]))"
proof (rule emits_mono [OF Reconcile_emits])
  fix res evs
  assume "reconcile_protocol r req evs res"
  then show "filter is_write evs = [] \<or> (\<exists>pre ev. evs = pre @ [ev] \<and> filter is_write evs = [ev])"
    by (elim reconcile_protocolE unhealthy_stepE restored_stepE)
      (auto simp: node_lookup_no_write append_eq_Cons_conv Cons_eq_append_conv)
qed

text \<open>
  C14. An agent reboots a node only through its own rebooter and only its own node: \<open>Reboot\<close> is
  called only when the unhealthy node that was read carries the agent's node name, its backup is
  stored, the node is cordoned, and the time by which it is assumed to be rebooted has not passed.
\<close>

theorem reboot_only_self:
  assumes "run_state (Reconcile env r req) s = (res, s')" and "trace s = []"
    and "EReboot e \<in> set (trace s')"
  shows "\<exists>ppr k n tm t. EGetPPR req (Inr ppr) \<in> set (trace s') \<and> EGetNode k (Inr n) \<in> set (trace s') \<and>
    ENow t \<in> set (trace s') \<and> Name (node_Meta n) = MyNodeName r \<and>
    NodeBackup (ppr_Status ppr) \<noteq> None \<and> TimeAssumedRebooted (ppr_Status ppr) = Some tm \<and> t < tm \<and>
    spec_Unschedulable (node_Spec n) \<and> PPRFinalizer \<in> set (Finalizers (ppr_Meta ppr)) \<and>
    (\<forall>ev \<in> set (trace s'). is_write ev \<longrightarrow> ev = EReboot e)"
proof -
  from emitsD [OF Reconcile_emits assms(1,2)] assms(3) obtain ppr pre n tm t where *:
    "trace s' = EGetPPR req (Inr ppr) # pre @ [ENow t, EReboot e]" "node_lookup ppr pre (Inr n)"
    "has_finalizer ppr" "cordoned n" "backed_up ppr tm" "t < tm" "MyNodeName r = Name (node_Meta n)"
    by (rule reboot_origin)
  obtain k where "EGetNode k (Inr n) \<in> set pre" using node_lookup_found [OF *(2)] by blast
  with * node_lookup_reads [OF *(2)] show ?thesis
    by (intro exI [of _ ppr] exI [of _ k] exI [of _ n] exI [of _ tm] exI [of _ t])
      (auto simp: has_finalizer_def cordoned_def backed_up_def)
qed

theorem reboot_only_self_witness:
  "EReboot None \<in>
     set (trace (snd (sample_run (Inr sample_ppr) (Inr sample_node) (Inl NotFound) 99 None))) \<and>
   (\<exists>n :: Node. Name (node_Meta n) = MyNodeName sample_reconciler)"
proof -
  let ?run = "sample_run (Inr sample_ppr) (Inr sample_node) (Inl NotFound) 99 None"
  have boot: "EReboot None \<in> set (trace (snd ?run))"
    by (simp add: sample_run_def sample_eval)
  have run: "run_state (Reconcile (fixed_env (Inr sample_ppr) (Inr sample_node) (Inl NotFound) 99 None)
      sample_reconciler sample_req) start = (fst ?run, snd ?run)"
    by (simp add: sample_run_def)
  from reboot_only_self [OF run trace_start boot] boot show ?thesis by (elim exE conjE) blast
qed

text \<open>
  C15. What is restored, and when: \<open>Reconcile\<close> creates a node only when the look-up answered not
  found and the PPR holds a backup, and then it creates the backup with the unschedulable taint
  removed (every other taint kept, in order), schedulable again, with an empty status, no resource
  version and a new creation time, and everything else as it was saved.
\<close>

theorem restore_from_backup:
  assumes "run_state (Reconcile env r req) s = (res, s')" and "trace s = []"
    and "ECreateNode n e \<in> set (trace s')"
  shows "\<exists>ppr b t. EGetPPR req (Inr ppr) \<in> set (trace s') \<and> NodeBackup (ppr_Status ppr) = Some b \<and>
    ENow t \<in> set (trace s') \<and>
    ((\<exists>k. EGetNode k (Inl NotFound) \<in> set (trace s')) \<or> (\<exists>k. EGetMachine k (Inl NotFound) \<in> set (trace s'))) \<and>
    \<not> TaintExists (spec_Taints (node_Spec n)) NodeUnschedulableTaint \<and>
    spec_Taints (node_Spec n) =
      filter (\<lambda>u. \<not> MatchTaint u NodeUnschedulableTaint) (spec_Taints (node_Spec b)) \<and>
    n = b\<lparr>node_Meta := (node_Meta b)\<lparr>ResourceVersion := '''', CreationTimestamp := t\<rparr>,
          node_Spec := (node_Spec b)\<lparr>spec_Taints := spec_Taints (node_Spec n), spec_Unschedulable := False\<rparr>,
          node_Status := emptyNodeStatus\<rparr>"
proof -
  from emitsD [OF Reconcile_emits assms(1,2)] assms(3) obtain ppr pre b t where *:
    "trace s' = EGetPPR req (Inr ppr) # pre @ [ENow t, ECreateNode n e]"
    "node_lookup ppr pre (Inl NotFound)" "NodeBackup (ppr_Status ppr) = Some b" "n = restored_node t b"
    by (rule create_origin)
  from *(4) have "\<not> TaintExists (spec_Taints (node_Spec n)) NodeUnschedulableTaint"
    using MatchTaint_sym by (auto simp: restored_node_def TaintExists_iff)
  with * node_lookup_missing [OF *(2)] show ?thesis
    by (intro exI [of _ ppr] exI [of _ b] exI [of _ t])
      (auto simp: restored_node_def MatchTaint_sym [of NodeUnschedulableTaint])
qed

theorem restore_from_backup_witness:
  "\<exists>n. ECreateNode n None \<in>
     set (trace (snd (sample_run (Inr sample_ppr) (Inl NotFound) (Inl NotFound) 150 None))) \<and>
     \<not> TaintExists (spec_Taints (node_Spec n)) NodeUnschedulableTaint"
proof -
  let ?run = "sample_run (Inr sample_ppr) (Inl NotFound) (Inl NotFound) 150 None"
  have made: "ECreateNode (restored_node 150 sample_node) None \<in> set (trace (snd ?run))"
    by (simp add: sample_run_def sample_eval restored_node_def DeleteTaint_eq)
  have run: "run_state (Reconcile (fixed_env (Inr sample_ppr) (Inl NotFound) (Inl NotFound) 150 None)
      sample_reconciler sample_req) start = (fst ?run, snd ?run)"
    by (simp add: sample_run_def)
  from restore_from_backup [OF run trace_start made] made show ?thesis by (elim exE conjE) blast
qed

text \<open>
  C16. The finalizer is taken off a PPR only when the remediation is over: the node that was read is
  newer than the PPR and reports the condition Ready with status True, no backup is left in the
  status, and every other finalizer is kept. It is put on only while the PPR is not being deleted.
\<close>

theorem finalizer_discipline:
  assumes "run_state (Reconcile env r req) s = (res, s')" and "trace s = []"
    and "EUpdatePPR p e \<in> set (trace s')"
  shows "\<exists>ppr k n. EGetPPR req (Inr ppr) \<in> set (trace s') \<and> EGetNode k (Inr n) \<in> set (trace s') \<and>
    ppr_Status p = ppr_Status ppr \<and>
    (if PPRFinalizer \<in> set (Finalizers (ppr_Meta p))
     then Finalizers (ppr_Meta p) = Finalizers (ppr_Meta ppr) @ [PPRFinalizer] \<and>
       PPRFinalizer \<notin> set (Finalizers (ppr_Meta ppr)) \<and>
       timePtr_IsZero (DeletionTimestamp (ppr_Meta ppr))
     else Finalizers (ppr_Meta p) = filter (\<lambda>f. f \<noteq> PPRFinalizer) (Finalizers (ppr_Meta ppr)) \<and>
       CreationTimestamp (ppr_Meta ppr) < CreationTimestamp (node_Meta n) \<and>
       (\<exists>c. getReadyCond n = Some c \<and> cond_Status c = ''True'') \<and>
       NodeBackup (ppr_Status ppr) = None)"
  using emitsD [OF Reconcile_emits assms(1,2)] assms(3)
proof (cases rule: ppr_write_origin)
  case (added ppr pre n)
  obtain k where "EGetNode k (Inr n) \<in> set pre" using node_lookup_found [OF added(2)] by blast
  with added show ?thesis
    by (intro exI [of _ ppr] exI [of _ k] exI [of _ n]) (auto simp: set_finalizers_def has_finalizer_def)
next
  case (removed ppr pre n)
  obtain k where "EGetNode k (Inr n) \<in> set pre" using node_lookup_found [OF removed(2)] by blast
  with removed show ?thesis
    by (intro exI [of _ ppr] exI [of _ k] exI [of _ n])
      (auto simp: set_finalizers_def has_finalizer_def is_new_def node_ready_def)
qed

definition sample_new_node :: Node where
  "sample_new_node = sample_node\<lparr>node_Meta := (node_Meta sample_node)\<lparr>CreationTimestamp := 200\<rparr>\<rparr>"

definition sample_old_ppr :: PoisonPillRemediation where
  "sample_old_ppr = without_backup sample_ppr"

theorem finalizer_discipline_witness:
  "\<exists>p. EUpdatePPR p None \<in>
     set (trace (snd (sample_run (Inr sample_old_ppr) (Inr sample_new_node) (Inl NotFound) 250 None))) \<and>
     PPRFinalizer \<notin> set (Finalizers (ppr_Meta p)) \<and>
     (\<exists>n :: Node. \<exists>c. getReadyCond n = Some c)"
proof -
  let ?run = "sample_run (Inr sample_old_ppr) (Inr sample_new_node) (Inl NotFound) 250 None"
  have upd: "EUpdatePPR (set_finalizers [] sample_old_ppr) None \<in> set (trace (snd ?run))"
    by (simp add: sample_run_def sample_eval sample_old_ppr_def sample_new_node_def without_backup_def
        set_finalizers_def getReadyCond_def)
  have run: "run_state (Reconcile (fixed_env (Inr sample_old_ppr) (Inr sample_new_node) (Inl NotFound) 250 None)
      sample_reconciler sample_req) start = (fst ?run, snd ?run)"
    by (simp add: sample_run_def)
  have off: "PPRFinalizer \<notin> set (Finalizers (ppr_Meta (set_finalizers [] sample_old_ppr)))"
    by (simp add: set_finalizers_def)
  from finalizer_discipline [OF run trace_start upd] upd off show ?thesis by (simp only: if_False) blast
qed

text \<open>
  Losing a race is not an error: when a write of a PPR, of its status or of the node is answered
  with a conflict, \<open>Reconcile\<close> returns no error and asks to be called again after one second.
\<close>

lemma conflict_retries:
  assumes "run_state (Reconcile env r req) s = (res, s')" and "trace s = []"
    and "EUpdatePPR p (Some Conflict) \<in> set (trace s') \<or>
      EUpdatePPRStatus p (Some Conflict) \<in> set (trace s') \<or> EUpdateNode n (Some Conflict) \<in> set (trace s')"
  shows "res = (\<lparr>Requeue = False, RequeueAfter = Second\<rparr>, None)"
  using emitsD [OF Reconcile_emits assms(1,2)] assms(3)
  by (auto elim!: reconcile_protocolE unhealthy_stepE restored_stepE
      simp: write_result_def requeueAfter_def)

section \<open>The package variables\<close>

text \<open>\<open>keeps m\<close>: \<open>m\<close> leaves the package variables alone.\<close>

definition keeps :: "('s rec_state, 'a) state \<Rightarrow> bool" where
  "keeps m \<longleftrightarrow> (\<forall>s. lastSeenPprNamespace (snd (run_state m s)) = lastSeenPprNamespace s \<and>
     wasLastSeenPprMachine (snd (run_state m s)) = wasLastSeenPprMachine s)"

lemma keeps_ret [simp]: "keeps (ret a)"
  by (simp add: keeps_def)

lemma keeps_perform [simp]: "keeps (perform m ev)"
  by (simp add: keeps_def run_perform)

lemma keeps_bind: "keeps m \<Longrightarrow> (\<And>a. keeps (f a)) \<Longrightarrow> keeps (State_Monad.bind m f)"
  by (simp add: keeps_def split: prod.split) (metis snd_conv)

lemmas keeps_intros = keeps_ret keeps_perform keeps_bind

lemma keeps_handlers:
  "keeps (getNodeFromMachine env ref ns)"
  "keeps (handleDeletedNode env ppr)"
  "keeps (Reconcile_restored env ppr node)"
  "keeps (Reconcile_unhealthy env r ppr node)"
  by (auto simp: handler_defs Let_def intro!: keeps_bind split: sum.split option.split)

lemma keepsD:
  "keeps m \<Longrightarrow> run_state m s = (a, s') \<Longrightarrow>
    lastSeenPprNamespace s' = lastSeenPprNamespace s \<and> wasLastSeenPprMachine s' = wasLastSeenPprMachine s"
  unfolding keeps_def by (metis snd_conv)

lemma getNodeFromPpr_loop_globals:
  "run_state (getNodeFromPpr_loop env ppr refs) s = (got, s') \<Longrightarrow>
    lastSeenPprNamespace s' = lastSeenPprNamespace s \<and>
    wasLastSeenPprMachine s' =
      (wasLastSeenPprMachine s \<or> (\<exists>ref \<in> set refs. ref_Kind ref = ''Machine''))"
  by (induction refs arbitrary: s)
    (auto simp: Let_def run_simps dest: keepsD [OF keeps_handlers(1)] split: if_splits)

lemma Reconcile_globals:
  "lastSeenPprNamespace (snd (run_state (Reconcile env r req) s)) =
     (case fst (run_state (getPPR env req) (world s)) of
        Inl _ \<Rightarrow> lastSeenPprNamespace s | Inr _ \<Rightarrow> key_Namespace req) \<and>
   wasLastSeenPprMachine (snd (run_state (Reconcile env r req) s)) =
     (case fst (run_state (getPPR env req) (world s)) of
        Inl _ \<Rightarrow> wasLastSeenPprMachine s
      | Inr ppr \<Rightarrow> wasLastSeenPprMachine s \<or>
          (\<exists>ref \<in> set (OwnerReferences (ppr_Meta ppr)). ref_Kind ref = ''Machine''))"
proof (cases "fst (run_state (getPPR env req) (world s))")
  case (Inl err)
  then show ?thesis by (simp add: Reconcile_def run_simps)
next
  case (Inr ppr)
  let ?s1 = "s\<lparr>world := snd (run_state (getPPR env req) (world s)),
    trace := trace s @ [EGetPPR req (Inr ppr)], lastSeenPprNamespace := key_Namespace req\<rparr>"
  obtain got s2 where look: "run_state (getNodeFromPpr env ppr) ?s1 = (got, s2)"
    by (cases "run_state (getNodeFromPpr env ppr) ?s1")
  let ?rest = "case got of
       Inl err \<Rightarrow> if IsNotFound err then handleDeletedNode env ppr else ret (failed err)
     | Inr node \<Rightarrow>
         if time_After (CreationTimestamp (node_Meta node)) (CreationTimestamp (ppr_Meta ppr))
         then Reconcile_restored env ppr node
         else Reconcile_unhealthy env r ppr node"
  have "keeps ?rest" by (simp add: keeps_handlers split: sum.split)
  moreover have "run_state (Reconcile env r req) s = run_state ?rest s2"
    using Inr look by (simp add: Reconcile_def run_simps split: sum.split)
  ultimately have "lastSeenPprNamespace (snd (run_state (Reconcile env r req) s)) = lastSeenPprNamespace s2"
    "wasLastSeenPprMachine (snd (run_state (Reconcile env r req) s)) = wasLastSeenPprMachine s2"
    by (simp_all add: keeps_def)
  with Inr getNodeFromPpr_loop_globals [OF look [unfolded getNodeFromPpr_def]] show ?thesis by simp
qed

text \<open>
  A history of reconciles, each with its own environment (the world goes on), and what each PPR that
  was read says: its namespace and whether it has a machine as an owner.
\<close>

primrec run_reconciles ::
  "PoisonPillRemediationReconciler \<Rightarrow> ('s rec_env \<times> ObjectKey) list \<Rightarrow> 's rec_state \<Rightarrow> 's rec_state" where
  "run_reconciles r [] s = s"
| "run_reconciles r (x # xs) s = run_reconciles r xs (snd (run_state (Reconcile (fst x) r (snd x)) s))"

definition machine_owned :: "PoisonPillRemediation \<Rightarrow> bool" where
  "machine_owned ppr \<longleftrightarrow> (\<exists>ref \<in> set (OwnerReferences (ppr_Meta ppr)). ref_Kind ref = ''Machine'')"

primrec seen_pprs ::
  "PoisonPillRemediationReconciler \<Rightarrow> ('s rec_env \<times> ObjectKey) list \<Rightarrow> 's rec_state \<Rightarrow> (string \<times> bool) list" where
  "seen_pprs r [] s = []"
| "seen_pprs r (x # xs) s =
     (case fst (run_state (getPPR (fst x) (snd x)) (world s)) of
        Inl _ \<Rightarrow> []
      | Inr ppr \<Rightarrow> [(key_Namespace (snd x), machine_owned ppr)]) @
     seen_pprs r xs (snd (run_state (Reconcile (fst x) r (snd x)) s))"

lemma run_reconciles_globals:
  "lastSeenPprNamespace (run_reconciles r xs s) =
     (if seen_pprs r xs s = [] then lastSeenPprNamespace s else fst (last (seen_pprs r xs s)))"
  "wasLastSeenPprMachine (run_reconciles r xs s) =
     (wasLastSeenPprMachine s \<or> (\<exists>p \<in> set (seen_pprs r xs s). snd p))"
  by (induction xs arbitrary: s)
     (auto simp: Reconcile_globals machine_owned_def split: sum.split)

text \<open>
  C30. What a peer learns from the package variables, after any number of reconciles:
  \<open>lastSeenPprNamespace\<close> is the namespace of the last PPR that could be read (as it was before, if none
  could). But \<open>wasLastSeenPprMachine\<close> is true if \<^emph>\<open>any\<close> PPR read so far had a \<open>Machine\<close> owner, or if it was true
  before: no reconcile sets it back to false, although the accessor is documented to tell whether the
  last PPR pointed to a machine or a node.
\<close>

theorem last_seen_tracking:
  "lastSeenPprNamespace (run_reconciles r xs s) =
     (if seen_pprs r xs s = [] then lastSeenPprNamespace s else fst (last (seen_pprs r xs s))) \<and>
   wasLastSeenPprMachine (run_reconciles r xs s) =
     (wasLastSeenPprMachine s \<or> (\<exists>p \<in> set (seen_pprs r xs s). snd p))"
  by (simp add: run_reconciles_globals)

section \<open>Waiting for the reboot\<close>

text \<open>
  An agent on another node waits until after the assumed reboot: when a reconcile ends by reading
  the clock twice, before \<open>tm\<close> the first time, it asks to be called again at \<open>tm\<close> plus one second as
  seen from the second reading, and if the second reading is less than a second late this is a
  positive delay, so the request is not lost. (A delay that is not positive would not be queued.)
\<close>

lemma await_reboot_requeued:
  assumes "run_state (Reconcile env r req) s = (res, s')" and "trace s = []"
    and "trace s' = pre @ [ENow t, ENow t']"
  shows "\<exists>ppr tm. EGetPPR req (Inr ppr) \<in> set (trace s') \<and>
    TimeAssumedRebooted (ppr_Status ppr) = Some tm \<and> t < tm \<and>
    res = (\<lparr>Requeue = False, RequeueAfter = time_Sub tm t' + Second\<rparr>, None) \<and>
    (t' < tm + 1000000000 \<and> tm - t' < 2 ^ 63 - 1000000000 \<longrightarrow>
      sint (RequeueAfter (fst res)) = tm - t' + 1000000000 \<and> 0 < sint (RequeueAfter (fst res)))"
proof -
  have last: "ENow t' = last (trace s')" "ENow t = last (butlast (trace s'))" using assms(3) by (simp_all add: butlast_append)
  from emitsD [OF Reconcile_emits assms(1,2)] obtain ppr pre' n tm where *:
    "trace s' = EGetPPR req (Inr ppr) # pre' @ [ENow t, ENow t']" "backed_up ppr tm" "t < tm"
    "res = requeueAfter (time_Sub tm t' + Second)"
    using last by (auto elim!: reconcile_protocolE unhealthy_stepE restored_stepE node_lookupE)
  have "sint (time_Sub tm t' + Second) = tm - t' + 1000000000"
    if "t' < tm + 1000000000" "tm - t' < 2 ^ 63 - 1000000000"
  proof -
    have "sint (time_Sub tm t') = tm - t'" using that by (intro sint_time_Sub) auto
    with that show ?thesis using sint_plus_Second [of "time_Sub tm t'"] by simp
  qed
  with * show ?thesis
    by (intro exI [of _ ppr] exI [of _ tm]) (auto simp: backed_up_def requeueAfter_def)
qed

end
