(* ===== verification/Remediation_Cluster.thy ===== *)
theory Remediation_Cluster
  imports Remediation_Safety "HOL-Library.Sublist"
begin

text \<open>
  Many agents at once. Every agent of the daemon set runs its own sequence of reconciles, and the
  requests of different agents interleave in any way. An execution of the cluster is a list of
  events, each with the agent it belongs to. What the agents rely on is the contract of the API
  server: a PPR that is read under a key has that key, and the time in its status is one that an
  accepted status update of the same PPR has written before, as it comes out of its JSON form
  (whole seconds).
\<close>

section \<open>Executions\<close>

inductive agent_runs :: "PoisonPillRemediationReconciler \<Rightarrow> rec_event list \<Rightarrow> bool" for r where
  idle: "agent_runs r []"
| reconcile: "agent_runs r tr \<Longrightarrow> reconcile_protocol r req evs res \<Longrightarrow> agent_runs r (tr @ evs)"

text \<open>An agent may be in the middle of a reconcile.\<close>

definition agent_trace :: "PoisonPillRemediationReconciler \<Rightarrow> rec_event list \<Rightarrow> bool" where
  "agent_trace r tr \<longleftrightarrow> (\<exists>tr'. prefix tr tr' \<and> agent_runs r tr')"

definition events_of :: "'a \<Rightarrow> ('a \<times> rec_event) list \<Rightarrow> rec_event list" where
  "events_of i tr = map snd (filter (\<lambda>x. fst x = i) tr)"

definition cluster_trace ::
  "('a \<Rightarrow> PoisonPillRemediationReconciler) \<Rightarrow> ('a \<times> rec_event) list \<Rightarrow> bool" where
  "cluster_trace cfg tr \<longleftrightarrow> (\<forall>i. agent_trace (cfg i) (events_of i tr))"

section \<open>The contract of the API server\<close>

definition ppr_key :: "PoisonPillRemediation \<Rightarrow> ObjectKey" where
  "ppr_key p = \<lparr>key_Namespace = Namespace (ppr_Meta p), key_Name = Name (ppr_Meta p)\<rparr>"

definition status_from_updates :: "('a \<times> rec_event) list \<Rightarrow> bool" where
  "status_from_updates tr \<longleftrightarrow> (\<forall>pre i key ppr post tm.
     tr = pre @ (i, EGetPPR key (Inr ppr)) # post \<and>
     TimeAssumedRebooted (ppr_Status ppr) = Some tm \<and> tm \<noteq> 0 \<longrightarrow>
     ppr_key ppr = key \<and>
     (\<exists>i' p tm'. (i', EUpdatePPRStatus p None) \<in> set pre \<and> ppr_key p = key \<and>
        TimeAssumedRebooted (ppr_Status p) = Some tm' \<and> tm = json_time tm'))"

section \<open>Lemmas on executions\<close>

declare node_lookup_notin [simp del]

lemma events_of_append: "events_of i (xs @ ys) = events_of i xs @ events_of i ys"
  by (simp add: events_of_def)

lemma events_of_Cons [simp]: "events_of i ((i, ev) # ys) = ev # events_of i ys"
  by (simp add: events_of_def)

lemma mem_events_of: "ev \<in> set (events_of i tr) \<longleftrightarrow> (i, ev) \<in> set tr"
  by (force simp: events_of_def)

lemma json_time_0 [simp]: "json_time 0 = 0"
  by (simp add: json_time_def)

lemma json_time_idem [simp]: "json_time (json_time t) = json_time t"
  by (simp add: json_time_def mod_diff_left_eq [symmetric])

text \<open>Cutting an event out of a run of an agent cuts it out of one of its reconciles.\<close>

lemma agent_runs_split:
  assumes "agent_runs r tr" and "tr = pre @ ev # post"
  shows "\<exists>req evs res pre' post'. reconcile_protocol r req evs res \<and> evs = pre' @ ev # post' \<and>
    set pre' \<subseteq> set pre"
  using assms
proof (induction arbitrary: pre post rule: agent_runs.induct)
  case idle
  then show ?case by simp
next
  case (reconcile tr req evs res)
  from reconcile.prems consider us where "pre = tr @ us" "evs = us @ ev # post"
    | us where "tr = pre @ ev # us"
    by (auto simp: append_eq_append_conv2 Cons_eq_append_conv append_eq_Cons_conv)
  then show ?case
  proof cases
    case 1
    with reconcile.hyps(2) show ?thesis by fastforce
  next
    case 2
    then show ?thesis by (rule reconcile.IH)
  qed
qed

lemma cluster_split:
  assumes "cluster_trace cfg tr" and "tr = pre @ (i, ev) # post"
  obtains req evs res pre' post' where "reconcile_protocol (cfg i) req evs res"
    "evs = pre' @ ev # post'" "\<forall>x \<in> set pre'. (i, x) \<in> set pre"
proof -
  from assms(1) obtain tr' where "prefix (events_of i tr) tr'" "agent_runs (cfg i) tr'"
    unfolding cluster_trace_def agent_trace_def by blast
  then obtain rest where "agent_runs (cfg i) (events_of i pre @ ev # (events_of i post @ rest))"
    using assms(2) by (auto simp: prefix_def events_of_append)
  from agent_runs_split [OF this refl] obtain req evs res pre' post' where
    "reconcile_protocol (cfg i) req evs res" "evs = pre' @ ev # post'"
    "set pre' \<subseteq> set (events_of i pre)"
    by blast
  with that show thesis by (metis mem_events_of subsetD)
qed

lemma split_at_last: "pre @ x # post = xs @ [x] \<Longrightarrow> x \<notin> set xs \<Longrightarrow> pre = xs"
  by (induction pre arbitrary: xs) (auto simp: Cons_eq_append_conv)

text \<open>What has happened in the same reconcile before a status update or a deletion.\<close>

lemma status_before:
  assumes "reconcile_protocol r req evs res" and "evs = pre @ EUpdatePPRStatus p e # post"
  obtains (backup) ppr n t where "EGetPPR req (Inr ppr) \<in> set pre" "ENow t \<in> set pre"
      "p = with_backup (time_Add t (SafeTimeToAssumeNodeRebooted r)) n ppr" "cordoned n"
  | (dropped) ppr where "EGetPPR req (Inr ppr) \<in> set pre" "p = without_backup ppr"
proof -
  have mem: "EUpdatePPRStatus p e \<in> set evs" using assms(2) by simp
  show thesis
    using assms(1) mem
  proof (cases rule: status_origin)
    case (backup ppr pre' n t)
    then have "pre = EGetPPR req (Inr ppr) # pre' @ [ENow t]"
      using assms(2) node_lookup_notin [OF backup(2), of "EUpdatePPRStatus p e"]
        split_at_last [of pre "EUpdatePPRStatus p e" post "EGetPPR req (Inr ppr) # pre' @ [ENow t]"]
      by simp
    with backup that(1) show ?thesis by auto
  next
    case (dropped ppr pre' n)
    then have "pre = EGetPPR req (Inr ppr) # pre'"
      using assms(2) node_lookup_notin [OF dropped(2), of "EUpdatePPRStatus p e"]
        split_at_last [of pre "EUpdatePPRStatus p e" post "EGetPPR req (Inr ppr) # pre'"]
      by simp
    with dropped that(2) show ?thesis by auto
  qed
qed

lemma delete_before:
  assumes "reconcile_protocol r req evs res" and "evs = pre @ EDeleteNode n e # post"
  obtains ppr tm t where "EGetPPR req (Inr ppr) \<in> set pre" "ENow t \<in> set pre" "backed_up ppr tm"
    "tm \<le> t"
proof -
  have mem: "EDeleteNode n e \<in> set evs" using assms(2) by simp
  obtain ppr pre' tm t where *: "evs = EGetPPR req (Inr ppr) # pre' @ [ENow t, EDeleteNode n e]"
    "node_lookup ppr pre' (Inr n)" "backed_up ppr tm" "tm \<le> t"
    using assms(1) mem by (rule delete_origin)
  then have "pre = EGetPPR req (Inr ppr) # pre' @ [ENow t]"
    using assms(2) node_lookup_notin [OF *(2), of "EDeleteNode n e"]
      split_at_last [of pre "EDeleteNode n e" post "EGetPPR req (Inr ppr) # pre' @ [ENow t]"]
    by simp
  with * that show thesis by auto
qed

lemma ppr_key_status [simp]:
  "ppr_key (with_backup t n p) = ppr_key p" "ppr_key (without_backup p) = ppr_key p"
  by (simp_all add: ppr_key_def with_backup_def without_backup_def)

text \<open>
  Every time in an accepted status goes back, through the copies that later updates make of it, to
  an agent that has read the clock, added its safe time and stored the backup of a cordoned node.
\<close>

definition backup_origin ::
  "('a \<Rightarrow> PoisonPillRemediationReconciler) \<Rightarrow> ('a \<times> rec_event) list \<Rightarrow> 'a \<Rightarrow> time \<Rightarrow> time \<Rightarrow> bool" where
  "backup_origin cfg tr i t0 tm \<longleftrightarrow> (i, ENow t0) \<in> set tr \<and>
     (tm = time_Add t0 (SafeTimeToAssumeNodeRebooted (cfg i)) \<or>
      tm = json_time (time_Add t0 (SafeTimeToAssumeNodeRebooted (cfg i))))"

lemma status_time_origin:
  assumes run: "cluster_trace cfg tr" and api: "status_from_updates tr"
    and "tr = pre @ (i, EUpdatePPRStatus p None) # post"
    and "TimeAssumedRebooted (ppr_Status p) = Some tm" "tm \<noteq> 0"
  shows "\<exists>i' t0. backup_origin cfg pre i' t0 tm"
  using assms(3-)
proof (induction "length pre" arbitrary: pre i p post tm rule: less_induct)
  case less
  from run less.prems(1) obtain req evs res pre' post' where conv:
    "reconcile_protocol (cfg i) req evs res" "evs = pre' @ EUpdatePPRStatus p None # post'"
    and sub: "\<forall>x \<in> set pre'. (i, x) \<in> set pre"
    by (rule cluster_split)
  from conv show ?case
  proof (cases rule: status_before)
    case (backup ppr n t)
    with sub less.prems(2) show ?thesis by (auto simp: backup_origin_def with_backup_def)
  next
    case (dropped ppr)
    with less.prems(2) have tm: "TimeAssumedRebooted (ppr_Status ppr) = Some tm"
      by (simp add: without_backup_def)
    from sub dropped(1) obtain pre1 mid where pre: "pre = pre1 @ (i, EGetPPR req (Inr ppr)) # mid"
      by (meson split_list)
    with less.prems(1) have "tr = pre1 @ (i, EGetPPR req (Inr ppr)) # (mid @ (i, EUpdatePPRStatus p None) # post)"
      by simp
    with api tm less.prems(3) obtain i' p' tm' where w: "(i', EUpdatePPRStatus p' None) \<in> set pre1"
      "TimeAssumedRebooted (ppr_Status p') = Some tm'" "tm = json_time tm'"
      unfolding status_from_updates_def by blast
    from w(1) obtain pre2 mid2 where pre1: "pre1 = pre2 @ (i', EUpdatePPRStatus p' None) # mid2"
      by (meson split_list)
    have "tm' \<noteq> 0" using w(3) less.prems(3) by auto
    have "tr = pre2 @ (i', EUpdatePPRStatus p' None) #
        (mid2 @ (i, EGetPPR req (Inr ppr)) # mid @ (i, EUpdatePPRStatus p None) # post)"
      using less.prems(1) pre pre1 by simp
    from less.hyps [OF _ this w(2) \<open>tm' \<noteq> 0\<close>] pre pre1
    obtain j t0 where "backup_origin cfg pre2 j t0 tm'" by auto
    with w(3) pre pre1 have "backup_origin cfg pre j t0 tm" by (auto simp: backup_origin_def)
    then show ?thesis by blast
  qed
qed

section \<open>Properties\<close>

text \<open>
  C2. No agent deletes a node too early, in any interleaving of any number of agents with their own
  safe times, and with lost races and errors: when a node is deleted, some agent has read the clock
  at \<open>t0\<close> and its safe time has been added to it to give the time stored in the PPR, and the agent
  that deletes has read the clock at a \<open>t\<close> later than \<open>t0\<close> plus that safe time, up to the fraction of a
  second that the JSON form of the time cuts off. This relies on the API server returning only status
  values that accepted updates have written.
\<close>

theorem no_early_delete:
  assumes "cluster_trace cfg tr" and "status_from_updates tr"
    and "tr = pre @ (i, EDeleteNode n e) # post"
  shows "\<exists>i' t0 t. (i', ENow t0) \<in> set pre \<and> (i, ENow t) \<in> set pre \<and>
    t0 + sint (SafeTimeToAssumeNodeRebooted (cfg i')) - 1000000000 < t"
proof -
  from assms(1,3) obtain req evs res pre' post' where conv:
    "reconcile_protocol (cfg i) req evs res" "evs = pre' @ EDeleteNode n e # post'"
    and sub: "\<forall>x \<in> set pre'. (i, x) \<in> set pre"
    by (rule cluster_split)
  from conv obtain ppr tm t where d: "EGetPPR req (Inr ppr) \<in> set pre'" "ENow t \<in> set pre'"
    "backed_up ppr tm" "tm \<le> t"
    by (rule delete_before)
  from sub d(1) obtain pre1 mid where pre: "pre = pre1 @ (i, EGetPPR req (Inr ppr)) # mid"
    by (meson split_list)
  with assms(3) have "tr = pre1 @ (i, EGetPPR req (Inr ppr)) # (mid @ (i, EDeleteNode n e) # post)"
    by simp
  with assms(2) d(3) obtain i1 p tm' where w: "(i1, EUpdatePPRStatus p None) \<in> set pre1"
    "TimeAssumedRebooted (ppr_Status p) = Some tm'" "tm = json_time tm'"
    unfolding status_from_updates_def backed_up_def by blast
  from w(1) obtain pre2 mid2 where pre1: "pre1 = pre2 @ (i1, EUpdatePPRStatus p None) # mid2"
    by (meson split_list)
  have "tm' \<noteq> 0" using w(3) d(3) by (auto simp: backed_up_def)
  with status_time_origin [OF assms(1,2) _ w(2), of pre2 i1] assms(3) pre pre1
  obtain i' t0 where o: "backup_origin cfg pre2 i' t0 tm'" by auto
  then have "tm = json_time (time_Add t0 (SafeTimeToAssumeNodeRebooted (cfg i')))"
    using w(3) by (auto simp: backup_origin_def)
  then have "t0 + sint (SafeTimeToAssumeNodeRebooted (cfg i')) - 1000000000 < t"
    using d(4) json_time_bounds(2) [of "time_Add t0 (SafeTimeToAssumeNodeRebooted (cfg i'))"]
    by (simp add: time_Add_def)
  with o pre pre1 sub d(2) show ?thesis by (auto simp: backup_origin_def)
qed

definition sample_fresh_ppr :: PoisonPillRemediation where
  "sample_fresh_ppr = sample_ppr\<lparr>ppr_Status :=
     \<lparr>NodeBackup = None, TimeAssumedRebooted = None, ppr_Phase = None\<rparr>\<rparr>"

definition sample_saved_ppr :: PoisonPillRemediation where
  "sample_saved_ppr = with_backup 181000000000 sample_node sample_fresh_ppr"

definition sample_node_key :: ObjectKey where
  "sample_node_key = \<lparr>key_Namespace = '''', key_Name = ''node1''\<rparr>"

text \<open>Agent 1 stores the backup at second 1, agent 2 deletes the node at second 181.\<close>

definition sample_cluster_prefix :: "(nat \<times> rec_event) list" where
  "sample_cluster_prefix =
     [(1, EGetPPR sample_req (Inr sample_fresh_ppr)), (1, EGetNode sample_node_key (Inr sample_node)),
      (1, ENow 1000000000), (1, EUpdatePPRStatus sample_saved_ppr None),
      (2, EGetPPR sample_req (Inr sample_saved_ppr)), (2, EGetNode sample_node_key (Inr sample_node)),
      (2, ENow 181000000000)]"

lemma sample_lookup:
  "Name (ppr_Meta ppr) = ''node1'' \<Longrightarrow> OwnerReferences (ppr_Meta ppr) = [] \<Longrightarrow>
    node_lookup ppr [EGetNode sample_node_key (Inr sample_node)] (Inr sample_node)"
  using node_lookup.by_name [of ppr "Inr sample_node"]
  by (simp add: first_machine_def sample_node_key_def)

lemma sample_backup_run:
  "reconcile_protocol sample_reconciler sample_req
     [EGetPPR sample_req (Inr sample_fresh_ppr), EGetNode sample_node_key (Inr sample_node),
      ENow 1000000000, EUpdatePPRStatus sample_saved_ppr None] (write_result requeue None)"
proof -
  have saved: "sample_saved_ppr = with_backup (time_Add 1000000000
      (SafeTimeToAssumeNodeRebooted sample_reconciler)) sample_node sample_fresh_ppr"
    by (simp add: sample_saved_ppr_def sample_reconciler_def time_Add_def Second_def)
  have "unhealthy_step sample_reconciler sample_fresh_ppr sample_node
      [ENow 1000000000, EUpdatePPRStatus sample_saved_ppr None] (write_result requeue None)"
    unfolding saved
    by (rule unhealthy_step.back_up)
      (simp_all add: sample_fresh_ppr_def sample_defs has_finalizer_def cordoned_def backed_up_def)
  then show ?thesis
    using reconcile_protocol.unhealthy [OF sample_lookup, of sample_fresh_ppr]
    by (simp add: sample_fresh_ppr_def is_new_def sample_defs)
qed

lemma sample_delete_run:
  "reconcile_protocol sample_reconciler sample_req
     [EGetPPR sample_req (Inr sample_saved_ppr), EGetNode sample_node_key (Inr sample_node),
      ENow 181000000000, EDeleteNode sample_node None] (delete_result None)"
proof -
  have "unhealthy_step sample_reconciler sample_saved_ppr sample_node
      [ENow 181000000000, EDeleteNode sample_node None] (delete_result None)"
    by (rule unhealthy_step.delete [where tm = 181000000000])
      (simp_all add: sample_saved_ppr_def with_backup_def sample_fresh_ppr_def sample_defs
        has_finalizer_def cordoned_def backed_up_def)
  then show ?thesis
    using reconcile_protocol.unhealthy [OF sample_lookup, of sample_saved_ppr]
    by (simp add: sample_saved_ppr_def with_backup_def sample_fresh_ppr_def is_new_def sample_defs)
qed

theorem no_early_delete_witness:
  "\<exists>i' t0 t. (i', ENow t0) \<in> set sample_cluster_prefix \<and> (2, ENow t) \<in> set sample_cluster_prefix \<and>
    t0 + sint (SafeTimeToAssumeNodeRebooted sample_reconciler) - 1000000000 < t"
proof (rule no_early_delete [where cfg = "\<lambda>_. sample_reconciler" and n = sample_node and e = None
      and post = "[]", OF _ _ refl])
  let ?tr = "sample_cluster_prefix @ [(2, EDeleteNode sample_node None)]"
  have "agent_runs sample_reconciler (events_of i ?tr)" for i
    using agent_runs.reconcile [OF agent_runs.idle sample_backup_run]
      agent_runs.reconcile [OF agent_runs.idle sample_delete_run]
    by (cases "i = 1"; cases "i = 2")
      (auto simp: events_of_def sample_cluster_prefix_def intro: agent_runs.idle)
  then show "cluster_trace (\<lambda>_. sample_reconciler) ?tr"
    by (auto simp: cluster_trace_def agent_trace_def)
  show "status_from_updates ?tr"
    unfolding status_from_updates_def sample_cluster_prefix_def
    by (auto simp: Cons_eq_append_conv sample_saved_ppr_def with_backup_def sample_fresh_ppr_def
        ppr_key_def sample_defs json_time_def)
qed

end
