(* ===== verification/Remediation_Lifecycle.thy ===== *)
theory Remediation_Lifecycle
  imports Remediation_Protocol
begin

text \<open>
  The remediation of one node from its beginning to its end, when nobody else interferes during a reconcile. The locale \<open>api_store\<close> states what the
  controller relies on: a read returns what is stored; a write stores what it is given, as the API server documents it (an update is
  accepted for the resource version that is stored, and gives it a new one; an update of an object with a status subresource leaves the status alone and an update of
  the status leaves the rest alone; an object that is created must not have a resource version, and the server sets its identity and creation
  time; times are stored in whole seconds; an object that is being deleted goes when its last finalizer goes). Unless the server is \<open>reliable\<close>,
  any request may fail, and a write that fails may have been carried out or not. \<open>rec_stage\<close> counts how far the remediation is. Every
  \<open>Reconcile\<close> of any agent keeps the invariant \<open>rec_inv\<close> and either moves on to a later stage or changes nothing; on a reliable server it does so only
  for one of the reasons of \<open>idle\<close>.
\<close>

section \<open>Stages\<close>

text \<open>
  0: the PPR is new; 1: it has the finalizer; 2: the node is unschedulable; 3: its backup is stored; 4: the
  node is deleted; 5: it is created again; 6: the backup is dropped; 7: the finalizer is removed.
\<close>

definition rec_stage :: "PoisonPillRemediation option \<Rightarrow> Node option \<Rightarrow> nat" where
  "rec_stage po no =
     (case (po, no) of
        (None, _) \<Rightarrow> 7
      | (Some p, None) \<Rightarrow> 4
      | (Some p, Some n) \<Rightarrow>
          if is_new p n then
            (if NodeBackup (ppr_Status p) \<noteq> None then 5 else if has_finalizer p then 6 else 7)
          else if \<not> has_finalizer p then 0
          else if \<not> spec_Unschedulable (node_Spec n) then 1
          else if \<nexists>tm. backed_up p tm then 2 else 3)"

text \<open>
  What holds between two reconciles. The node has the name of the PPR and is not being deleted; the backup
  is one of this node; the assumed reboot time is later than the creation of the PPR, by more than the
  fraction of a second that its JSON form loses. A node that is missing has a backup. A node that came
  back is schedulable.
\<close>

definition node_fits :: "string \<Rightarrow> Node \<Rightarrow> bool" where
  "node_fits nm n \<longleftrightarrow> Name (node_Meta n) = nm \<and> timePtr_IsZero (DeletionTimestamp (node_Meta n))"

definition ppr_fits :: "string \<Rightarrow> PoisonPillRemediation \<Rightarrow> time \<Rightarrow> bool" where
  "ppr_fits nm p t \<longleftrightarrow> Name (ppr_Meta p) = nm \<and> first_machine p = None \<and>
     0 \<le> CreationTimestamp (ppr_Meta p) \<and> CreationTimestamp (ppr_Meta p) \<le> t \<and>
     (\<forall>b. NodeBackup (ppr_Status p) = Some b \<longrightarrow> node_fits nm b) \<and>
     (\<forall>tm. backed_up p tm \<longrightarrow> CreationTimestamp (ppr_Meta p) + 1000000000 \<le> tm \<and> tm \<le> t + 2 ^ 62)"

definition rec_inv :: "string \<Rightarrow> PoisonPillRemediation option \<Rightarrow> Node option \<Rightarrow> time \<Rightarrow> bool" where
  "rec_inv nm po no t \<longleftrightarrow>
     (case (po, no) of
        (None, None) \<Rightarrow> False
      | (None, Some n) \<Rightarrow> node_fits nm n \<and> \<not> spec_Unschedulable (node_Spec n)
      | (Some p, None) \<Rightarrow> ppr_fits nm p t \<and> has_finalizer p \<and> NodeBackup (ppr_Status p) \<noteq> None \<and>
          CreationTimestamp (ppr_Meta p) + 1000000000 \<le> t
      | (Some p, Some n) \<Rightarrow> ppr_fits nm p t \<and> node_fits nm n \<and>
          (\<not> is_new p n \<and> \<not> has_finalizer p \<longrightarrow> timePtr_IsZero (DeletionTimestamp (ppr_Meta p))) \<and>
          (is_new p n \<longrightarrow> \<not> spec_Unschedulable (node_Spec n)) \<and>
          (is_new p n \<and> \<not> has_finalizer p \<longrightarrow> NodeBackup (ppr_Status p) = None) \<and>
          (\<not> is_new p n \<and> (\<exists>tm. backed_up p tm) \<longrightarrow>
             has_finalizer p \<and> spec_Unschedulable (node_Spec n)))"

text \<open>A step forward, after which the invariant holds again.\<close>

definition advances ::
  "string \<Rightarrow> PoisonPillRemediation option \<Rightarrow> Node option \<Rightarrow> time \<Rightarrow> PoisonPillRemediation option \<Rightarrow>
    Node option \<Rightarrow> bool" where
  "advances nm po no t po' no' \<longleftrightarrow> rec_inv nm po' no' t \<and> rec_stage po no < rec_stage po' no'"

section \<open>The API server\<close>

text \<open>What the server sets when it stores an object.\<close>

definition ppr_stamped :: "string \<Rightarrow> PoisonPillRemediation \<Rightarrow> PoisonPillRemediation" where
  "ppr_stamped rv p = p\<lparr>ppr_Meta := (ppr_Meta p)\<lparr>ResourceVersion := rv\<rparr>\<rparr>"

definition node_stamped :: "string \<Rightarrow> string \<Rightarrow> Node \<Rightarrow> Node" where
  "node_stamped uid rv n = n\<lparr>node_Meta := (node_Meta n)\<lparr>UID := uid, ResourceVersion := rv\<rparr>\<rparr>"

locale api_store =
  fixes env :: "'s rec_env" and req :: ObjectKey and nodeName :: string
    and pprS :: "'s \<Rightarrow> PoisonPillRemediation option" and nodeS :: "'s \<Rightarrow> Node option"
    and clockS :: "'s \<Rightarrow> time" and reliable :: bool
  assumes get_ppr: "\<exists>got w'. run_state (getPPR env req) w = (got, w') \<and>
      pprS w' = pprS w \<and> nodeS w' = nodeS w \<and> clockS w' = clockS w \<and>
      (got = (case pprS w of None \<Rightarrow> Inl NotFound | Some p \<Rightarrow> Inr p) \<or> \<not> reliable \<and> (\<exists>msg. got = Inl (Other msg)))"
    and get_node: "\<exists>got w'. run_state (getNode env \<lparr>key_Namespace = '''', key_Name = nodeName\<rparr>) w = (got, w') \<and>
      pprS w' = pprS w \<and> nodeS w' = nodeS w \<and> clockS w' = clockS w \<and>
      (got = (case nodeS w of None \<Rightarrow> Inl NotFound | Some n \<Rightarrow> Inr n) \<or> \<not> reliable \<and> (\<exists>msg. got = Inl (Other msg)))"
    and get_now: "run_state (now env) w = (clockS w, w)"
    and update_ppr: "pprS w = Some q \<Longrightarrow> ResourceVersion (ppr_Meta p) = ResourceVersion (ppr_Meta q) \<Longrightarrow>
      \<exists>e w'. run_state (updatePPR env p) w = (e, w') \<and> (reliable \<longrightarrow> e = None) \<and> nodeS w' = nodeS w \<and> clockS w' = clockS w \<and>
        (e \<noteq> None \<and> pprS w' = pprS w \<or>
         (\<exists>rv. pprS w' = (if Finalizers (ppr_Meta p) = [] \<and> \<not> timePtr_IsZero (DeletionTimestamp (ppr_Meta p))
            then None else Some (ppr_stamped rv (p\<lparr>ppr_Status := ppr_Status q\<rparr>)))))"
    and update_status: "pprS w = Some q \<Longrightarrow> ResourceVersion (ppr_Meta p) = ResourceVersion (ppr_Meta q) \<Longrightarrow>
      \<exists>e w'. run_state (updatePPRStatus env p) w = (e, w') \<and> (reliable \<longrightarrow> e = None) \<and> nodeS w' = nodeS w \<and> clockS w' = clockS w \<and>
        (e \<noteq> None \<and> pprS w' = pprS w \<or>
         (\<exists>rv. pprS w' = Some (ppr_stamped rv (q\<lparr>ppr_Status := (ppr_Status p)
            \<lparr>TimeAssumedRebooted := map_option json_time (TimeAssumedRebooted (ppr_Status p))\<rparr>\<rparr>))))"
    and update_node: "nodeS w = Some m \<Longrightarrow> ResourceVersion (node_Meta n) = ResourceVersion (node_Meta m) \<Longrightarrow>
      \<exists>e w'. run_state (updateNode env n) w = (e, w') \<and> (reliable \<longrightarrow> e = None) \<and> pprS w' = pprS w \<and> clockS w' = clockS w \<and>
        (e \<noteq> None \<and> nodeS w' = nodeS w \<or>
         (\<exists>rv. nodeS w' = Some (node_stamped (UID (node_Meta m)) rv (n\<lparr>node_Status := node_Status m\<rparr>))))"
    and delete_node: "nodeS w = Some m \<Longrightarrow> Name (node_Meta n) = nodeName \<Longrightarrow>
      \<exists>e w'. run_state (deleteNode env n) w = (e, w') \<and> (reliable \<longrightarrow> e = None) \<and> pprS w' = pprS w \<and> clockS w' = clockS w \<and>
        (e \<noteq> None \<and> nodeS w' = nodeS w \<or> nodeS w' = None)"
    and create_node: "nodeS w = None \<Longrightarrow> Name (node_Meta n) = nodeName \<Longrightarrow> ResourceVersion (node_Meta n) = '''' \<Longrightarrow>
      \<exists>e w'. run_state (createNode env n) w = (e, w') \<and> (reliable \<longrightarrow> e = None) \<and> pprS w' = pprS w \<and> clockS w' = clockS w \<and>
        (e \<noteq> None \<and> nodeS w' = nodeS w \<or>
         (\<exists>uid rv. nodeS w' = Some (node_stamped uid rv (n\<lparr>node_Meta := (node_Meta n)\<lparr>CreationTimestamp := json_time (clockS w)\<rparr>\<rparr>))))"
    and reboot_keeps: "pprS (snd (run_state (reboot env) w)) = pprS w"
      "nodeS (snd (run_state (reboot env) w)) = nodeS w"
      "clockS (snd (run_state (reboot env) w)) = clockS w"
begin

lemma leads_getNodeFromPpr:
  assumes "first_machine p = None" and "Name (ppr_Meta p) = nodeName"
    and "\<And>got w'. pprS w' = pprS w \<Longrightarrow> nodeS w' = nodeS w \<Longrightarrow> clockS w' = clockS w \<Longrightarrow>
      got = (case nodeS w of None \<Rightarrow> Inl NotFound | Some n \<Rightarrow> Inr n) \<or> \<not> reliable \<and> (\<exists>msg. got = Inl (Other msg)) \<Longrightarrow> Q got w'"
  shows "leads (getNodeFromPpr env p) w Q"
proof -
  obtain got w' where get: "run_state (getNode env \<lparr>key_Namespace = '''', key_Name = nodeName\<rparr>) w = (got, w')" "Q got w'"
    using get_node [of w] assms(3) by blast
  have "leads (getNodeFromPpr_loop env p refs) w Q"
    if "find (\<lambda>ref. ref_Kind ref = ''Machine'') refs = None" for refs
    using that get assms(2)
    by (induction refs) (auto simp: Let_def split: if_splits sum.split intro!: leads_rules)
  with assms(1) show ?thesis by (simp add: getNodeFromPpr_def first_machine_def)
qed

lemma leads_now: "leads (f (clockS w)) w Q \<Longrightarrow> leads (State_Monad.bind (perform (now env) ev) f) w Q"
  by (rule leads_perform_bind) (simp add: get_now)

text \<open>A write is carried out or it fails, and only an unreliable server fails.\<close>

lemma leads_updatePPR:
  assumes "pprS w = Some q" "ResourceVersion (ppr_Meta p) = ResourceVersion (ppr_Meta q)"
    and "\<And>e w' rv. pprS w' = (if Finalizers (ppr_Meta p) = [] \<and> \<not> timePtr_IsZero (DeletionTimestamp (ppr_Meta p))
        then None else Some (ppr_stamped rv (p\<lparr>ppr_Status := ppr_Status q\<rparr>))) \<Longrightarrow> nodeS w' = nodeS w \<Longrightarrow>
      clockS w' = clockS w \<Longrightarrow> leads (f e) w' Q"
    and "\<And>e w'. \<not> reliable \<Longrightarrow> pprS w' = pprS w \<Longrightarrow> nodeS w' = nodeS w \<Longrightarrow> clockS w' = clockS w \<Longrightarrow> leads (f e) w' Q"
  shows "leads (State_Monad.bind (perform (updatePPR env p) ev) f) w Q"
  by (rule leads_perform_bind) (use update_ppr [OF assms(1,2)] assms(3,4) in \<open>force simp del: if_split\<close>)

lemma leads_updatePPRStatus:
  assumes "pprS w = Some q" "ResourceVersion (ppr_Meta p) = ResourceVersion (ppr_Meta q)"
    and "\<And>e w' rv. pprS w' = Some (ppr_stamped rv (q\<lparr>ppr_Status := (ppr_Status p)
        \<lparr>TimeAssumedRebooted := map_option json_time (TimeAssumedRebooted (ppr_Status p))\<rparr>\<rparr>)) \<Longrightarrow>
      nodeS w' = nodeS w \<Longrightarrow> clockS w' = clockS w \<Longrightarrow> leads (f e) w' Q"
    and "\<And>e w'. \<not> reliable \<Longrightarrow> pprS w' = pprS w \<Longrightarrow> nodeS w' = nodeS w \<Longrightarrow> clockS w' = clockS w \<Longrightarrow> leads (f e) w' Q"
  shows "leads (State_Monad.bind (perform (updatePPRStatus env p) ev) f) w Q"
  by (rule leads_perform_bind) (use update_status [OF assms(1,2)] assms(3,4) in force)

lemma leads_updateNode:
  assumes "nodeS w = Some m" "ResourceVersion (node_Meta n) = ResourceVersion (node_Meta m)"
    and "\<And>e w' rv. nodeS w' = Some (node_stamped (UID (node_Meta m)) rv (n\<lparr>node_Status := node_Status m\<rparr>)) \<Longrightarrow> pprS w' = pprS w \<Longrightarrow>
      clockS w' = clockS w \<Longrightarrow> leads (f e) w' Q"
    and "\<And>e w'. \<not> reliable \<Longrightarrow> pprS w' = pprS w \<Longrightarrow> nodeS w' = nodeS w \<Longrightarrow> clockS w' = clockS w \<Longrightarrow> leads (f e) w' Q"
  shows "leads (State_Monad.bind (perform (updateNode env n) ev) f) w Q"
  by (rule leads_perform_bind) (use update_node [OF assms(1,2)] assms(3,4) in force)

lemma leads_deleteNode:
  assumes "nodeS w = Some m" "Name (node_Meta n) = nodeName"
    and "\<And>e w'. nodeS w' = None \<Longrightarrow> pprS w' = pprS w \<Longrightarrow> clockS w' = clockS w \<Longrightarrow> leads (f e) w' Q"
    and "\<And>e w'. \<not> reliable \<Longrightarrow> pprS w' = pprS w \<Longrightarrow> nodeS w' = nodeS w \<Longrightarrow> clockS w' = clockS w \<Longrightarrow> leads (f e) w' Q"
  shows "leads (State_Monad.bind (perform (deleteNode env n) ev) f) w Q"
  by (rule leads_perform_bind) (use delete_node [OF assms(1,2)] assms(3,4) in force)

lemma leads_createNode:
  assumes "nodeS w = None" "Name (node_Meta n) = nodeName" "ResourceVersion (node_Meta n) = ''''"
    and "\<And>e w' uid rv. nodeS w' = Some (node_stamped uid rv (n\<lparr>node_Meta := (node_Meta n)\<lparr>CreationTimestamp := json_time (clockS w)\<rparr>\<rparr>)) \<Longrightarrow>
      pprS w' = pprS w \<Longrightarrow> clockS w' = clockS w \<Longrightarrow> leads (f e) w' Q"
    and "\<And>e w'. \<not> reliable \<Longrightarrow> pprS w' = pprS w \<Longrightarrow> nodeS w' = nodeS w \<Longrightarrow> clockS w' = clockS w \<Longrightarrow> leads (f e) w' Q"
  shows "leads (State_Monad.bind (perform (createNode env n) ev) f) w Q"
  by (rule leads_perform_bind) (use create_node [OF assms(1-3)] assms(4,5) in force)

lemma leads_reboot:
  assumes "\<And>e w'. pprS w' = pprS w \<Longrightarrow> nodeS w' = nodeS w \<Longrightarrow> clockS w' = clockS w \<Longrightarrow> leads (f e) w' Q"
  shows "leads (State_Monad.bind (perform (reboot env) ev) f) w Q"
  using reboot_keeps assms by (intro leads_perform_bind) auto

text \<open>The two reads at the start of a reconcile.\<close>

lemma leads_Reconcile:
  assumes "pprS w = Some p" "first_machine p = None" "Name (ppr_Meta p) = nodeName"
    and "\<And>err w'. \<not> reliable \<Longrightarrow> pprS w' = pprS w \<Longrightarrow> nodeS w' = nodeS w \<Longrightarrow> clockS w' = clockS w \<Longrightarrow> Q (failed err) w'"
    and "\<And>w'. nodeS w = None \<Longrightarrow> pprS w' = pprS w \<Longrightarrow> nodeS w' = nodeS w \<Longrightarrow> clockS w' = clockS w \<Longrightarrow> leads (handleDeletedNode env p) w' Q"
    and "\<And>n w'. nodeS w = Some n \<Longrightarrow> is_new p n \<Longrightarrow> pprS w' = pprS w \<Longrightarrow> nodeS w' = nodeS w \<Longrightarrow> clockS w' = clockS w \<Longrightarrow>
      leads (Reconcile_restored env p n) w' Q"
    and "\<And>n w'. nodeS w = Some n \<Longrightarrow> \<not> is_new p n \<Longrightarrow> pprS w' = pprS w \<Longrightarrow> nodeS w' = nodeS w \<Longrightarrow> clockS w' = clockS w \<Longrightarrow>
      leads (Reconcile_unhealthy env r p n) w' Q"
  shows "leads (Reconcile env r req) w Q"
proof -
  obtain got w' where get: "run_state (getPPR env req) w = (got, w')" and
    same: "pprS w' = pprS w" "nodeS w' = nodeS w" "clockS w' = clockS w" and
    got: "got = Inr p \<or> \<not> reliable \<and> (\<exists>msg. got = Inl (Other msg))"
    using get_ppr [of w] assms(1) by auto
  show ?thesis
  proof (cases got)
    case (Inl err)
    with got assms(4) [OF _ same] get show ?thesis
      unfolding Reconcile_def by (intro leads_perform_bind) (auto simp: IsNotFound_def intro!: leads_ret)
  next
    case (Inr q)
    with got have q: "got = Inr p" by simp
    show ?thesis
      unfolding Reconcile_def
      by (rule leads_perform_bind, simp add: get q, rule leads_modify_bind, simp, rule leads_bind,
          rule leads_getNodeFromPpr [OF assms(2,3)])
        (use assms(4-) same in \<open>auto simp: is_new_def time_After_def IsNotFound_def intro!: leads_ret split: option.splits\<close>)
  qed
qed

end

locale api_server = api_store env req nodeName pprS nodeS clockS True
  for env :: "'s rec_env" and req nodeName and pprS :: "'s \<Rightarrow> PoisonPillRemediation option" and nodeS :: "'s \<Rightarrow> Node option"
    and clockS :: "'s \<Rightarrow> time"

section \<open>The steps\<close>

lemmas stage_defs = advances_def rec_stage_def rec_inv_def

lemma finalizers_simps [simp]:
  "is_new (set_finalizers fs p) n = is_new p n"
  "backed_up (set_finalizers fs p) tm = backed_up p tm"
  "first_machine (set_finalizers fs p) = first_machine p"
  "has_finalizer (set_finalizers fs p) \<longleftrightarrow> PPRFinalizer \<in> set fs"
  "ppr_Status (set_finalizers fs p) = ppr_Status p"
  "DeletionTimestamp (ppr_Meta (set_finalizers fs p)) = DeletionTimestamp (ppr_Meta p)"
  "ppr_fits nm (set_finalizers fs p) t = ppr_fits nm p t"
  by (simp_all add: set_finalizers_def is_new_def backed_up_def first_machine_def has_finalizer_def
      ppr_fits_def)

lemma status_simps [simp]:
  "is_new (p\<lparr>ppr_Status := st\<rparr>) n = is_new p n"
  "first_machine (p\<lparr>ppr_Status := st\<rparr>) = first_machine p"
  "has_finalizer (p\<lparr>ppr_Status := st\<rparr>) = has_finalizer p"
  by (simp_all add: is_new_def first_machine_def has_finalizer_def)

lemma backup_simps [simp]:
  "is_new (with_backup tm n p) m = is_new p m"
  "backed_up (with_backup tm n p) tm' \<longleftrightarrow> tm' = tm \<and> tm \<noteq> 0"
  "first_machine (with_backup tm n p) = first_machine p"
  "has_finalizer (with_backup tm n p) = has_finalizer p"
  "NodeBackup (ppr_Status (with_backup tm n p)) = Some n"
  "ppr_Meta (with_backup tm n p) = ppr_Meta p"
  by (auto simp: with_backup_def is_new_def backed_up_def first_machine_def has_finalizer_def)

lemma ppr_stamped_parts [simp]:
  "ppr_Status (ppr_stamped rv p) = ppr_Status p" "is_new (ppr_stamped rv p) n = is_new p n"
  "has_finalizer (ppr_stamped rv p) = has_finalizer p" "backed_up (ppr_stamped rv p) = backed_up p"
  "ppr_fits nm (ppr_stamped rv p) t = ppr_fits nm p t"
  "DeletionTimestamp (ppr_Meta (ppr_stamped rv p)) = DeletionTimestamp (ppr_Meta p)"
  "CreationTimestamp (ppr_Meta (ppr_stamped rv p)) = CreationTimestamp (ppr_Meta p)"
proof -
  show backed_up: "backed_up (ppr_stamped rv p) = backed_up p"
    by (simp add: fun_eq_iff backed_up_def ppr_stamped_def)
  show "ppr_fits nm (ppr_stamped rv p) t = ppr_fits nm p t"
    unfolding ppr_fits_def backed_up by (simp add: ppr_stamped_def first_machine_def)
qed (simp_all add: ppr_stamped_def is_new_def has_finalizer_def)

lemma node_stamped_parts [simp]:
  "node_Spec (node_stamped uid rv n) = node_Spec n" "is_new p (node_stamped uid rv n) = is_new p n"
  "node_fits nm (node_stamped uid rv n) = node_fits nm n"
  by (simp_all add: node_stamped_def is_new_def node_fits_def)

lemma stamped_inv [simp]:
  "rec_stage (Some (ppr_stamped rv p)) no = rec_stage (Some p) no"
  "rec_inv nm (Some (ppr_stamped rv p)) no t = rec_inv nm (Some p) no t"
  "rec_stage po (Some (node_stamped uid rv n)) = rec_stage po (Some n)"
  "rec_inv nm po (Some (node_stamped uid rv n)) t = rec_inv nm po (Some n) t"
  by (auto simp: rec_stage_def rec_inv_def split: option.split)

lemma advances_stamped [simp]:
  "advances nm po no t (Some (ppr_stamped rv p)) no' = advances nm po no t (Some p) no'"
  "advances nm po no t po' (Some (node_stamped uid rv n)) = advances nm po no t po' (Some n)"
  by (simp_all add: advances_def)

lemma versions_simps [simp]:
  "ResourceVersion (ppr_Meta (set_finalizers fs p)) = ResourceVersion (ppr_Meta p)"
  "ResourceVersion (ppr_Meta (with_backup tm n p)) = ResourceVersion (ppr_Meta p)"
  "ResourceVersion (ppr_Meta (without_backup p)) = ResourceVersion (ppr_Meta p)"
  "ResourceVersion (node_Meta (marked_unschedulable n)) = ResourceVersion (node_Meta n)"
  "ResourceVersion (node_Meta (restored_node t b)) = ''''"
  by (simp_all add: set_finalizers_def with_backup_def without_backup_def marked_unschedulable_def restored_node_def)

lemma step_add_finalizer:
  assumes "rec_inv nm (Some p) (Some n) t" "\<not> is_new p n" "\<not> has_finalizer p"
  shows "advances nm (Some p) (Some n) t
    (Some (set_finalizers (AddFinalizer (Finalizers (ppr_Meta p)) PPRFinalizer) p)) (Some n)"
  using assms by (auto simp: stage_defs)

lemma step_cordon:
  assumes "rec_inv nm (Some p) (Some n) t" "\<not> is_new p n" "has_finalizer p"
    "\<not> spec_Unschedulable (node_Spec n)"
  shows "advances nm (Some p) (Some n) t (Some p) (Some (marked_unschedulable n))"
proof -
  have "is_new p (marked_unschedulable n) = is_new p n" "spec_Unschedulable (node_Spec (marked_unschedulable n))"
    "node_fits nm (marked_unschedulable n) = node_fits nm n"
    by (simp_all add: is_new_def marked_unschedulable_def node_fits_def)
  then show ?thesis using assms by (auto simp: stage_defs)
qed

lemma step_back_up:
  assumes "rec_inv nm (Some p) (Some n) t" "\<not> is_new p n" "has_finalizer p"
    "spec_Unschedulable (node_Spec n)" "\<nexists>tm. backed_up p tm" "2000000000 \<le> sint d" "sint d \<le> 2 ^ 62"
  shows "advances nm (Some p) (Some n) t (Some (with_backup (json_time (time_Add t d)) n p)) (Some n)"
  using assms json_time_bounds [of "time_Add t d"]
  by (auto simp: stage_defs ppr_fits_def time_Add_def)

lemma step_delete:
  assumes "rec_inv nm (Some p) (Some n) t" "\<not> is_new p n" "has_finalizer p"
    "spec_Unschedulable (node_Spec n)" "backed_up p tm" "tm \<le> t"
  shows "advances nm (Some p) (Some n) t (Some p) None"
proof -
  have "CreationTimestamp (ppr_Meta p) + 1000000000 \<le> tm" "NodeBackup (ppr_Status p) \<noteq> None"
    using assms(1,5) by (auto simp: rec_inv_def ppr_fits_def backed_up_def)
  then show ?thesis using assms by (auto simp: stage_defs)
qed

lemma step_restore:
  assumes "rec_inv nm (Some p) None t" "NodeBackup (ppr_Status p) = Some b"
  shows "advances nm (Some p) None t (Some p) (Some (restored_node (json_time t) b))"
proof -
  have "is_new p (restored_node (json_time t) b)" "node_fits nm (restored_node (json_time t) b)"
    "\<not> spec_Unschedulable (node_Spec (restored_node (json_time t) b))"
    using assms json_time_bounds(2) [of t]
    by (auto simp: rec_inv_def ppr_fits_def is_new_def restored_node_def node_fits_def)
  then show ?thesis using assms by (auto simp: stage_defs)
qed

lemma step_drop_backup:
  assumes "rec_inv nm (Some p) (Some n) t" "is_new p n" "NodeBackup (ppr_Status p) \<noteq> None"
    "NodeBackup st = None"
  shows "advances nm (Some p) (Some n) t (Some (p\<lparr>ppr_Status := st\<rparr>)) (Some n)"
  using assms by (auto simp: stage_defs ppr_fits_def backed_up_def)

lemma step_remove_finalizer:
  assumes "rec_inv nm (Some p) (Some n) t" "is_new p n" "NodeBackup (ppr_Status p) = None"
    "has_finalizer p"
  shows "advances nm (Some p) (Some n) t
      (Some (set_finalizers (RemoveFinalizer (Finalizers (ppr_Meta p)) PPRFinalizer) p)) (Some n)"
    "advances nm (Some p) (Some n) t None (Some n)"
  using assms by (auto simp: stage_defs)

section \<open>The handler in terms of the steps\<close>

lemma write_result_fun:
  "case_option (ret ok) (\<lambda>err. if IsConflict err then ret (requeueAfter (1 * Second)) else ret (failed err)) =
   (\<lambda>e. ret (write_result ok e))"
  by (auto simp: fun_eq_iff write_result_def split: option.split)

lemma create_result_fun:
  "case_option (ret requeue) (\<lambda>err. if IsAlreadyExists err then ret finished else ret (failed err)) =
   (\<lambda>e. ret (create_result e))"
  by (auto simp: fun_eq_iff create_result_def split: option.split)

lemma markNodeAsUnschedulable_eq:
  "markNodeAsUnschedulable env n = State_Monad.bind
     (perform (updateNode env (marked_unschedulable n)) (EUpdateNode (marked_unschedulable n)))
     (\<lambda>e. ret (write_result (requeueAfter Second) e))"
  unfolding markNodeAsUnschedulable_def marked_unschedulable_def Let_def write_result_fun by simp

lemma updatePprStatus_eq:
  "updatePprStatus env r n p = State_Monad.bind (perform (now env) ENow) (\<lambda>t.
     let q = with_backup (time_Add t (SafeTimeToAssumeNodeRebooted r)) n p in
     State_Monad.bind (perform (updatePPRStatus env q) (EUpdatePPRStatus q))
       (\<lambda>e. ret (write_result requeue e)))"
  unfolding updatePprStatus_def with_backup_def Let_def write_result_fun by simp

lemma restoreNode_eq:
  "restoreNode env b = State_Monad.bind (perform (now env) ENow) (\<lambda>t.
     State_Monad.bind (perform (createNode env (restored_node t b)) (ECreateNode (restored_node t b)))
       (\<lambda>e. ret (create_result e)))"
  unfolding restoreNode_def restored_node_def Let_def create_result_fun DeleteTaint_eq by simp

lemma Reconcile_restored_eq:
  "Reconcile_restored env p n =
     (if NodeBackup (ppr_Status p) \<noteq> None then State_Monad.bind
        (perform (updatePPRStatus env (without_backup p)) (EUpdatePPRStatus (without_backup p)))
        (\<lambda>e. ret (write_result requeue e))
      else if \<not> has_finalizer p then ret finished
      else if \<not> node_ready n then ret (requeueAfter (15 * Second))
      else let q = set_finalizers (RemoveFinalizer (Finalizers (ppr_Meta p)) PPRFinalizer) p in
        State_Monad.bind (perform (updatePPR env q) (EUpdatePPR q))
          (\<lambda>e. ret (write_result finished e)))"
  unfolding Reconcile_restored_def without_backup_def set_finalizers_def Let_def write_result_fun
  by (auto simp: has_finalizer_def node_ready_def split: option.split)

lemma Reconcile_unhealthy_eq:
  "Reconcile_unhealthy env r p n =
     (if \<not> has_finalizer p then
        if \<not> timePtr_IsZero (DeletionTimestamp (ppr_Meta p)) then ret finished
        else let q = set_finalizers (AddFinalizer (Finalizers (ppr_Meta p)) PPRFinalizer) p in
          State_Monad.bind (perform (updatePPR env q) (EUpdatePPR q)) (\<lambda>e. ret (write_result requeue e))
      else if \<not> spec_Unschedulable (node_Spec n) then markNodeAsUnschedulable env n
      else if \<not> TaintExists (spec_Taints (node_Spec n)) NodeUnschedulableTaint then
        ret (requeueAfter (1 * Second))
      else if \<nexists>tm. backed_up p tm then updatePprStatus env r n p
      else Reconcile_reboot env r (the (TimeAssumedRebooted (ppr_Status p))) n)"
  unfolding Reconcile_unhealthy_def set_finalizers_def Let_def write_result_fun
  by (auto simp: has_finalizer_def backed_up_def split: option.split)

section \<open>What a reconcile does\<close>

text \<open>
  The safe time is at least two seconds, and short enough for the arithmetic on 64 bits. (The start of
  the program sees to at least 185 seconds.)
\<close>

definition sane_safe_time :: "PoisonPillRemediationReconciler \<Rightarrow> bool" where
  "sane_safe_time r \<longleftrightarrow> 2000000000 \<le> sint (SafeTimeToAssumeNodeRebooted r) \<and>
     sint (SafeTimeToAssumeNodeRebooted r) \<le> 2 ^ 62"

text \<open>The reasons for a reconcile to change nothing, with its result.\<close>

inductive idle ::
  "PoisonPillRemediationReconciler \<Rightarrow> PoisonPillRemediation option \<Rightarrow> Node option \<Rightarrow> time \<Rightarrow>
    reconcile_result \<Rightarrow> bool" for r po no t where
  over: "rec_stage po no = 7 \<Longrightarrow> idle r po no t finished"
| no_taint: "no = Some n \<Longrightarrow> \<not> TaintExists (spec_Taints (node_Spec n)) NodeUnschedulableTaint \<Longrightarrow>
    spec_Unschedulable (node_Spec n) \<Longrightarrow> po = Some p \<Longrightarrow> \<not> is_new p n \<Longrightarrow> idle r po no t (requeueAfter Second)"
| rebooting: "po = Some p \<Longrightarrow> no = Some n \<Longrightarrow> backed_up p tm \<Longrightarrow> t < tm \<Longrightarrow>
    MyNodeName r = Name (node_Meta n) \<Longrightarrow> idle r po no t res"
| waiting: "rec_stage po no = 3 \<Longrightarrow> po = Some p \<Longrightarrow> backed_up p tm \<Longrightarrow> t < tm \<Longrightarrow>
    idle r po no t (requeueAfter (time_Sub tm t + Second))"
| not_ready: "po = Some p \<Longrightarrow> no = Some n \<Longrightarrow> is_new p n \<Longrightarrow> \<not> node_ready n \<Longrightarrow>
    idle r po no t (requeueAfter (15 * Second))"

text \<open>What a reconcile does to the PPR and the node: a step forward, or nothing.\<close>

definition step_post ::
  "PoisonPillRemediationReconciler \<Rightarrow> string \<Rightarrow> PoisonPillRemediation option \<Rightarrow> Node option \<Rightarrow> time \<Rightarrow>
    reconcile_result \<Rightarrow> PoisonPillRemediation option \<Rightarrow> Node option \<Rightarrow> bool" where
  "step_post r nm po no t res po' no' \<longleftrightarrow> advances nm po no t po' no' \<or>
     rec_inv nm po no t \<and> po' = po \<and> no' = no \<and> idle r po no t res"

lemma post_idle: "rec_inv nm po no t \<Longrightarrow> idle r po no t res \<Longrightarrow> step_post r nm po no t res po no"
  by (simp add: step_post_def)

text \<open>What the API server stores of an update.\<close>

lemma api_stored [simp]:
  "(set_finalizers fs p)\<lparr>ppr_Status := ppr_Status p\<rparr> = set_finalizers fs p"
  "(marked_unschedulable n)\<lparr>node_Status := node_Status n\<rparr> = marked_unschedulable n"
  "(restored_node t b)\<lparr>node_Meta := (node_Meta (restored_node t b))\<lparr>CreationTimestamp := t'\<rparr>\<rparr> =
     restored_node t' b"
  "Name (node_Meta (restored_node t b)) = Name (node_Meta b)"
  by (simp_all add: set_finalizers_def marked_unschedulable_def restored_node_def)

lemma api_stored_backup [simp]:
  "p\<lparr>ppr_Status := (ppr_Status (with_backup tm n p))\<lparr>TimeAssumedRebooted :=
     map_option f (TimeAssumedRebooted (ppr_Status (with_backup tm n p)))\<rparr>\<rparr> = with_backup (f tm) n p"
  by (simp add: with_backup_def)

context api_store
begin

abbreviation step_ok :: "PoisonPillRemediationReconciler \<Rightarrow> 's \<Rightarrow> reconcile_result \<Rightarrow> 's \<Rightarrow> bool" where
  "step_ok r w res w' \<equiv> clockS w' = clockS w \<and>
     (step_post r nodeName (pprS w) (nodeS w) (clockS w) res (pprS w') (nodeS w') \<or>
      \<not> reliable \<and> rec_inv nodeName (pprS w) (nodeS w) (clockS w) \<and> pprS w' = pprS w \<and> nodeS w' = nodeS w)"

lemma restored_ok:
  assumes inv: "rec_inv nodeName (Some p) (Some n) (clockS w)"
    and w: "pprS w = Some p" "nodeS w = Some n" and new: "is_new p n"
  shows "leads (Reconcile_restored env p n) w (step_ok r w)"
  unfolding Reconcile_restored_eq Let_def
proof (intro leads_if leads_updatePPRStatus [OF w(1)] leads_updatePPR [OF w(1)] leads_ret)
  show "step_ok r w finished w" if "\<not> NodeBackup (ppr_Status p) \<noteq> None" "\<not> has_finalizer p"
    using that w inv new by (auto intro!: post_idle idle.over simp: rec_stage_def)
  show "step_ok r w (requeueAfter (15 * Second)) w" if "\<not> node_ready n"
    using that w inv new by (auto intro!: post_idle idle.not_ready)
qed (use w inv step_drop_backup [OF inv new] step_remove_finalizer [OF inv new] in
  \<open>auto simp: step_post_def without_backup_def\<close>)

lemma deleted_ok:
  assumes inv: "rec_inv nodeName (Some p) None (clockS w)" and w: "pprS w = Some p" "nodeS w = None"
  shows "leads (handleDeletedNode env p) w (step_ok r w)"
proof -
  from inv obtain b where b: "NodeBackup (ppr_Status p) = Some b" "node_fits nodeName b"
    by (auto simp: rec_inv_def ppr_fits_def)
  then show ?thesis
    using w inv step_restore [OF inv b(1)]
    by (auto simp: handleDeletedNode_def restoreNode_eq step_post_def node_fits_def
        intro!: leads_now leads_createNode leads_ret)
qed

lemma reboot_ok:
  assumes inv: "rec_inv nodeName (Some p) (Some n) (clockS w)"
    and w: "pprS w = Some p" "nodeS w = Some n" and old: "\<not> is_new p n" "has_finalizer p"
    "spec_Unschedulable (node_Spec n)" "backed_up p tm"
  shows "leads (Reconcile_reboot env r tm n) w (step_ok r w)"
proof -
  have n: "node_fits nodeName n" using inv by (simp add: rec_inv_def)
  have stage: "rec_stage (Some p) (Some n) = 3" using old by (auto simp: rec_stage_def)
  show ?thesis
    unfolding Reconcile_reboot_def
  proof (intro leads_now leads_if leads_reboot)
    show "leads (case e of None \<Rightarrow> ret finished | Some err \<Rightarrow> ret (failed err)) w' (step_ok r w)"
      if "time_After tm (clockS w)" "MyNodeName r = Name (node_Meta n)"
        "pprS w' = pprS w" "nodeS w' = nodeS w" "clockS w' = clockS w" for e w'
      using that w inv old(4)
      by (auto simp: time_After_def intro!: leads_ret post_idle idle.rebooting split: option.split)
    show "leads (ret (requeueAfter (time_Sub tm (clockS w) + Second))) w (step_ok r w)"
      if "time_After tm (clockS w)"
      using that w inv idle.waiting [OF stage refl old(4)]
      by (auto simp: time_After_def intro!: leads_ret post_idle)
  next
    assume "\<not> time_After tm (clockS w)"
    then have "advances nodeName (Some p) (Some n) (clockS w) (Some p) None"
      using step_delete [OF inv old] by (simp add: time_After_def)
    then show "leads (State_Monad.bind (perform (deleteNode env n) (EDeleteNode n)) (\<lambda>e. case e of
          None \<Rightarrow> ret (requeueAfter (1 * Second))
        | Some err \<Rightarrow> if \<not> IsNotFound err then ret (failed err) else ret (requeueAfter (1 * Second))))
        w (step_ok r w)"
      using w n inv
      by (auto simp: node_fits_def step_post_def intro!: leads_deleteNode leads_ret split: option.split)
  qed (use n in \<open>simp add: node_fits_def\<close>)
qed

lemma unhealthy_ok:
  assumes inv: "rec_inv nodeName (Some p) (Some n) (clockS w)"
    and w: "pprS w = Some p" "nodeS w = Some n" and old: "\<not> is_new p n"
    and safe: "sane_safe_time r"
  shows "leads (Reconcile_unhealthy env r p n) w (step_ok r w)"
  unfolding Reconcile_unhealthy_eq Let_def
proof (intro leads_if)
  show "leads (ret finished) w (step_ok r w)"
    if "\<not> has_finalizer p" "\<not> timePtr_IsZero (DeletionTimestamp (ppr_Meta p))"
    using that inv old by (simp add: rec_inv_def)
  let ?q = "set_finalizers (AddFinalizer (Finalizers (ppr_Meta p)) PPRFinalizer) p"
  show "leads (State_Monad.bind (perform (updatePPR env ?q) (EUpdatePPR ?q))
      (\<lambda>e. ret (write_result requeue e))) w (step_ok r w)"
    if "\<not> has_finalizer p" "\<not> \<not> timePtr_IsZero (DeletionTimestamp (ppr_Meta p))"
    using that w inv step_add_finalizer [OF inv old]
    by (auto simp: step_post_def intro!: leads_updatePPR [OF w(1)] leads_ret)
  assume "\<not> \<not> has_finalizer p"
  then have fin: "has_finalizer p" by simp
  show "leads (markNodeAsUnschedulable env n) w (step_ok r w)"
    if "\<not> spec_Unschedulable (node_Spec n)"
    using w inv step_cordon [OF inv old fin that]
    by (auto simp: markNodeAsUnschedulable_eq step_post_def intro!: leads_updateNode [OF w(2)] leads_ret)
  assume "\<not> \<not> spec_Unschedulable (node_Spec n)"
  then have un: "spec_Unschedulable (node_Spec n)" by simp
  show "leads (ret (requeueAfter (1 * Second))) w (step_ok r w)"
    if "\<not> TaintExists (spec_Taints (node_Spec n)) NodeUnschedulableTaint"
    using that w inv old un by (auto intro!: leads_ret post_idle idle.no_taint)
  show "leads (updatePprStatus env r n p) w (step_ok r w)" if "\<nexists>tm. backed_up p tm"
    using w inv step_back_up [OF inv old fin un that] safe
    by (auto simp: updatePprStatus_eq Let_def step_post_def sane_safe_time_def
        intro!: leads_now leads_updatePPRStatus [OF w(1)] leads_ret)
  show "leads (Reconcile_reboot env r (the (TimeAssumedRebooted (ppr_Status p))) n) w (step_ok r w)"
    if "\<not> (\<nexists>tm. backed_up p tm)"
    using that reboot_ok [OF inv w old fin un] by (auto simp: backed_up_def)
qed

lemma Reconcile_ok:
  assumes inv: "rec_inv nodeName (pprS w) (nodeS w) (clockS w)"
    and safe: "sane_safe_time r"
  shows "leads (Reconcile env r req) w (step_ok r w)"
proof (cases "pprS w")
  case None
  obtain got w' where get: "run_state (getPPR env req) w = (got, w')" and
    same: "pprS w' = pprS w" "nodeS w' = nodeS w" "clockS w' = clockS w" and
    got: "got = Inl NotFound \<or> \<not> reliable \<and> (\<exists>msg. got = Inl (Other msg))"
    using get_ppr [of w] None by auto
  have "rec_stage (pprS w) (nodeS w) = 7" using None by (simp add: rec_stage_def)
  with get same got inv show ?thesis
    by (auto simp: Reconcile_def IsNotFound_def intro!: leads_perform_bind leads_ret post_idle idle.over)
next
  case (Some p)
  with inv have p: "first_machine p = None" "Name (ppr_Meta p) = nodeName"
    by (auto simp: rec_inv_def ppr_fits_def split: option.splits)
  have inv': "rec_inv nodeName (Some p) (nodeS w) (clockS w)" using inv Some by simp
  show ?thesis
  proof (rule leads_Reconcile [OF Some p])
    fix w'
    assume same: "pprS w' = pprS w" "nodeS w' = nodeS w" "clockS w' = clockS w"
    show "step_ok r w (failed err) w'" if "\<not> reliable" for err using that same inv by simp
    show "leads (handleDeletedNode env p) w' (step_ok r w)" if "nodeS w = None"
      using deleted_ok [of p w' r] that same Some inv' by simp
    show "leads (Reconcile_restored env p n) w' (step_ok r w)" if "nodeS w = Some n" "is_new p n" for n
      using restored_ok [of p n w' r] that same Some inv' by simp
    show "leads (Reconcile_unhealthy env r p n) w' (step_ok r w)" if "nodeS w = Some n" "\<not> is_new p n" for n
      using unhealthy_ok [of p n w' r] that same Some inv' safe by simp
  qed
qed

end

end
