(* ===== verification/Strconv.thy ===== *)
theory Strconv
  imports Prelude
begin

text \<open>
  Decimal printing and reading of Go's \<open>int\<close>: the verb \<open>%d\<close> of \<open>fmt.Sprintf\<close> and \<open>strconv.Atoi\<close>,
  which the program uses to hand the safe reboot time from the manager to the agents, and splitting at a slash. \<open>Atoi\<close> reads an
  optional sign and at least one digit, and fails outside the range of \<open>int64\<close>.
\<close>

definition digit :: "nat \<Rightarrow> char" where
  "digit n = char_of (48 + n)"

text \<open>The buffer is filled from its end, as \<open>fmt\<close> does.\<close>

fun digits_before :: "nat \<Rightarrow> string \<Rightarrow> string" where
  "digits_before n buf =
     (let buf = digit (n mod 10) # buf in if n < 10 then buf else digits_before (n div 10) buf)"

definition Itoa :: "int \<Rightarrow> string" where
  "Itoa i = (if i < 0 then CHR ''-'' # digits_before (nat (- i)) [] else digits_before (nat i) [])"

definition digit_value :: "char \<Rightarrow> nat option" where
  "digit_value c = (let n = (of_char c :: nat) in if 48 \<le> n \<and> n \<le> 57 then Some (n - 48) else None)"

fun read_digits :: "string \<Rightarrow> nat \<Rightarrow> nat option" where
  "read_digits [] n = Some n"
| "read_digits (c # cs) n =
     (case digit_value c of None \<Rightarrow> None | Some d \<Rightarrow> read_digits cs (10 * n + d))"

definition syntax_error :: "string \<Rightarrow> go_error" where
  "syntax_error s = Other (''strconv.Atoi: parsing '' @ s @ '': invalid syntax'')"

definition range_error :: "string \<Rightarrow> go_error" where
  "range_error s = Other (''strconv.Atoi: parsing '' @ s @ '': value out of range'')"

definition Atoi :: "string \<Rightarrow> go_error + int" where
  "Atoi s =
     (let (neg, ds) = (case s of
            [] \<Rightarrow> (False, [])
          | c # cs \<Rightarrow> if c = CHR ''-'' then (True, cs) else if c = CHR ''+'' then (False, cs) else (False, s))
      in if ds = [] then Inl (syntax_error s)
         else case read_digits ds 0 of
           None \<Rightarrow> Inl (syntax_error s)
         | Some n \<Rightarrow>
             if neg then if 2 ^ 63 < n then Inl (range_error s) else Inr (- int n)
             else if 2 ^ 63 \<le> n then Inl (range_error s) else Inr (int n))"

section \<open>Splitting\<close>

text \<open>\<open>strings.Split\<close> at a slash.\<close>

fun split_slash :: "string \<Rightarrow> string \<Rightarrow> string list" where
  "split_slash [] acc = [acc]"
| "split_slash (c # cs) acc = (if c = CHR ''/'' then acc # split_slash cs [] else split_slash cs (acc @ [c]))"

section \<open>Round trip\<close>

declare digits_before.simps [simp del]

lemma of_char_digit [simp]: "n < 10 \<Longrightarrow> (of_char (digit n) :: nat) = 48 + n"
  by (simp add: digit_def)

lemma digit_value_digit [simp]: "n < 10 \<Longrightarrow> digit_value (digit n) = Some n"
  by (simp add: digit_value_def Let_def)

lemma digits_before_read: "read_digits (digits_before n buf) 0 = read_digits buf n"
proof (induction n buf rule: digits_before.induct)
  case (1 n buf)
  show ?case
  proof (cases "n < 10")
    case True
    then show ?thesis by (simp add: digits_before.simps)
  next
    case False
    with 1 show ?thesis by (subst digits_before.simps) (simp add: Let_def)
  qed
qed

lemma digits_before_hd: "\<exists>d < 10. \<exists>cs. digits_before n buf = digit d # cs"
proof (induction n buf rule: digits_before.induct)
  case (1 n buf)
  then show ?case
    by (cases "n < 10") (auto simp: digits_before.simps [of n] Let_def)
qed

lemma digit_no_sign: "d < 10 \<Longrightarrow> digit d \<noteq> CHR ''-'' \<and> digit d \<noteq> CHR ''+''"
  by (auto dest!: arg_cong [of _ _ "of_char :: char \<Rightarrow> nat"])

lemma Atoi_Itoa:
  assumes "- (2 ^ 63) \<le> i" and "i < 2 ^ 63"
  shows "Atoi (Itoa i) = Inr i"
proof (cases "i < 0")
  case True
  obtain d cs where "digits_before (nat (- i)) [] = digit d # cs" using digits_before_hd by blast
  with True assms digits_before_read [of "nat (- i)" "[]"] show ?thesis by (auto simp: Atoi_def Itoa_def)
next
  case False
  obtain d cs where "digits_before (nat i) [] = digit d # cs" "d < 10" using digits_before_hd by blast
  with False assms digits_before_read [of "nat i" "[]"] digit_no_sign [of d] show ?thesis
    by (simp add: Atoi_def Itoa_def)
qed

lemma Atoi_range: "Atoi s = Inr i \<Longrightarrow> - (2 ^ 63) \<le> i \<and> i < 2 ^ 63"
  by (auto simp: Atoi_def Let_def split: if_splits option.splits prod.splits)

end
