(* ===== verification/Remediation_Completion.thy ===== *)
theory Remediation_Completion
  imports Remediation_Lifecycle Strconv
begin

text \<open>
  Runs of a remediation: reconciles of any agents, one after the other, each of them from its first request to its last with
  nobody in between, and between them what others do
  to the node and the PPR (the node controller taints an unschedulable node, the kubelet reports its
  status, the PPR is deleted when the node is healthy again). Such a run makes at most seven
  changes, also when requests fail. On a reliable server, when agents on healthy nodes are called again as they ask, the eighth call at the latest
  has brought the node back. That reconciles do not overlap matters: \<open>late_delete_undoes\<close> shows what an agent does that has been held up between
  its last read and its \<open>Delete\<close>.
\<close>

section \<open>What the others do\<close>

definition node_kept :: "Node \<Rightarrow> Node \<Rightarrow> bool" where
  "node_kept n n' \<longleftrightarrow> Name (node_Meta n') = Name (node_Meta n) \<and>
     CreationTimestamp (node_Meta n') = CreationTimestamp (node_Meta n) \<and>
     DeletionTimestamp (node_Meta n') = DeletionTimestamp (node_Meta n) \<and>
     spec_Unschedulable (node_Spec n') = spec_Unschedulable (node_Spec n)"

definition ppr_kept :: "PoisonPillRemediation \<Rightarrow> PoisonPillRemediation \<Rightarrow> bool" where
  "ppr_kept p p' \<longleftrightarrow> (\<exists>rv d. p' = ppr_stamped rv (p\<lparr>ppr_Meta := (ppr_Meta p)\<lparr>DeletionTimestamp := d\<rparr>\<rparr>) \<and>
     (has_finalizer p \<or> d = DeletionTimestamp (ppr_Meta p)))"

definition others_act ::
  "PoisonPillRemediation option \<Rightarrow> Node option \<Rightarrow> time \<Rightarrow> PoisonPillRemediation option \<Rightarrow> Node option \<Rightarrow>
    time \<Rightarrow> bool" where
  "others_act po no t po' no' t' \<longleftrightarrow> t \<le> t' \<and> rel_option node_kept no no' \<and>
     (rel_option ppr_kept po po' \<or> rec_stage po no = 7 \<and> po' = None)"

lemma node_kept_simps:
  assumes "node_kept n n'"
  shows "node_fits nm n' = node_fits nm n" "is_new p n' = is_new p n"
    "spec_Unschedulable (node_Spec n') = spec_Unschedulable (node_Spec n)"
  using assms by (auto simp: node_kept_def node_fits_def is_new_def)

lemma ppr_kept_simps:
  assumes "ppr_kept p p'"
  shows "is_new p' n = is_new p n" "has_finalizer p' = has_finalizer p" "ppr_Status p' = ppr_Status p"
    "backed_up p' tm = backed_up p tm" "CreationTimestamp (ppr_Meta p') = CreationTimestamp (ppr_Meta p)"
    "t \<le> t' \<Longrightarrow> ppr_fits nm p t \<Longrightarrow> ppr_fits nm p' t'"
    "\<not> has_finalizer p \<Longrightarrow> DeletionTimestamp (ppr_Meta p') = DeletionTimestamp (ppr_Meta p)"
  using assms by (auto simp: ppr_kept_def ppr_stamped_def is_new_def has_finalizer_def backed_up_def ppr_fits_def
      first_machine_def)

lemma ppr_kept_refl: "ppr_kept p p"
  unfolding ppr_kept_def ppr_stamped_def
  by (rule exI [of _ "ResourceVersion (ppr_Meta p)"], rule exI [of _ "DeletionTimestamp (ppr_Meta p)"]) simp

lemma kept_inv:
  assumes "rec_inv nm (Some p) no t" "ppr_kept p p'" "rel_option node_kept no no'" "t \<le> t'"
  shows "rec_inv nm (Some p') no' t' \<and> rec_stage (Some p') no' = rec_stage (Some p) no"
proof (cases no)
  case None
  with assms have "no' = None" by simp
  with None assms ppr_kept_simps(1-5) [OF assms(2)] ppr_kept_simps(6) [OF assms(2,4)] show ?thesis
    by (simp add: rec_inv_def rec_stage_def)
next
  case (Some n)
  with assms(3) obtain n' where n': "no' = Some n'" "node_kept n n'" by (cases no') auto
  have "rec_inv nm (Some p') (Some n') t'"
    using Some assms(1) ppr_kept_simps(6) [OF assms(2,4), of nm] ppr_kept_simps(7) [OF assms(2)]
    by (auto simp: rec_inv_def ppr_kept_simps(1-5) [OF assms(2)] node_kept_simps [OF n'(2)])
  then show ?thesis
    using Some n'(1) ppr_kept_simps(1-5) [OF assms(2)] node_kept_simps [OF n'(2)]
    by (simp add: rec_stage_def)
qed

lemma others_act_inv:
  assumes inv: "rec_inv nm po no t" and act: "others_act po no t po' no' t'"
  shows "rec_inv nm po' no' t' \<and> rec_stage po' no' = rec_stage po no"
proof (cases "po' = None")
  case True
  with act inv have "rec_stage po no = 7" by (cases po) (auto simp: others_act_def rec_stage_def)
  with inv obtain n where n: "no = Some n" "node_fits nm n" "\<not> spec_Unschedulable (node_Spec n)"
    by (cases po; cases no) (auto simp: rec_inv_def rec_stage_def split: if_splits)
  with act obtain n' where n': "no' = Some n'" "node_kept n n'"
    by (cases no') (auto simp: others_act_def)
  with True n \<open>rec_stage po no = 7\<close> show ?thesis
    by (simp add: rec_inv_def rec_stage_def node_kept_simps [OF n'(2)])
next
  case False
  with act obtain p p' where "po = Some p" "po' = Some p'" "ppr_kept p p'"
    by (cases po; cases po') (auto simp: others_act_def)
  with inv act kept_inv [of nm p no t p' no' t'] show ?thesis by (simp add: others_act_def)
qed

lemma rec_stage_le: "rec_stage po no \<le> 7"
  by (simp add: rec_stage_def split: option.split)

section \<open>Runs\<close>

text \<open>A run: \<open>k\<close> is the number of reconciles that have changed something.\<close>

inductive remediation_run ::
  "'s rec_env \<Rightarrow> ObjectKey \<Rightarrow> ('s \<Rightarrow> PoisonPillRemediation option) \<Rightarrow> ('s \<Rightarrow> Node option) \<Rightarrow>
    ('s \<Rightarrow> time) \<Rightarrow> 's \<Rightarrow> nat \<Rightarrow> 's \<Rightarrow> bool" for env req pprS nodeS clockS w0 where
  start: "remediation_run env req pprS nodeS clockS w0 0 w0"
| others: "remediation_run env req pprS nodeS clockS w0 k w \<Longrightarrow>
    others_act (pprS w) (nodeS w) (clockS w) (pprS w') (nodeS w') (clockS w') \<Longrightarrow>
    remediation_run env req pprS nodeS clockS w0 k w'"
| reconcile: "remediation_run env req pprS nodeS clockS w0 k (world s) \<Longrightarrow> sane_safe_time r \<Longrightarrow>
    run_state (Reconcile env r req) s = (res, s') \<Longrightarrow>
    changes = of_bool ((pprS (world s'), nodeS (world s')) \<noteq> (pprS (world s), nodeS (world s))) \<Longrightarrow>
    remediation_run env req pprS nodeS clockS w0 (k + changes) (world s')"

text \<open>
  Rounds: agents on healthy nodes reconcile in turn. A round comes no earlier than the result of the
  one before has asked for, and finds an unschedulable node tainted and a node that came back ready.
\<close>

definition settled :: "PoisonPillRemediation option \<Rightarrow> Node option \<Rightarrow> bool" where
  "settled po no \<longleftrightarrow> (\<forall>p n. po = Some p \<and> no = Some n \<longrightarrow>
     (if is_new p n then node_ready n
      else spec_Unschedulable (node_Spec n) \<longrightarrow>
        TaintExists (spec_Taints (node_Spec n)) NodeUnschedulableTaint))"

inductive remediation_rounds ::
  "'s rec_env \<Rightarrow> ObjectKey \<Rightarrow> string \<Rightarrow> ('s \<Rightarrow> PoisonPillRemediation option) \<Rightarrow> ('s \<Rightarrow> Node option) \<Rightarrow>
    ('s \<Rightarrow> time) \<Rightarrow> 's \<Rightarrow> nat \<Rightarrow> 's \<Rightarrow> reconcile_result \<Rightarrow> bool"
  for env req nodeName pprS nodeS clockS w0 where
  start: "remediation_rounds env req nodeName pprS nodeS clockS w0 0 w0 requeue"
| round: "remediation_rounds env req nodeName pprS nodeS clockS w0 k w res \<Longrightarrow>
    others_act (pprS w) (nodeS w) (clockS w) (pprS (world s)) (nodeS (world s)) (clockS (world s)) \<Longrightarrow>
    clockS w + sint (RequeueAfter (fst res)) \<le> clockS (world s) \<Longrightarrow>
    settled (pprS (world s)) (nodeS (world s)) \<Longrightarrow>
    MyNodeName r \<noteq> nodeName \<Longrightarrow> sane_safe_time r \<Longrightarrow> run_state (Reconcile env r req) s = (res', s') \<Longrightarrow>
    remediation_rounds env req nodeName pprS nodeS clockS w0 (Suc k) (world s') res'"

text \<open>The stage, with the wait for the reboot as one of its own.\<close>

definition rank :: "PoisonPillRemediation option \<Rightarrow> Node option \<Rightarrow> time \<Rightarrow> nat" where
  "rank po no t = (if rec_stage po no < 3 then rec_stage po no
     else if rec_stage po no = 3 \<and> (\<exists>p tm. po = Some p \<and> backed_up p tm \<and> t < tm) then 3
     else Suc (rec_stage po no))"

lemma requeue_reaches:
  assumes "t < tm" "tm \<le> t + 2 ^ 62"
  shows "sint (time_Sub tm t + Second) = tm - t + 1000000000"
proof -
  have "sint (time_Sub tm t) = tm - t" using assms by (intro sint_time_Sub) auto
  then show ?thesis using assms by (simp add: sint_plus_Second)
qed

lemma idle_settled:
  assumes "idle r po no t res" "rec_inv nm po no t" "settled po no" "MyNodeName r \<noteq> nm"
  shows "rec_stage po no = 7 \<or>
    (\<exists>p tm. rec_stage po no = 3 \<and> po = Some p \<and> backed_up p tm \<and> t < tm \<and>
       tm \<le> t + sint (RequeueAfter (fst res)))"
  using assms
proof (cases rule: idle.cases)
  case (waiting p tm)
  then have "tm \<le> t + 2 ^ 62" using assms(2)
    by (auto simp: rec_inv_def ppr_fits_def split: option.splits)
  with waiting requeue_reaches [of t tm] show ?thesis by (auto simp: requeueAfter_def)
qed (auto simp: rec_inv_def settled_def node_fits_def)

lemma rank_advance:
  "rec_stage po no < rec_stage po' no' \<Longrightarrow> rank po no t < rank po' no' t'"
  using rec_stage_le [of po' no'] by (auto simp: rank_def)

lemma rank_others:
  assumes "rec_inv nm po no t" "others_act po no t po' no' t'"
  shows "rank po no T \<le> rank po' no' T"
proof (cases "po' = None")
  case True
  then show ?thesis using rec_stage_le [of po no] by (auto simp: rank_def rec_stage_def)
next
  case False
  with assms(2) obtain p p' where p: "po = Some p" "po' = Some p'" "ppr_kept p p'"
    by (cases po; cases po') (auto simp: others_act_def)
  then show ?thesis using others_act_inv [OF assms] ppr_kept_simps(4) [OF p(3)] by (simp add: rank_def)
qed

context api_store
begin

lemma run_stage:
  assumes "remediation_run env req pprS nodeS clockS w0 k w"
    and "rec_inv nodeName (pprS w0) (nodeS w0) (clockS w0)"
  shows "rec_inv nodeName (pprS w) (nodeS w) (clockS w) \<and>
    rec_stage (pprS w0) (nodeS w0) + k \<le> rec_stage (pprS w) (nodeS w)"
  using assms
proof (induction rule: remediation_run.induct)
  case start
  then show ?case by simp
next
  case (others k w w')
  then show ?case using others_act_inv by fastforce
next
  case (reconcile k s r res s' changes)
  from leadsD [OF Reconcile_ok reconcile.hyps(3) refl] reconcile
  have "step_ok r (world s) res (world s')" by blast
  with reconcile show ?case by (auto simp: step_post_def advances_def)
qed

end

context api_server
begin

lemma remediation_rounds_rank:
  assumes "remediation_rounds env req nodeName pprS nodeS clockS w0 k w res"
    and "rec_inv nodeName (pprS w0) (nodeS w0) (clockS w0)"
  shows "rec_inv nodeName (pprS w) (nodeS w) (clockS w) \<and>
    (\<forall>t. clockS w \<le> t \<and> clockS w + sint (RequeueAfter (fst res)) \<le> t \<longrightarrow>
       min k 8 \<le> rank (pprS w) (nodeS w) t)"
  using assms
proof (induction rule: remediation_rounds.induct)
  case start
  then show ?case by simp
next
  case (round k w res s r res' s')
  let ?w = "world s" let ?w' = "world s'"
  have inv: "rec_inv nodeName (pprS ?w) (nodeS ?w) (clockS ?w)"
    using round others_act_inv by blast
  have "clockS w \<le> clockS ?w" using round.hyps(2) by (simp add: others_act_def)
  with round have "min k 8 \<le> rank (pprS w) (nodeS w) (clockS ?w)" by blast
  also have "\<dots> \<le> rank (pprS ?w) (nodeS ?w) (clockS ?w)"
    using round rank_others by blast
  finally have k: "min k 8 \<le> rank (pprS ?w) (nodeS ?w) (clockS ?w)" .
  from leadsD [OF Reconcile_ok [OF inv round.hyps(6)] round.hyps(7) refl]
  have ok: "clockS ?w' = clockS ?w"
    "step_post r nodeName (pprS ?w) (nodeS ?w) (clockS ?w) res' (pprS ?w') (nodeS ?w')" by simp_all
  from ok(2) show ?case
    unfolding step_post_def
  proof (elim disjE conjE)
    assume adv: "advances nodeName (pprS ?w) (nodeS ?w) (clockS ?w) (pprS ?w') (nodeS ?w')"
    then have "rank (pprS ?w) (nodeS ?w) (clockS ?w) < rank (pprS ?w') (nodeS ?w') t" for t
      by (intro rank_advance) (simp add: advances_def)
    with k have "Suc (min k 8) \<le> rank (pprS ?w') (nodeS ?w') t" for t by (meson Suc_leI le_less_trans)
    then have "min (Suc k) 8 \<le> rank (pprS ?w') (nodeS ?w') t" for t
      by (rule order_trans [rotated]) simp
    with adv ok(1) show ?thesis by (simp add: advances_def)
  next
    assume same: "pprS ?w' = pprS ?w" "nodeS ?w' = nodeS ?w"
      and "idle r (pprS ?w) (nodeS ?w) (clockS ?w) res'"
    from idle_settled [OF this(3) inv round.hyps(4,5)] k
    have "min (Suc k) 8 \<le> rank (pprS ?w) (nodeS ?w) t"
      if "clockS ?w \<le> t" "clockS ?w + sint (RequeueAfter (fst res')) \<le> t" for t
      using that by (auto simp: rank_def backed_up_def)
    with same ok(1) inv show ?thesis by simp
  qed
qed

end

section \<open>A cluster\<close>

text \<open>
  The API server with one PPR and one node. Every write gets the next revision; an update with another resource version than
  the stored one is a conflict; a node that is created must not have a resource version. \<open>deleteNode\<close> looks at the name only: the controller
  deletes without preconditions.
\<close>

record cluster =
  cl_ppr :: "PoisonPillRemediation option"
  cl_node :: "Node option"
  cl_clock :: time
  cl_rev :: int

abbreviation revision :: "cluster \<Rightarrow> string" where
  "revision w \<equiv> Itoa (cl_rev w)"

definition cluster_env :: "ObjectKey \<Rightarrow> string \<Rightarrow> cluster rec_env" where
  "cluster_env req nm = \<lparr>
     getPPR = (\<lambda>key. gets (\<lambda>w. case (key = req, cl_ppr w) of
        (True, Some p) \<Rightarrow> Inr p | _ \<Rightarrow> Inl NotFound)),
     getNode = (\<lambda>key. gets (\<lambda>w. case (key = \<lparr>key_Namespace = '''', key_Name = nm\<rparr>, cl_node w) of
        (True, Some n) \<Rightarrow> Inr n | _ \<Rightarrow> Inl NotFound)),
     getMachine = (\<lambda>key. ret (Inl NotFound)),
     updatePPR = (\<lambda>p. State (\<lambda>w. case cl_ppr w of
        None \<Rightarrow> (Some NotFound, w)
      | Some q \<Rightarrow> if ResourceVersion (ppr_Meta p) \<noteq> ResourceVersion (ppr_Meta q) then (Some Conflict, w)
          else (None, w\<lparr>cl_rev := cl_rev w + 1, cl_ppr :=
            if Finalizers (ppr_Meta p) = [] \<and> \<not> timePtr_IsZero (DeletionTimestamp (ppr_Meta p))
            then None else Some (ppr_stamped (revision w) (p\<lparr>ppr_Status := ppr_Status q\<rparr>))\<rparr>))),
     updatePPRStatus = (\<lambda>p. State (\<lambda>w. case cl_ppr w of
        None \<Rightarrow> (Some NotFound, w)
      | Some q \<Rightarrow> if ResourceVersion (ppr_Meta p) \<noteq> ResourceVersion (ppr_Meta q) then (Some Conflict, w)
          else (None, w\<lparr>cl_rev := cl_rev w + 1, cl_ppr := Some (ppr_stamped (revision w) (q\<lparr>ppr_Status := (ppr_Status p)
            \<lparr>TimeAssumedRebooted := map_option json_time (TimeAssumedRebooted (ppr_Status p))\<rparr>\<rparr>))\<rparr>))),
     updateNode = (\<lambda>n. State (\<lambda>w. case cl_node w of
        None \<Rightarrow> (Some NotFound, w)
      | Some m \<Rightarrow> if ResourceVersion (node_Meta n) \<noteq> ResourceVersion (node_Meta m) then (Some Conflict, w)
          else (None, w\<lparr>cl_rev := cl_rev w + 1,
            cl_node := Some (node_stamped (UID (node_Meta m)) (revision w) (n\<lparr>node_Status := node_Status m\<rparr>))\<rparr>))),
     deleteNode = (\<lambda>n. State (\<lambda>w. if Name (node_Meta n) = nm \<and> cl_node w \<noteq> None
        then (None, w\<lparr>cl_rev := cl_rev w + 1, cl_node := None\<rparr>) else (Some NotFound, w))),
     createNode = (\<lambda>n. State (\<lambda>w.
        if ResourceVersion (node_Meta n) \<noteq> '''' then (Some (Other ''resourceVersion should not be set on objects to be created''), w)
        else if cl_node w \<noteq> None then (Some AlreadyExists, w)
        else (None, w\<lparr>cl_rev := cl_rev w + 1, cl_node := Some (node_stamped (''uid-'' @ revision w) (revision w)
          (n\<lparr>node_Meta := (node_Meta n)\<lparr>CreationTimestamp := json_time (cl_clock w)\<rparr>\<rparr>))\<rparr>))),
     now = gets cl_clock,
     reboot = ret None\<rparr>"

interpretation cluster: api_server "cluster_env req nm" req nm cl_ppr cl_node cl_clock for req nm
  by unfold_locales (auto simp: cluster_env_def run_gets simp del: if_split split: option.split)

text \<open>
  The same cluster behind a connection that may fail: a request is served, or it does not reach the server, or it is carried
  out and its answer is lost. The list says what happens to the requests to come.
\<close>

datatype fault = served | unreached | unanswered

definition faulty :: "(go_error \<Rightarrow> 'r) \<Rightarrow> (cluster, 'r) state \<Rightarrow> (cluster \<times> fault list, 'r) state" where
  "faulty e m = State (\<lambda>(w, fs). let (r, w') = run_state m w in case fs of
     [] \<Rightarrow> (r, (w', []))
   | served # fs' \<Rightarrow> (r, (w', fs'))
   | unreached # fs' \<Rightarrow> (e (Other ''connection refused''), (w, fs'))
   | unanswered # fs' \<Rightarrow> (e (Other ''timeout''), (w', fs')))"

definition faulty_env :: "ObjectKey \<Rightarrow> string \<Rightarrow> (cluster \<times> fault list) rec_env" where
  "faulty_env req nm = (let env = cluster_env req nm in \<lparr>
     getPPR = (\<lambda>key. faulty Inl (getPPR env key)),
     getNode = (\<lambda>key. faulty Inl (getNode env key)),
     getMachine = (\<lambda>key. faulty Inl (getMachine env key)),
     updatePPR = (\<lambda>p. faulty Some (updatePPR env p)),
     updatePPRStatus = (\<lambda>p. faulty Some (updatePPRStatus env p)),
     updateNode = (\<lambda>n. faulty Some (updateNode env n)),
     deleteNode = (\<lambda>n. faulty Some (deleteNode env n)),
     createNode = (\<lambda>n. faulty Some (createNode env n)),
     now = on_fst (now env),
     reboot = on_fst (reboot env)\<rparr>)"

text \<open>A request of the faulty cluster is one of the cluster, or has failed and was carried out or not.\<close>

lemma run_faulty:
  obtains "run_state (faulty e m) w = (fst (run_state m (fst w)), (snd (run_state m (fst w)), tl (snd w)))"
  | msg where "run_state (faulty e m) w = (e (Other msg), (fst w, tl (snd w)))"
  | msg where "run_state (faulty e m) w = (e (Other msg), (snd (run_state m (fst w)), tl (snd w)))"
proof (cases "snd w")
  case Nil
  then show ?thesis using that(1) by (cases w) (simp add: faulty_def case_prod_beta)
next
  case (Cons f fs)
  then show ?thesis using that by (cases w; cases f) (auto simp: faulty_def case_prod_beta)
qed

interpretation faulty: api_store "faulty_env req nm" req nm "\<lambda>w. cl_ppr (fst w)" "\<lambda>w. cl_node (fst w)" "\<lambda>w. cl_clock (fst w)" False
  for req nm
proof (unfold_locales, goal_cases)
  case (1 w)
  show ?case by (rule run_faulty [of Inl "getPPR (cluster_env req nm) req" w])
    (auto simp: faulty_env_def cluster_env_def run_gets split: option.split)
next
  case (2 w)
  show ?case by (rule run_faulty [of Inl "getNode (cluster_env req nm) \<lparr>key_Namespace = '''', key_Name = nm\<rparr>" w])
    (auto simp: faulty_env_def cluster_env_def run_gets split: option.split)
next
  case (3 w)
  show ?case by (cases w) (simp add: faulty_env_def cluster_env_def run_gets on_fst_def)
next
  case (4 w q p)
  show ?case by (rule run_faulty [of Some "updatePPR (cluster_env req nm) p" w])
    (use 4 in \<open>auto simp: faulty_env_def cluster_env_def simp del: if_split\<close>)
next
  case (5 w q p)
  show ?case by (rule run_faulty [of Some "updatePPRStatus (cluster_env req nm) p" w])
    (use 5 in \<open>auto simp: faulty_env_def cluster_env_def\<close>)
next
  case (6 w m n)
  show ?case by (rule run_faulty [of Some "updateNode (cluster_env req nm) n" w])
    (use 6 in \<open>auto simp: faulty_env_def cluster_env_def\<close>)
next
  case (7 w m n)
  show ?case by (rule run_faulty [of Some "deleteNode (cluster_env req nm) n" w])
    (use 7 in \<open>auto simp: faulty_env_def cluster_env_def\<close>)
next
  case (8 w n)
  show ?case by (rule run_faulty [of Some "createNode (cluster_env req nm) n" w])
    (use 8 in \<open>auto simp: faulty_env_def cluster_env_def\<close>)
qed (simp_all add: faulty_env_def cluster_env_def on_fst_def case_prod_beta)

text \<open>What the others may do between two rounds, and that it settles the cluster.\<close>

definition settle_node :: "PoisonPillRemediation \<Rightarrow> Node \<Rightarrow> Node" where
  "settle_node p n =
     (if is_new p n
      then n\<lparr>node_Status := (node_Status n)\<lparr>status_Conditions := [\<lparr>cond_Type = ''Ready'',
        cond_Status = ''True'', cond_LastHeartbeatTime = 0, cond_LastTransitionTime = 0,
        cond_Reason = '''', cond_Message = ''''\<rparr>]\<rparr>\<rparr>
      else n\<lparr>node_Spec := (node_Spec n)\<lparr>spec_Taints := [NodeUnschedulableTaint]\<rparr>\<rparr>)"

definition settle :: "time \<Rightarrow> cluster \<Rightarrow> cluster" where
  "settle d w = w\<lparr>cl_clock := cl_clock w + max 0 d,
     cl_node := (case cl_ppr w of None \<Rightarrow> cl_node w | Some p \<Rightarrow> map_option (settle_node p) (cl_node w))\<rparr>"

lemma settle_ok:
  "others_act (cl_ppr w) (cl_node w) (cl_clock w)
     (cl_ppr (settle d w)) (cl_node (settle d w)) (cl_clock (settle d w))"
  "cl_clock w + d \<le> cl_clock (settle d w)"
  "settled (cl_ppr (settle d w)) (cl_node (settle d w))"
proof -
  have "node_kept n n" "node_kept n (settle_node p n)" "ppr_kept p p" for p n
    by (simp_all add: node_kept_def settle_node_def ppr_kept_refl)
  then show "others_act (cl_ppr w) (cl_node w) (cl_clock w)
      (cl_ppr (settle d w)) (cl_node (settle d w)) (cl_clock (settle d w))"
    by (auto simp: others_act_def settle_def option.rel_map intro!: option.rel_refl split: option.split)
  show "cl_clock w + d \<le> cl_clock (settle d w)" by (simp add: settle_def)
  have "is_new p (settle_node p n) = is_new p n" "is_new p n \<Longrightarrow> node_ready (settle_node p n)"
    "\<not> is_new p n \<Longrightarrow> TaintExists (spec_Taints (node_Spec (settle_node p n))) NodeUnschedulableTaint" for p n
    by (simp_all add: settle_node_def is_new_def node_ready_def getReadyCond_def)
  then show "settled (cl_ppr (settle d w)) (cl_node (settle d w))"
    by (auto simp: settled_def settle_def)
qed

definition fresh_agent :: "'s \<Rightarrow> 's rec_state" where
  "fresh_agent w = \<lparr>world = w, trace = [], lastSeenPprNamespace = '''', wasLastSeenPprMachine = False\<rparr>"

lemma remediation_rounds_go_on:
  assumes "MyNodeName r \<noteq> nm" "sane_safe_time r"
  shows "\<exists>w res. remediation_rounds (cluster_env req nm) req nm cl_ppr cl_node cl_clock w0 k w res"
proof (induction k)
  case 0
  show ?case by (intro exI) (rule remediation_rounds.start)
next
  case (Suc k)
  then obtain w res where Suc_rounds: "remediation_rounds (cluster_env req nm) req nm cl_ppr cl_node cl_clock w0 k w res"
    by blast
  let ?s = "fresh_agent (settle (sint (RequeueAfter (fst res))) w)"
  obtain res' s' where "run_state (Reconcile (cluster_env req nm) r req) ?s = (res', s')" by fastforce
  then have "remediation_rounds (cluster_env req nm) req nm cl_ppr cl_node cl_clock w0 (Suc k) (world s') res'"
    using remediation_rounds.round [OF Suc_rounds, of ?s r res' s'] assms settle_ok by (simp add: fresh_agent_def)
  then show ?case by blast
qed

section \<open>Properties\<close>

text \<open>
  C4. Also when requests fail, a remediation makes progress only. Take any number of agents, also the one on the
  unhealthy node, that reconcile a PPR (not one owned by a machine) one after the other, each reconcile from its first request to its last
  with nobody in between, and the others acting between reconciles as \<open>others_act\<close> says. Any request may fail,
  and a write that fails may have been carried out or not. Then every reconcile that changes anything takes the remediation to a
  later stage, so at most seven reconciles change anything; the rest only read. (Reconciles that overlap are another matter: see
  \<open>late_delete_undoes\<close>.)
\<close>

theorem changes_bounded:
  assumes "api_store env req nm pprS nodeS clockS reliable"
    and "rec_inv nm (pprS w0) (nodeS w0) (clockS w0)"
    and "remediation_run env req pprS nodeS clockS w0 k w"
  shows "rec_stage (pprS w0) (nodeS w0) + k \<le> rec_stage (pprS w) (nodeS w) \<and> k \<le> 7"
  using api_store.run_stage [OF assms(1,3,2)] rec_stage_le [of "pprS w" "nodeS w"] by simp

text \<open>A remediation at its start: the PPR has just been made for a node that is in use.\<close>

definition start_node :: Node where
  "start_node = \<lparr>node_Kind = ''Node'', node_APIVersion = ''v1'',
     node_Meta = emptyMeta\<lparr>Name := ''node1'', UID := ''uid-1'', ResourceVersion := ''1''\<rparr>,
     node_Spec = \<lparr>spec_PodCIDR = '''', spec_PodCIDRs = [], spec_ProviderID = '''',
       spec_Unschedulable = False, spec_Taints = []\<rparr>,
     node_Status = emptyNodeStatus\<rparr>"

definition start_ppr :: PoisonPillRemediation where
  "start_ppr = \<lparr>ppr_Type = emptyType,
     ppr_Meta = emptyMeta\<lparr>Name := ''node1'', Namespace := ''ns'', UID := ''uid-2'', ResourceVersion := ''2''\<rparr>,
     ppr_Spec = PoisonPillRemediationSpec,
     ppr_Status = \<lparr>NodeBackup = None, TimeAssumedRebooted = None, ppr_Phase = None\<rparr>\<rparr>"

definition start_req :: ObjectKey where
  "start_req = \<lparr>key_Namespace = ''ns'', key_Name = ''node1''\<rparr>"

definition start_cluster :: cluster where
  "start_cluster = \<lparr>cl_ppr = Some start_ppr, cl_node = Some start_node, cl_clock = 1000000000, cl_rev = 3\<rparr>"

definition healthy_agent :: PoisonPillRemediationReconciler where
  "healthy_agent = \<lparr>SafeTimeToAssumeNodeRebooted = 185 * Second, MyNodeName = ''node2''\<rparr>"

lemma start_inv: "rec_inv ''node1'' (cl_ppr start_cluster) (cl_node start_cluster) (cl_clock start_cluster)"
  by (simp add: rec_inv_def ppr_fits_def node_fits_def backed_up_def is_new_def first_machine_def
      start_cluster_def start_ppr_def start_node_def emptyMeta_def zeroTime_def)

lemma healthy_agent_ok: "MyNodeName healthy_agent \<noteq> ''node1''" "sane_safe_time healthy_agent"
  by (simp_all add: healthy_agent_def sane_safe_time_def Second_def)

text \<open>The first update is carried out and its answer is lost: the reconcile fails, and it has changed the PPR.\<close>

theorem changes_bounded_witness:
  "\<exists>w. remediation_run (faulty_env start_req ''node1'') start_req (\<lambda>w. cl_ppr (fst w)) (\<lambda>w. cl_node (fst w))
      (\<lambda>w. cl_clock (fst w)) (start_cluster, [served, served, unanswered]) 1 w
    \<and> Suc 0 \<le> rec_stage (cl_ppr (fst w)) (cl_node (fst w))"
proof -
  let ?w = "(start_cluster, [served, served, unanswered])"
  let ?run = "run_state (Reconcile (faulty_env start_req ''node1'') healthy_agent start_req) (fresh_agent ?w)"
  have "cl_ppr (fst (world (snd ?run))) \<noteq> cl_ppr start_cluster"
    by (simp add: Reconcile_def getNodeFromPpr_def Reconcile_unhealthy_def run_simps faulty_env_def faulty_def cluster_env_def
        fresh_agent_def start_cluster_def start_ppr_def start_node_def start_req_def emptyMeta_def time_After_def
        AddFinalizer_def ppr_stamped_def Let_def)
  then have "remediation_run (faulty_env start_req ''node1'') start_req (\<lambda>w. cl_ppr (fst w)) (\<lambda>w. cl_node (fst w))
      (\<lambda>w. cl_clock (fst w)) ?w (0 + 1) (world (snd ?run))"
    using healthy_agent_ok(2) remediation_run.start
    by (intro remediation_run.reconcile [where s = "fresh_agent ?w" and r = healthy_agent and res = "fst ?run"
          and s' = "snd ?run"]) (auto simp: fresh_agent_def)
  then have run: "remediation_run (faulty_env start_req ''node1'') start_req (\<lambda>w. cl_ppr (fst w)) (\<lambda>w. cl_node (fst w))
      (\<lambda>w. cl_clock (fst w)) ?w 1 (world (snd ?run))" by simp
  from changes_bounded [OF faulty.api_store_axioms _ run] start_inv
  have "Suc 0 \<le> rec_stage (cl_ppr (fst (world (snd ?run)))) (cl_node (fst (world (snd ?run))))" by simp
  with run show ?thesis by blast
qed

text \<open>
  C3. A remediation gets to its end. Agents on healthy nodes, in any order, each with its own
  safe time, are called again when they have asked for it or later; when they are called, an unschedulable
  node has its taint and a node that came back is ready. Then after eight calls the node exists and
  is schedulable, and the PPR is gone or has neither backup nor finalizer and is older than the node.
\<close>

theorem remediation_completes:
  assumes "api_server env req nm pprS nodeS clockS"
    and "rec_inv nm (pprS w0) (nodeS w0) (clockS w0)"
    and "remediation_rounds env req nm pprS nodeS clockS w0 k w res" and "8 \<le> k"
  shows "\<exists>n. nodeS w = Some n \<and> Name (node_Meta n) = nm \<and> \<not> spec_Unschedulable (node_Spec n) \<and>
    (\<forall>p. pprS w = Some p \<longrightarrow> is_new p n \<and> NodeBackup (ppr_Status p) = None \<and> \<not> has_finalizer p)"
proof -
  let ?t = "max (clockS w) (clockS w + sint (RequeueAfter (fst res)))"
  from api_server.remediation_rounds_rank [OF assms(1,3,2)] have inv: "rec_inv nm (pprS w) (nodeS w) (clockS w)"
    and "min k 8 \<le> rank (pprS w) (nodeS w) ?t" by auto
  then have "rec_stage (pprS w) (nodeS w) = 7"
    using assms(4) rec_stage_le [of "pprS w" "nodeS w"] by (auto simp: rank_def split: if_splits)
  with inv show ?thesis
    by (auto simp: rec_inv_def rec_stage_def node_fits_def split: option.splits if_splits)
qed

theorem remediation_completes_witness:
  "\<exists>w res n. remediation_rounds (cluster_env start_req ''node1'') start_req ''node1'' cl_ppr cl_node cl_clock
      start_cluster 8 w res \<and> cl_node w = Some n \<and> Name (node_Meta n) = ''node1''"
proof -
  obtain w res where r: "remediation_rounds (cluster_env start_req ''node1'') start_req ''node1'' cl_ppr cl_node
      cl_clock start_cluster 8 w res"
    using remediation_rounds_go_on [OF healthy_agent_ok] by blast
  from remediation_completes [OF cluster.api_server_axioms start_inv r] obtain n where
    "cl_node w = Some n" "Name (node_Meta n) = ''node1''" by auto
  with r show ?thesis by blast
qed

section \<open>Reconciles that overlap\<close>

text \<open>
  A remediation whose safe time is over, so that every agent on another node is about to delete the node.
\<close>

definition late_node :: Node where
  "late_node = start_node\<lparr>node_Spec := (node_Spec start_node)\<lparr>spec_Unschedulable := True, spec_Taints := [NodeUnschedulableTaint]\<rparr>\<rparr>"

definition late_ppr :: PoisonPillRemediation where
  "late_ppr = start_ppr\<lparr>ppr_Meta := (ppr_Meta start_ppr)\<lparr>Finalizers := [PPRFinalizer]\<rparr>,
     ppr_Status := (ppr_Status start_ppr)\<lparr>NodeBackup := Some late_node, TimeAssumedRebooted := Some 100000000000\<rparr>\<rparr>"

definition late_cluster :: cluster where
  "late_cluster = \<lparr>cl_ppr = Some late_ppr, cl_node = Some late_node, cl_clock = 200000000000, cl_rev = 3\<rparr>"

definition reconciled :: "cluster \<Rightarrow> cluster" where
  "reconciled w = world (snd (run_state (Reconcile (cluster_env start_req ''node1'') healthy_agent start_req) (fresh_agent w)))"

lemmas late_defs = reconciled_def Reconcile_def getNodeFromPpr_def Reconcile_unhealthy_def Reconcile_reboot_def
  Reconcile_restored_def handleDeletedNode_def restoreNode_def
  run_simps cluster_env_def fresh_agent_def late_cluster_def late_ppr_def late_node_def start_ppr_def start_node_def start_req_def
  emptyMeta_def healthy_agent_def time_After_def ppr_stamped_def node_stamped_def Let_def json_time_def DeleteTaint_eq zeroTime_def IsNotFound_def

text \<open>
  An agent reads the PPR, the node and the clock, and is held up before its \<open>Delete\<close>. Another one deletes the node, restores
  it and drops the backup. Then the \<open>Delete\<close> of the first one arrives. It has no precondition on the identity or the version
  of the node that was read, so it removes the node that was restored; its backup is gone, and no reconcile of
  any agent creates it again.
\<close>

lemma late_delete_undoes:
  "trace (snd (run_state (Reconcile (cluster_env start_req ''node1'') healthy_agent start_req) (fresh_agent late_cluster))) =
     [EGetPPR start_req (Inr late_ppr), EGetNode \<lparr>key_Namespace = '''', key_Name = ''node1''\<rparr> (Inr late_node),
      ENow 200000000000, EDeleteNode late_node None]"
  "\<exists>n. cl_node (reconciled (reconciled (reconciled late_cluster))) = Some n \<and> is_new late_ppr n \<and> UID (node_Meta n) = ''uid-4''"
  "\<exists>w. run_state (deleteNode (cluster_env start_req ''node1'') late_node) (reconciled (reconciled (reconciled late_cluster))) = (None, w) \<and>
     cl_node w = None \<and>
     (\<forall>r s. cl_ppr (world s) = cl_ppr w \<and> cl_node (world s) = None \<longrightarrow>
       (let s' = snd (run_state (Reconcile (cluster_env start_req ''node1'') r start_req) s) in
        cl_ppr (world s') = cl_ppr w \<and> cl_node (world s') = None))"
proof -
  let ?env = "cluster_env start_req ''node1''" and ?w = "reconciled (reconciled (reconciled late_cluster))"
  show "\<exists>n. cl_node ?w = Some n \<and> is_new late_ppr n \<and> UID (node_Meta n) = ''uid-4''"
    by (simp add: late_defs Itoa_def digits_before.simps [of 4] digit_def char_of_def bit_0 is_new_def)
  obtain p where p: "cl_ppr ?w = Some p" "NodeBackup (ppr_Status p) = None" "first_machine p = None" "Name (ppr_Meta p) = ''node1''"
    and "cl_node ?w \<noteq> None"
    by (simp add: late_defs first_machine_def)
  moreover have "leads (Reconcile ?env r start_req) w (\<lambda>_ w'. cl_ppr w' = Some p \<and> cl_node w' = None)"
    if "cl_ppr w = Some p" "cl_node w = None" for r w
    by (rule cluster.leads_Reconcile [OF that(1) p(3,4)])
      (use that p(2) in \<open>auto simp: handleDeletedNode_def intro!: leads_ret\<close>)
  ultimately show "\<exists>w. run_state (deleteNode ?env late_node) ?w = (None, w) \<and> cl_node w = None \<and>
     (\<forall>r s. cl_ppr (world s) = cl_ppr w \<and> cl_node (world s) = None \<longrightarrow>
       (let s' = snd (run_state (Reconcile ?env r start_req) s) in cl_ppr (world s') = cl_ppr w \<and> cl_node (world s') = None))"
    by (auto simp: cluster_env_def late_node_def start_node_def leads_def Let_def)
qed (simp add: late_defs)

end
