(* ===== verification/Go_Memory.thy ===== *)
theory Go_Memory
  imports Prelude "HOL-Library.AList"
begin

text \<open>
  Memory, pointers and types of Go, as far as copying objects needs them. The rest of the development
  passes API objects as values; that is right only because nobody changes an object that somebody else
  still holds, which is what the generated deep-copy methods are for. Here an object is a value in
  a memory of cells, a struct can hold references to other cells, and assignment copies the references
  and not the cells. A \<open>ty\<close> is the Go type of a value, and \<open>unfold\<close> reads the value behind all
  references, which is what \<open>reflect.DeepEqual\<close> compares. The locale \<open>deep_copier\<close> is the contract of
  a function that copies: it never panics, it only allocates, and what it returns has the same
  unfolding in the new cells alone, so that it shares no cell with what existed before.
\<close>

named_theorems copiers \<open>the copying functions that fulfil the contract\<close>

section \<open>Types, values and memory\<close>

datatype basic = StringT | IntT | BoolT | TimeT

text \<open>
  A map has strings as its keys, as all maps of the copied types. \<open>metav1.Time\<close> is basic: it is
  documented to be immutable and is copied by assignment.
\<close>

datatype ty =
    Basic basic
  | Pointer ty
  | SliceOf ty
  | MapOf ty
  | StructOf "(string \<times> ty) list"

datatype prim = PString string | PInt int | PBool bool | PTime time

type_synonym addr = nat

text \<open>\<open>NilRef\<close> is the nil pointer, the nil slice and the nil map.\<close>

datatype val =
    Prim prim
  | NilRef
  | Ref addr
  | Struct "(string \<times> val) list"

text \<open>
  What a reference leads to: a variable (\<open>new\<close>), the elements of a slice, or the entries of a map. The
  entries are in the order in which \<open>range\<close> visits them, which Go leaves open.
\<close>

datatype cell =
    Var val
  | Elems "val list"
  | Entries "(string \<times> val) list"

type_synonym heap = "cell list"

definition mem :: "heap \<Rightarrow> addr \<rightharpoonup> cell" where
  "mem h a = (if a < length h then Some (h ! a) else None)"

fun prim_type :: "prim \<Rightarrow> basic" where
  "prim_type (PString s) = StringT"
| "prim_type (PInt i) = IntT"
| "prim_type (PBool b) = BoolT"
| "prim_type (PTime t) = TimeT"

text \<open>The zero value of a type.\<close>

fun zero_prim :: "basic \<Rightarrow> prim" where
  "zero_prim StringT = PString ''''"
| "zero_prim IntT = PInt 0"
| "zero_prim BoolT = PBool False"
| "zero_prim TimeT = PTime zeroTime"

fun zero :: "ty \<Rightarrow> val" where
  "zero (Basic b) = Prim (zero_prim b)"
| "zero (Pointer t) = NilRef"
| "zero (SliceOf t) = NilRef"
| "zero (MapOf t) = NilRef"
| "zero (StructOf fs) = Struct (map (\<lambda>(n, t). (n, zero t)) fs)"

section \<open>The unfolding of a value\<close>

datatype tree =
    Leaf prim
  | NilTree
  | PointerTree tree
  | SliceTree "tree list"
  | MapTree "(string \<times> tree) list"
  | StructTree "(string \<times> tree) list"

text \<open>
  \<open>unfold m t v\<close> is the value \<open>v\<close> of type \<open>t\<close> with everything behind its references in the memory \<open>m\<close>;
  it is \<open>None\<close> if \<open>v\<close> is not of that type there.
\<close>

fun unfold :: "(addr \<rightharpoonup> cell) \<Rightarrow> ty \<Rightarrow> val \<Rightarrow> tree option"
  and unfold_fields :: "(addr \<rightharpoonup> cell) \<Rightarrow> (string \<times> ty) list \<Rightarrow> (string \<times> val) list \<Rightarrow>
    (string \<times> tree) list option" where
  "unfold m (Basic b) v =
     (case v of Prim p \<Rightarrow> if prim_type p = b then Some (Leaf p) else None | _ \<Rightarrow> None)"
| "unfold m (Pointer t) v =
     (case v of
        NilRef \<Rightarrow> Some NilTree
      | Ref a \<Rightarrow> (case m a of Some (Var w) \<Rightarrow> map_option PointerTree (unfold m t w) | _ \<Rightarrow> None)
      | _ \<Rightarrow> None)"
| "unfold m (SliceOf t) v =
     (case v of
        NilRef \<Rightarrow> Some NilTree
      | Ref a \<Rightarrow> (case m a of
          Some (Elems vs) \<Rightarrow> map_option SliceTree (those (map (\<lambda>w. unfold m t w) vs))
        | _ \<Rightarrow> None)
      | _ \<Rightarrow> None)"
| "unfold m (MapOf t) v =
     (case v of
        NilRef \<Rightarrow> Some NilTree
      | Ref a \<Rightarrow> (case m a of
          Some (Entries es) \<Rightarrow>
            if distinct (map fst es)
            then map_option (\<lambda>gs. MapTree (zip (map fst es) gs))
                   (those (map (\<lambda>w. unfold m t w) (map snd es)))
            else None
        | _ \<Rightarrow> None)
      | _ \<Rightarrow> None)"
| "unfold m (StructOf fs) v =
     (case v of Struct vs \<Rightarrow> map_option StructTree (unfold_fields m fs vs) | _ \<Rightarrow> None)"
| "unfold_fields m [] vs = (if vs = [] then Some [] else None)"
| "unfold_fields m ((n, t) # fs) vs =
     (case vs of
        [] \<Rightarrow> None
      | (k, v) # vs' \<Rightarrow>
          (if k = n then
             (case unfold m t v of
                None \<Rightarrow> None
              | Some g \<Rightarrow> map_option (\<lambda>gs. (n, g) # gs) (unfold_fields m fs vs'))
           else None))"

text \<open>A type without references.\<close>

fun flat :: "ty \<Rightarrow> bool" where
  "flat (Basic b) = True"
| "flat (StructOf fs) = (\<forall>(n, t) \<in> set fs. flat t)"
| "flat t = False"

section \<open>Statements\<close>

type_synonym 'a go = "heap \<Rightarrow> ('a \<times> heap) call"

type_synonym copier = "val \<Rightarrow> val go"

definition go_return :: "'a \<Rightarrow> 'a go" where
  "go_return x = (\<lambda>h. Return (x, h))"

definition go_bind :: "'a go \<Rightarrow> ('a \<Rightarrow> 'b go) \<Rightarrow> 'b go" where
  "go_bind m f = (\<lambda>h. case m h of Return (x, h') \<Rightarrow> f x h' | Panic \<Rightarrow> Panic | Block \<Rightarrow> Block)"

text \<open>\<open>*p\<close>, \<open>*p = v\<close> and \<open>new(T)\<close>. Going through a nil pointer panics.\<close>

definition load :: "val \<Rightarrow> val go" where
  "load p = (\<lambda>h. case p of
      Ref a \<Rightarrow> (case mem h a of Some (Var v) \<Rightarrow> Return (v, h) | _ \<Rightarrow> Panic)
    | _ \<Rightarrow> Panic)"

definition store :: "val \<Rightarrow> val \<Rightarrow> unit go" where
  "store p v = (\<lambda>h. case p of
      Ref a \<Rightarrow> (case mem h a of Some (Var w) \<Rightarrow> Return ((), h[a := Var v]) | _ \<Rightarrow> Panic)
    | _ \<Rightarrow> Panic)"

definition new :: "ty \<Rightarrow> val go" where
  "new t = (\<lambda>h. Return (Ref (length h), h @ [Var (zero t)]))"

text \<open>The elements of a slice, \<open>s[i]\<close>, \<open>s[i] = v\<close>, \<open>make([]T, n)\<close> and the built-in \<open>copy(dst, src)\<close>.\<close>

definition elems :: "val \<Rightarrow> val list go" where
  "elems s = (\<lambda>h. case s of
      NilRef \<Rightarrow> Return ([], h)
    | Ref a \<Rightarrow> (case mem h a of Some (Elems vs) \<Rightarrow> Return (vs, h) | _ \<Rightarrow> Panic)
    | _ \<Rightarrow> Panic)"

definition get_elem :: "val \<Rightarrow> nat \<Rightarrow> val go" where
  "get_elem s i = go_bind (elems s) (\<lambda>vs h. if i < length vs then Return (vs ! i, h) else Panic)"

definition set_elems :: "val \<Rightarrow> val list \<Rightarrow> unit go" where
  "set_elems s vs = (\<lambda>h. case s of
      Ref a \<Rightarrow> (case mem h a of Some (Elems ws) \<Rightarrow> Return ((), h[a := Elems vs]) | _ \<Rightarrow> Panic)
    | _ \<Rightarrow> Panic)"

definition set_elem :: "val \<Rightarrow> nat \<Rightarrow> val \<Rightarrow> unit go" where
  "set_elem s i v = go_bind (elems s)
     (\<lambda>vs. if i < length vs then set_elems s (vs[i := v]) else (\<lambda>h. Panic))"

definition make_slice :: "ty \<Rightarrow> nat \<Rightarrow> val go" where
  "make_slice t n = (\<lambda>h. Return (Ref (length h), h @ [Elems (replicate n (zero t))]))"

definition builtin_copy :: "val \<Rightarrow> val \<Rightarrow> unit go" where
  "builtin_copy dst src = go_bind (elems src) (\<lambda>vs. go_bind (elems dst) (\<lambda>ws.
     set_elems dst (take (length ws) vs @ drop (length vs) ws)))"

text \<open>The entries of a map, \<open>m[k] = v\<close> and \<open>make(map[string]T)\<close>.\<close>

definition entries :: "val \<Rightarrow> (string \<times> val) list go" where
  "entries d = (\<lambda>h. case d of
      NilRef \<Rightarrow> Return ([], h)
    | Ref a \<Rightarrow> (case mem h a of Some (Entries es) \<Rightarrow> Return (es, h) | _ \<Rightarrow> Panic)
    | _ \<Rightarrow> Panic)"

definition set_entry :: "val \<Rightarrow> string \<Rightarrow> val \<Rightarrow> unit go" where
  "set_entry d k v = (\<lambda>h. case d of
      Ref a \<Rightarrow> (case mem h a of
          Some (Entries es) \<Rightarrow> Return ((), h[a := Entries (AList.update k v es)])
        | _ \<Rightarrow> Panic)
    | _ \<Rightarrow> Panic)"

definition make_map :: "val go" where
  "make_map = (\<lambda>h. Return (Ref (length h), h @ [Entries []]))"

section \<open>The patterns of the generated code\<close>

text \<open>
  The generator writes, for a type \<open>T\<close>, a method \<open>DeepCopyInto(out *T)\<close> whose receiver \<open>in\<close> is a pointer
  too. A \<open>copier\<close> is its body: it is given the value of \<open>*in\<close> and returns the value that \<open>*out\<close> has at
  the end. \<open>*out = *in\<close> alone is \<open>assign\<close>.
\<close>

definition assign :: copier where
  "assign v = go_return v"

definition deepCopyInto :: "copier \<Rightarrow> val \<Rightarrow> val \<Rightarrow> unit go" where
  "deepCopyInto f inp out = go_bind (load inp) (\<lambda>v. go_bind (store out v) (\<lambda>_.
     go_bind (f v) (\<lambda>v'. store out v')))"

text \<open>\<open>out := new(T); in.DeepCopyInto(out); return out\<close>\<close>

definition new_copy :: "ty \<Rightarrow> copier \<Rightarrow> copier" where
  "new_copy t f inp = go_bind (new t) (\<lambda>out. go_bind (deepCopyInto f inp out) (\<lambda>_. go_return out))"

text \<open>
  \<open>if in == nil { return nil }\<close>, and for a field \<open>if in.F != nil { ... }\<close> after \<open>*out = *in\<close>.
\<close>

definition unless_nil :: "copier \<Rightarrow> copier" where
  "unless_nil f v = (if v = NilRef then go_return v else f v)"

definition DeepCopy :: "ty \<Rightarrow> copier \<Rightarrow> copier" where
  "DeepCopy t f inp = unless_nil (new_copy t f) inp"

text \<open>\<open>for i := range *in { (*in)[i].DeepCopyInto(&(*out)[i]) }\<close>\<close>

fun copy_elems :: "copier \<Rightarrow> val \<Rightarrow> val \<Rightarrow> nat list \<Rightarrow> unit go" where
  "copy_elems f inp out [] = go_return ()"
| "copy_elems f inp out (i # is) = go_bind (get_elem inp i) (\<lambda>v. go_bind (f v) (\<lambda>v'.
     go_bind (set_elem out i v') (\<lambda>_. copy_elems f inp out is)))"

definition copy_slice :: "ty \<Rightarrow> copier \<Rightarrow> copier" where
  "copy_slice t f inp = go_bind (elems inp) (\<lambda>vs. go_bind (make_slice t (length vs)) (\<lambda>out.
     go_bind (copy_elems f inp out [0..<length vs]) (\<lambda>_. go_return out)))"

text \<open>\<open>*out = make([]T, len(*in)); copy(*out, *in)\<close>\<close>

definition copy_flat_slice :: "ty \<Rightarrow> copier" where
  "copy_flat_slice t inp = go_bind (elems inp) (\<lambda>vs. go_bind (make_slice t (length vs)) (\<lambda>out.
     go_bind (builtin_copy out inp) (\<lambda>_. go_return out)))"

text \<open>\<open>for key, val := range *in { (*out)[key] = ... }\<close>\<close>

fun copy_entries :: "copier \<Rightarrow> val \<Rightarrow> (string \<times> val) list \<Rightarrow> unit go" where
  "copy_entries f out [] = go_return ()"
| "copy_entries f out ((key, v) # es) = go_bind (f v) (\<lambda>v'. go_bind (set_entry out key v') (\<lambda>_.
     copy_entries f out es))"

definition copy_map :: "copier \<Rightarrow> copier" where
  "copy_map f inp = go_bind (entries inp) (\<lambda>es. go_bind make_map (\<lambda>out.
     go_bind (copy_entries f out es) (\<lambda>_. go_return out)))"

text \<open>
  The body for a struct: after \<open>*out = *in\<close> the listed fields are copied in turn, each from the
  field of \<open>in\<close> into the one of \<open>out\<close>.
\<close>

fun copy_fields :: "(string \<times> copier) list \<Rightarrow> (string \<times> val) list \<Rightarrow> (string \<times> val) list \<Rightarrow>
    (string \<times> val) list go" where
  "copy_fields [] ins outs = go_return outs"
| "copy_fields ((n, f) # fs) ins outs =
     (case map_of ins n of
        None \<Rightarrow> (\<lambda>h. Panic)
      | Some v \<Rightarrow> go_bind (f v) (\<lambda>v'. copy_fields fs ins (AList.update n v' outs)))"

definition copy_struct :: "(string \<times> copier) list \<Rightarrow> copier" where
  "copy_struct fs v =
     (case v of
        Struct vs \<Rightarrow> go_bind (copy_fields fs vs vs) (\<lambda>vs'. go_return (Struct vs'))
      | _ \<Rightarrow> (\<lambda>h. Panic))"

text \<open>
  An interface value: nil, or a dynamic type with a value. \<open>DeepCopyObject\<close> returns one, and takes care
  not to put a nil pointer into it.
\<close>

datatype iface = NilInterface | Interface string val

definition DeepCopyObject :: "string \<Rightarrow> copier \<Rightarrow> val \<Rightarrow> iface go" where
  "DeepCopyObject T dc inp = go_bind (dc inp)
     (\<lambda>c. if c \<noteq> NilRef then go_return (Interface T c) else go_return NilInterface)"

end
