(* ===== verification/Go_Copying.thy ===== *)
theory Go_Copying
  imports Go_Memory
begin

text \<open>
  The contract of a copying function, as a locale: it returns, it changes no cell that exists, and the
  value it returns unfolds in the new cells alone to what the original unfolds to. Inside the
  locale the contract is lifted from a type to pointers, slices and maps of it; a struct fulfils it
  if every field is copied by such a function or has a type without references.
\<close>

section \<open>Memory that only grows\<close>

text \<open>The cells of \<open>h'\<close> that \<open>h\<close> does not have.\<close>

definition fresh :: "heap \<Rightarrow> heap \<Rightarrow> addr \<rightharpoonup> cell" where
  "fresh h h' = mem h' |` {length h..}"

lemma mem_append [simp]:
  "mem (h @ cs) a = (if a < length h then Some (h ! a) else mem cs (a - length h))"
  by (auto simp: mem_def nth_append)

lemma mem_append_le: "mem h \<subseteq>\<^sub>m mem (h @ cs)"
  by (auto simp: map_le_def mem_def nth_append)

lemma fresh_le: "fresh h h' \<subseteq>\<^sub>m mem h'"
  by (auto simp: fresh_def map_le_def restrict_map_def split: if_splits)

lemma fresh_later_le: "fresh (h @ ds) (h @ ds @ cs) \<subseteq>\<^sub>m fresh h (h @ ds @ cs @ cs')"
  by (auto simp: fresh_def map_le_def restrict_map_def mem_def nth_append split: if_splits)

lemma fresh_around_le: "fresh (h @ c # ds) (h @ (c # ds) @ cs) \<subseteq>\<^sub>m fresh h (h @ c' # ds @ cs @ cs')"
  by (auto simp: fresh_def map_le_def restrict_map_def mem_def nth_append nth_Cons' split: if_splits)

lemma fresh_at [simp]: "fresh h (h @ c # cs) (length h) = Some c"
  by (simp add: fresh_def mem_def)

section \<open>Unfolding in a larger memory\<close>

lemma those_Some_iff: "those xs = Some ys \<longleftrightarrow> xs = map Some ys"
  by (induction xs arbitrary: ys) (auto split: option.splits)

lemma those_map_mono:
  "those (map F vs) = Some gs \<Longrightarrow> (\<And>v g. v \<in> set vs \<Longrightarrow> F v = Some g \<Longrightarrow> G v = Some g) \<Longrightarrow>
    those (map G vs) = Some gs"
  by (induction vs arbitrary: gs) (auto split: option.splits)

lemma map_leD: "m \<subseteq>\<^sub>m m' \<Longrightarrow> m a = Some c \<Longrightarrow> m' a = Some c"
  by (auto simp: map_le_def dom_def)

lemma unfold_mono:
  shows "unfold m t v = Some g \<Longrightarrow> m \<subseteq>\<^sub>m m' \<Longrightarrow> unfold m' t v = Some g"
    and "unfold_fields m fs vs = Some gs \<Longrightarrow> m \<subseteq>\<^sub>m m' \<Longrightarrow> unfold_fields m' fs vs = Some gs"
proof (induction m t v and m fs vs arbitrary: g and gs rule: unfold_unfold_fields.induct)
  case (2 m t v)
  then show ?case by (auto dest: map_leD split: val.splits option.splits cell.splits)
next
  case (3 m t v)
  then show ?case
    by (auto dest!: map_leD split: val.splits option.splits cell.splits
        elim!: those_map_mono)
next
  case (4 m t v)
  then show ?case
    by (auto dest!: map_leD simp del: map_map split: val.splits option.splits cell.splits if_splits)
      (intro exI conjI, erule those_map_mono, auto)
next
  case (7 m n t fs vs)
  then show ?case by (fastforce split: option.splits list.splits if_splits)
qed (auto split: val.splits option.splits if_splits)

section \<open>Statements\<close>

lemma go_bind_Return [simp]: "m h = Return (x, h') \<Longrightarrow> go_bind m f h = f x h'"
  by (simp add: go_bind_def)

lemma go_return_app [simp]: "go_return x h = Return (x, h)"
  by (simp add: go_return_def)

section \<open>The contract\<close>

locale deep_copier =
  fixes t :: ty and f :: copier
  assumes copies: "unfold (mem h) t v = Some g \<Longrightarrow>
    \<exists>v' cs. f v h = Return (v', h @ cs) \<and> unfold (fresh h (h @ cs)) t v' = Some g"
begin

lemma copy_more:
  assumes "unfold (mem h) t v = Some g"
  obtains v' cs where "f v (h @ ds) = Return (v', h @ ds @ cs)"
    "unfold (fresh (h @ ds) (h @ ds @ cs)) t v' = Some g"
  using copies [OF unfold_mono(1) [OF assms mem_append_le [of h ds]]] that by auto

text \<open>
  What the contract is for: later changes of the memory that was there do not show in the copy, and
  changes of the memory of the copy do not show in the original.
\<close>

lemma independent:
  assumes "unfold (mem h) t v = Some g"
  shows "\<exists>v' cs. f v h = Return (v', h @ cs) \<and>
    (\<forall>m. (\<forall>a. length h \<le> a \<and> a < length (h @ cs) \<longrightarrow> m a = mem (h @ cs) a) \<longrightarrow>
       unfold m t v' = Some g) \<and>
    (\<forall>m. (\<forall>a < length h. m a = mem h a) \<longrightarrow> unfold m t v = Some g)"
proof -
  from copies [OF assms] obtain v' cs where f: "f v h = Return (v', h @ cs)"
    "unfold (fresh h (h @ cs)) t v' = Some g" by blast
  have "unfold m t v' = Some g"
    if "\<forall>a. length h \<le> a \<and> a < length (h @ cs) \<longrightarrow> m a = mem (h @ cs) a" for m
    using f(2) by (rule unfold_mono(1))
      (use that in \<open>auto simp: fresh_def map_le_def restrict_map_def mem_def split: if_splits\<close>)
  moreover have "unfold m t v = Some g" if "\<forall>a < length h. m a = mem h a" for m
    using assms by (rule unfold_mono(1)) (use that in \<open>auto simp: map_le_def mem_def split: if_splits\<close>)
  ultimately show ?thesis using f(1) by blast
qed

lemma DeepCopy_copier: "deep_copier (Pointer t) (DeepCopy t f)"
proof
  fix h v g
  assume u: "unfold (mem h) (Pointer t) v = Some g"
  show "\<exists>v' cs. DeepCopy t f v h = Return (v', h @ cs) \<and>
      unfold (fresh h (h @ cs)) (Pointer t) v' = Some g"
  proof (cases "v = NilRef")
    case True
    with u show ?thesis by (simp add: DeepCopy_def unless_nil_def)
  next
    case False
    with u obtain a w g' where v: "v = Ref a" "mem h a = Some (Var w)" "g = PointerTree g'"
      "unfold (mem h) t w = Some g'"
      by (auto split: val.splits option.splits cell.splits)
    from v(4) obtain w' cs where f: "f w (h @ [Var w]) = Return (w', h @ [Var w] @ cs)"
      "unfold (fresh (h @ [Var w]) (h @ [Var w] @ cs)) t w' = Some g'"
      by (rule copy_more)
    have "a < length h" "h ! a = Var w" using v(2) by (auto simp: mem_def split: if_splits)
    with False v(1) f(1) have "DeepCopy t f v h = Return (Ref (length h), h @ Var w' # cs)"
      by (simp add: DeepCopy_def unless_nil_def new_copy_def new_def deepCopyInto_def load_def
          store_def go_bind_def mem_def nth_append)
    moreover have "unfold (fresh h (h @ Var w' # cs)) t w' = Some g'"
      using unfold_mono(1) [OF f(2)] fresh_around_le [of h "Var w" "[]" cs "Var w'" "[]"] by simp
    ultimately show ?thesis using v(3)
      by (intro exI [of _ "Ref (length h)"] exI [of _ "Var w' # cs"]) simp
  qed
qed

text \<open>The two ways to write it for a field.\<close>

lemma pointer_copier: "deep_copier (Pointer t) (unless_nil (new_copy t f))"
proof -
  have "unless_nil (new_copy t f) = DeepCopy t f" by (simp add: fun_eq_iff DeepCopy_def)
  then show ?thesis using DeepCopy_copier by simp
qed

lemma deepcopy_field_copier: "deep_copier (Pointer t) (unless_nil (DeepCopy t f))"
proof -
  have "unless_nil (DeepCopy t f) = DeepCopy t f" by (simp add: fun_eq_iff DeepCopy_def unless_nil_def)
  then show ?thesis using DeepCopy_copier by simp
qed

text \<open>
  The loops: what is copied so far unfolds in the new memory, the rest of the output is as it was.
\<close>

lemma copy_elems_loop:
  assumes src: "mem h a = Some (Elems vs)" "those (map (unfold (mem h) t) vs) = Some gs"
  shows "length ws = length vs \<Longrightarrow> n \<le> length vs \<Longrightarrow>
    \<exists>ws' cs. copy_elems f (Ref a) (Ref (length h)) [n..<length vs] (h @ Elems ws # ds) =
        Return ((), h @ Elems ws' # ds @ cs) \<and> length ws' = length vs \<and> take n ws' = take n ws \<and>
      (\<forall>i. n \<le> i \<and> i < length vs \<longrightarrow>
         unfold (fresh h (h @ Elems ws' # ds @ cs)) t (ws' ! i) = Some (gs ! i))"
proof (induction "length vs - n" arbitrary: n ws ds)
  case 0
  then show ?case by auto
next
  case (Suc k)
  then have n: "n < length vs" by simp
  have a: "a < length h" "h ! a = Elems vs" using src(1) by (auto simp: mem_def split: if_splits)
  have "unfold (mem h) t (vs ! n) = Some (gs ! n)"
    using src(2) n by (metis length_map nth_map those_Some_iff)
  then obtain v' cs where f: "f (vs ! n) (h @ Elems ws # ds) = Return (v', h @ (Elems ws # ds) @ cs)"
    "unfold (fresh (h @ Elems ws # ds) (h @ (Elems ws # ds) @ cs)) t v' = Some (gs ! n)"
    by (rule copy_more)
  let ?ws = "ws[n := v']"
  have "k = length vs - Suc n" "length ?ws = length vs" "Suc n \<le> length vs"
    using Suc.hyps(2) Suc.prems n by simp_all
  from Suc.hyps(1) [OF this, of "ds @ cs"] obtain ws' cs' where loop:
    "copy_elems f (Ref a) (Ref (length h)) [Suc n..<length vs] (h @ Elems ?ws # ds @ cs) =
        Return ((), h @ Elems ws' # ds @ cs @ cs')" "length ws' = length vs"
    "take (Suc n) ws' = take (Suc n) ?ws"
    "\<forall>i. Suc n \<le> i \<and> i < length vs \<longrightarrow>
       unfold (fresh h (h @ Elems ws' # ds @ cs @ cs')) t (ws' ! i) = Some (gs ! i)"
    by auto
  have "copy_elems f (Ref a) (Ref (length h)) [n..<length vs] (h @ Elems ws # ds) =
      Return ((), h @ Elems ws' # ds @ cs @ cs')"
    using n Suc.prems a f(1) loop(1)
    by (simp add: upt_rec [of n] get_elem_def set_elem_def set_elems_def elems_def go_bind_def
        mem_def nth_append)
  moreover have "ws' ! n = v'" "take n ws' = take n ws"
    using loop(2,3) n Suc.prems by (metis length_list_update lessI nth_list_update_eq nth_take,
      metis nat_le_linear not_less_eq_eq take_update_cancel take_take min.absorb1)
  moreover have "unfold (fresh h (h @ Elems ws' # ds @ cs @ cs')) t v' = Some (gs ! n)"
    using f(2) fresh_around_le by (rule unfold_mono(1))
  ultimately show ?case using loop(2,4)
    by (intro exI [of _ ws'] exI [of _ "cs @ cs'"]) (auto simp: le_less_Suc_eq dest: le_neq_implies_less)
qed

lemma slice_copier: "deep_copier (SliceOf t) (unless_nil (copy_slice t f))"
proof
  fix h v g
  assume u: "unfold (mem h) (SliceOf t) v = Some g"
  show "\<exists>v' cs. unless_nil (copy_slice t f) v h = Return (v', h @ cs) \<and>
      unfold (fresh h (h @ cs)) (SliceOf t) v' = Some g"
  proof (cases "v = NilRef")
    case True
    with u show ?thesis by (simp add: unless_nil_def)
  next
    case False
    with u obtain a vs gs where v: "v = Ref a" "mem h a = Some (Elems vs)" "g = SliceTree gs"
      "those (map (unfold (mem h) t) vs) = Some gs"
      by (auto split: val.splits option.splits cell.splits)
    from copy_elems_loop [OF v(2,4), of "replicate (length vs) (zero t)" 0 "[]"]
    obtain ws cs where loop: "copy_elems f (Ref a) (Ref (length h)) [0..<length vs]
        (h @ [Elems (replicate (length vs) (zero t))]) = Return ((), h @ Elems ws # cs)"
      "length ws = length vs"
      "\<forall>i < length vs. unfold (fresh h (h @ Elems ws # cs)) t (ws ! i) = Some (gs ! i)"
      by auto
    have "length gs = length vs" using v(4) by (auto simp: those_Some_iff dest: map_eq_imp_length_eq)
    with loop(2,3) have "those (map (unfold (fresh h (h @ Elems ws # cs)) t) ws) = Some gs"
      by (auto simp: those_Some_iff intro: nth_equalityI)
    moreover have "unless_nil (copy_slice t f) v h = Return (Ref (length h), h @ Elems ws # cs)"
      using False v(1,2) loop(1)
      by (simp add: unless_nil_def copy_slice_def elems_def make_slice_def go_bind_def)
    ultimately show ?thesis using v(3)
      by (intro exI [of _ "Ref (length h)"] exI [of _ "Elems ws # cs"]) simp
  qed
qed

lemma copy_entries_loop:
  assumes "those (map (unfold (mem h) t) (map snd es)) = Some gs"
    and "distinct (map fst (done @ es))"
  shows "\<exists>ws cs. copy_entries f (Ref (length h)) es (h @ Entries done # ds) =
      Return ((), h @ Entries (done @ zip (map fst es) ws) # ds @ cs) \<and>
    those (map (unfold (fresh h (h @ Entries (done @ zip (map fst es) ws) # ds @ cs)) t) ws) = Some gs"
  using assms
proof (induction es arbitrary: gs "done" ds)
  case Nil
  then show ?case by (auto intro!: exI [of _ "[]"])
next
  case (Cons e es)
  obtain k v where e: "e = (k, v)" by (cases e)
  from Cons.prems(1) e obtain g gs' where g: "unfold (mem h) t v = Some g"
    "those (map (unfold (mem h) t) (map snd es)) = Some gs'" "gs = g # gs'"
    by (auto simp del: map_map split: option.splits)
  from g(1) obtain v' cs where f: "f v (h @ Entries done # ds) = Return (v', h @ (Entries done # ds) @ cs)"
    "unfold (fresh (h @ Entries done # ds) (h @ (Entries done # ds) @ cs)) t v' = Some g"
    by (rule copy_more)
  have upd: "AList.update k v' done = done @ [(k, v')]"
    using Cons.prems(2) e by (induction "done") auto
  from Cons.IH [OF g(2), of "done @ [(k, v')]" "ds @ cs"] Cons.prems(2) e obtain ws cs' where loop:
    "copy_entries f (Ref (length h)) es (h @ Entries (done @ [(k, v')]) # ds @ cs) =
      Return ((), h @ Entries (done @ (k, v') # zip (map fst es) ws) # ds @ cs @ cs')"
    "those (map (unfold (fresh h (h @ Entries (done @ (k, v') # zip (map fst es) ws) # ds @ cs @ cs')) t) ws)
      = Some gs'"
    by auto
  let ?h = "h @ Entries (done @ (k, v') # zip (map fst es) ws) # ds @ cs @ cs'"
  have "unfold (fresh h ?h) t v' = Some g" using f(2) fresh_around_le by (rule unfold_mono(1))
  moreover have "copy_entries f (Ref (length h)) (e # es) (h @ Entries done # ds) = Return ((), ?h)"
    using f(1) loop(1) e upd by (simp add: set_entry_def go_bind_def mem_def nth_append)
  ultimately show ?case using loop(2) g(3) e
    by (intro exI [of _ "v' # ws"] exI [of _ "cs @ cs'"]) simp
qed

lemma map_copier: "deep_copier (MapOf t) (unless_nil (copy_map f))"
proof
  fix h v g
  assume u: "unfold (mem h) (MapOf t) v = Some g"
  show "\<exists>v' cs. unless_nil (copy_map f) v h = Return (v', h @ cs) \<and>
      unfold (fresh h (h @ cs)) (MapOf t) v' = Some g"
  proof (cases "v = NilRef")
    case True
    with u show ?thesis by (simp add: unless_nil_def)
  next
    case False
    with u obtain a es gs where v: "v = Ref a" "mem h a = Some (Entries es)" "distinct (map fst es)"
      "g = MapTree (zip (map fst es) gs)" "those (map (unfold (mem h) t) (map snd es)) = Some gs"
      by (auto simp del: map_map split: val.splits option.splits cell.splits if_splits)
    from copy_entries_loop [OF v(5), of "[]" "[]"] v(3)
    obtain ws cs where loop: "copy_entries f (Ref (length h)) es (h @ [Entries []]) =
        Return ((), h @ Entries (zip (map fst es) ws) # cs)"
      "those (map (unfold (fresh h (h @ Entries (zip (map fst es) ws) # cs)) t) ws) = Some gs"
      by auto
    have "length ws = length es"
      using v(5) loop(2) by (metis length_map those_Some_iff)
    then have "map fst (zip (map fst es) ws) = map fst es" "map snd (zip (map fst es) ws) = ws"
      by simp_all
    moreover have "unless_nil (copy_map f) v h =
        Return (Ref (length h), h @ Entries (zip (map fst es) ws) # cs)"
      using False v(1,2) loop(1)
      by (simp add: unless_nil_def copy_map_def entries_def make_map_def go_bind_def)
    ultimately show ?thesis using v(3,4) loop(2)
      by (intro exI [of _ "Ref (length h)"] exI [of _ "Entries (zip (map fst es) ws) # cs"])
        (simp del: map_map)
  qed
qed

end

section \<open>Types without references, and structs\<close>

lemma unfold_flat:
  shows "flat t \<Longrightarrow> unfold m t v = unfold m' t v"
    and "\<forall>(n, t) \<in> set fs. flat t \<Longrightarrow> unfold_fields m fs vs = unfold_fields m' fs vs"
proof (induction m t v and m fs vs rule: unfold_unfold_fields.induct)
  case (7 m n t fs vs)
  then show ?case by (auto split: list.splits option.splits)
qed (auto split: val.splits)

lemma assign_copier: "flat t \<Longrightarrow> deep_copier t assign"
  by unfold_locales (auto simp: assign_def intro: unfold_flat(1) [THEN trans])

lemma flat_slice_copier: "flat t \<Longrightarrow> deep_copier (SliceOf t) (unless_nil (copy_flat_slice t))"
proof
  fix h v g
  assume flat: "flat t" and u: "unfold (mem h) (SliceOf t) v = Some g"
  show "\<exists>v' cs. unless_nil (copy_flat_slice t) v h = Return (v', h @ cs) \<and>
      unfold (fresh h (h @ cs)) (SliceOf t) v' = Some g"
  proof (cases "v = NilRef")
    case True
    with u show ?thesis by (simp add: unless_nil_def)
  next
    case False
    with u obtain a vs gs where v: "v = Ref a" "mem h a = Some (Elems vs)" "g = SliceTree gs"
      "those (map (unfold (mem h) t) vs) = Some gs"
      by (auto split: val.splits option.splits cell.splits)
    have "those (map (unfold (fresh h (h @ [Elems vs])) t) vs) = Some gs"
      using v(4) by (rule those_map_mono) (metis unfold_flat(1) [OF flat])
    moreover have "unless_nil (copy_flat_slice t) v h = Return (Ref (length h), h @ [Elems vs])"
      using False v(1,2)
      by (auto simp: unless_nil_def copy_flat_slice_def elems_def make_slice_def builtin_copy_def
          set_elems_def go_bind_def mem_def nth_append split: if_splits)
    ultimately show ?thesis using v(3)
      by (intro exI [of _ "Ref (length h)"] exI [of _ "[Elems vs]"]) simp
  qed
qed

text \<open>The fields of a struct, by their names.\<close>

lemma unfold_fields_iff:
  assumes "distinct (map fst fs)"
  shows "unfold_fields m fs vs = Some gs \<longleftrightarrow> map fst vs = map fst fs \<and> map fst gs = map fst fs \<and>
    (\<forall>n t. map_of fs n = Some t \<longrightarrow>
       (\<exists>v g. map_of vs n = Some v \<and> map_of gs n = Some g \<and> unfold m t v = Some g))"
  using assms
proof (induction fs arbitrary: vs gs)
  case Nil
  then show ?case by auto
next
  case (Cons f fs)
  obtain n t where f: "f = (n, t)" by (cases f)
  show ?case
  proof (cases "vs = [] \<or> gs = []")
    case True
    then show ?thesis using f by (auto split: list.splits option.splits)
  next
    case False
    then obtain k v vs' k' g gs' where vs: "vs = (k, v) # vs'" "gs = (k', g) # gs'"
      by (metis list.exhaust surj_pair)
    have nin: "n \<notin> fst ` set fs" "distinct (map fst fs)" using Cons.prems f by auto
    show ?thesis
      unfolding f vs using Cons.IH [OF nin(2), of vs' gs'] nin(1)
      by (auto split: option.splits dest: map_of_SomeD) (metis fst_conv imageI map_of_SomeD)+
  qed
qed

lemma copy_fields_loop:
  assumes ins: "\<And>n t. map_of fs n = Some t \<Longrightarrow>
      \<exists>v g. map_of ins n = Some v \<and> map_of gs n = Some g \<and> unfold (mem h) t v = Some g"
    and "\<forall>(n, c) \<in> set cs. \<exists>t. map_of fs n = Some t \<and> deep_copier t c"
    and "distinct (map fst cs)" and "fst ` set cs \<subseteq> fst ` set outs"
  shows "\<exists>outs' ds'. copy_fields cs ins outs (h @ ds) = Return (outs', h @ ds @ ds') \<and>
    map fst outs' = map fst outs \<and> (\<forall>n. n \<notin> fst ` set cs \<longrightarrow> map_of outs' n = map_of outs n) \<and>
    (\<forall>n \<in> fst ` set cs. \<exists>t v g. map_of fs n = Some t \<and> map_of outs' n = Some v \<and>
       map_of gs n = Some g \<and> unfold (fresh h (h @ ds @ ds')) t v = Some g)"
  using assms(2-)
proof (induction cs arbitrary: outs ds)
  case Nil
  then show ?case by simp
next
  case (Cons c cs)
  obtain n f where c: "c = (n, f)" by (cases c)
  with Cons.prems(1) obtain t where t: "map_of fs n = Some t" "deep_copier t f" by auto
  from ins [OF t(1)] obtain v g where v: "map_of ins n = Some v" "map_of gs n = Some g"
    "unfold (mem h) t v = Some g" by blast
  from t(2) v(3) obtain v' ds1 where f: "f v (h @ ds) = Return (v', h @ ds @ ds1)"
    "unfold (fresh (h @ ds) (h @ ds @ ds1)) t v' = Some g"
    by (rule deep_copier.copy_more)
  let ?outs = "AList.update n v' outs"
  have same: "map fst ?outs = map fst outs" using Cons.prems(3) c by (auto simp: update_keys)
  then have "fst ` set ?outs = fst ` set outs" by (metis set_map)
  then have keys: "map fst ?outs = map fst outs" "fst ` set cs \<subseteq> fst ` set ?outs"
    "n \<notin> fst ` set cs"
    using Cons.prems(2,3) c same by auto
  from Cons.IH [OF _ _ keys(2), of "ds @ ds1"] Cons.prems obtain outs' ds2 where loop:
    "copy_fields cs ins ?outs (h @ ds @ ds1) = Return (outs', h @ ds @ ds1 @ ds2)"
    "map fst outs' = map fst ?outs" "\<forall>k. k \<notin> fst ` set cs \<longrightarrow> map_of outs' k = map_of ?outs k"
    "\<forall>k \<in> fst ` set cs. \<exists>t v g. map_of fs k = Some t \<and> map_of outs' k = Some v \<and>
       map_of gs k = Some g \<and> unfold (fresh h (h @ ds @ ds1 @ ds2)) t v = Some g"
    by auto
  have "unfold (fresh h (h @ ds @ ds1 @ ds2)) t v' = Some g"
    using f(2) fresh_later_le by (rule unfold_mono(1))
  moreover have "map_of outs' n = Some v'" using loop(3) keys(3) by (simp add: update_conv)
  ultimately have
    "\<forall>k \<in> fst ` set (c # cs). \<exists>t v g. map_of fs k = Some t \<and> map_of outs' k = Some v \<and>
       map_of gs k = Some g \<and> unfold (fresh h (h @ ds @ ds1 @ ds2)) t v = Some g"
    using loop(4) t(1) v(2) c by auto
  then show ?case using f(1) v(1) loop(1-3) keys(1) c
    by (intro exI [of _ outs'] exI [of _ "ds1 @ ds2"]) (auto simp: update_conv)
qed

lemma struct_copier:
  assumes "distinct (map fst fs)" and "distinct (map fst cs)"
    and "\<forall>(n, c) \<in> set cs. \<exists>t. map_of fs n = Some t \<and> deep_copier t c"
    and "\<forall>(n, t) \<in> set fs. n \<in> fst ` set cs \<or> flat t"
  shows "deep_copier (StructOf fs) (copy_struct cs)"
proof
  fix h v g
  assume u: "unfold (mem h) (StructOf fs) v = Some g"
  then obtain vs gs where v: "v = Struct vs" "g = StructTree gs" "unfold_fields (mem h) fs vs = Some gs"
    by (auto split: val.splits)
  note ins = v(3) [unfolded unfold_fields_iff [OF assms(1)]]
  have "fst ` set cs \<subseteq> fst ` set vs"
  proof -
    have "fst ` set cs \<subseteq> fst ` set fs" using assms(3) by (force dest: map_of_SomeD)
    then show ?thesis using ins by (metis set_map)
  qed
  with copy_fields_loop [of fs vs gs h cs vs "[]"] ins assms(2,3) obtain outs ds where loop:
    "copy_fields cs vs vs h = Return (outs, h @ ds)" "map fst outs = map fst vs"
    "\<forall>n. n \<notin> fst ` set cs \<longrightarrow> map_of outs n = map_of vs n"
    "\<forall>n \<in> fst ` set cs. \<exists>t v g. map_of fs n = Some t \<and> map_of outs n = Some v \<and>
       map_of gs n = Some g \<and> unfold (fresh h (h @ ds)) t v = Some g"
    by auto
  have "\<exists>v g. map_of outs n = Some v \<and> map_of gs n = Some g \<and> unfold (fresh h (h @ ds)) t v = Some g"
    if n: "map_of fs n = Some t" for n t
  proof (cases "n \<in> fst ` set cs")
    case True
    with loop(4) n show ?thesis by (metis option.inject)
  next
    case False
    then have "flat t" using assms(4) n by (auto dest: map_of_SomeD)
    then show ?thesis using ins n loop(3) False unfold_flat(1) by metis
  qed
  then have "unfold_fields (fresh h (h @ ds)) fs outs = Some gs"
    unfolding unfold_fields_iff [OF assms(1)] using ins loop(2) by auto
  then show "\<exists>v' ds. copy_struct cs v h = Return (v', h @ ds) \<and>
      unfold (fresh h (h @ ds)) (StructOf fs) v' = Some g"
    using v(1,2) loop(1) by (intro exI [of _ "Struct outs"] exI [of _ ds]) (simp add: copy_struct_def)
qed

end
