(* ===== verification/Deepcopy_Library.thy ===== *)
theory Deepcopy_Library
  imports Go_Copying
begin

text \<open>
  The types of the Kubernetes libraries that the API objects of the program contain, with all their
  fields, and their generated deep-copy functions
  (\<open>src/vendor/k8s.io/apimachinery/pkg/apis/meta/v1\<close>, \<open>src/vendor/k8s.io/api/core/v1\<close>). Each function
  is shown to fulfil the contract \<open>deep_copier\<close>. An integer of any width is \<open>IntT\<close>, since nothing
  here computes with it; named string types are \<open>StringT\<close>.
\<close>

section \<open>Types and functions\<close>

definition Time_type :: ty where
  "Time_type = Basic TimeT"

definition Time_DeepCopyInto :: copier where
  "Time_DeepCopyInto = assign"

definition TypeMeta_type :: ty where
  "TypeMeta_type = StructOf
    [(''Kind'', Basic StringT), (''APIVersion'', Basic StringT)]"

definition OwnerReference_type :: ty where
  "OwnerReference_type = StructOf
    [(''APIVersion'', Basic StringT), (''Kind'', Basic StringT), (''Name'', Basic StringT),
     (''UID'', Basic StringT), (''Controller'', Pointer (Basic BoolT)),
     (''BlockOwnerDeletion'', Pointer (Basic BoolT))]"

definition OwnerReference_DeepCopyInto :: copier where
  "OwnerReference_DeepCopyInto = copy_struct
    [(''Controller'', unless_nil (new_copy (Basic BoolT) assign)),
     (''BlockOwnerDeletion'', unless_nil (new_copy (Basic BoolT) assign))]"

definition FieldsV1_type :: ty where
  "FieldsV1_type = StructOf
    [(''Raw'', SliceOf (Basic IntT))]"

definition FieldsV1_DeepCopyInto :: copier where
  "FieldsV1_DeepCopyInto = copy_struct
    [(''Raw'', unless_nil (copy_flat_slice (Basic IntT)))]"

definition ManagedFieldsEntry_type :: ty where
  "ManagedFieldsEntry_type = StructOf
    [(''Manager'', Basic StringT), (''Operation'', Basic StringT),
     (''APIVersion'', Basic StringT), (''Time'', Pointer Time_type),
     (''FieldsType'', Basic StringT), (''FieldsV1'', Pointer FieldsV1_type)]"

definition ManagedFieldsEntry_DeepCopyInto :: copier where
  "ManagedFieldsEntry_DeepCopyInto = copy_struct
    [(''Time'', unless_nil (DeepCopy Time_type Time_DeepCopyInto)),
     (''FieldsV1'', unless_nil (new_copy FieldsV1_type FieldsV1_DeepCopyInto))]"

definition ObjectMeta_type :: ty where
  "ObjectMeta_type = StructOf
    [(''Name'', Basic StringT), (''GenerateName'', Basic StringT),
     (''Namespace'', Basic StringT), (''SelfLink'', Basic StringT), (''UID'', Basic StringT),
     (''ResourceVersion'', Basic StringT), (''Generation'', Basic IntT),
     (''CreationTimestamp'', Time_type), (''DeletionTimestamp'', Pointer Time_type),
     (''DeletionGracePeriodSeconds'', Pointer (Basic IntT)),
     (''Labels'', MapOf (Basic StringT)), (''Annotations'', MapOf (Basic StringT)),
     (''OwnerReferences'', SliceOf OwnerReference_type),
     (''Finalizers'', SliceOf (Basic StringT)), (''ClusterName'', Basic StringT),
     (''ManagedFields'', SliceOf ManagedFieldsEntry_type)]"

definition ObjectMeta_DeepCopyInto :: copier where
  "ObjectMeta_DeepCopyInto = copy_struct
    [(''CreationTimestamp'', Time_DeepCopyInto),
     (''DeletionTimestamp'', unless_nil (DeepCopy Time_type Time_DeepCopyInto)),
     (''DeletionGracePeriodSeconds'', unless_nil (new_copy (Basic IntT) assign)),
     (''Labels'', unless_nil (copy_map assign)),
     (''Annotations'', unless_nil (copy_map assign)),
     (''OwnerReferences'', unless_nil (copy_slice OwnerReference_type OwnerReference_DeepCopyInto)),
     (''Finalizers'', unless_nil (copy_flat_slice (Basic StringT))),
     (''ManagedFields'', unless_nil (copy_slice ManagedFieldsEntry_type ManagedFieldsEntry_DeepCopyInto))]"

definition ListMeta_type :: ty where
  "ListMeta_type = StructOf
    [(''SelfLink'', Basic StringT), (''ResourceVersion'', Basic StringT),
     (''Continue'', Basic StringT), (''RemainingItemCount'', Pointer (Basic IntT))]"

definition ListMeta_DeepCopyInto :: copier where
  "ListMeta_DeepCopyInto = copy_struct
    [(''RemainingItemCount'', unless_nil (new_copy (Basic IntT) assign))]"

definition Taint_type :: ty where
  "Taint_type = StructOf
    [(''Key'', Basic StringT), (''Value'', Basic StringT), (''Effect'', Basic StringT),
     (''TimeAdded'', Pointer Time_type)]"

definition Taint_DeepCopyInto :: copier where
  "Taint_DeepCopyInto = copy_struct
    [(''TimeAdded'', unless_nil (DeepCopy Time_type Time_DeepCopyInto))]"

definition ConfigMapNodeConfigSource_type :: ty where
  "ConfigMapNodeConfigSource_type = StructOf
    [(''Namespace'', Basic StringT), (''Name'', Basic StringT), (''UID'', Basic StringT),
     (''ResourceVersion'', Basic StringT), (''KubeletConfigKey'', Basic StringT)]"

definition NodeConfigSource_type :: ty where
  "NodeConfigSource_type = StructOf
    [(''ConfigMap'', Pointer ConfigMapNodeConfigSource_type)]"

definition NodeConfigSource_DeepCopyInto :: copier where
  "NodeConfigSource_DeepCopyInto = copy_struct
    [(''ConfigMap'', unless_nil (new_copy ConfigMapNodeConfigSource_type assign))]"

definition NodeSpec_type :: ty where
  "NodeSpec_type = StructOf
    [(''PodCIDR'', Basic StringT), (''PodCIDRs'', SliceOf (Basic StringT)),
     (''ProviderID'', Basic StringT), (''Unschedulable'', Basic BoolT),
     (''Taints'', SliceOf Taint_type), (''ConfigSource'', Pointer NodeConfigSource_type),
     (''DoNotUseExternalID'', Basic StringT)]"

definition NodeSpec_DeepCopyInto :: copier where
  "NodeSpec_DeepCopyInto = copy_struct
    [(''PodCIDRs'', unless_nil (copy_flat_slice (Basic StringT))),
     (''Taints'', unless_nil (copy_slice Taint_type Taint_DeepCopyInto)),
     (''ConfigSource'', unless_nil (new_copy NodeConfigSource_type NodeConfigSource_DeepCopyInto))]"

text \<open>
  A quantity is a scaled 64-bit integer or, behind a pointer, an \<open>inf.Dec\<close>, whose \<open>big.Int\<close> is a number
  here. \<open>DeepCopy\<close> has the quantity itself as its receiver; \<open>Dec.Set\<close> copies both fields.
\<close>

definition Dec_type :: ty where
  "Dec_type = StructOf
    [(''unscaled'', Basic IntT), (''scale'', Basic IntT)]"

definition Quantity_type :: ty where
  "Quantity_type = StructOf
    [(''i'', StructOf [(''value'', Basic IntT), (''scale'', Basic IntT)]),
     (''d'', StructOf [(''Dec'', Pointer Dec_type)]), (''s'', Basic StringT),
     (''Format'', Basic StringT)]"

definition Quantity_DeepCopy :: copier where
  "Quantity_DeepCopy = copy_struct
    [(''d'', copy_struct [(''Dec'', unless_nil (new_copy Dec_type assign))])]"

definition NodeCondition_type :: ty where
  "NodeCondition_type = StructOf
    [(''Type'', Basic StringT), (''Status'', Basic StringT), (''LastHeartbeatTime'', Time_type),
     (''LastTransitionTime'', Time_type), (''Reason'', Basic StringT),
     (''Message'', Basic StringT)]"

definition NodeCondition_DeepCopyInto :: copier where
  "NodeCondition_DeepCopyInto = copy_struct
    [(''LastHeartbeatTime'', Time_DeepCopyInto), (''LastTransitionTime'', Time_DeepCopyInto)]"

definition NodeAddress_type :: ty where
  "NodeAddress_type = StructOf
    [(''Type'', Basic StringT), (''Address'', Basic StringT)]"

definition DaemonEndpoint_type :: ty where
  "DaemonEndpoint_type = StructOf
    [(''Port'', Basic IntT)]"

definition NodeDaemonEndpoints_type :: ty where
  "NodeDaemonEndpoints_type = StructOf
    [(''KubeletEndpoint'', DaemonEndpoint_type)]"

definition NodeSystemInfo_type :: ty where
  "NodeSystemInfo_type = StructOf
    [(''MachineID'', Basic StringT), (''SystemUUID'', Basic StringT),
     (''BootID'', Basic StringT), (''KernelVersion'', Basic StringT),
     (''OSImage'', Basic StringT), (''ContainerRuntimeVersion'', Basic StringT),
     (''KubeletVersion'', Basic StringT), (''KubeProxyVersion'', Basic StringT),
     (''OperatingSystem'', Basic StringT), (''Architecture'', Basic StringT)]"

definition ContainerImage_type :: ty where
  "ContainerImage_type = StructOf
    [(''Names'', SliceOf (Basic StringT)), (''SizeBytes'', Basic IntT)]"

definition ContainerImage_DeepCopyInto :: copier where
  "ContainerImage_DeepCopyInto = copy_struct
    [(''Names'', unless_nil (copy_flat_slice (Basic StringT)))]"

definition AttachedVolume_type :: ty where
  "AttachedVolume_type = StructOf
    [(''Name'', Basic StringT), (''DevicePath'', Basic StringT)]"

definition NodeConfigStatus_type :: ty where
  "NodeConfigStatus_type = StructOf
    [(''Assigned'', Pointer NodeConfigSource_type), (''Active'', Pointer NodeConfigSource_type),
     (''LastKnownGood'', Pointer NodeConfigSource_type), (''Error'', Basic StringT)]"

definition NodeConfigStatus_DeepCopyInto :: copier where
  "NodeConfigStatus_DeepCopyInto = copy_struct
    [(''Assigned'', unless_nil (new_copy NodeConfigSource_type NodeConfigSource_DeepCopyInto)),
     (''Active'', unless_nil (new_copy NodeConfigSource_type NodeConfigSource_DeepCopyInto)),
     (''LastKnownGood'', unless_nil (new_copy NodeConfigSource_type NodeConfigSource_DeepCopyInto))]"

definition NodeStatus_type :: ty where
  "NodeStatus_type = StructOf
    [(''Capacity'', MapOf Quantity_type), (''Allocatable'', MapOf Quantity_type),
     (''Phase'', Basic StringT), (''Conditions'', SliceOf NodeCondition_type),
     (''Addresses'', SliceOf NodeAddress_type), (''DaemonEndpoints'', NodeDaemonEndpoints_type),
     (''NodeInfo'', NodeSystemInfo_type), (''Images'', SliceOf ContainerImage_type),
     (''VolumesInUse'', SliceOf (Basic StringT)),
     (''VolumesAttached'', SliceOf AttachedVolume_type),
     (''Config'', Pointer NodeConfigStatus_type)]"

definition NodeStatus_DeepCopyInto :: copier where
  "NodeStatus_DeepCopyInto = copy_struct
    [(''Capacity'', unless_nil (copy_map Quantity_DeepCopy)),
     (''Allocatable'', unless_nil (copy_map Quantity_DeepCopy)),
     (''Conditions'', unless_nil (copy_slice NodeCondition_type NodeCondition_DeepCopyInto)),
     (''Addresses'', unless_nil (copy_flat_slice NodeAddress_type)),
     (''DaemonEndpoints'', assign), (''NodeInfo'', assign),
     (''Images'', unless_nil (copy_slice ContainerImage_type ContainerImage_DeepCopyInto)),
     (''VolumesInUse'', unless_nil (copy_flat_slice (Basic StringT))),
     (''VolumesAttached'', unless_nil (copy_flat_slice AttachedVolume_type)),
     (''Config'', unless_nil (new_copy NodeConfigStatus_type NodeConfigStatus_DeepCopyInto))]"

definition Node_type :: ty where
  "Node_type = StructOf
    [(''TypeMeta'', TypeMeta_type), (''ObjectMeta'', ObjectMeta_type),
     (''Spec'', NodeSpec_type), (''Status'', NodeStatus_type)]"

definition Node_DeepCopyInto :: copier where
  "Node_DeepCopyInto = copy_struct
    [(''TypeMeta'', assign), (''ObjectMeta'', ObjectMeta_DeepCopyInto),
     (''Spec'', NodeSpec_DeepCopyInto), (''Status'', NodeStatus_DeepCopyInto)]"

section \<open>They copy deeply\<close>

lemma library_flat [simp]:
  "flat Time_type"
  "flat TypeMeta_type"
  "flat ConfigMapNodeConfigSource_type"
  "flat Dec_type"
  "flat NodeCondition_type"
  "flat NodeAddress_type"
  "flat DaemonEndpoint_type"
  "flat NodeDaemonEndpoints_type"
  "flat NodeSystemInfo_type"
  "flat AttachedVolume_type"
  by (simp_all add: Time_type_def TypeMeta_type_def ConfigMapNodeConfigSource_type_def Dec_type_def
    NodeCondition_type_def NodeAddress_type_def DaemonEndpoint_type_def
    NodeDaemonEndpoints_type_def NodeSystemInfo_type_def AttachedVolume_type_def)

interpretation basic: deep_copier "Basic b" assign for b
  by (simp add: assign_copier)

interpretation time: deep_copier Time_type Time_DeepCopyInto
  by (simp add: Time_DeepCopyInto_def assign_copier)

interpretation cm_source: deep_copier ConfigMapNodeConfigSource_type assign
  by (simp add: assign_copier)

interpretation dec: deep_copier Dec_type assign
  by (simp add: assign_copier)

declare assign_copier [copiers] flat_slice_copier [copiers] time.deep_copier_axioms [copiers]
  time.deepcopy_field_copier [copiers] basic.pointer_copier [copiers] basic.map_copier [copiers]
  cm_source.pointer_copier [copiers] dec.pointer_copier [copiers]

interpretation owner_ref: deep_copier OwnerReference_type OwnerReference_DeepCopyInto
  unfolding OwnerReference_type_def OwnerReference_DeepCopyInto_def by (rule struct_copier) (simp_all add: copiers struct_copier)

declare owner_ref.slice_copier [copiers]

interpretation fields_v1: deep_copier FieldsV1_type FieldsV1_DeepCopyInto
  unfolding FieldsV1_type_def FieldsV1_DeepCopyInto_def by (rule struct_copier) (simp_all add: copiers struct_copier)

declare fields_v1.pointer_copier [copiers]

interpretation managed: deep_copier ManagedFieldsEntry_type ManagedFieldsEntry_DeepCopyInto
  unfolding ManagedFieldsEntry_type_def ManagedFieldsEntry_DeepCopyInto_def by (rule struct_copier) (simp_all add: copiers struct_copier)

declare managed.slice_copier [copiers]

interpretation object_meta: deep_copier ObjectMeta_type ObjectMeta_DeepCopyInto
  unfolding ObjectMeta_type_def ObjectMeta_DeepCopyInto_def by (rule struct_copier) (simp_all add: copiers struct_copier)

declare object_meta.deep_copier_axioms [copiers]

interpretation list_meta: deep_copier ListMeta_type ListMeta_DeepCopyInto
  unfolding ListMeta_type_def ListMeta_DeepCopyInto_def by (rule struct_copier) (simp_all add: copiers struct_copier)

declare list_meta.deep_copier_axioms [copiers]

interpretation taint: deep_copier Taint_type Taint_DeepCopyInto
  unfolding Taint_type_def Taint_DeepCopyInto_def by (rule struct_copier) (simp_all add: copiers struct_copier)

declare taint.slice_copier [copiers]

interpretation config_source: deep_copier NodeConfigSource_type NodeConfigSource_DeepCopyInto
  unfolding NodeConfigSource_type_def NodeConfigSource_DeepCopyInto_def by (rule struct_copier) (simp_all add: copiers struct_copier)

declare config_source.pointer_copier [copiers]

interpretation node_spec: deep_copier NodeSpec_type NodeSpec_DeepCopyInto
  unfolding NodeSpec_type_def NodeSpec_DeepCopyInto_def by (rule struct_copier) (simp_all add: copiers struct_copier)

declare node_spec.deep_copier_axioms [copiers]

interpretation quantity: deep_copier Quantity_type Quantity_DeepCopy
  unfolding Quantity_type_def Quantity_DeepCopy_def by (rule struct_copier) (simp_all add: copiers struct_copier)

declare quantity.map_copier [copiers]

interpretation condition: deep_copier NodeCondition_type NodeCondition_DeepCopyInto
  unfolding NodeCondition_type_def NodeCondition_DeepCopyInto_def by (rule struct_copier) (simp_all add: copiers struct_copier)

declare condition.slice_copier [copiers]

interpretation image: deep_copier ContainerImage_type ContainerImage_DeepCopyInto
  unfolding ContainerImage_type_def ContainerImage_DeepCopyInto_def by (rule struct_copier) (simp_all add: copiers struct_copier)

declare image.slice_copier [copiers]

interpretation config_status: deep_copier NodeConfigStatus_type NodeConfigStatus_DeepCopyInto
  unfolding NodeConfigStatus_type_def NodeConfigStatus_DeepCopyInto_def by (rule struct_copier) (simp_all add: copiers struct_copier)

declare config_status.pointer_copier [copiers]

interpretation node_status: deep_copier NodeStatus_type NodeStatus_DeepCopyInto
  unfolding NodeStatus_type_def NodeStatus_DeepCopyInto_def by (rule struct_copier) (simp_all add: copiers struct_copier)

declare node_status.deep_copier_axioms [copiers]

interpretation node: deep_copier Node_type Node_DeepCopyInto
  unfolding Node_type_def Node_DeepCopyInto_def by (rule struct_copier) (simp_all add: copiers struct_copier)

declare node.pointer_copier [copiers]

end
