(* ===== verification/Deepcopy.thy ===== *)
theory Deepcopy
  imports Deepcopy_Library
begin

text \<open>
  The custom resources of \<open>src/api/v1alpha1\<close> as Go types, and the generated methods of
  \<open>src/api/v1alpha1/zz_generated.deepcopy.go\<close>: for every type \<open>DeepCopyInto\<close> and \<open>DeepCopy\<close>, for the
  kinds and their lists \<open>DeepCopyObject\<close> too. The lemmas show that the generated code fits the types as
  they are declared: no field is forgotten, so that a copy has no cell in common with the original.
\<close>

section \<open>Types and methods\<close>

definition PoisonPillConfigSpec_type :: ty where
  "PoisonPillConfigSpec_type = StructOf
    [(''WatchdogFilePath'', Basic StringT),
     (''SafeTimeToAssumeNodeRebootedSeconds'', Basic IntT)]"

definition PoisonPillConfigSpec_DeepCopyInto :: copier where
  "PoisonPillConfigSpec_DeepCopyInto = assign"

definition PoisonPillConfigSpec_DeepCopy :: copier where
  "PoisonPillConfigSpec_DeepCopy = DeepCopy PoisonPillConfigSpec_type PoisonPillConfigSpec_DeepCopyInto"

definition PoisonPillConfigStatus_type :: ty where
  "PoisonPillConfigStatus_type = StructOf []"

definition PoisonPillConfigStatus_DeepCopyInto :: copier where
  "PoisonPillConfigStatus_DeepCopyInto = assign"

definition PoisonPillConfigStatus_DeepCopy :: copier where
  "PoisonPillConfigStatus_DeepCopy = DeepCopy PoisonPillConfigStatus_type PoisonPillConfigStatus_DeepCopyInto"

definition PoisonPillConfig_type :: ty where
  "PoisonPillConfig_type = StructOf
    [(''TypeMeta'', TypeMeta_type), (''ObjectMeta'', ObjectMeta_type),
     (''Spec'', PoisonPillConfigSpec_type), (''Status'', PoisonPillConfigStatus_type)]"

definition PoisonPillConfig_DeepCopyInto :: copier where
  "PoisonPillConfig_DeepCopyInto = copy_struct
    [(''TypeMeta'', assign), (''ObjectMeta'', ObjectMeta_DeepCopyInto), (''Spec'', assign),
     (''Status'', assign)]"

definition PoisonPillConfig_DeepCopy :: copier where
  "PoisonPillConfig_DeepCopy = DeepCopy PoisonPillConfig_type PoisonPillConfig_DeepCopyInto"

definition PoisonPillConfig_DeepCopyObject :: "val \<Rightarrow> iface go" where
  "PoisonPillConfig_DeepCopyObject =
     DeepCopyObject ''PoisonPillConfig'' PoisonPillConfig_DeepCopy"

definition PoisonPillConfigList_type :: ty where
  "PoisonPillConfigList_type = StructOf
    [(''TypeMeta'', TypeMeta_type), (''ListMeta'', ListMeta_type),
     (''Items'', SliceOf PoisonPillConfig_type)]"

definition PoisonPillConfigList_DeepCopyInto :: copier where
  "PoisonPillConfigList_DeepCopyInto = copy_struct
    [(''TypeMeta'', assign), (''ListMeta'', ListMeta_DeepCopyInto),
     (''Items'', unless_nil (copy_slice PoisonPillConfig_type PoisonPillConfig_DeepCopyInto))]"

definition PoisonPillConfigList_DeepCopy :: copier where
  "PoisonPillConfigList_DeepCopy = DeepCopy PoisonPillConfigList_type PoisonPillConfigList_DeepCopyInto"

definition PoisonPillConfigList_DeepCopyObject :: "val \<Rightarrow> iface go" where
  "PoisonPillConfigList_DeepCopyObject =
     DeepCopyObject ''PoisonPillConfigList'' PoisonPillConfigList_DeepCopy"

definition PoisonPillRemediationSpec_type :: ty where
  "PoisonPillRemediationSpec_type = StructOf []"

definition PoisonPillRemediationSpec_DeepCopyInto :: copier where
  "PoisonPillRemediationSpec_DeepCopyInto = assign"

definition PoisonPillRemediationSpec_DeepCopy :: copier where
  "PoisonPillRemediationSpec_DeepCopy = DeepCopy PoisonPillRemediationSpec_type PoisonPillRemediationSpec_DeepCopyInto"

definition PoisonPillRemediationStatus_type :: ty where
  "PoisonPillRemediationStatus_type = StructOf
    [(''NodeBackup'', Pointer Node_type), (''TimeAssumedRebooted'', Pointer Time_type),
     (''Phase'', Pointer (Basic StringT))]"

definition PoisonPillRemediationStatus_DeepCopyInto :: copier where
  "PoisonPillRemediationStatus_DeepCopyInto = copy_struct
    [(''NodeBackup'', unless_nil (new_copy Node_type Node_DeepCopyInto)),
     (''TimeAssumedRebooted'', unless_nil (DeepCopy Time_type Time_DeepCopyInto)),
     (''Phase'', unless_nil (new_copy (Basic StringT) assign))]"

definition PoisonPillRemediationStatus_DeepCopy :: copier where
  "PoisonPillRemediationStatus_DeepCopy = DeepCopy PoisonPillRemediationStatus_type PoisonPillRemediationStatus_DeepCopyInto"

definition PoisonPillRemediation_type :: ty where
  "PoisonPillRemediation_type = StructOf
    [(''TypeMeta'', TypeMeta_type), (''ObjectMeta'', ObjectMeta_type),
     (''Spec'', PoisonPillRemediationSpec_type), (''Status'', PoisonPillRemediationStatus_type)]"

definition PoisonPillRemediation_DeepCopyInto :: copier where
  "PoisonPillRemediation_DeepCopyInto = copy_struct
    [(''TypeMeta'', assign), (''ObjectMeta'', ObjectMeta_DeepCopyInto), (''Spec'', assign),
     (''Status'', PoisonPillRemediationStatus_DeepCopyInto)]"

definition PoisonPillRemediation_DeepCopy :: copier where
  "PoisonPillRemediation_DeepCopy = DeepCopy PoisonPillRemediation_type PoisonPillRemediation_DeepCopyInto"

definition PoisonPillRemediation_DeepCopyObject :: "val \<Rightarrow> iface go" where
  "PoisonPillRemediation_DeepCopyObject =
     DeepCopyObject ''PoisonPillRemediation'' PoisonPillRemediation_DeepCopy"

definition PoisonPillRemediationList_type :: ty where
  "PoisonPillRemediationList_type = StructOf
    [(''TypeMeta'', TypeMeta_type), (''ListMeta'', ListMeta_type),
     (''Items'', SliceOf PoisonPillRemediation_type)]"

definition PoisonPillRemediationList_DeepCopyInto :: copier where
  "PoisonPillRemediationList_DeepCopyInto = copy_struct
    [(''TypeMeta'', assign), (''ListMeta'', ListMeta_DeepCopyInto),
     (''Items'', unless_nil (copy_slice PoisonPillRemediation_type PoisonPillRemediation_DeepCopyInto))]"

definition PoisonPillRemediationList_DeepCopy :: copier where
  "PoisonPillRemediationList_DeepCopy = DeepCopy PoisonPillRemediationList_type PoisonPillRemediationList_DeepCopyInto"

definition PoisonPillRemediationList_DeepCopyObject :: "val \<Rightarrow> iface go" where
  "PoisonPillRemediationList_DeepCopyObject =
     DeepCopyObject ''PoisonPillRemediationList'' PoisonPillRemediationList_DeepCopy"

definition PoisonPillRemediationTemplateResource_type :: ty where
  "PoisonPillRemediationTemplateResource_type = StructOf
    [(''Spec'', PoisonPillRemediationSpec_type)]"

definition PoisonPillRemediationTemplateResource_DeepCopyInto :: copier where
  "PoisonPillRemediationTemplateResource_DeepCopyInto = copy_struct
    [(''Spec'', assign)]"

definition PoisonPillRemediationTemplateResource_DeepCopy :: copier where
  "PoisonPillRemediationTemplateResource_DeepCopy = DeepCopy PoisonPillRemediationTemplateResource_type PoisonPillRemediationTemplateResource_DeepCopyInto"

definition PoisonPillRemediationTemplateSpec_type :: ty where
  "PoisonPillRemediationTemplateSpec_type = StructOf
    [(''Template'', PoisonPillRemediationTemplateResource_type)]"

definition PoisonPillRemediationTemplateSpec_DeepCopyInto :: copier where
  "PoisonPillRemediationTemplateSpec_DeepCopyInto = copy_struct
    [(''Template'', assign)]"

definition PoisonPillRemediationTemplateSpec_DeepCopy :: copier where
  "PoisonPillRemediationTemplateSpec_DeepCopy = DeepCopy PoisonPillRemediationTemplateSpec_type PoisonPillRemediationTemplateSpec_DeepCopyInto"

definition PoisonPillRemediationTemplateStatus_type :: ty where
  "PoisonPillRemediationTemplateStatus_type = StructOf []"

definition PoisonPillRemediationTemplateStatus_DeepCopyInto :: copier where
  "PoisonPillRemediationTemplateStatus_DeepCopyInto = assign"

definition PoisonPillRemediationTemplateStatus_DeepCopy :: copier where
  "PoisonPillRemediationTemplateStatus_DeepCopy = DeepCopy PoisonPillRemediationTemplateStatus_type PoisonPillRemediationTemplateStatus_DeepCopyInto"

definition PoisonPillRemediationTemplate_type :: ty where
  "PoisonPillRemediationTemplate_type = StructOf
    [(''TypeMeta'', TypeMeta_type), (''ObjectMeta'', ObjectMeta_type),
     (''Spec'', PoisonPillRemediationTemplateSpec_type),
     (''Status'', PoisonPillRemediationTemplateStatus_type)]"

definition PoisonPillRemediationTemplate_DeepCopyInto :: copier where
  "PoisonPillRemediationTemplate_DeepCopyInto = copy_struct
    [(''TypeMeta'', assign), (''ObjectMeta'', ObjectMeta_DeepCopyInto), (''Spec'', assign),
     (''Status'', assign)]"

definition PoisonPillRemediationTemplate_DeepCopy :: copier where
  "PoisonPillRemediationTemplate_DeepCopy = DeepCopy PoisonPillRemediationTemplate_type PoisonPillRemediationTemplate_DeepCopyInto"

definition PoisonPillRemediationTemplate_DeepCopyObject :: "val \<Rightarrow> iface go" where
  "PoisonPillRemediationTemplate_DeepCopyObject =
     DeepCopyObject ''PoisonPillRemediationTemplate'' PoisonPillRemediationTemplate_DeepCopy"

definition PoisonPillRemediationTemplateList_type :: ty where
  "PoisonPillRemediationTemplateList_type = StructOf
    [(''TypeMeta'', TypeMeta_type), (''ListMeta'', ListMeta_type),
     (''Items'', SliceOf PoisonPillRemediationTemplate_type)]"

definition PoisonPillRemediationTemplateList_DeepCopyInto :: copier where
  "PoisonPillRemediationTemplateList_DeepCopyInto = copy_struct
    [(''TypeMeta'', assign), (''ListMeta'', ListMeta_DeepCopyInto),
     (''Items'', unless_nil (copy_slice PoisonPillRemediationTemplate_type PoisonPillRemediationTemplate_DeepCopyInto))]"

definition PoisonPillRemediationTemplateList_DeepCopy :: copier where
  "PoisonPillRemediationTemplateList_DeepCopy = DeepCopy PoisonPillRemediationTemplateList_type PoisonPillRemediationTemplateList_DeepCopyInto"

definition PoisonPillRemediationTemplateList_DeepCopyObject :: "val \<Rightarrow> iface go" where
  "PoisonPillRemediationTemplateList_DeepCopyObject =
     DeepCopyObject ''PoisonPillRemediationTemplateList'' PoisonPillRemediationTemplateList_DeepCopy"

text \<open>All of them, by the name of the receiver's type.\<close>

definition deepcopy_methods :: "(string \<times> ty \<times> copier) list" where
  "deepcopy_methods =
    [(''PoisonPillConfigSpec'', PoisonPillConfigSpec_type, PoisonPillConfigSpec_DeepCopy),
     (''PoisonPillConfigStatus'', PoisonPillConfigStatus_type, PoisonPillConfigStatus_DeepCopy),
     (''PoisonPillConfig'', PoisonPillConfig_type, PoisonPillConfig_DeepCopy),
     (''PoisonPillConfigList'', PoisonPillConfigList_type, PoisonPillConfigList_DeepCopy),
     (''PoisonPillRemediationSpec'', PoisonPillRemediationSpec_type, PoisonPillRemediationSpec_DeepCopy),
     (''PoisonPillRemediationStatus'', PoisonPillRemediationStatus_type, PoisonPillRemediationStatus_DeepCopy),
     (''PoisonPillRemediation'', PoisonPillRemediation_type, PoisonPillRemediation_DeepCopy),
     (''PoisonPillRemediationList'', PoisonPillRemediationList_type, PoisonPillRemediationList_DeepCopy),
     (''PoisonPillRemediationTemplateResource'', PoisonPillRemediationTemplateResource_type, PoisonPillRemediationTemplateResource_DeepCopy),
     (''PoisonPillRemediationTemplateSpec'', PoisonPillRemediationTemplateSpec_type, PoisonPillRemediationTemplateSpec_DeepCopy),
     (''PoisonPillRemediationTemplateStatus'', PoisonPillRemediationTemplateStatus_type, PoisonPillRemediationTemplateStatus_DeepCopy),
     (''PoisonPillRemediationTemplate'', PoisonPillRemediationTemplate_type, PoisonPillRemediationTemplate_DeepCopy),
     (''PoisonPillRemediationTemplateList'', PoisonPillRemediationTemplateList_type, PoisonPillRemediationTemplateList_DeepCopy)]"

definition deepcopy_objects :: "(string \<times> ty \<times> (val \<Rightarrow> iface go)) list" where
  "deepcopy_objects =
    [(''PoisonPillConfig'', PoisonPillConfig_type, PoisonPillConfig_DeepCopyObject),
     (''PoisonPillConfigList'', PoisonPillConfigList_type, PoisonPillConfigList_DeepCopyObject),
     (''PoisonPillRemediation'', PoisonPillRemediation_type, PoisonPillRemediation_DeepCopyObject),
     (''PoisonPillRemediationList'', PoisonPillRemediationList_type, PoisonPillRemediationList_DeepCopyObject),
     (''PoisonPillRemediationTemplate'', PoisonPillRemediationTemplate_type, PoisonPillRemediationTemplate_DeepCopyObject),
     (''PoisonPillRemediationTemplateList'', PoisonPillRemediationTemplateList_type, PoisonPillRemediationTemplateList_DeepCopyObject)]"

section \<open>They copy deeply\<close>

lemma api_flat [simp]:
  "flat PoisonPillConfigSpec_type"
  "flat PoisonPillConfigStatus_type"
  "flat PoisonPillRemediationSpec_type"
  "flat PoisonPillRemediationTemplateResource_type"
  "flat PoisonPillRemediationTemplateSpec_type"
  "flat PoisonPillRemediationTemplateStatus_type"
  by (simp_all add: PoisonPillConfigSpec_type_def PoisonPillConfigStatus_type_def
    PoisonPillRemediationSpec_type_def PoisonPillRemediationTemplateResource_type_def
    PoisonPillRemediationTemplateSpec_type_def PoisonPillRemediationTemplateStatus_type_def)

interpretation ppc_spec: deep_copier PoisonPillConfigSpec_type PoisonPillConfigSpec_DeepCopyInto
  by (simp add: PoisonPillConfigSpec_DeepCopyInto_def assign_copier)

interpretation ppc_status: deep_copier PoisonPillConfigStatus_type PoisonPillConfigStatus_DeepCopyInto
  by (simp add: PoisonPillConfigStatus_DeepCopyInto_def assign_copier)

interpretation ppc: deep_copier PoisonPillConfig_type PoisonPillConfig_DeepCopyInto
  unfolding PoisonPillConfig_type_def PoisonPillConfig_DeepCopyInto_def
  by (rule struct_copier) (simp_all add: copiers)

declare ppc.slice_copier [copiers]

interpretation ppc_list: deep_copier PoisonPillConfigList_type PoisonPillConfigList_DeepCopyInto
  unfolding PoisonPillConfigList_type_def PoisonPillConfigList_DeepCopyInto_def
  by (rule struct_copier) (simp_all add: copiers)

interpretation ppr_spec: deep_copier PoisonPillRemediationSpec_type PoisonPillRemediationSpec_DeepCopyInto
  by (simp add: PoisonPillRemediationSpec_DeepCopyInto_def assign_copier)

interpretation ppr_status: deep_copier PoisonPillRemediationStatus_type PoisonPillRemediationStatus_DeepCopyInto
  unfolding PoisonPillRemediationStatus_type_def PoisonPillRemediationStatus_DeepCopyInto_def
  by (rule struct_copier) (simp_all add: copiers)

declare ppr_status.deep_copier_axioms [copiers]

interpretation ppr: deep_copier PoisonPillRemediation_type PoisonPillRemediation_DeepCopyInto
  unfolding PoisonPillRemediation_type_def PoisonPillRemediation_DeepCopyInto_def
  by (rule struct_copier) (simp_all add: copiers)

declare ppr.slice_copier [copiers]

interpretation ppr_list: deep_copier PoisonPillRemediationList_type PoisonPillRemediationList_DeepCopyInto
  unfolding PoisonPillRemediationList_type_def PoisonPillRemediationList_DeepCopyInto_def
  by (rule struct_copier) (simp_all add: copiers)

interpretation pprt_resource: deep_copier PoisonPillRemediationTemplateResource_type PoisonPillRemediationTemplateResource_DeepCopyInto
  unfolding PoisonPillRemediationTemplateResource_type_def PoisonPillRemediationTemplateResource_DeepCopyInto_def
  by (rule struct_copier) (simp_all add: copiers)

interpretation pprt_spec: deep_copier PoisonPillRemediationTemplateSpec_type PoisonPillRemediationTemplateSpec_DeepCopyInto
  unfolding PoisonPillRemediationTemplateSpec_type_def PoisonPillRemediationTemplateSpec_DeepCopyInto_def
  by (rule struct_copier) (simp_all add: copiers)

interpretation pprt_status: deep_copier PoisonPillRemediationTemplateStatus_type PoisonPillRemediationTemplateStatus_DeepCopyInto
  by (simp add: PoisonPillRemediationTemplateStatus_DeepCopyInto_def assign_copier)

interpretation pprt: deep_copier PoisonPillRemediationTemplate_type PoisonPillRemediationTemplate_DeepCopyInto
  unfolding PoisonPillRemediationTemplate_type_def PoisonPillRemediationTemplate_DeepCopyInto_def
  by (rule struct_copier) (simp_all add: copiers)

declare pprt.slice_copier [copiers]

interpretation pprt_list: deep_copier PoisonPillRemediationTemplateList_type PoisonPillRemediationTemplateList_DeepCopyInto
  unfolding PoisonPillRemediationTemplateList_type_def PoisonPillRemediationTemplateList_DeepCopyInto_def
  by (rule struct_copier) (simp_all add: copiers)

lemmas DeepCopy_copiers =
  ppc_spec.DeepCopy_copier ppc_status.DeepCopy_copier ppc.DeepCopy_copier
  ppc_list.DeepCopy_copier ppr_spec.DeepCopy_copier ppr_status.DeepCopy_copier
  ppr.DeepCopy_copier ppr_list.DeepCopy_copier pprt_resource.DeepCopy_copier
  pprt_spec.DeepCopy_copier pprt_status.DeepCopy_copier pprt.DeepCopy_copier
  pprt_list.DeepCopy_copier

lemmas DeepCopyInto_copiers =
  ppc_spec.deep_copier_axioms ppc_status.deep_copier_axioms ppc.deep_copier_axioms
  ppc_list.deep_copier_axioms ppr_spec.deep_copier_axioms ppr_status.deep_copier_axioms
  ppr.deep_copier_axioms ppr_list.deep_copier_axioms pprt_resource.deep_copier_axioms
  pprt_spec.deep_copier_axioms pprt_status.deep_copier_axioms pprt.deep_copier_axioms
  pprt_list.deep_copier_axioms

lemmas DeepCopy_defs =
  PoisonPillConfigSpec_DeepCopy_def PoisonPillConfigStatus_DeepCopy_def
  PoisonPillConfig_DeepCopy_def PoisonPillConfigList_DeepCopy_def
  PoisonPillRemediationSpec_DeepCopy_def PoisonPillRemediationStatus_DeepCopy_def
  PoisonPillRemediation_DeepCopy_def PoisonPillRemediationList_DeepCopy_def
  PoisonPillRemediationTemplateResource_DeepCopy_def
  PoisonPillRemediationTemplateSpec_DeepCopy_def
  PoisonPillRemediationTemplateStatus_DeepCopy_def PoisonPillRemediationTemplate_DeepCopy_def
  PoisonPillRemediationTemplateList_DeepCopy_def

lemmas DeepCopyObject_defs =
  PoisonPillConfig_DeepCopyObject_def PoisonPillConfigList_DeepCopyObject_def
  PoisonPillRemediation_DeepCopyObject_def PoisonPillRemediationList_DeepCopyObject_def
  PoisonPillRemediationTemplate_DeepCopyObject_def
  PoisonPillRemediationTemplateList_DeepCopyObject_def

lemma deepcopy_methods_copy: "\<forall>(T, t, dc) \<in> set deepcopy_methods. deep_copier (Pointer t) dc"
  by (simp add: deepcopy_methods_def DeepCopy_defs DeepCopy_copiers)

lemma deepcopy_objects_copy:
  "\<forall>(T, t, dco) \<in> set deepcopy_objects. \<exists>f. deep_copier t f \<and> dco = DeepCopyObject T (DeepCopy t f)"
  by (simp add: deepcopy_objects_def DeepCopyObject_defs DeepCopy_defs)
    (intro conjI; rule exI; rule conjI [OF _ refl]; simp add: DeepCopyInto_copiers)

lemma DeepCopyObject_nil: "DeepCopyObject T (DeepCopy t f) NilRef h = Return (NilInterface, h)"
  by (simp add: DeepCopyObject_def DeepCopy_def unless_nil_def)

lemma DeepCopyObject_pointer:
  assumes "deep_copier t f" and "unfold (mem h) (Pointer t) p = Some g" and "p \<noteq> NilRef"
  shows "\<exists>a cs. DeepCopyObject T (DeepCopy t f) p h = Return (Interface T (Ref a), h @ cs) \<and>
    length h \<le> a \<and> unfold (fresh h (h @ cs)) (Pointer t) (Ref a) = Some g"
proof -
  from deep_copier.copies [OF deep_copier.DeepCopy_copier [OF assms(1)] assms(2)]
  obtain p' cs where c: "DeepCopy t f p h = Return (p', h @ cs)"
    "unfold (fresh h (h @ cs)) (Pointer t) p' = Some g" by blast
  from assms(2,3) have "g \<noteq> NilTree" by (auto split: val.splits option.splits cell.splits)
  with c(2) obtain a where a: "p' = Ref a" "fresh h (h @ cs) a \<noteq> None"
    by (auto split: val.splits option.splits cell.splits)
  then have "length h \<le> a" by (auto simp: fresh_def restrict_map_def split: if_splits)
  with c a show ?thesis
    by (intro exI [of _ a] exI [of _ cs]) (simp add: DeepCopyObject_def del: unfold.simps)
qed

section \<open>Properties\<close>

text \<open>
  C18. Every \<open>DeepCopy\<close> of the package copies deeply: on a nil pointer or a pointer to an object of its
  type it returns without a panic and changes no cell that exists. What it returns reads the same as
  the original whatever is done later to the memory that was there before the call, and the original
  reads the same whatever is done to the memory of the copy. So a generated method that forgot a field,
  or assigned one with references in it, would not do.
\<close>

theorem DeepCopy_independent:
  assumes "(T, t, dc) \<in> set deepcopy_methods" and "unfold (mem h) (Pointer t) p = Some g"
  shows "\<exists>p' cs. dc p h = Return (p', h @ cs) \<and>
    (\<forall>m. (\<forall>a. length h \<le> a \<and> a < length (h @ cs) \<longrightarrow> m a = mem (h @ cs) a) \<longrightarrow>
       unfold m (Pointer t) p' = Some g) \<and>
    (\<forall>m. (\<forall>a < length h. m a = mem h a) \<longrightarrow> unfold m (Pointer t) p = Some g)"
  using deepcopy_methods_copy assms by (blast intro: deep_copier.independent)

text \<open>A PPR with a backup, a label, an owner and a phase.\<close>

definition sample_object :: heap where
  "sample_object =
    [Var (Struct
       [(''TypeMeta'', zero TypeMeta_type),
        (''ObjectMeta'', Struct
          [(''Name'', Prim (PString ''node1'')), (''GenerateName'', zero (Basic StringT)),
           (''Namespace'', Prim (PString ''ns'')), (''SelfLink'', zero (Basic StringT)),
           (''UID'', zero (Basic StringT)), (''ResourceVersion'', zero (Basic StringT)),
           (''Generation'', Prim (PInt 1)), (''CreationTimestamp'', Prim (PTime 5)),
           (''DeletionTimestamp'', NilRef), (''DeletionGracePeriodSeconds'', NilRef),
           (''Labels'', Ref 1), (''Annotations'', NilRef), (''OwnerReferences'', Ref 2),
           (''Finalizers'', Ref 3), (''ClusterName'', zero (Basic StringT)),
           (''ManagedFields'', NilRef)]),
        (''Spec'', zero PoisonPillRemediationSpec_type),
        (''Status'', Struct
          [(''NodeBackup'', Ref 4), (''TimeAssumedRebooted'', Ref 5), (''Phase'', Ref 6)])]),
     Entries [(''app'', Prim (PString ''pp''))],
     Elems [Struct
       [(''APIVersion'', Prim (PString ''v1'')), (''Kind'', Prim (PString ''Machine'')),
        (''Name'', Prim (PString ''m1'')), (''UID'', zero (Basic StringT)),
        (''Controller'', Ref 7), (''BlockOwnerDeletion'', NilRef)]],
     Elems [Prim (PString ''f'')],
     Var (zero Node_type),
     Var (Prim (PTime 9)),
     Var (Prim (PString ''done'')),
     Var (Prim (PBool True))]"

lemma sample_object_typed:
  "unfold (mem sample_object) (Pointer PoisonPillRemediation_type) (Ref 0) \<noteq> None"
  by code_simp

theorem DeepCopy_independent_witness:
  "\<exists>g p' cs. PoisonPillRemediation_DeepCopy (Ref 0) sample_object = Return (p', sample_object @ cs) \<and>
    (\<forall>m. (\<forall>a. length sample_object \<le> a \<and> a < length (sample_object @ cs) \<longrightarrow>
         m a = mem (sample_object @ cs) a) \<longrightarrow>
       unfold m (Pointer PoisonPillRemediation_type) p' = Some g)"
proof -
  from sample_object_typed obtain g where
    g: "unfold (mem sample_object) (Pointer PoisonPillRemediation_type) (Ref 0) = Some g" by blast
  have m: "(''PoisonPillRemediation'', PoisonPillRemediation_type, PoisonPillRemediation_DeepCopy)
      \<in> set deepcopy_methods"
    by (simp add: deepcopy_methods_def)
  from DeepCopy_independent [OF m g] show ?thesis by blast
qed

text \<open>
  C40. \<open>DeepCopyObject\<close> keeps the type: on a nil pointer it returns the nil interface, not an interface
  that holds a nil pointer; on a pointer to an object of its type it returns an interface whose
  dynamic type is that of the receiver, holding a new pointer to an equal object of this type.
\<close>

theorem DeepCopyObject_typed:
  assumes "(T, t, dco) \<in> set deepcopy_objects" and "unfold (mem h) (Pointer t) p = Some g"
  shows "if p = NilRef then dco p h = Return (NilInterface, h)
    else \<exists>a cs. dco p h = Return (Interface T (Ref a), h @ cs) \<and> length h \<le> a \<and>
      unfold (fresh h (h @ cs)) (Pointer t) (Ref a) = Some g"
proof -
  from deepcopy_objects_copy assms(1) obtain f where f: "deep_copier t f"
    "dco = DeepCopyObject T (DeepCopy t f)" by blast
  then show ?thesis using DeepCopyObject_nil DeepCopyObject_pointer [OF f(1) assms(2)]
    by (simp del: unfold.simps)
qed

theorem DeepCopyObject_typed_witness:
  "(\<exists>a cs. PoisonPillRemediation_DeepCopyObject (Ref 0) sample_object =
      Return (Interface ''PoisonPillRemediation'' (Ref a), sample_object @ cs)) \<and>
   PoisonPillConfigList_DeepCopyObject NilRef [] = Return (NilInterface, [])"
proof -
  from sample_object_typed obtain g where
    g: "unfold (mem sample_object) (Pointer PoisonPillRemediation_type) (Ref 0) = Some g" by blast
  have o: "(''PoisonPillRemediation'', PoisonPillRemediation_type, PoisonPillRemediation_DeepCopyObject)
      \<in> set deepcopy_objects"
    "(''PoisonPillConfigList'', PoisonPillConfigList_type, PoisonPillConfigList_DeepCopyObject)
      \<in> set deepcopy_objects"
    by (simp_all add: deepcopy_objects_def)
  show ?thesis
    using DeepCopyObject_typed [OF o(1) g] DeepCopyObject_typed [OF o(2), of "[]" NilRef NilTree]
    by (auto simp del: unfold.simps(5))
qed

end
