(* ===== verification/Unstructured.thy ===== *)
theory Unstructured
  imports Kube_Objects "HOL-Library.Finite_Map"
begin

text \<open>
  Unstructured objects: the JSON-like values that \<open>unstructured.Unstructured\<close> holds and the accessors
  of \<open>src/vendor/k8s.io/apimachinery/pkg/apis/meta/v1/unstructured\<close> that the program uses. A Go map is a
  finite map; a nil map or slice that an accessor returns is \<open>None\<close>. Copying is not
  modelled: each accessor that the program keeps the result of returns a copy, so no two objects share a
  part.
\<close>

datatype json =
    JNull
  | JBool bool
  | JInt int
  | JFloat string
  | JStr string
  | JArr "json list"
  | JObj "(string, json) fmap"

type_synonym object = "(string, json) fmap"

definition accessor_error :: go_error where
  "accessor_error = Other ''accessor error''"

section \<open>Nested fields (\<open>helpers.go\<close>)\<close>

fun NestedField_loop :: "json \<Rightarrow> string list \<Rightarrow> go_error + json option" where
  "NestedField_loop val [] = Inr (Some val)"
| "NestedField_loop JNull (field # path) = Inr None"
| "NestedField_loop (JObj m) (field # path) =
     (case fmlookup m field of None \<Rightarrow> Inr None | Some val \<Rightarrow> NestedField_loop val path)"
| "NestedField_loop val (field # path) = Inl accessor_error"

definition NestedFieldNoCopy :: "object \<Rightarrow> string list \<Rightarrow> go_error + json option" where
  "NestedFieldNoCopy obj path = NestedField_loop (JObj obj) path"

definition NestedString :: "object \<Rightarrow> string list \<Rightarrow> go_error + string option" where
  "NestedString obj path =
     (case NestedFieldNoCopy obj path of
        Inl err \<Rightarrow> Inl err
      | Inr None \<Rightarrow> Inr None
      | Inr (Some (JStr s)) \<Rightarrow> Inr (Some s)
      | Inr (Some _) \<Rightarrow> Inl accessor_error)"

definition NestedInt64 :: "object \<Rightarrow> string list \<Rightarrow> go_error + int option" where
  "NestedInt64 obj path =
     (case NestedFieldNoCopy obj path of
        Inl err \<Rightarrow> Inl err
      | Inr None \<Rightarrow> Inr None
      | Inr (Some (JInt i)) \<Rightarrow> Inr (Some i)
      | Inr (Some _) \<Rightarrow> Inl accessor_error)"

definition NestedSlice :: "object \<Rightarrow> string list \<Rightarrow> go_error + json list option" where
  "NestedSlice obj path =
     (case NestedFieldNoCopy obj path of
        Inl err \<Rightarrow> Inl err
      | Inr None \<Rightarrow> Inr None
      | Inr (Some (JArr vs)) \<Rightarrow> Inr (Some vs)
      | Inr (Some _) \<Rightarrow> Inl accessor_error)"

definition jstring :: "json \<Rightarrow> string option" where
  "jstring v = (case v of JStr s \<Rightarrow> Some s | _ \<Rightarrow> None)"

fun strings_loop :: "json list \<Rightarrow> string list \<Rightarrow> string list option" where
  "strings_loop [] strSlice = Some strSlice"
| "strings_loop (v # vs) strSlice =
     (case jstring v of Some str \<Rightarrow> strings_loop vs (strSlice @ [str]) | None \<Rightarrow> None)"

definition NestedStringSlice :: "object \<Rightarrow> string list \<Rightarrow> go_error + string list option" where
  "NestedStringSlice obj path =
     (case NestedFieldNoCopy obj path of
        Inl err \<Rightarrow> Inl err
      | Inr None \<Rightarrow> Inr None
      | Inr (Some (JArr vs)) \<Rightarrow>
          (case strings_loop vs [] of Some ss \<Rightarrow> Inr (Some ss) | None \<Rightarrow> Inl accessor_error)
      | Inr (Some _) \<Rightarrow> Inl accessor_error)"

definition NestedStringMap :: "object \<Rightarrow> string list \<Rightarrow> go_error + (string, string) fmap option" where
  "NestedStringMap obj path =
     (case NestedFieldNoCopy obj path of
        Inl err \<Rightarrow> Inl err
      | Inr None \<Rightarrow> Inr None
      | Inr (Some (JObj m)) \<Rightarrow>
          if fmpred (\<lambda>_ v. jstring v \<noteq> None) m then Inr (Some (fmmap (\<lambda>v. the (jstring v)) m))
          else Inl accessor_error
      | Inr (Some _) \<Rightarrow> Inl accessor_error)"

fun setNestedField :: "object \<Rightarrow> json \<Rightarrow> string list \<Rightarrow> go_error + object" where
  "setNestedField m value [] = Inr m"
| "setNestedField m value [field] = Inr (fmupd field value m)"
| "setNestedField m value (field # path) =
     (case fmlookup m field of
        Some (JObj m') \<Rightarrow>
          (case setNestedField m' value path of
             Inl err \<Rightarrow> Inl err
           | Inr m'' \<Rightarrow> Inr (fmupd field (JObj m'') m))
      | Some _ \<Rightarrow> Inl (Other ''value cannot be set'')
      | None \<Rightarrow>
          (case setNestedField fmempty value path of
             Inl err \<Rightarrow> Inl err
           | Inr m'' \<Rightarrow> Inr (fmupd field (JObj m'') m)))"

definition SetNestedStringSlice :: "object \<Rightarrow> string list \<Rightarrow> string list \<Rightarrow> go_error + object" where
  "SetNestedStringSlice obj value path = setNestedField obj (JArr (map JStr value)) path"

definition SetNestedStringMap :: "object \<Rightarrow> (string, string) fmap \<Rightarrow> string list \<Rightarrow> go_error + object" where
  "SetNestedStringMap obj value path = setNestedField obj (JObj (fmmap JStr value)) path"

fun RemoveNestedField :: "object \<Rightarrow> string list \<Rightarrow> object" where
  "RemoveNestedField m [] = m"
| "RemoveNestedField m [field] = fmdrop field m"
| "RemoveNestedField m (field # path) =
     (case fmlookup m field of
        Some (JObj m') \<Rightarrow> fmupd field (JObj (RemoveNestedField m' path)) m
      | _ \<Rightarrow> m)"

section \<open>Accessors (\<open>unstructured.go\<close>)\<close>

definition getNestedString :: "object \<Rightarrow> string list \<Rightarrow> string" where
  "getNestedString obj path =
     (case NestedString obj path of Inr (Some s) \<Rightarrow> s | _ \<Rightarrow> '''')"

text \<open>The setters of \<open>Unstructured\<close> drop an error: then the object stays as it is.\<close>

definition or_same :: "object \<Rightarrow> go_error + object \<Rightarrow> object" where
  "or_same obj r = (case r of Inl _ \<Rightarrow> obj | Inr obj' \<Rightarrow> obj')"

definition set_string_or_remove :: "object \<Rightarrow> string \<Rightarrow> string list \<Rightarrow> object" where
  "set_string_or_remove obj s path =
     (if length s = 0 then RemoveNestedField obj path
      else or_same obj (setNestedField obj (JStr s) path))"

definition GetName :: "object \<Rightarrow> string" where
  "GetName obj = getNestedString obj [''metadata'', ''name'']"

definition GetNamespace :: "object \<Rightarrow> string" where
  "GetNamespace obj = getNestedString obj [''metadata'', ''namespace'']"

definition GetKind :: "object \<Rightarrow> string" where
  "GetKind obj = getNestedString obj [''kind'']"

definition GetAPIVersion :: "object \<Rightarrow> string" where
  "GetAPIVersion obj = getNestedString obj [''apiVersion'']"

definition GetUID :: "object \<Rightarrow> string" where
  "GetUID obj = getNestedString obj [''metadata'', ''uid'']"

definition SetUID :: "object \<Rightarrow> string \<Rightarrow> object" where
  "SetUID obj uid = set_string_or_remove obj uid [''metadata'', ''uid'']"

definition GetResourceVersion :: "object \<Rightarrow> string" where
  "GetResourceVersion obj = getNestedString obj [''metadata'', ''resourceVersion'']"

definition SetResourceVersion :: "object \<Rightarrow> string \<Rightarrow> object" where
  "SetResourceVersion obj rv = set_string_or_remove obj rv [''metadata'', ''resourceVersion'']"

definition GetSelfLink :: "object \<Rightarrow> string" where
  "GetSelfLink obj = getNestedString obj [''metadata'', ''selfLink'']"

definition SetSelfLink :: "object \<Rightarrow> string \<Rightarrow> object" where
  "SetSelfLink obj l = set_string_or_remove obj l [''metadata'', ''selfLink'']"

definition GetGeneration :: "object \<Rightarrow> int" where
  "GetGeneration obj =
     (case NestedInt64 obj [''metadata'', ''generation''] of Inr (Some i) \<Rightarrow> i | _ \<Rightarrow> 0)"

definition SetGeneration :: "object \<Rightarrow> int \<Rightarrow> object" where
  "SetGeneration obj generation =
     (if generation = 0 then RemoveNestedField obj [''metadata'', ''generation'']
      else or_same obj (setNestedField obj (JInt generation) [''metadata'', ''generation'']))"

text \<open>
  The conversions behind two accessors are arguments: reading and printing of an RFC 3339 time, and the
  reflection-based conversion of an entry of the managed fields.
\<close>

record 'm codec =
  parse_time :: "string \<Rightarrow> time option"
  format_time :: "time \<Rightarrow> string"
  from_unstructured :: "object \<Rightarrow> 'm option"
  to_unstructured :: "'m \<Rightarrow> object option"

definition GetCreationTimestamp :: "'m codec \<Rightarrow> object \<Rightarrow> time" where
  "GetCreationTimestamp cd obj =
     (let str = getNestedString obj [''metadata'', ''creationTimestamp'']
      in if length str = 0 \<or> str = ''null'' then zeroTime
         else case parse_time cd str of None \<Rightarrow> zeroTime | Some t \<Rightarrow> t)"

definition SetCreationTimestamp :: "'m codec \<Rightarrow> object \<Rightarrow> time \<Rightarrow> object" where
  "SetCreationTimestamp cd obj t =
     (let ts = (if time_IsZero t then '''' else format_time cd t)
      in if length ts = 0 \<or> time_IsZero t then RemoveNestedField obj [''metadata'', ''creationTimestamp'']
         else or_same obj (setNestedField obj (JStr ts) [''metadata'', ''creationTimestamp'']))"

fun managedFields_from :: "'m codec \<Rightarrow> json list \<Rightarrow> 'm list \<Rightarrow> 'm list option" where
  "managedFields_from cd [] ms = Some ms"
| "managedFields_from cd (item # items) ms =
     (case item of
        JObj m \<Rightarrow> (case from_unstructured cd m of
          None \<Rightarrow> None
        | Some out \<Rightarrow> managedFields_from cd items (ms @ [out]))
      | _ \<Rightarrow> None)"

definition GetManagedFields :: "'m codec \<Rightarrow> object \<Rightarrow> 'm list option" where
  "GetManagedFields cd obj =
     (case NestedSlice obj [''metadata'', ''managedFields''] of
        Inr (Some items) \<Rightarrow> managedFields_from cd items []
      | _ \<Rightarrow> None)"

fun managedFields_to :: "'m codec \<Rightarrow> 'm list \<Rightarrow> json list \<Rightarrow> json list option" where
  "managedFields_to cd [] items = Some items"
| "managedFields_to cd (m # ms) items =
     (case to_unstructured cd m of
        None \<Rightarrow> None
      | Some out \<Rightarrow> managedFields_to cd ms (items @ [JObj out]))"

definition SetManagedFields :: "'m codec \<Rightarrow> object \<Rightarrow> 'm list option \<Rightarrow> object" where
  "SetManagedFields cd obj managedFields =
     (case managedFields of
        None \<Rightarrow> RemoveNestedField obj [''metadata'', ''managedFields'']
      | Some ms \<Rightarrow>
          (case managedFields_to cd ms [] of
             None \<Rightarrow> obj
           | Some items \<Rightarrow> or_same obj (setNestedField obj (JArr items) [''metadata'', ''managedFields''])))"

definition GetFinalizers :: "object \<Rightarrow> string list option" where
  "GetFinalizers obj =
     (case NestedStringSlice obj [''metadata'', ''finalizers''] of Inr v \<Rightarrow> v | Inl _ \<Rightarrow> None)"

definition SetFinalizers :: "object \<Rightarrow> string list option \<Rightarrow> object" where
  "SetFinalizers obj finalizers =
     (case finalizers of
        None \<Rightarrow> RemoveNestedField obj [''metadata'', ''finalizers'']
      | Some fs \<Rightarrow> or_same obj (SetNestedStringSlice obj fs [''metadata'', ''finalizers'']))"

definition GetLabels :: "object \<Rightarrow> (string, string) fmap option" where
  "GetLabels obj = (case NestedStringMap obj [''metadata'', ''labels''] of Inr m \<Rightarrow> m | Inl _ \<Rightarrow> None)"

definition SetLabels :: "object \<Rightarrow> (string, string) fmap option \<Rightarrow> object" where
  "SetLabels obj labels =
     (case labels of
        None \<Rightarrow> RemoveNestedField obj [''metadata'', ''labels'']
      | Some m \<Rightarrow> or_same obj (SetNestedStringMap obj m [''metadata'', ''labels'']))"

definition GetAnnotations :: "object \<Rightarrow> (string, string) fmap option" where
  "GetAnnotations obj =
     (case NestedStringMap obj [''metadata'', ''annotations''] of Inr m \<Rightarrow> m | Inl _ \<Rightarrow> None)"

definition SetAnnotations :: "object \<Rightarrow> (string, string) fmap option \<Rightarrow> object" where
  "SetAnnotations obj annotations =
     (case annotations of
        None \<Rightarrow> RemoveNestedField obj [''metadata'', ''annotations'']
      | Some m \<Rightarrow> or_same obj (SetNestedStringMap obj m [''metadata'', ''annotations'']))"

section \<open>Group, version and kind\<close>

record GroupVersionKind =
  gvk_Group :: string
  gvk_Version :: string
  gvk_Kind :: string

definition ParseGroupVersion :: "string \<Rightarrow> go_error + string \<times> string" where
  "ParseGroupVersion gv =
     (if length gv = 0 \<or> gv = ''/'' then Inr ('''', '''')
      else let n = length (filter (\<lambda>c. c = CHR ''/'') gv)
           in if n = 0 then Inr ('''', gv)
              else if n = 1 then Inr (takeWhile (\<lambda>c. c \<noteq> CHR ''/'') gv, tl (dropWhile (\<lambda>c. c \<noteq> CHR ''/'') gv))
              else Inl (Other (''unexpected GroupVersion string: '' @ gv)))"

definition GetGroupVersionKind :: "object \<Rightarrow> GroupVersionKind" where
  "GetGroupVersionKind obj =
     (case ParseGroupVersion (GetAPIVersion obj) of
        Inl err \<Rightarrow> \<lparr>gvk_Group = '''', gvk_Version = '''', gvk_Kind = ''''\<rparr>
      | Inr (g, v) \<Rightarrow> \<lparr>gvk_Group = g, gvk_Version = v, gvk_Kind = GetKind obj\<rparr>)"

definition gvk_String :: "GroupVersionKind \<Rightarrow> string" where
  "gvk_String gvk = gvk_Group gvk @ ''/'' @ gvk_Version gvk @ '', Kind='' @ gvk_Kind gvk"

end
