(* ===== verification/Object_Cache.thy ===== *)
theory Object_Cache
  imports Deepcopy Unstructured
begin

text \<open>
  The kinds of the API group and the cache the controllers read from. \<open>groupversion_info.go\<close> and
  the \<open>init\<close> functions beside the types register the kinds with a scheme builder, \<open>init\<close> of \<open>main.go\<close>
  fills the scheme. A controller that asks its client for an object gets it from the cache of the
  controller framework (\<open>cache_reader.go\<close>): the cached object is deep-copied and the copy assigned to
  the variable of the caller. This is what allows the models of the controllers to pass objects as
  values: what they do to an object they got is not seen in the cache.
\<close>

section \<open>The scheme\<close>

record GroupVersion =
  gv_Group :: string
  gv_Version :: string

definition WithKind :: "GroupVersion \<Rightarrow> string \<Rightarrow> GroupVersionKind" where
  "WithKind gv kind = \<lparr>gvk_Group = gv_Group gv, gvk_Version = gv_Version gv, gvk_Kind = kind\<rparr>"

text \<open>A scheme knows the Go type of every kind; a type is given by its name.\<close>

type_synonym scheme = "GroupVersionKind \<rightharpoonup> string"

fun AddKnownTypes :: "GroupVersion \<Rightarrow> string list \<Rightarrow> scheme \<Rightarrow> scheme call" where
  "AddKnownTypes gv [] s = Return s"
| "AddKnownTypes gv (obj # objs) s =
     (if gv_Version gv = '''' then Panic
      else if s (WithKind gv obj) \<noteq> None \<and> s (WithKind gv obj) \<noteq> Some obj then Panic
      else AddKnownTypes gv objs (s(WithKind gv obj \<mapsto> obj)))"

text \<open>
  \<open>scheme.Builder\<close>: the group version and the functions that \<open>Register\<close> adds, each given by the objects it
  was called with. \<open>meta\<close> is \<open>metav1.AddToGroupVersion\<close>.
\<close>

record Builder =
  builder_GroupVersion :: GroupVersion
  builder_Registered :: "string list list"

definition Register :: "Builder \<Rightarrow> string list \<Rightarrow> Builder" where
  "Register bld objs = bld\<lparr>builder_Registered := builder_Registered bld @ [objs]\<rparr>"

fun AddToScheme_loop ::
  "(GroupVersion \<Rightarrow> scheme \<Rightarrow> scheme call) \<Rightarrow> GroupVersion \<Rightarrow> string list list \<Rightarrow> scheme \<Rightarrow>
    (go_error option \<times> scheme) call" where
  "AddToScheme_loop meta gv [] s = Return (None, s)"
| "AddToScheme_loop meta gv (objs # rest) s =
     (case AddKnownTypes gv objs s of
        Return s' \<Rightarrow>
          (case meta gv s' of
             Return s'' \<Rightarrow> AddToScheme_loop meta gv rest s''
           | Panic \<Rightarrow> Panic | Block \<Rightarrow> Block)
      | Panic \<Rightarrow> Panic | Block \<Rightarrow> Block)"

definition AddToScheme ::
  "(GroupVersion \<Rightarrow> scheme \<Rightarrow> scheme call) \<Rightarrow> Builder \<Rightarrow> scheme \<Rightarrow> (go_error option \<times> scheme) call" where
  "AddToScheme meta bld s = AddToScheme_loop meta (builder_GroupVersion bld) (builder_Registered bld) s"

text \<open>\<open>groupversion_info.go\<close>, and the \<open>init\<close> functions in the order of their files.\<close>

definition v1alpha1_GroupVersion :: GroupVersion where
  "v1alpha1_GroupVersion = \<lparr>gv_Group = ''poison-pill.medik8s.io'', gv_Version = ''v1alpha1''\<rparr>"

definition SchemeBuilder :: Builder where
  "SchemeBuilder = \<lparr>builder_GroupVersion = v1alpha1_GroupVersion, builder_Registered = []\<rparr>"

definition init_config :: "Builder \<Rightarrow> Builder" where
  "init_config bld = Register bld [''PoisonPillConfig'', ''PoisonPillConfigList'']"

definition init_remediation :: "Builder \<Rightarrow> Builder" where
  "init_remediation bld = Register bld [''PoisonPillRemediation'', ''PoisonPillRemediationList'']"

definition init_template :: "Builder \<Rightarrow> Builder" where
  "init_template bld =
     Register bld [''PoisonPillRemediationTemplate'', ''PoisonPillRemediationTemplateList'']"

definition v1alpha1_AddToScheme ::
  "(GroupVersion \<Rightarrow> scheme \<Rightarrow> scheme call) \<Rightarrow> scheme \<Rightarrow> (go_error option \<times> scheme) call" where
  "v1alpha1_AddToScheme meta s =
     AddToScheme meta (init_template (init_remediation (init_config SchemeBuilder))) s"

text \<open>\<open>utilruntime.Must\<close> panics on an error.\<close>

definition Must :: "(go_error option \<times> scheme) call \<Rightarrow> (scheme \<Rightarrow> scheme call) \<Rightarrow> scheme call" where
  "Must c k = (case c of
      Return (e, s) \<Rightarrow> (case e of None \<Rightarrow> k s | Some err \<Rightarrow> Panic)
    | Panic \<Rightarrow> Panic | Block \<Rightarrow> Block)"

definition main_init ::
  "(scheme \<Rightarrow> (go_error option \<times> scheme) call) \<Rightarrow> (GroupVersion \<Rightarrow> scheme \<Rightarrow> scheme call) \<Rightarrow>
    (scheme \<Rightarrow> (go_error option \<times> scheme) call) \<Rightarrow> scheme call" where
  "main_init clientgo_AddToScheme meta machine_AddToScheme =
     Must (clientgo_AddToScheme Map.empty) (\<lambda>s.
     Must (v1alpha1_AddToScheme meta s) (\<lambda>s.
     Must (machine_AddToScheme s) Return))"

section \<open>Reading from the cache\<close>

definition GroupVersion_String :: "GroupVersionKind \<Rightarrow> string" where
  "GroupVersion_String gvk =
     (if gvk_Group gvk \<noteq> '''' then gvk_Group gvk @ ''/'' @ gvk_Version gvk else gvk_Version gvk)"

definition ToAPIVersionAndKind :: "GroupVersionKind \<Rightarrow> string \<times> string" where
  "ToAPIVersionAndKind gvk =
     (if gvk_Group gvk = '''' \<and> gvk_Version gvk = '''' \<and> gvk_Kind gvk = '''' then ('''', '''')
      else (GroupVersion_String gvk, gvk_Kind gvk))"

text \<open>\<open>out.GetObjectKind().SetGroupVersionKind(gvk)\<close> writes the \<open>TypeMeta\<close> of the object.\<close>

definition with_kind :: "GroupVersionKind \<Rightarrow> val" where
  "with_kind gvk = (case ToAPIVersionAndKind gvk of
      (v, k) \<Rightarrow> Struct [(''Kind'', Prim (PString k)), (''APIVersion'', Prim (PString v))])"

definition SetGroupVersionKind :: "GroupVersionKind \<Rightarrow> val \<Rightarrow> unit go" where
  "SetGroupVersionKind gvk out = go_bind (load out) (\<lambda>v.
     case v of
       Struct vs \<Rightarrow> store out (Struct (AList.update ''TypeMeta'' (with_kind gvk) vs))
     | _ \<Rightarrow> (\<lambda>h. Panic))"

definition objectKeyToStoreKey :: "ObjectKey \<Rightarrow> string" where
  "objectKeyToStoreKey k =
     (if key_Namespace k = '''' then key_Name k else key_Namespace k @ ''/'' @ key_Name k)"

record CacheReader =
  indexer :: "string \<Rightarrow> go_error + iface option"
  groupVersionKind :: GroupVersionKind
  scopeRoot :: bool

text \<open>
  The types with a \<open>DeepCopyObject\<close>, as far as the remediation controller reads them from the cache. An
  object of any other type is not a \<open>runtime.Object\<close>.
\<close>

definition Node_DeepCopyObject :: "val \<Rightarrow> iface go" where
  "Node_DeepCopyObject = DeepCopyObject ''Node'' (DeepCopy Node_type Node_DeepCopyInto)"

definition cached_kinds :: "(string \<times> ty \<times> (val \<Rightarrow> iface go)) list" where
  "cached_kinds = (''Node'', Node_type, Node_DeepCopyObject) # deepcopy_objects"

definition copy_method :: "iface \<Rightarrow> iface go option" where
  "copy_method obj =
     (case obj of
        NilInterface \<Rightarrow> None
      | Interface T p \<Rightarrow> map_option (\<lambda>(t, dco). dco p) (map_of cached_kinds T))"

text \<open>The key of an object of the whole cluster has no namespace.\<close>

definition scoped_key :: "CacheReader \<Rightarrow> ObjectKey \<Rightarrow> ObjectKey" where
  "scoped_key c key = (if scopeRoot c then key\<lparr>key_Namespace := ''''\<rparr> else key)"

text \<open>\<open>outType\<close> is the type of the variable behind the pointer \<open>out\<close>.\<close>

definition CacheReader_Get :: "CacheReader \<Rightarrow> ObjectKey \<Rightarrow> string \<Rightarrow> val \<Rightarrow> go_error option go" where
  "CacheReader_Get c key outType out =
     (let storeKey = objectKeyToStoreKey (scoped_key c key)
      in case indexer c storeKey of
           Inl err \<Rightarrow> go_return (Some err)
         | Inr None \<Rightarrow> go_return (Some NotFound)
         | Inr (Some obj) \<Rightarrow>
             (case copy_method obj of
                None \<Rightarrow> go_return (Some (Other ''not an Object''))
              | Some dco \<Rightarrow> go_bind dco (\<lambda>copy.
                  (case copy of
                     NilInterface \<Rightarrow> (\<lambda>h. Panic)
                   | Interface T p \<Rightarrow>
                       if T \<noteq> outType then go_return (Some (Other ''cache had another type''))
                       else go_bind (load p) (\<lambda>v. go_bind (store out v) (\<lambda>_.
                         go_bind (SetGroupVersionKind (groupVersionKind c) out)
                           (\<lambda>_. go_return None)))))))"

section \<open>Lemmas\<close>

text \<open>Registering a kind keeps what the scheme knows.\<close>

lemma AddKnownTypes_le: "AddKnownTypes gv objs s = Return s' \<Longrightarrow> s \<subseteq>\<^sub>m s'"
proof (induction objs arbitrary: s)
  case (Cons obj objs)
  then have "AddKnownTypes gv objs (s(WithKind gv obj \<mapsto> obj)) = Return s'"
    "s \<subseteq>\<^sub>m s(WithKind gv obj \<mapsto> obj)"
    by (auto simp: map_le_def split: if_splits)
  with Cons.IH show ?case by (blast intro: map_le_trans)
qed simp

lemma AddKnownTypes_kinds:
  "AddKnownTypes gv objs s = Return s' \<Longrightarrow> obj \<in> set objs \<Longrightarrow> s' (WithKind gv obj) = Some obj"
proof (induction objs arbitrary: s)
  case (Cons x objs)
  then have step: "AddKnownTypes gv objs (s(WithKind gv x \<mapsto> x)) = Return s'"
    by (simp split: if_splits)
  with map_leD [OF AddKnownTypes_le [OF step]] Cons show ?case by (cases "obj = x") auto
qed simp

lemma AddToScheme_loop_kinds:
  assumes "\<And>gv s s'. meta gv s = Return s' \<Longrightarrow> s \<subseteq>\<^sub>m s'"
    and "AddToScheme_loop meta gv rest s = Return (e, s')"
  shows "s \<subseteq>\<^sub>m s' \<and> (\<forall>objs \<in> set rest. \<forall>obj \<in> set objs. s' (WithKind gv obj) = Some obj)"
  using assms(2)
proof (induction rest arbitrary: s)
  case (Cons objs rest)
  then obtain s1 s2 where s: "AddKnownTypes gv objs s = Return s1" "meta gv s1 = Return s2"
    "AddToScheme_loop meta gv rest s2 = Return (e, s')"
    by (auto split: call.splits)
  have le: "s \<subseteq>\<^sub>m s1" "s1 \<subseteq>\<^sub>m s2" "s2 \<subseteq>\<^sub>m s'"
    using AddKnownTypes_le s(1) assms(1) s(2) Cons.IH [OF s(3)] by blast+
  then show ?case
    using AddKnownTypes_kinds [OF s(1)] Cons.IH [OF s(3)]
    by (auto dest: map_leD intro: map_le_trans)
qed simp

lemma cached_kinds_copy:
  "\<forall>(T, t, dco) \<in> set cached_kinds. \<exists>f. deep_copier t f \<and> dco = DeepCopyObject T (DeepCopy t f)"
  using deepcopy_objects_copy node.deep_copier_axioms
  by (auto simp: cached_kinds_def Node_DeepCopyObject_def)

lemma cached_kinds_distinct: "distinct (map fst cached_kinds)"
  by (simp add: cached_kinds_def deepcopy_objects_def)

lemmas object_type_defs = Node_type_def PoisonPillConfig_type_def PoisonPillConfigList_type_def
  PoisonPillRemediation_type_def PoisonPillRemediationList_type_def
  PoisonPillRemediationTemplate_type_def PoisonPillRemediationTemplateList_type_def

lemma cached_kinds_struct:
  "\<forall>(T, t, dco) \<in> set cached_kinds. \<exists>fs. t = StructOf ((''TypeMeta'', TypeMeta_type) # fs)"
  by (simp add: cached_kinds_def deepcopy_objects_def object_type_defs)

lemma unfold_object:
  assumes "unfold m (Pointer (StructOf ((n, t) # fs))) (Ref a) = Some g"
  obtains v vs g1 gs where "m a = Some (Var (Struct ((n, v) # vs)))"
    "g = PointerTree (StructTree ((n, g1) # gs))" "unfold m t v = Some g1" "unfold_fields m fs vs = Some gs"
  using assms by (auto split: option.splits cell.splits val.splits list.splits if_splits)

text \<open>After the start of the program its six kinds are known to the scheme.\<close>

lemma main_init_kinds:
  assumes meta: "\<And>gv s s'. meta gv s = Return s' \<Longrightarrow> s \<subseteq>\<^sub>m s'"
    and machine: "\<And>s e s'. machine s = Return (e, s') \<Longrightarrow> s \<subseteq>\<^sub>m s'"
    and "main_init clientgo meta machine = Return s" and "(T, t, dco) \<in> set deepcopy_objects"
  shows "s (WithKind v1alpha1_GroupVersion T) = Some T"
proof -
  from assms(3) obtain s1 s2 where s: "v1alpha1_AddToScheme meta s1 = Return (None, s2)"
    "machine s2 = Return (None, s)"
    by (auto simp: main_init_def Must_def split: call.splits prod.splits option.splits)
  have "T \<in> set (concat [[''PoisonPillConfig'', ''PoisonPillConfigList''],
      [''PoisonPillRemediation'', ''PoisonPillRemediationList''],
      [''PoisonPillRemediationTemplate'', ''PoisonPillRemediationTemplateList'']])"
    using assms(4) by (auto simp: deepcopy_objects_def)
  then have "s2 (WithKind v1alpha1_GroupVersion T) = Some T"
    using AddToScheme_loop_kinds [OF meta s(1) [unfolded v1alpha1_AddToScheme_def AddToScheme_def]]
    by (auto simp: init_config_def init_remediation_def init_template_def Register_def SchemeBuilder_def)
  then show ?thesis using machine [OF s(2)] by (rule map_leD [rotated])
qed

section \<open>Properties\<close>

text \<open>The \<open>TypeMeta\<close> of an object as the cache sets it.\<close>

definition retyped :: "GroupVersionKind \<Rightarrow> tree \<Rightarrow> tree" where
  "retyped gvk g = (case (g, ToAPIVersionAndKind gvk) of
      (StructTree gs, (v, k)) \<Rightarrow> StructTree (AList.update ''TypeMeta''
         (StructTree [(''Kind'', Leaf (PString k)), (''APIVersion'', Leaf (PString v))]) gs)
    | _ \<Rightarrow> g)"

lemma unfold_with_kind:
  "unfold m TypeMeta_type (with_kind gvk) = Some (case ToAPIVersionAndKind gvk of
     (v, k) \<Rightarrow> StructTree [(''Kind'', Leaf (PString k)), (''APIVersion'', Leaf (PString v))])"
  by (simp add: TypeMeta_type_def with_kind_def split: prod.split)

text \<open>
  C17. A controller may do what it likes to an object that it got from its client. If the cache holds an
  object that does not reach the variable of the caller, \<open>Get\<close> succeeds, changes that variable
  and no other cell, and leaves in it the cached object with its kind set, of which every cell is new.
  The cached object reads the same whatever is done to the variable and to the new cells.
\<close>

theorem cache_isolated:
  assumes "indexer c (objectKeyToStoreKey (scoped_key c key)) = Inr (Some (Interface T (Ref a)))"
    and "(T, t, dco) \<in> set cached_kinds"
    and "mem h b = Some (Var w)"
    and "unfold ((mem h)(b := None)) (Pointer t) (Ref a) = Some (PointerTree g)"
  shows "\<exists>h' v. CacheReader_Get c key T (Ref b) h = Return (None, h') \<and>
    (\<forall>x < length h. x \<noteq> b \<longrightarrow> mem h' x = mem h x) \<and>
    mem h' b = Some (Var v) \<and> unfold (fresh h h') t v = Some (retyped (groupVersionKind c) g) \<and>
    (\<forall>m. (\<forall>x < length h. x \<noteq> b \<longrightarrow> m x = mem h x) \<longrightarrow>
       unfold m (Pointer t) (Ref a) = Some (PointerTree g))"
proof -
  have b: "b < length h" "h ! b = Var w" using assms(3) by (auto simp: mem_def split: if_splits)
  have intact: "unfold m (Pointer t) (Ref a) = Some (PointerTree g)"
    if "\<forall>x < length h. x \<noteq> b \<longrightarrow> m x = mem h x" for m
    using assms(4) by (rule unfold_mono(1)) (use that in \<open>auto simp: map_le_def mem_def split: if_splits\<close>)
  from cached_kinds_copy assms(2) obtain f where f: "deep_copier t f"
    "dco = DeepCopyObject T (DeepCopy t f)" by blast
  from cached_kinds_struct assms(2) obtain fs where t: "t = StructOf ((''TypeMeta'', TypeMeta_type) # fs)"
    by blast
  have "unfold (mem h) (Pointer t) (Ref a) = Some (PointerTree g)" by (rule intact) simp
  with f have "\<exists>p cs. dco (Ref a) h = Return (Interface T (Ref p), h @ cs) \<and> length h \<le> p \<and>
      unfold (fresh h (h @ cs)) (Pointer t) (Ref p) = Some (PointerTree g)"
    using DeepCopyObject_pointer [of t f h "Ref a" "PointerTree g" T] by (simp del: unfold.simps)
  then obtain p cs where
    dco: "dco (Ref a) h = Return (Interface T (Ref p), h @ cs)" "length h \<le> p"
    "unfold (fresh h (h @ cs)) (Pointer t) (Ref p) = Some (PointerTree g)"
    by blast
  from dco(3) [unfolded t] obtain v vs g1 gs where copy:
    "fresh h (h @ cs) p = Some (Var (Struct ((''TypeMeta'', v) # vs)))"
    "g = StructTree ((''TypeMeta'', g1) # gs)" "unfold_fields (fresh h (h @ cs)) fs vs = Some gs"
    by (rule unfold_object) auto
  let ?v = "Struct ((''TypeMeta'', with_kind (groupVersionKind c)) # vs)"
  let ?h = "(h @ cs)[b := Var ?v]"
  have "mem (h @ cs) p = Some (Var (Struct ((''TypeMeta'', v) # vs)))"
    using copy(1) by (auto simp: fresh_def restrict_map_def split: if_splits)
  then have "CacheReader_Get c key T (Ref b) h = Return (None, ?h)"
    using assms(1) dco(1) b map_of_is_SomeI [OF cached_kinds_distinct assms(2)]
    by (simp add: CacheReader_Get_def copy_method_def load_def store_def SetGroupVersionKind_def
        go_bind_def mem_def nth_append list_update_append)
  moreover have "fresh h ?h = fresh h (h @ cs)"
    using b by (auto simp: fresh_def restrict_map_def mem_def fun_eq_iff nth_list_update)
  then have "unfold (fresh h ?h) t ?v = Some (retyped (groupVersionKind c) g)"
    using copy(2,3) t unfold_with_kind [of "fresh h (h @ cs)" "groupVersionKind c"]
    by (simp add: retyped_def split: prod.split)
  ultimately show ?thesis using b intact
    by (intro exI [of _ ?h] exI [of _ ?v]) (simp add: mem_def nth_append del: unfold.simps)
qed

text \<open>The cache of PPRs with one object, and a variable for the answer.\<close>

definition sample_cache :: CacheReader where
  "sample_cache = \<lparr>indexer = (\<lambda>k. if k = ''ns/node1''
       then Inr (Some (Interface ''PoisonPillRemediation'' (Ref 0))) else Inr None),
     groupVersionKind = WithKind v1alpha1_GroupVersion ''PoisonPillRemediation'', scopeRoot = False\<rparr>"

definition sample_request :: heap where
  "sample_request = sample_object @ [Var (zero PoisonPillRemediation_type)]"

theorem cache_isolated_witness:
  "\<exists>h' v g. CacheReader_Get sample_cache \<lparr>key_Namespace = ''ns'', key_Name = ''node1''\<rparr>
      ''PoisonPillRemediation'' (Ref 8) sample_request = Return (None, h') \<and>
    mem h' 8 = Some (Var v) \<and>
    unfold (fresh sample_request h') PoisonPillRemediation_type v = Some g"
proof -
  have "case unfold ((mem sample_request)(8 := None)) (Pointer PoisonPillRemediation_type) (Ref 0) of
      Some (PointerTree g) \<Rightarrow> True | _ \<Rightarrow> False"
    by code_simp
  then obtain g where g: "unfold ((mem sample_request)(8 := None))
      (Pointer PoisonPillRemediation_type) (Ref 0) = Some (PointerTree g)"
    by (simp del: unfold.simps split: option.splits tree.splits)
  have k: "(''PoisonPillRemediation'', PoisonPillRemediation_type, PoisonPillRemediation_DeepCopyObject)
      \<in> set cached_kinds"
    by (simp add: cached_kinds_def deepcopy_objects_def)
  have b: "mem sample_request 8 = Some (Var (zero PoisonPillRemediation_type))"
    by (simp add: sample_request_def sample_object_def mem_def)
  have i: "indexer sample_cache (objectKeyToStoreKey (scoped_key sample_cache
      \<lparr>key_Namespace = ''ns'', key_Name = ''node1''\<rparr>)) =
      Inr (Some (Interface ''PoisonPillRemediation'' (Ref 0)))"
    by (simp add: sample_cache_def objectKeyToStoreKey_def scoped_key_def)
  from cache_isolated [OF i k b g] show ?thesis by blast
qed

end
