(* ===== verification/Certificates.thy ===== *)
theory Certificates
  imports Kube_Objects Strconv
begin

text \<open>
  The certificates by which the agents trust each other, \<open>src/pkg/certificates\<close>: making a certificate
  authority and one certificate for all agents (\<open>certs.go\<close>), keeping them in a secret (\<open>storage.go\<close>) and
  building the TLS credentials of server and client from them (\<open>credentials.go\<close>). RSA, X.509 and PEM
  are operations of an argument. A Go string and a byte slice are both a list of bytes, here \<open>string\<close>.
\<close>

type_synonym bytes = string

section \<open>Making certificates (\<open>certs.go\<close>)\<close>

type_synonym ip = "8 word \<times> 8 word \<times> 8 word \<times> 8 word"

definition IP_String :: "ip \<Rightarrow> string" where
  "IP_String p = (case p of (a, b, c, d) \<Rightarrow>
     Itoa (uint a) @ ''.'' @ Itoa (uint b) @ ''.'' @ Itoa (uint c) @ ''.'' @ Itoa (uint d))"

definition fixedCertIP :: ip where
  "fixedCertIP = (192, 0, 2, 1)"

datatype ExtKeyUsage = ExtKeyUsageClientAuth | ExtKeyUsageServerAuth

type_synonym KeyUsage = "64 word"

definition KeyUsageDigitalSignature :: KeyUsage where
  "KeyUsageDigitalSignature = push_bit 0 1"

definition KeyUsageCertSign :: KeyUsage where
  "KeyUsageCertSign = push_bit 5 1"

record Certificate =
  cert_SerialNumber :: int
  cert_Organization :: "string list"
  cert_NotBefore :: time
  cert_NotAfter :: time
  cert_IsCA :: bool
  cert_BasicConstraintsValid :: bool
  cert_ExtKeyUsage :: "ExtKeyUsage list"
  cert_KeyUsage :: KeyUsage
  cert_IPAddresses :: "ip list"

record pem_Block =
  block_Type :: string
  block_Bytes :: bytes

datatype ('k, 'p) x509_event =
    XNow time
  | XKey nat "go_error + 'k"
  | XSign Certificate Certificate 'p 'k "go_error + bytes"

record ('s, 'k, 'p) x509_env =
  x_now :: "('s, time) state"
  x_addDate :: "time \<Rightarrow> int \<Rightarrow> int \<Rightarrow> int \<Rightarrow> time"
  x_generateKey :: "nat \<Rightarrow> ('s, go_error + 'k) state"
  x_publicKey :: "'k \<Rightarrow> 'p"
  x_createCertificate :: "Certificate \<Rightarrow> Certificate \<Rightarrow> 'p \<Rightarrow> 'k \<Rightarrow> ('s, go_error + bytes) state"
  x_marshalKey :: "'k \<Rightarrow> bytes"
  x_pemEncode :: "pem_Block \<Rightarrow> go_error + bytes"

type_synonym ('s, 'k, 'p) x509_state = "('s, ('k, 'p) x509_event) io"

definition createCertTemplate ::
  "('s, 'k, 'p) x509_env \<Rightarrow> bool \<Rightarrow> (('s, 'k, 'p) x509_state, Certificate) state" where
  "createCertTemplate env isCa = do {
     notBefore \<leftarrow> perform (x_now env) XNow;
     now \<leftarrow> perform (x_now env) XNow;
     let cert = \<lparr>cert_SerialNumber = 12345, cert_Organization = [''medik8s''],
           cert_NotBefore = notBefore, cert_NotAfter = x_addDate env now 10 0 0,
           cert_IsCA = isCa, cert_BasicConstraintsValid = isCa,
           cert_ExtKeyUsage = [ExtKeyUsageClientAuth, ExtKeyUsageServerAuth],
           cert_KeyUsage = KeyUsageDigitalSignature, cert_IPAddresses = []\<rparr>;
     ret (if isCa then cert\<lparr>cert_KeyUsage := or KeyUsageDigitalSignature KeyUsageCertSign\<rparr>
          else cert\<lparr>cert_IPAddresses := [fixedCertIP]\<rparr>)
   }"

definition createPrivKey :: "('s, 'k, 'p) x509_env \<Rightarrow> (('s, 'k, 'p) x509_state, go_error + 'k) state" where
  "createPrivKey env = perform (x_generateKey env 4096) (XKey 4096)"

definition sign ::
  "('s, 'k, 'p) x509_env \<Rightarrow> Certificate \<Rightarrow> Certificate \<Rightarrow> 'p \<Rightarrow> 'k \<Rightarrow>
    (('s, 'k, 'p) x509_state, go_error + bytes) state" where
  "sign env cert ca certPubKey caPrivKey =
     perform (x_createCertificate env cert ca certPubKey caPrivKey) (XSign cert ca certPubKey caPrivKey)"

definition selfSign ::
  "('s, 'k, 'p) x509_env \<Rightarrow> Certificate \<Rightarrow> 'k \<Rightarrow> (('s, 'k, 'p) x509_state, go_error + bytes) state" where
  "selfSign env cert privKey = sign env cert cert (x_publicKey env privKey) privKey"

definition toPem :: "('s, 'k, 'p) x509_env \<Rightarrow> pem_Block \<Rightarrow> go_error + bytes" where
  "toPem env block = (case x_pemEncode env block of Inl err \<Rightarrow> Inl err | Inr buf \<Rightarrow> Inr buf)"

definition certToPEM :: "('s, 'k, 'p) x509_env \<Rightarrow> bytes \<Rightarrow> go_error + bytes" where
  "certToPEM env cert = toPem env \<lparr>block_Type = ''CERTIFICATE'', block_Bytes = cert\<rparr>"

definition privKeyToPEM :: "('s, 'k, 'p) x509_env \<Rightarrow> 'k \<Rightarrow> go_error + bytes" where
  "privKeyToPEM env privKey =
     toPem env \<lparr>block_Type = ''RSA PRIVATE KEY'', block_Bytes = x_marshalKey env privKey\<rparr>"

text \<open>The three PEM texts: certificate of the authority, certificate and private key of the agents.\<close>

record certs =
  the_caPem :: bytes
  the_certPem :: bytes
  the_keyPem :: bytes

definition CreateCerts :: "('s, 'k, 'p) x509_env \<Rightarrow> (('s, 'k, 'p) x509_state, go_error + certs) state" where
  "CreateCerts env = do {
     caCert \<leftarrow> createCertTemplate env True;
     caKey \<leftarrow> createPrivKey env;
     case caKey of Inl err \<Rightarrow> ret (Inl err) | Inr caKey \<Rightarrow> do {
     caSignedBytes \<leftarrow> selfSign env caCert caKey;
     case caSignedBytes of Inl err \<Rightarrow> ret (Inl err) | Inr caSignedBytes \<Rightarrow>
     case certToPEM env caSignedBytes of Inl err \<Rightarrow> ret (Inl err) | Inr caCertPem \<Rightarrow> do {
     cert \<leftarrow> createCertTemplate env False;
     key \<leftarrow> createPrivKey env;
     case key of Inl err \<Rightarrow> ret (Inl err) | Inr key \<Rightarrow> do {
     certSignedBytes \<leftarrow> sign env cert caCert (x_publicKey env key) caKey;
     case certSignedBytes of Inl err \<Rightarrow> ret (Inl err) | Inr certSignedBytes \<Rightarrow>
     case certToPEM env certSignedBytes of Inl err \<Rightarrow> ret (Inl err) | Inr certPem \<Rightarrow>
     case privKeyToPEM env key of Inl err \<Rightarrow> ret (Inl err) | Inr keyPem \<Rightarrow>
     ret (Inr \<lparr>the_caPem = caCertPem, the_certPem = certPem, the_keyPem = keyPem\<rparr>)
   }}}}"

section \<open>Storage (\<open>storage.go\<close>)\<close>

record MemoryCertStorage =
  mem_CaPem :: bytes
  mem_CertPem :: bytes
  mem_KeyPem :: bytes

definition Memory_GetCerts :: "MemoryCertStorage \<Rightarrow> ('s, (go_error + certs) \<times> MemoryCertStorage) state" where
  "Memory_GetCerts m = ret (Inr \<lparr>the_caPem = mem_CaPem m, the_certPem = mem_CertPem m, the_keyPem = mem_KeyPem m\<rparr>, m)"

definition secretName :: string where "secretName = ''poison-pill-certificates''"
definition caPemKey :: string where "caPemKey = ''caPem''"
definition certPemKey :: string where "certPemKey = ''certPem''"
definition keyPemKey :: string where "keyPemKey = ''keyPem''"

record Secret =
  secret_Key :: ObjectKey
  secret_Immutable :: "bool option"
  secret_Data :: "string \<rightharpoonup> bytes"
  secret_StringData :: "string \<rightharpoonup> string"
  secret_Type :: string

datatype secret_event =
    SGet ObjectKey "go_error + Secret"
  | SCreate Secret "go_error option"

record 's secret_env =
  sec_Get :: "ObjectKey \<Rightarrow> ('s, go_error + Secret) state"
  sec_Create :: "Secret \<Rightarrow> ('s, go_error option) state"

type_synonym 's secret_state = "('s, secret_event) io"

record SecretCertStorage =
  scs_namespace :: string
  scs_secret :: "Secret option"

definition NewSecretCertStorage :: "string \<Rightarrow> SecretCertStorage" where
  "NewSecretCertStorage ns = \<lparr>scs_namespace = ns, scs_secret = None\<rparr>"

definition toBuffer :: "Secret \<Rightarrow> string \<Rightarrow> bytes" where
  "toBuffer secret key = (case secret_Data secret key of None \<Rightarrow> '''' | Some b \<Rightarrow> b)"

definition secret_certs :: "Secret \<Rightarrow> certs" where
  "secret_certs secret = \<lparr>the_caPem = toBuffer secret caPemKey, the_certPem = toBuffer secret certPemKey,
     the_keyPem = toBuffer secret keyPemKey\<rparr>"

definition GetCerts ::
  "'s secret_env \<Rightarrow> SecretCertStorage \<Rightarrow> ('s secret_state, (go_error + certs) \<times> SecretCertStorage) state" where
  "GetCerts env s =
     (case scs_secret s of
        None \<Rightarrow> do {
          let key = \<lparr>key_Namespace = scs_namespace s, key_Name = secretName\<rparr>;
          got \<leftarrow> perform (sec_Get env key) (SGet key);
          case got of
            Inl err \<Rightarrow> ret (Inl err, s)
          | Inr certSecret \<Rightarrow> ret (Inr (secret_certs certSecret), s\<lparr>scs_secret := Some certSecret\<rparr>)
        }
      | Some secret \<Rightarrow> ret (Inr (secret_certs secret), s))"

definition certs_secret :: "string \<Rightarrow> certs \<Rightarrow> Secret" where
  "certs_secret ns c = \<lparr>secret_Key = \<lparr>key_Namespace = ns, key_Name = secretName\<rparr>,
     secret_Immutable = Some True, secret_Data = Map.empty,
     secret_StringData = [caPemKey \<mapsto> the_caPem c, certPemKey \<mapsto> the_certPem c, keyPemKey \<mapsto> the_keyPem c],
     secret_Type = ''Opaque''\<rparr>"

definition StoreCerts :: "'s secret_env \<Rightarrow> SecretCertStorage \<Rightarrow> certs \<Rightarrow> ('s secret_state, go_error option) state" where
  "StoreCerts env s c = do {
     let secret = certs_secret (scs_namespace s) c;
     e \<leftarrow> perform (sec_Create env secret) (SCreate secret);
     case e of
       Some err \<Rightarrow> if IsAlreadyExists err then ret None else ret (Some err)
     | None \<Rightarrow> ret None
   }"

section \<open>Credentials (\<open>credentials.go\<close>)\<close>

datatype ClientAuthType =
  NoClientCert | RequestClientCert | RequireAnyClientCert | VerifyClientCertIfGiven | RequireAndVerifyClientCert

text \<open>
  A nil pool is \<open>None\<close>; a pool is the list of its certificates. \<open>NewTLS\<close> of
  \<open>google.golang.org/grpc/credentials\<close> clones the configuration and adds the protocol \<open>h2\<close>.
\<close>

record ('t, 'x) tls_Config =
  tls_Certificates :: "'t list"
  tls_ClientAuth :: ClientAuthType
  tls_ClientCAs :: "'x list option"
  tls_RootCAs :: "'x list option"
  tls_ServerName :: string
  tls_NextProtos :: "string list"

definition zero_tls_Config :: "('t, 'x) tls_Config" where
  "zero_tls_Config = \<lparr>tls_Certificates = [], tls_ClientAuth = NoClientCert, tls_ClientCAs = None,
     tls_RootCAs = None, tls_ServerName = '''', tls_NextProtos = []\<rparr>"

definition AppendH2ToNextProtos :: "string list \<Rightarrow> string list" where
  "AppendH2ToNextProtos ps = (if ''h2'' \<in> set ps then ps else ps @ [''h2''])"

definition NewTLS :: "('t, 'x) tls_Config \<Rightarrow> ('t, 'x) tls_Config" where
  "NewTLS c = c\<lparr>tls_NextProtos := AppendH2ToNextProtos (tls_NextProtos c)\<rparr>"

text \<open>
  \<open>X509KeyPair\<close> matches a certificate with its key; \<open>AppendCertsFromPEM\<close> adds the certificates it finds to
  the pool and reports whether there was one.
\<close>

record ('t, 'x) tls_env =
  X509KeyPair :: "bytes \<Rightarrow> bytes \<Rightarrow> go_error + 't"
  certs_of_PEM :: "bytes \<Rightarrow> 'x list"

definition credentials_of :: "('t, 'x) tls_env \<Rightarrow> certs \<Rightarrow> go_error + 't \<times> 'x list" where
  "credentials_of tls c =
     (case X509KeyPair tls (the_certPem c) (the_keyPem c) of
        Inl err \<Rightarrow> Inl err
      | Inr keyPair \<Rightarrow>
          let cp = [] @ certs_of_PEM tls (the_caPem c)
          in if certs_of_PEM tls (the_caPem c) = [] then Inl (Other ''credentials: failed to append ca cert'')
             else Inr (keyPair, cp))"

definition prepareCredentials ::
  "('t, 'x) tls_env \<Rightarrow> ('r \<Rightarrow> ('s, (go_error + certs) \<times> 'r) state) \<Rightarrow> 'r \<Rightarrow>
    ('s, (go_error + 't \<times> 'x list) \<times> 'r) state" where
  "prepareCredentials tls getCerts certReader = do {
     (got, certReader) \<leftarrow> getCerts certReader;
     ret (case got of Inl err \<Rightarrow> Inl err | Inr c \<Rightarrow> credentials_of tls c, certReader)
   }"

definition GetServerCredentialsFromCerts ::
  "('t, 'x) tls_env \<Rightarrow> ('r \<Rightarrow> ('s, (go_error + certs) \<times> 'r) state) \<Rightarrow> 'r \<Rightarrow>
    ('s, (go_error + ('t, 'x) tls_Config) \<times> 'r) state" where
  "GetServerCredentialsFromCerts tls getCerts certReader = do {
     (got, certReader) \<leftarrow> prepareCredentials tls getCerts certReader;
     ret (case got of
            Inl err \<Rightarrow> Inl err
          | Inr (keyPair, pool) \<Rightarrow> Inr (NewTLS (zero_tls_Config\<lparr>tls_Certificates := [keyPair],
              tls_ClientAuth := RequireAndVerifyClientCert, tls_ClientCAs := Some pool\<rparr>)), certReader)
   }"

definition GetClientCredentialsFromCerts ::
  "('t, 'x) tls_env \<Rightarrow> ('r \<Rightarrow> ('s, (go_error + certs) \<times> 'r) state) \<Rightarrow> 'r \<Rightarrow>
    ('s, (go_error + ('t, 'x) tls_Config) \<times> 'r) state" where
  "GetClientCredentialsFromCerts tls getCerts certReader = do {
     (got, certReader) \<leftarrow> prepareCredentials tls getCerts certReader;
     ret (case got of
            Inl err \<Rightarrow> Inl err
          | Inr (keyPair, pool) \<Rightarrow> Inr (NewTLS (zero_tls_Config\<lparr>tls_Certificates := [keyPair],
              tls_RootCAs := Some pool, tls_ServerName := IP_String fixedCertIP\<rparr>)), certReader)
   }"

end
