(* ===== verification/Certificates_Trust.thy ===== *)
theory Certificates_Trust
  imports Certificates
begin

text \<open>
  What the certificates guarantee: the chain that \<open>CreateCerts\<close> makes, the round trip through the secret,
  and that server and client credentials from the same storage fit together. The contract of a
  storage reader, \<open>CertStorageReader\<close>, is a locale, interpreted on both storages.
\<close>

section \<open>The contract of a storage reader\<close>

text \<open>
  Once certificates have been read, the reader gives the same ones for ever, whatever happens to the world,
  and without touching it.
\<close>

locale cert_storage_reader =
  fixes getCerts :: "'r \<Rightarrow> ('s, (go_error + certs) \<times> 'r) state"
  assumes stable: "run_state (getCerts r) s = ((Inr c, r'), s') \<Longrightarrow>
    run_state (getCerts r') s'' = ((Inr c, r'), s'')"
begin

lemma prepared:
  "run_state (prepareCredentials tls getCerts r) s = ((Inr kp, r'), s') \<Longrightarrow>
     \<exists>c. run_state (getCerts r) s = ((Inr c, r'), s') \<and> credentials_of tls c = Inr kp"
  by (auto simp: prepareCredentials_def split: prod.splits sum.splits)

lemma prepared_again:
  assumes "run_state (prepareCredentials tls getCerts r) s = ((Inr kp, r'), s')"
  shows "run_state (prepareCredentials tls getCerts r') s'' = ((Inr kp, r'), s'')"
proof -
  obtain c where "run_state (getCerts r) s = ((Inr c, r'), s')" and "credentials_of tls c = Inr kp"
    using prepared [OF assms] by blast
  then show ?thesis
    using stable [of r s c r' s' s''] by (simp add: prepareCredentials_def)
qed

lemma server_then_client:
  assumes "run_state (GetServerCredentialsFromCerts tls getCerts r) s = ((Inr srv, r'), s')"
  shows "\<exists>cli. run_state (GetClientCredentialsFromCerts tls getCerts r') s'' = ((Inr cli, r'), s'') \<and>
    tls_Certificates cli = tls_Certificates srv \<and> tls_RootCAs cli = tls_ClientCAs srv"
proof -
  obtain keyPair pool where kp: "run_state (prepareCredentials tls getCerts r) s = ((Inr (keyPair, pool), r'), s')"
      and srv: "srv = NewTLS (zero_tls_Config\<lparr>tls_Certificates := [keyPair],
        tls_ClientAuth := RequireAndVerifyClientCert, tls_ClientCAs := Some pool\<rparr>)"
    using assms by (auto simp: GetServerCredentialsFromCerts_def split: prod.splits sum.splits)
  show ?thesis
    using prepared_again [OF kp, of s''] by (simp add: GetClientCredentialsFromCerts_def srv NewTLS_def)
qed

end

interpretation memory_reader: cert_storage_reader Memory_GetCerts
  by unfold_locales (auto simp: Memory_GetCerts_def)

interpretation secret_reader: cert_storage_reader "GetCerts env" for env
  by unfold_locales (auto simp: GetCerts_def Let_def run_perform split: option.splits sum.splits prod.splits)

section \<open>Credentials\<close>

lemma server_config:
  assumes "run_state (GetServerCredentialsFromCerts tls getCerts r) s = ((Inr srv, r'), s')"
  shows "tls_ClientAuth srv = RequireAndVerifyClientCert \<and> (\<exists>pool. tls_ClientCAs srv = Some pool \<and> pool \<noteq> [])"
  using assms
  by (auto simp: GetServerCredentialsFromCerts_def prepareCredentials_def credentials_of_def NewTLS_def Let_def
      split: prod.splits sum.splits if_splits)

lemma fixedCertIP_String: "IP_String fixedCertIP = ''192.0.2.1''"
  by code_simp

text \<open>C22.
  Mutual TLS fits together. When an agent has got its server credentials from the secret, then at any later time and
  without another request to the API server it gets client credentials: with the same
  certificate, and trusting the very authorities against which the server verifies its clients. The
  server always demands and verifies a client certificate, no pool of authorities is empty, and the
  client expects the server to be called by the IP address that the certificate is made for.\<close>

theorem credentials_match:
  assumes "run_state (GetServerCredentialsFromCerts tls (GetCerts env) r) s = ((Inr srv, r'), s')"
  shows "\<exists>cli pool. run_state (GetClientCredentialsFromCerts tls (GetCerts env) r') s'' = ((Inr cli, r'), s'') \<and>
     tls_Certificates cli = tls_Certificates srv \<and>
     tls_ClientAuth srv = RequireAndVerifyClientCert \<and> tls_ClientCAs srv = Some pool \<and>
     tls_RootCAs cli = Some pool \<and> pool \<noteq> [] \<and> tls_ServerName cli = IP_String fixedCertIP"
proof -
  obtain cli where cli: "run_state (GetClientCredentialsFromCerts tls (GetCerts env) r') s'' = ((Inr cli, r'), s'')"
      "tls_Certificates cli = tls_Certificates srv" "tls_RootCAs cli = tls_ClientCAs srv"
    using secret_reader.server_then_client [OF assms] by blast
  have "tls_ServerName cli = IP_String fixedCertIP"
    using cli(1) by (auto simp: GetClientCredentialsFromCerts_def NewTLS_def split: prod.splits sum.splits)
  with cli server_config [OF assms] show ?thesis by auto
qed
definition sample_certs :: certs where
  "sample_certs = \<lparr>the_caPem = ''ca'', the_certPem = ''cert'', the_keyPem = ''key''\<rparr>"

definition sample_secret :: Secret where
  "sample_secret = \<lparr>secret_Key = \<lparr>key_Namespace = ''ns'', key_Name = secretName\<rparr>, secret_Immutable = Some True,
     secret_Data = [caPemKey \<mapsto> ''ca'', certPemKey \<mapsto> ''cert'', keyPemKey \<mapsto> ''key''],
     secret_StringData = Map.empty, secret_Type = ''Opaque''\<rparr>"

definition sample_secret_env :: "unit secret_env" where
  "sample_secret_env = \<lparr>sec_Get = (\<lambda>_. ret (Inr sample_secret)), sec_Create = (\<lambda>_. ret None)\<rparr>"

definition sample_tls :: "(string, string) tls_env" where
  "sample_tls = \<lparr>X509KeyPair = (\<lambda>c k. Inr (c @ k)), certs_of_PEM = (\<lambda>b. [b])\<rparr>"

lemma sample_secret_certs [simp]: "secret_certs sample_secret = sample_certs"
  by (simp add: secret_certs_def sample_secret_def sample_certs_def toBuffer_def caPemKey_def certPemKey_def keyPemKey_def)

theorem credentials_match_witness:
  "\<exists>cli. run_state (GetClientCredentialsFromCerts sample_tls (GetCerts sample_secret_env)
        \<lparr>scs_namespace = ''ns'', scs_secret = Some sample_secret\<rparr>) \<lparr>world = (), trace = []\<rparr> =
      ((Inr cli, \<lparr>scs_namespace = ''ns'', scs_secret = Some sample_secret\<rparr>), \<lparr>world = (), trace = []\<rparr>) \<and>
     tls_ServerName cli = IP_String fixedCertIP \<and> tls_RootCAs cli = Some [''ca'']"
proof -
  let ?srv = "NewTLS (zero_tls_Config\<lparr>tls_Certificates := [''certkey''],
    tls_ClientAuth := RequireAndVerifyClientCert, tls_ClientCAs := Some [''ca'']\<rparr>)"
  have "run_state (GetServerCredentialsFromCerts sample_tls (GetCerts sample_secret_env) (NewSecretCertStorage ''ns''))
      \<lparr>world = (), trace = []\<rparr> =
    ((Inr ?srv, \<lparr>scs_namespace = ''ns'', scs_secret = Some sample_secret\<rparr>),
     \<lparr>world = (), trace = [SGet \<lparr>key_Namespace = ''ns'', key_Name = secretName\<rparr> (Inr sample_secret)]\<rparr>)"
    by (simp add: GetServerCredentialsFromCerts_def prepareCredentials_def GetCerts_def NewSecretCertStorage_def
        run_perform credentials_of_def sample_tls_def sample_secret_env_def sample_certs_def)
  from credentials_match [OF this, of "\<lparr>world = (), trace = []\<rparr>"] show ?thesis
    by (auto simp: NewTLS_def)
qed

section \<open>Storing and reading\<close>

text \<open>
  What the API server makes of a secret that is written: the entries of \<open>stringData\<close> are merged into \<open>data\<close>, and
  reading never gives \<open>stringData\<close>.
\<close>

definition as_stored :: "Secret \<Rightarrow> Secret" where
  "as_stored s = s\<lparr>secret_Data := secret_Data s ++ secret_StringData s, secret_StringData := Map.empty\<rparr>"

lemma secret_certs_stored: "secret_certs (as_stored (certs_secret ns c)) = c"
  by (simp add: secret_certs_def as_stored_def certs_secret_def toBuffer_def caPemKey_def certPemKey_def keyPemKey_def)

lemma emits_StoreCerts:
  "emits (StoreCerts env st c) (\<lambda>e evs. \<exists>answer.
     evs = [SCreate (certs_secret (scs_namespace st) c) answer] \<and> (e = None \<longleftrightarrow> answer \<in> {None, Some AlreadyExists}))"
  by (auto simp: StoreCerts_def Let_def intro!: emits_intros split: option.split)

text \<open>C38.
  Certificates survive the secret. \<open>StoreCerts\<close> makes exactly one request, to create an immutable secret, and
  succeeds if that does or if there is a secret already. A storage of the same namespace that is given that
  secret, as the API server keeps it, returns the certificates that were stored.\<close>

theorem store_get_roundtrip:
  assumes "run_state (StoreCerts env (NewSecretCertStorage ns) c) s = (e, s')"
  shows "\<exists>secret answer. trace s' = trace s @ [SCreate secret answer] \<and>
     (e = None \<longleftrightarrow> answer \<in> {None, Some AlreadyExists}) \<and> secret_Immutable secret = Some True \<and>
     secret_Key secret = \<lparr>key_Namespace = ns, key_Name = secretName\<rparr> \<and>
     (\<forall>env' t w. run_state (sec_Get env' (secret_Key secret)) (world t) = (Inr (as_stored secret), w) \<longrightarrow>
        fst (fst (run_state (GetCerts env' (NewSecretCertStorage ns)) t)) = Inr c)"
proof -
  obtain answer where "trace s' = trace s @ [SCreate (certs_secret ns c) answer]"
      "e = None \<longleftrightarrow> answer \<in> {None, Some AlreadyExists}"
    using emits_run [OF emits_StoreCerts assms]
    unfolding NewSecretCertStorage_def SecretCertStorage.select_convs by blast
  moreover have "fst (fst (run_state (GetCerts env' (NewSecretCertStorage ns)) t)) = Inr c"
    if "run_state (sec_Get env' (secret_Key (certs_secret ns c))) (world t) = (Inr (as_stored (certs_secret ns c)), w)"
    for env' t w
    using that secret_certs_stored [of ns c]
    by (simp add: GetCerts_def NewSecretCertStorage_def run_perform Let_def certs_secret_def)
  ultimately show ?thesis
    by (intro exI [of _ "certs_secret ns c"] exI [of _ answer] conjI allI impI) (simp_all add: certs_secret_def)
qed

theorem store_get_roundtrip_witness:
  "\<exists>secret. run_state (StoreCerts sample_secret_env (NewSecretCertStorage ''ns'') sample_certs) \<lparr>world = (), trace = []\<rparr> =
      (None, \<lparr>world = (), trace = [SCreate secret None]\<rparr>) \<and>
    fst (fst (run_state (GetCerts (sample_secret_env\<lparr>sec_Get := (\<lambda>_. ret (Inr (as_stored secret)))\<rparr>)
      (NewSecretCertStorage ''ns'')) \<lparr>world = (), trace = []\<rparr>)) = Inr sample_certs"
proof -
  obtain e s' where run: "run_state (StoreCerts sample_secret_env (NewSecretCertStorage ''ns'') sample_certs)
      \<lparr>world = (), trace = []\<rparr> = (e, s')" by fastforce
  then have "e = None"
    by (auto simp: StoreCerts_def sample_secret_env_def run_perform Let_def)
  obtain secret answer where tr: "trace s' = [SCreate secret answer]"
    and get: "\<forall>(env' :: unit secret_env) t w. run_state (sec_Get env' (secret_Key secret)) (world t) = (Inr (as_stored secret), w) \<longrightarrow>
        fst (fst (run_state (GetCerts env' (NewSecretCertStorage ''ns'')) t)) = Inr sample_certs"
    using store_get_roundtrip [OF run] by (simp only: io.select_convs append_Nil) blast
  then have "trace s' = [SCreate secret None]"
    using run by (auto simp: StoreCerts_def sample_secret_env_def run_perform Let_def)
  moreover have "fst (fst (run_state (GetCerts (sample_secret_env\<lparr>sec_Get := (\<lambda>_. ret (Inr (as_stored secret)))\<rparr>)
      (NewSecretCertStorage ''ns'')) \<lparr>world = (), trace = []\<rparr>)) = Inr sample_certs"
    by (rule get [rule_format]) simp
  ultimately show ?thesis
    using run \<open>e = None\<close> by (intro exI [of _ secret]) simp
qed

section \<open>The chain of certificates\<close>

text \<open>The steps behind a result of \<open>CreateCerts\<close>: an authority that signs itself, and one certificate signed by it.\<close>

definition cert_chain ::
  "('s, 'k, 'p) x509_env \<Rightarrow> Certificate \<Rightarrow> Certificate \<Rightarrow> 'k \<Rightarrow> 'k \<Rightarrow> bytes \<Rightarrow> bytes \<Rightarrow> ('k, 'p) x509_event list \<Rightarrow> bool" where
  "cert_chain env ca leaf caKey key caBytes leafBytes evs \<longleftrightarrow>
     (\<exists>t1 t2 t3 t4. evs =
        [XNow t1, XNow t2, XKey 4096 (Inr caKey), XSign ca ca (x_publicKey env caKey) caKey (Inr caBytes),
         XNow t3, XNow t4, XKey 4096 (Inr key), XSign leaf ca (x_publicKey env key) caKey (Inr leafBytes)] \<and>
        cert_NotBefore ca = t1 \<and> cert_NotAfter ca = x_addDate env t2 10 0 0 \<and>
        cert_NotBefore leaf = t3 \<and> cert_NotAfter leaf = x_addDate env t4 10 0 0) \<and>
     cert_IsCA ca \<and> cert_BasicConstraintsValid ca \<and> bit (cert_KeyUsage ca) 5 \<and>
     \<not> cert_IsCA leaf \<and> \<not> bit (cert_KeyUsage leaf) 5 \<and> cert_IPAddresses leaf = [fixedCertIP] \<and>
     set (cert_ExtKeyUsage leaf) = {ExtKeyUsageClientAuth, ExtKeyUsageServerAuth}"

definition step_failed :: "('s, 'k, 'p) x509_env \<Rightarrow> go_error \<Rightarrow> ('k, 'p) x509_event list \<Rightarrow> bool" where
  "step_failed env err evs \<longleftrightarrow>
     evs \<noteq> [] \<and>
       (last evs = XKey 4096 (Inl err) \<or> (\<exists>cert ca pub key. last evs = XSign cert ca pub key (Inl err))) \<or>
     (\<exists>block. x_pemEncode env block = Inl err)"

definition ca_template :: "('s, 'k, 'p) x509_env \<Rightarrow> time \<Rightarrow> time \<Rightarrow> Certificate" where
  "ca_template env t t' = \<lparr>cert_SerialNumber = 12345, cert_Organization = [''medik8s''],
     cert_NotBefore = t, cert_NotAfter = x_addDate env t' 10 0 0, cert_IsCA = True, cert_BasicConstraintsValid = True,
     cert_ExtKeyUsage = [ExtKeyUsageClientAuth, ExtKeyUsageServerAuth],
     cert_KeyUsage = or KeyUsageDigitalSignature KeyUsageCertSign, cert_IPAddresses = []\<rparr>"

definition leaf_template :: "('s, 'k, 'p) x509_env \<Rightarrow> time \<Rightarrow> time \<Rightarrow> Certificate" where
  "leaf_template env t t' = \<lparr>cert_SerialNumber = 12345, cert_Organization = [''medik8s''],
     cert_NotBefore = t, cert_NotAfter = x_addDate env t' 10 0 0, cert_IsCA = False, cert_BasicConstraintsValid = False,
     cert_ExtKeyUsage = [ExtKeyUsageClientAuth, ExtKeyUsageServerAuth],
     cert_KeyUsage = KeyUsageDigitalSignature, cert_IPAddresses = [fixedCertIP]\<rparr>"

lemma createCertTemplate_eq:
  "createCertTemplate env isCa = do {
     t \<leftarrow> perform (x_now env) XNow;
     t' \<leftarrow> perform (x_now env) XNow;
     ret (if isCa then ca_template env t t' else leaf_template env t t')
   }"
  by (cases isCa) (simp_all add: createCertTemplate_def ca_template_def leaf_template_def Let_def)

lemma cert_chain_templates:
  "cert_chain env (ca_template env t1 t2) (leaf_template env t3 t4) caKey key caBytes leafBytes
     [XNow t1, XNow t2, XKey 4096 (Inr caKey), XSign (ca_template env t1 t2) (ca_template env t1 t2) (x_publicKey env caKey) caKey (Inr caBytes),
      XNow t3, XNow t4, XKey 4096 (Inr key), XSign (leaf_template env t3 t4) (ca_template env t1 t2) (x_publicKey env key) caKey (Inr leafBytes)]"
  by (simp add: cert_chain_def ca_template_def leaf_template_def KeyUsageDigitalSignature_def KeyUsageCertSign_def
      bit_simps insert_commute)

lemma emits_CreateCerts:
  "emits (CreateCerts env) (\<lambda>r evs.
     case r of
       Inl err \<Rightarrow> step_failed env err evs
     | Inr c \<Rightarrow> \<exists>ca leaf caKey key caBytes leafBytes.
         cert_chain env ca leaf caKey key caBytes leafBytes evs \<and>
         certToPEM env caBytes = Inr (the_caPem c) \<and> certToPEM env leafBytes = Inr (the_certPem c) \<and>
         privKeyToPEM env key = Inr (the_keyPem c))"
proof -
  have pem: "\<exists>block. x_pemEncode env block = Inl e"
    if "certToPEM env b = Inl e \<or> privKeyToPEM env k = Inl e" for e b k
    using that by (auto simp: certToPEM_def privKeyToPEM_def toPem_def split: sum.splits)
  show ?thesis
    unfolding CreateCerts_def createCertTemplate_eq createPrivKey_def selfSign_def sign_def bind_assoc
    by (auto intro!: emits_intros split: sum.split simp: step_failed_def)
      ((use pem in blast)+, intro exI conjI, rule cert_chain_templates, assumption+)
qed

text \<open>The chain of certificates. Whatever the libraries answer, \<open>CreateCerts\<close> either fails with the error of its last step, or
  returns the PEM forms of a self-signed authority, of one certificate signed with the authority's key, and of
  the key of that certificate. The authority may sign certificates; the other one may not, it is valid for the
  fixed IP address and for clients as well as servers. The key of the authority is in none of the results.\<close>

lemma CreateCerts_chain:
  "emits (CreateCerts env) (\<lambda>r evs.
     case r of
       Inl err \<Rightarrow> step_failed env err evs
     | Inr c \<Rightarrow> \<exists>ca leaf caKey key caBytes leafBytes.
         cert_chain env ca leaf caKey key caBytes leafBytes evs \<and>
         certToPEM env caBytes = Inr (the_caPem c) \<and> certToPEM env leafBytes = Inr (the_certPem c) \<and>
         privKeyToPEM env key = Inr (the_keyPem c))"
  by (rule emits_CreateCerts)

end
