(* ===== verification/Apply.thy ===== *)
theory Apply
  imports Unstructured
begin

text \<open>
  Applying a manifest, \<open>src/pkg/apply/merge.go\<close> and \<open>apply.go\<close>: the desired object is merged with the
  existing one, so that what the API server and other writers own survives, and is updated only if
  that makes a difference.
\<close>

section \<open>Merging (\<open>merge.go\<close>)\<close>

text \<open>
  The loops over a Go map copy each entry of \<open>updated\<close> into \<open>current\<close>'s: the order does not matter.
\<close>

definition mergeAnnotations :: "object \<Rightarrow> object \<Rightarrow> object" where
  "mergeAnnotations current updated =
     (let updatedAnnotations = GetAnnotations updated;
          curAnnotations = (case GetAnnotations current of None \<Rightarrow> fmempty | Some m \<Rightarrow> m);
          curAnnotations = (case updatedAnnotations of None \<Rightarrow> curAnnotations | Some m \<Rightarrow> fmadd curAnnotations m)
      in if curAnnotations \<noteq> fmempty then SetAnnotations updated (Some curAnnotations) else updated)"

definition mergeLabels :: "object \<Rightarrow> object \<Rightarrow> object" where
  "mergeLabels current updated =
     (let updatedLabels = GetLabels updated;
          curLabels = (case GetLabels current of None \<Rightarrow> fmempty | Some m \<Rightarrow> m);
          curLabels = (case updatedLabels of None \<Rightarrow> curLabels | Some m \<Rightarrow> fmadd curLabels m)
      in if curLabels \<noteq> fmempty then SetLabels updated (Some curLabels) else updated)"

definition mergeMetadataForUpdate :: "'m codec \<Rightarrow> object \<Rightarrow> object \<Rightarrow> object" where
  "mergeMetadataForUpdate cd current updated =
     (let updated = SetCreationTimestamp cd updated (GetCreationTimestamp cd current);
          updated = SetSelfLink updated (GetSelfLink current);
          updated = SetGeneration updated (GetGeneration current);
          updated = SetUID updated (GetUID current);
          updated = SetResourceVersion updated (GetResourceVersion current);
          updated = SetManagedFields cd updated (GetManagedFields cd current);
          updated = SetFinalizers updated (GetFinalizers current);
          updated = mergeAnnotations current updated
      in mergeLabels current updated)"

definition deploymentRevisionAnnotation :: string where
  "deploymentRevisionAnnotation = ''deployment.kubernetes.io/revision''"

definition mergeDeploymentForUpdate :: "object \<Rightarrow> object \<Rightarrow> go_error + object" where
  "mergeDeploymentForUpdate current updated =
     (let gvk = GetGroupVersionKind updated
      in if gvk_Group gvk = ''apps'' \<and> gvk_Kind gvk = ''Deployment'' then
           let curAnnotations = GetAnnotations current;
               updatedAnnotations = (case GetAnnotations updated of None \<Rightarrow> fmempty | Some m \<Rightarrow> m);
               updatedAnnotations =
                 (case Option.bind curAnnotations (\<lambda>m. fmlookup m deploymentRevisionAnnotation) of
                    Some anno \<Rightarrow> fmupd deploymentRevisionAnnotation anno updatedAnnotations
                  | None \<Rightarrow> updatedAnnotations)
           in Inr (SetAnnotations updated (Some updatedAnnotations))
         else Inr updated)"

text \<open>Go on with the value unless there is an error.\<close>

definition andThen :: "go_error + 'a \<Rightarrow> ('a \<Rightarrow> go_error + 'b) \<Rightarrow> go_error + 'b" where
  "andThen r f = (case r of Inl err \<Rightarrow> Inl err | Inr a \<Rightarrow> f a)"

definition mergeServiceForUpdate :: "object \<Rightarrow> object \<Rightarrow> go_error + object" where
  "mergeServiceForUpdate current updated =
     (let gvk = GetGroupVersionKind updated
      in if gvk_Group gvk = '''' \<and> gvk_Kind gvk = ''Service'' then
           andThen (NestedString current [''spec'', ''clusterIP'']) (\<lambda>clusterIP.
           andThen (case clusterIP of
               Some ip \<Rightarrow> setNestedField updated (JStr ip) [''spec'', ''clusterIP'']
             | None \<Rightarrow> Inr updated) (\<lambda>updated.
           andThen (NestedStringSlice current [''spec'', ''clusterIPs'']) (\<lambda>clusterIPs.
           andThen (case clusterIPs of
               Some ips \<Rightarrow> SetNestedStringSlice updated ips [''spec'', ''clusterIPs'']
             | None \<Rightarrow> Inr updated) (\<lambda>updated.
           andThen (NestedStringSlice current [''spec'', ''ipFamilies'']) (\<lambda>ipFamilies.
           andThen (case ipFamilies of
               Some fams \<Rightarrow> SetNestedStringSlice updated fams [''spec'', ''ipFamilies'']
             | None \<Rightarrow> Inr updated) (\<lambda>updated.
           andThen (NestedString current [''spec'', ''ipFamilyPolicy'']) (\<lambda>old.
           andThen (NestedString updated [''spec'', ''ipFamilyPolicy'']) (\<lambda>new.
             case (old, new) of
               (Some ipFamilyPolicy, None) \<Rightarrow>
                 setNestedField updated (JStr ipFamilyPolicy) [''spec'', ''ipFamilyPolicy'']
             | _ \<Rightarrow> Inr updated))))))))
         else Inr updated)"

definition mergeServiceAccountForUpdate :: "object \<Rightarrow> object \<Rightarrow> go_error + object" where
  "mergeServiceAccountForUpdate current updated =
     (let gvk = GetGroupVersionKind updated
      in if gvk_Group gvk = '''' \<and> gvk_Kind gvk = ''ServiceAccount'' then
           andThen (NestedSlice current [''secrets'']) (\<lambda>curSecrets.
           andThen (case curSecrets of
               Some vs \<Rightarrow> setNestedField updated (JArr vs) [''secrets'']
             | None \<Rightarrow> Inr updated) (\<lambda>updated.
           andThen (NestedSlice current [''imagePullSecrets'']) (\<lambda>curImagePullSecrets.
             case curImagePullSecrets of
               Some vs \<Rightarrow> setNestedField updated (JArr vs) [''imagePullSecrets'']
             | None \<Rightarrow> Inr updated)))
         else Inr updated)"

definition MergeObjectForUpdate :: "'m codec \<Rightarrow> object \<Rightarrow> object \<Rightarrow> go_error + object" where
  "MergeObjectForUpdate cd current updated =
     andThen (mergeDeploymentForUpdate current updated) (\<lambda>updated.
     andThen (mergeServiceForUpdate current updated) (\<lambda>updated.
     andThen (mergeServiceAccountForUpdate current updated) (\<lambda>updated.
       Inr (mergeMetadataForUpdate cd current updated))))"

definition IsObjectSupported :: "object \<Rightarrow> go_error option" where
  "IsObjectSupported obj =
     (let gvk = GetGroupVersionKind obj
      in if gvk_Group gvk = '''' \<and> gvk_Kind gvk = ''ServiceAccount'' then
           (case NestedSlice obj [''secrets''] of
              Inl err \<Rightarrow> Some err
            | Inr (Some secrets) \<Rightarrow>
                if length secrets > 0 then Some (Other ''cannot create ServiceAccount with secrets'') else None
            | Inr None \<Rightarrow> None)
         else None)"

section \<open>Applying (\<open>apply.go\<close>)\<close>

datatype apply_event =
    LGet GroupVersionKind ObjectKey "go_error + object"
  | LCreate object "go_error option"
  | LUpdate object "go_error option"

record 's apply_env =
  client_Get :: "GroupVersionKind \<Rightarrow> ObjectKey \<Rightarrow> ('s, go_error + object) state"
  client_Create :: "object \<Rightarrow> ('s, go_error option) state"
  client_Update :: "object \<Rightarrow> ('s, go_error option) state"

type_synonym 's apply_state = "('s, apply_event) io"

definition objDesc :: "object \<Rightarrow> string" where
  "objDesc obj = ''('' @ gvk_String (GetGroupVersionKind obj) @ '') '' @ GetNamespace obj @ ''/'' @ GetName obj"

definition ApplyObject ::
  "'m codec \<Rightarrow> 's apply_env \<Rightarrow> object \<Rightarrow> ('s apply_state, go_error option) state" where
  "ApplyObject cd client obj = do {
     let name = GetName obj;
     let ns = GetNamespace obj;
     let gvk = GetGroupVersionKind obj;
     if name = '''' then ret (Some (Other (''Object '' @ gvk_String gvk @ '' has no name'')))
     else case IsObjectSupported obj of
       Some err \<Rightarrow> ret (Wrapf (Some err) (''object '' @ objDesc obj @ '' unsupported''))
     | None \<Rightarrow> do {
         let key = \<lparr>key_Namespace = ns, key_Name = name\<rparr>;
         got \<leftarrow> perform (client_Get client gvk key) (LGet gvk key);
         case got of
           Inl err \<Rightarrow>
             if IsNotFound err then do {
               e \<leftarrow> perform (client_Create client obj) (LCreate obj);
               case e of
                 Some err \<Rightarrow> ret (Wrapf (Some err) (''could not create '' @ objDesc obj))
               | None \<Rightarrow> ret None
             }
             else ret (Wrapf (Some err) (''could not retrieve existing '' @ objDesc obj))
         | Inr existing \<Rightarrow>
             (case MergeObjectForUpdate cd existing obj of
                Inl err \<Rightarrow> ret (Wrapf (Some err) (''could not merge object '' @ objDesc obj @ '' with existing''))
              | Inr merged \<Rightarrow>
                  if existing \<noteq> merged then do {
                    e \<leftarrow> perform (client_Update client merged) (LUpdate merged);
                    case e of
                      Some err \<Rightarrow> ret (Wrapf (Some err) (''could not update object '' @ objDesc obj))
                    | None \<Rightarrow> ret None
                  }
                  else ret None)
       }
   }"

end
