(* ===== verification/Apply_Merge.thy ===== *)
theory Apply_Merge
  imports Apply
begin

text \<open>
  What merging does to the metadata, entry by entry, and that merging the same manifest into the merged object
  changes nothing.
\<close>

section \<open>Objects and their metadata\<close>

definition with_meta :: "object \<Rightarrow> object \<Rightarrow> object" where
  "with_meta obj md = fmupd ''metadata'' (JObj md) obj"

definition put :: "string \<Rightarrow> json option \<Rightarrow> object \<Rightarrow> object" where
  "put k v md = (case v of None \<Rightarrow> fmdrop k md | Some j \<Rightarrow> fmupd k j md)"

lemma fmlookup_put [simp]: "fmlookup (put k v md) k' = (if k' = k then v else fmlookup md k')"
  by (cases v) (simp_all add: put_def)

lemma fmlookup_with_meta [simp]:
  "fmlookup (with_meta obj md) k = (if k = ''metadata'' then Some (JObj md) else fmlookup obj k)"
  by (simp add: with_meta_def)

lemma with_meta_with_meta [simp]: "with_meta (with_meta obj md) md' = with_meta obj md'"
  by (rule fmap_ext) simp

lemma with_meta_inject: "with_meta obj md = with_meta obj md' \<longleftrightarrow> md = md'"
  by (metis fmlookup_with_meta json.inject(6) option.inject)

lemma meta_object: "fmlookup obj ''metadata'' = Some (JObj md) \<Longrightarrow> obj = with_meta obj md"
  by (rule fmap_ext) auto

lemma nested_meta [simp]: "NestedFieldNoCopy (with_meta obj md) [''metadata'', k] = Inr (fmlookup md k)"
  by (simp add: NestedFieldNoCopy_def split: option.split)

lemma set_meta [simp]:
  "setNestedField (with_meta obj md) v [''metadata'', k] = Inr (with_meta obj (put k (Some v) md))"
  by (simp add: put_def) (rule fmap_ext, simp)

lemma remove_meta [simp]:
  "RemoveNestedField (with_meta obj md) [''metadata'', k] = with_meta obj (put k None md)"
  by (simp add: put_def) (rule fmap_ext, simp)

declare setNestedField.simps [simp del] RemoveNestedField.simps [simp del]

section \<open>Accessors on the metadata\<close>

definition md_string :: "object \<Rightarrow> string \<Rightarrow> string" where
  "md_string md k = (case fmlookup md k of Some (JStr s) \<Rightarrow> s | _ \<Rightarrow> '''')"

definition non_empty :: "string \<Rightarrow> json option" where
  "non_empty s = (if s = '''' then None else Some (JStr s))"

lemma set_string_or_remove_meta [simp]:
  "set_string_or_remove (with_meta obj md) s [''metadata'', k] = with_meta obj (put k (non_empty s) md)"
  by (simp add: set_string_or_remove_def or_same_def non_empty_def)

lemma md_string_put_non_empty [simp]: "md_string (put k (non_empty s) md) k = s"
  by (simp add: md_string_def non_empty_def)

lemma md_string_put_other [simp]: "k \<noteq> k' \<Longrightarrow> md_string (put k v md) k' = md_string md k'"
  by (simp add: md_string_def)

definition md_generation :: "object \<Rightarrow> int" where
  "md_generation md = (case fmlookup md ''generation'' of Some (JInt i) \<Rightarrow> i | _ \<Rightarrow> 0)"

definition md_time :: "'m codec \<Rightarrow> object \<Rightarrow> time" where
  "md_time cd md =
     (let str = md_string md ''creationTimestamp''
      in if str = '''' \<or> str = ''null'' then 0 else case parse_time cd str of None \<Rightarrow> 0 | Some t \<Rightarrow> t)"

definition json_of_time :: "'m codec \<Rightarrow> time \<Rightarrow> json option" where
  "json_of_time cd t = (if t = 0 then None else non_empty (format_time cd t))"

definition md_finalizers :: "object \<Rightarrow> string list option" where
  "md_finalizers md =
     (case fmlookup md ''finalizers'' of Some (JArr vs) \<Rightarrow> strings_loop vs [] | _ \<Rightarrow> None)"

definition md_managed :: "'m codec \<Rightarrow> object \<Rightarrow> 'm list option" where
  "md_managed cd md =
     (case fmlookup md ''managedFields'' of Some (JArr vs) \<Rightarrow> managedFields_from cd vs [] | _ \<Rightarrow> None)"

definition md_strings :: "object \<Rightarrow> string \<Rightarrow> (string, string) fmap option" where
  "md_strings md k =
     (case fmlookup md k of
        Some (JObj m) \<Rightarrow>
          if fmpred (\<lambda>_ v. jstring v \<noteq> None) m then Some (fmmap (\<lambda>v. the (jstring v)) m) else None
      | _ \<Rightarrow> None)"

definition meta :: "object \<Rightarrow> object" where
  "meta obj = (case fmlookup obj ''metadata'' of Some (JObj md) \<Rightarrow> md | _ \<Rightarrow> fmempty)"

lemma meta_with_meta [simp]: "meta (with_meta obj md) = md"
  by (simp add: meta_def)

lemma get_meta_accessors [simp]:
  "GetUID obj = md_string (meta obj) ''uid''"
  "GetResourceVersion obj = md_string (meta obj) ''resourceVersion''"
  "GetSelfLink obj = md_string (meta obj) ''selfLink''"
  "GetName obj = md_string (meta obj) ''name''"
  "GetNamespace obj = md_string (meta obj) ''namespace''"
  "GetGeneration obj = md_generation (meta obj)"
  "GetCreationTimestamp cd obj = md_time cd (meta obj)"
  "GetFinalizers obj = md_finalizers (meta obj)"
  "GetManagedFields cd obj = md_managed cd (meta obj)"
  "GetLabels obj = md_strings (meta obj) ''labels''"
  "GetAnnotations obj = md_strings (meta obj) ''annotations''"
  by (simp_all add: GetUID_def GetResourceVersion_def GetSelfLink_def GetName_def GetNamespace_def
      GetGeneration_def md_generation_def NestedInt64_def GetCreationTimestamp_def md_time_def zeroTime_def
      GetFinalizers_def md_finalizers_def NestedStringSlice_def GetManagedFields_def md_managed_def NestedSlice_def
      GetLabels_def GetAnnotations_def md_strings_def NestedStringMap_def getNestedString_def NestedString_def
      md_string_def meta_def NestedFieldNoCopy_def Let_def
      split: option.split json.split)

lemma named_meta: "GetName obj \<noteq> '''' \<Longrightarrow> obj = with_meta obj (meta obj)"
  by (rule meta_object) (auto simp: md_string_def meta_def split: option.splits json.splits)

lemma set_meta_accessors [simp]:
  "SetUID (with_meta obj md) s = with_meta obj (put ''uid'' (non_empty s) md)"
  "SetResourceVersion (with_meta obj md) s = with_meta obj (put ''resourceVersion'' (non_empty s) md)"
  "SetSelfLink (with_meta obj md) s = with_meta obj (put ''selfLink'' (non_empty s) md)"
  "SetGeneration (with_meta obj md) i = with_meta obj (put ''generation'' (if i = 0 then None else Some (JInt i)) md)"
  "SetCreationTimestamp cd (with_meta obj md) t = with_meta obj (put ''creationTimestamp'' (json_of_time cd t) md)"
  "SetFinalizers (with_meta obj md) fs = with_meta obj (put ''finalizers'' (map_option (\<lambda>fs. JArr (map JStr fs)) fs) md)"
  "SetLabels (with_meta obj md) (Some m) = with_meta obj (put ''labels'' (Some (JObj (fmmap JStr m))) md)"
  "SetAnnotations (with_meta obj md) (Some m) = with_meta obj (put ''annotations'' (Some (JObj (fmmap JStr m))) md)"
  by (auto simp: SetUID_def SetResourceVersion_def SetSelfLink_def SetGeneration_def SetCreationTimestamp_def
      json_of_time_def non_empty_def SetFinalizers_def SetNestedStringSlice_def SetLabels_def SetAnnotations_def
      SetNestedStringMap_def or_same_def Let_def time_IsZero_def zeroTime_def split: option.split)

lemma managed_set_meta [simp]:
  "SetManagedFields cd (with_meta obj md) ms =
     with_meta obj (put ''managedFields''
       (case ms of None \<Rightarrow> None
        | Some ms \<Rightarrow> (case managedFields_to cd ms [] of None \<Rightarrow> fmlookup md ''managedFields''
                      | Some items \<Rightarrow> Some (JArr items))) md)"
  by (auto simp: SetManagedFields_def or_same_def put_def intro!: fmap_ext split: option.split)

section \<open>The merged metadata\<close>

definition or_empty :: "('k, 'v) fmap option \<Rightarrow> ('k, 'v) fmap" where
  "or_empty m = (case m of None \<Rightarrow> fmempty | Some m \<Rightarrow> m)"

definition merged_strings :: "object \<Rightarrow> object \<Rightarrow> string \<Rightarrow> (string, string) fmap" where
  "merged_strings cm um k = or_empty (md_strings cm k) ++\<^sub>f or_empty (md_strings um k)"

definition strings_entry :: "object \<Rightarrow> object \<Rightarrow> string \<Rightarrow> json option" where
  "strings_entry cm um k =
     (let m = merged_strings cm um k in if m = fmempty then fmlookup um k else Some (JObj (fmmap JStr m)))"

definition managed_entry :: "'m codec \<Rightarrow> object \<Rightarrow> object \<Rightarrow> json option" where
  "managed_entry cd cm um =
     (case md_managed cd cm of
        None \<Rightarrow> None
      | Some ms \<Rightarrow> (case managedFields_to cd ms [] of
          None \<Rightarrow> fmlookup um ''managedFields''
        | Some items \<Rightarrow> Some (JArr items)))"

definition merged_entry :: "'m codec \<Rightarrow> object \<Rightarrow> object \<Rightarrow> string \<Rightarrow> json option" where
  "merged_entry cd cm um k =
     (if k = ''creationTimestamp'' then json_of_time cd (md_time cd cm)
      else if k \<in> {''selfLink'', ''uid'', ''resourceVersion''} then non_empty (md_string cm k)
      else if k = ''generation'' then (if md_generation cm = 0 then None else Some (JInt (md_generation cm)))
      else if k = ''managedFields'' then managed_entry cd cm um
      else if k = ''finalizers'' then map_option (\<lambda>fs. JArr (map JStr fs)) (md_finalizers cm)
      else if k \<in> {''annotations'', ''labels''} then strings_entry cm um k
      else fmlookup um k)"

definition is_merged :: "'m codec \<Rightarrow> object \<Rightarrow> object \<Rightarrow> object \<Rightarrow> bool" where
  "is_merged cd cm um mm \<longleftrightarrow> (\<forall>k. fmlookup mm k = merged_entry cd cm um k)"

lemma md_strings_put_other [simp]: "k \<noteq> k' \<Longrightarrow> md_strings (put k v md) k' = md_strings md k'"
  by (simp add: md_strings_def)

lemma mergeAnnotations_meta:
  "mergeAnnotations cur (with_meta u um) =
     with_meta u (put ''annotations'' (strings_entry (meta cur) um ''annotations'') um)"
  by (auto simp: mergeAnnotations_def strings_entry_def merged_strings_def or_empty_def Let_def put_def
      intro!: fmap_ext split: option.split)

lemma mergeLabels_meta:
  "mergeLabels cur (with_meta u um) =
     with_meta u (put ''labels'' (strings_entry (meta cur) um ''labels'') um)"
  by (auto simp: mergeLabels_def strings_entry_def merged_strings_def or_empty_def Let_def put_def
      intro!: fmap_ext split: option.split)

lemma strings_entry_put [simp]:
  "k \<noteq> k' \<Longrightarrow> strings_entry cm (put k v um) k' = strings_entry cm um k'"
  by (auto simp: strings_entry_def merged_strings_def Let_def)

lemma mergeMetadata_meta:
  obtains mm where "mergeMetadataForUpdate cd cur (with_meta u um) = with_meta u mm"
    and "is_merged cd (meta cur) um mm"
proof -
  let ?cm = "meta cur"
  let ?mm = "put ''labels'' (strings_entry ?cm um ''labels'') (put ''annotations'' (strings_entry ?cm um ''annotations'')
    (put ''finalizers'' (map_option (\<lambda>fs. JArr (map JStr fs)) (md_finalizers ?cm)) (put ''managedFields'' (managed_entry cd ?cm um)
    (put ''resourceVersion'' (non_empty (md_string ?cm ''resourceVersion'')) (put ''uid'' (non_empty (md_string ?cm ''uid''))
    (put ''generation'' (if md_generation ?cm = 0 then None else Some (JInt (md_generation ?cm)))
    (put ''selfLink'' (non_empty (md_string ?cm ''selfLink''))
    (put ''creationTimestamp'' (json_of_time cd (md_time cd ?cm)) um))))))))"
  have "mergeMetadataForUpdate cd cur (with_meta u um) = with_meta u ?mm"
    by (simp add: mergeMetadataForUpdate_def mergeAnnotations_meta mergeLabels_meta managed_entry_def
        cong: option.case_cong)
  moreover have "is_merged cd ?cm um ?mm"
    by (simp add: is_merged_def merged_entry_def)
  ultimately show thesis
    by (rule that)
qed

section \<open>Merging again\<close>

text \<open>
  What the conversions of \<open>current\<close>'s own values have to give back for a second merge to read what the
  first has written: the API server prints a creation timestamp in whole seconds, and an entry of the
  managed fields that has been read can be written and read again.
\<close>

definition time_stable :: "'m codec \<Rightarrow> time \<Rightarrow> bool" where
  "time_stable cd t \<longleftrightarrow>
     t = 0 \<or> format_time cd t \<notin> {'''', ''null''} \<and> parse_time cd (format_time cd t) = Some t"

definition managed_stable :: "'m codec \<Rightarrow> 'm list option \<Rightarrow> bool" where
  "managed_stable cd ms =
     (case ms of
        None \<Rightarrow> True
      | Some ms \<Rightarrow> (case managedFields_to cd ms [] of
          None \<Rightarrow> False
        | Some items \<Rightarrow> managedFields_from cd items [] = Some ms))"

definition codec_stable :: "'m codec \<Rightarrow> object \<Rightarrow> bool" where
  "codec_stable cd current \<longleftrightarrow>
     time_stable cd (GetCreationTimestamp cd current) \<and> managed_stable cd (GetManagedFields cd current)"

lemma strings_loop_JStr [simp]: "strings_loop (map JStr fs) acc = Some (acc @ fs)"
  by (induction fs arbitrary: acc) (simp_all add: jstring_def)

lemma strings_of_JStr: "fmmap (\<lambda>v. the (jstring v)) (fmmap JStr m) = m"
  by (rule fmap_ext) (simp add: jstring_def option.map_comp comp_def option.map_ident)

lemma md_strings_JStr:
  "fmlookup md k = Some (JObj (fmmap JStr m)) \<Longrightarrow> md_strings md k = Some m"
  using strings_of_JStr [of m] by (simp add: md_strings_def fmpred_iff) (auto simp: jstring_def)

lemma md_strings_entry:
  assumes "fmlookup mm k = strings_entry cm um k"
  shows "or_empty (md_strings mm k) = merged_strings cm um k"
    and "merged_strings mm um k = merged_strings cm um k"
proof -
  let ?m = "merged_strings cm um k"
  have empty: "?m = fmempty \<Longrightarrow> or_empty (md_strings um k) = fmempty"
    by (rule fmap_ext) (metis fmempty_lookup fmlookup_add merged_strings_def fmdom_notD)
  show *: "or_empty (md_strings mm k) = ?m"
  proof (cases "?m = fmempty")
    case True
    then have "md_strings mm k = md_strings um k"
      using assms by (simp add: strings_entry_def md_strings_def)
    with empty [OF True] True show ?thesis by simp
  next
    case False
    then show ?thesis
      using assms by (simp add: strings_entry_def md_strings_JStr or_empty_def)
  qed
  show "merged_strings mm um k = ?m"
    unfolding merged_strings_def [of mm] * by (rule fmap_ext) (simp add: merged_strings_def)
qed

lemma merged_lookup: "is_merged cd cm um mm \<Longrightarrow> fmlookup mm k = merged_entry cd cm um k"
  by (simp add: is_merged_def)

lemma kept_strings:
  "is_merged cd cm um mm \<Longrightarrow> k \<in> {''selfLink'', ''uid'', ''resourceVersion''} \<Longrightarrow>
     md_string mm k = md_string cm k"
  by (auto simp: md_string_def [of mm] merged_lookup merged_entry_def non_empty_def)

lemma kept_generation: "is_merged cd cm um mm \<Longrightarrow> md_generation mm = md_generation cm"
  by (simp add: md_generation_def [of mm] merged_lookup merged_entry_def)

lemma kept_finalizers: "is_merged cd cm um mm \<Longrightarrow> md_finalizers mm = md_finalizers cm"
  by (cases "md_finalizers cm") (simp_all add: md_finalizers_def [of mm] merged_lookup merged_entry_def)

lemma kept_time:
  "is_merged cd cm um mm \<Longrightarrow> time_stable cd (md_time cd cm) \<Longrightarrow> md_time cd mm = md_time cd cm"
  by (auto simp: md_time_def [of cd mm] md_string_def [of mm] merged_lookup merged_entry_def json_of_time_def
      non_empty_def time_stable_def)

lemma kept_managed:
  "is_merged cd cm um mm \<Longrightarrow> managed_stable cd (md_managed cd cm) \<Longrightarrow> md_managed cd mm = md_managed cd cm"
  by (auto simp: md_managed_def [of cd mm] merged_lookup merged_entry_def managed_entry_def managed_stable_def
      split: option.splits)

lemma kept_map:
  assumes "is_merged cd cm um mm" and "k \<in> {''annotations'', ''labels''}"
  shows "or_empty (md_strings mm k) = merged_strings cm um k"
    and "merged_strings mm um k = merged_strings cm um k"
  using md_strings_entry [of mm k cm um] assms by (auto simp: merged_lookup merged_entry_def)

lemmas kept = kept_strings kept_generation kept_finalizers kept_time kept_managed

lemma merged_again:
  assumes "is_merged cd cm um mm"
    and "time_stable cd (md_time cd cm)" and "managed_stable cd (md_managed cd cm)"
  shows "merged_entry cd mm um k = fmlookup mm k"
  using assms kept [OF assms(1)] kept_map(2) [OF assms(1)]
  by (auto simp: merged_lookup merged_entry_def managed_entry_def strings_entry_def Let_def)

lemma NestedFieldNoCopy_with_meta [simp]:
  "k \<noteq> ''metadata'' \<Longrightarrow> NestedFieldNoCopy (with_meta u md) (k # path) = NestedFieldNoCopy u (k # path)"
  by (simp add: NestedFieldNoCopy_def)

lemma GetKind_with_meta [simp]:
  "GetKind (with_meta u md) = GetKind u"
  "GetAPIVersion (with_meta u md) = GetAPIVersion u"
  by (simp_all add: GetAPIVersion_def GetKind_def getNestedString_def NestedString_def)

lemma GetGroupVersionKind_with_meta [simp]: "GetGroupVersionKind (with_meta u md) = GetGroupVersionKind u"
  by (simp add: GetGroupVersionKind_def split: sum.split)

definition revision_annotations :: "object \<Rightarrow> object \<Rightarrow> (string, string) fmap" where
  "revision_annotations cm um =
     (case fmlookup (or_empty (md_strings cm ''annotations'')) deploymentRevisionAnnotation of
        Some anno \<Rightarrow> fmupd deploymentRevisionAnnotation anno (or_empty (md_strings um ''annotations''))
      | None \<Rightarrow> or_empty (md_strings um ''annotations''))"

definition with_revision :: "object \<Rightarrow> object \<Rightarrow> object" where
  "with_revision cm um = put ''annotations'' (Some (JObj (fmmap JStr (revision_annotations cm um)))) um"

lemma mergeDeployment_meta:
  "mergeDeploymentForUpdate cur (with_meta u um) =
     Inr (with_meta u
       (if gvk_Group (GetGroupVersionKind u) = ''apps'' \<and> gvk_Kind (GetGroupVersionKind u) = ''Deployment''
        then with_revision (meta cur) um else um))"
  by (simp add: mergeDeploymentForUpdate_def with_revision_def revision_annotations_def or_empty_def Let_def
      split: option.split)

lemma md_strings_with_revision: "md_strings (with_revision cm um) ''annotations'' = Some (revision_annotations cm um)"
  by (rule md_strings_JStr) (simp add: with_revision_def)

lemma with_revision_again:
  assumes "is_merged cd cm (with_revision cm um) mm"
  shows "with_revision mm um = with_revision cm um"
proof -
  let ?rev = deploymentRevisionAnnotation and ?ua = "or_empty (md_strings um ''annotations'')"
  have "or_empty (md_strings mm ''annotations'') =
      or_empty (md_strings cm ''annotations'') ++\<^sub>f revision_annotations cm um"
    using kept_map(1) [OF assms, of "''annotations''"]
    by (simp add: merged_strings_def md_strings_with_revision or_empty_def)
  then have "revision_annotations mm um = revision_annotations cm um"
    by (auto simp: revision_annotations_def intro!: fmap_ext split: option.split)
  then show ?thesis by (simp add: with_revision_def)
qed

definition has_kind :: "object \<Rightarrow> string \<Rightarrow> string \<Rightarrow> bool" where
  "has_kind obj g kind \<longleftrightarrow>
     gvk_Group (GetGroupVersionKind obj) = g \<and> gvk_Kind (GetGroupVersionKind obj) = kind"

lemma has_kind_with_meta [simp]: "has_kind (with_meta u md) g k = has_kind u g k"
  by (simp add: has_kind_def)

lemma merge_other_kinds:
  assumes "GetName updated \<noteq> ''''"
    and "\<not> has_kind updated '''' ''Service''" "\<not> has_kind updated '''' ''ServiceAccount''"
  obtains mm um where "MergeObjectForUpdate cd current updated = Inr (with_meta updated mm)"
    and "is_merged cd (meta current) um mm"
    and "um = (if has_kind updated ''apps'' ''Deployment'' then with_revision (meta current) (meta updated) else meta updated)"
proof -
  define um where
    "um = (if has_kind updated ''apps'' ''Deployment'' then with_revision (meta current) (meta updated) else meta updated)"
  obtain mm where mm: "mergeMetadataForUpdate cd current (with_meta updated um) = with_meta updated mm"
      "is_merged cd (meta current) um mm"
    by (rule mergeMetadata_meta)
  have dep: "mergeDeploymentForUpdate current updated = Inr (with_meta updated um)"
    using mergeDeployment_meta [of current updated "meta updated"] named_meta [OF assms(1)]
    by (simp add: has_kind_def um_def)
  have "mergeServiceForUpdate current (with_meta updated um) = Inr (with_meta updated um)"
      "mergeServiceAccountForUpdate current (with_meta updated um) = Inr (with_meta updated um)"
    using assms(2, 3) by (auto simp: has_kind_def mergeServiceForUpdate_def mergeServiceAccountForUpdate_def Let_def)
  then have "MergeObjectForUpdate cd current updated = Inr (with_meta updated mm)"
    using mm(1) by (simp add: MergeObjectForUpdate_def dep andThen_def)
  then show thesis
    using that mm(2) um_def by blast
qed

lemma merge_again:
  assumes "GetName updated \<noteq> ''''"
    and "\<not> has_kind updated '''' ''Service''" "\<not> has_kind updated '''' ''ServiceAccount''"
    and "codec_stable cd current"
    and "MergeObjectForUpdate cd current updated = Inr merged"
  shows "MergeObjectForUpdate cd merged updated = Inr merged"
proof -
  obtain mm um where first: "merged = with_meta updated mm" "is_merged cd (meta current) um mm"
      "um = (if has_kind updated ''apps'' ''Deployment'' then with_revision (meta current) (meta updated) else meta updated)"
    using merge_other_kinds [OF assms(1-3), of cd current] assms(5) by auto
  obtain mm' um' where second: "MergeObjectForUpdate cd merged updated = Inr (with_meta updated mm')"
      "is_merged cd (meta merged) um' mm'"
      "um' = (if has_kind updated ''apps'' ''Deployment'' then with_revision (meta merged) (meta updated) else meta updated)"
    by (rule merge_other_kinds [OF assms(1-3), of cd merged])
  have "um' = um"
    using first second(3) with_revision_again [of cd "meta current" "meta updated" mm] by (auto split: if_splits)
  then have "fmlookup mm' k = fmlookup mm k" for k
    using merged_again [OF first(2)] second(2) assms(4) first(1)
    by (simp add: codec_stable_def merged_lookup [of cd mm um mm'])
  then show ?thesis
    using second(1) first(1) by (metis fmap_ext)
qed

end
