(* ===== verification/Apply_Convergence.thy ===== *)
theory Apply_Convergence
  imports Apply_Merge
begin

text \<open>
  Properties of merging and applying: which metadata an update keeps, that the addresses of a service
  survive, what \<open>ApplyObject\<close> does on each path, and exactly when it writes to an object that exists.
\<close>

section \<open>Writing one field below the top level\<close>

lemma setNestedField_two:
  assumes "setNestedField m v [f, k] = Inr m'"
  shows "NestedFieldNoCopy m' [f, k] = Inr (Some v)"
    and "k' \<noteq> k \<Longrightarrow> NestedFieldNoCopy m' [f, k'] = NestedFieldNoCopy m [f, k']"
    and "g \<noteq> f \<Longrightarrow> fmlookup m' g = fmlookup m g"
  using assms
  by (auto simp: setNestedField.simps NestedFieldNoCopy_def split: option.splits json.splits)

lemma kind_eq:
  assumes "fmlookup m' ''kind'' = fmlookup m ''kind''" "fmlookup m' ''apiVersion'' = fmlookup m ''apiVersion''"
  shows "has_kind m' g k = has_kind m g k"
proof -
  have "GetKind m' = GetKind m" "GetAPIVersion m' = GetAPIVersion m"
    using assms by (simp_all add: GetKind_def GetAPIVersion_def getNestedString_def NestedString_def NestedFieldNoCopy_def)
  then show ?thesis
    by (simp add: has_kind_def GetGroupVersionKind_def split: sum.split)
qed

text \<open>What the merge of a service does to the fields below \<open>spec\<close>: each step writes one of them or none.\<close>

definition writes_spec :: "string \<Rightarrow> json option \<Rightarrow> object \<Rightarrow> object \<Rightarrow> bool" where
  "writes_spec k v m m' \<longleftrightarrow>
     (\<forall>k'. NestedFieldNoCopy m' [''spec'', k'] =
        (if k' = k \<and> v \<noteq> None then Inr v else NestedFieldNoCopy m [''spec'', k'])) \<and>
     (\<forall>g. g \<noteq> ''spec'' \<longrightarrow> fmlookup m' g = fmlookup m g)"

lemma writes_spec_step:
  "(case x of Some a \<Rightarrow> setNestedField m (f a) [''spec'', k] | None \<Rightarrow> Inr m) = Inr m' \<Longrightarrow>
     writes_spec k (map_option f x) m m'"
  by (auto simp: writes_spec_def setNestedField_two split: option.splits)

lemma andThen_InrE:
  assumes "andThen r f = Inr b"
  obtains a where "r = Inr a" and "f a = Inr b"
  using assms by (auto simp: andThen_def split: sum.splits)

lemma mergeService_writes:
  assumes "has_kind updated '''' ''Service''" and "mergeServiceForUpdate current updated = Inr r"
  obtains ip ips fams old new u1 u2 u3 where
    "NestedString current [''spec'', ''clusterIP''] = Inr ip"
    "NestedStringSlice current [''spec'', ''clusterIPs''] = Inr ips"
    "NestedStringSlice current [''spec'', ''ipFamilies''] = Inr fams"
    "NestedString current [''spec'', ''ipFamilyPolicy''] = Inr old"
    "NestedString u3 [''spec'', ''ipFamilyPolicy''] = Inr new"
    "writes_spec ''clusterIP'' (map_option JStr ip) updated u1"
    "writes_spec ''clusterIPs'' (map_option (\<lambda>ss. JArr (map JStr ss)) ips) u1 u2"
    "writes_spec ''ipFamilies'' (map_option (\<lambda>ss. JArr (map JStr ss)) fams) u2 u3"
    "writes_spec ''ipFamilyPolicy'' (if new = None then map_option JStr old else None) u3 r"
proof -
  have set_slice: "(case x of Some ss \<Rightarrow> SetNestedStringSlice m ss path | None \<Rightarrow> Inr m) =
      (case x of Some ss \<Rightarrow> setNestedField m (JArr (map JStr ss)) path | None \<Rightarrow> Inr m)" for x m path
    by (simp add: SetNestedStringSlice_def split: option.split)
  have last: "writes_spec ''ipFamilyPolicy'' (if new = None then map_option JStr old else None) u3 r"
    if "(case (old, new) of (Some p, None) \<Rightarrow> setNestedField u3 (JStr p) [''spec'', ''ipFamilyPolicy''] | _ \<Rightarrow> Inr u3) = Inr r"
    for old new :: "string option" and u3
    using that by (auto simp: writes_spec_def setNestedField_two split: option.splits)
  obtain ip u1 ips u2 fams u3 old new where raw:
    "NestedString current [''spec'', ''clusterIP''] = Inr ip"
    "(case ip of Some s \<Rightarrow> setNestedField updated (JStr s) [''spec'', ''clusterIP''] | None \<Rightarrow> Inr updated) = Inr u1"
    "NestedStringSlice current [''spec'', ''clusterIPs''] = Inr ips"
    "(case ips of Some ss \<Rightarrow> setNestedField u1 (JArr (map JStr ss)) [''spec'', ''clusterIPs''] | None \<Rightarrow> Inr u1) = Inr u2"
    "NestedStringSlice current [''spec'', ''ipFamilies''] = Inr fams"
    "(case fams of Some ss \<Rightarrow> setNestedField u2 (JArr (map JStr ss)) [''spec'', ''ipFamilies''] | None \<Rightarrow> Inr u2) = Inr u3"
    "NestedString current [''spec'', ''ipFamilyPolicy''] = Inr old"
    "NestedString u3 [''spec'', ''ipFamilyPolicy''] = Inr new"
    "(case (old, new) of (Some p, None) \<Rightarrow> setNestedField u3 (JStr p) [''spec'', ''ipFamilyPolicy''] | _ \<Rightarrow> Inr u3) = Inr r"
    using assms
    by (simp add: mergeServiceForUpdate_def has_kind_def Let_def set_slice) (elim andThen_InrE, blast)
  show thesis
    by (rule that [OF raw(1,3,5,7,8) writes_spec_step [OF raw(2)] writes_spec_step [OF raw(4)]
          writes_spec_step [OF raw(6)] last [OF raw(9)]])
qed

lemma meta_eq: "fmlookup m' ''metadata'' = fmlookup m ''metadata'' \<Longrightarrow> meta m' = meta m"
  by (simp add: meta_def)

lemma mergeMetadata_top:
  assumes "GetName updated \<noteq> ''''" and "g \<noteq> ''metadata''"
  shows "fmlookup (mergeMetadataForUpdate cd current updated) g = fmlookup updated g"
proof -
  obtain mm where "mergeMetadataForUpdate cd current (with_meta updated (meta updated)) = with_meta updated mm"
    by (rule mergeMetadata_meta)
  then show ?thesis
    using named_meta [OF assms(1)] assms(2) by simp
qed

lemma NestedFieldNoCopy_top:
  "fmlookup m' g = fmlookup m g \<Longrightarrow> NestedFieldNoCopy m' (g # path) = NestedFieldNoCopy m (g # path)"
  by (simp add: NestedFieldNoCopy_def)

lemma NestedString_cong:
  assumes "NestedFieldNoCopy m' path = NestedFieldNoCopy m path"
  shows "NestedString m' path = NestedString m path"
  using assms by (simp add: NestedString_def)

lemma merge_service:
  assumes "GetName updated \<noteq> ''''" and "has_kind updated '''' ''Service''"
    and "MergeObjectForUpdate cd current updated = Inr r"
  obtains u where "mergeServiceForUpdate current updated = Inr u"
    and "\<And>k. NestedFieldNoCopy r [''spec'', k] = NestedFieldNoCopy u [''spec'', k]"
proof -
  have "mergeDeploymentForUpdate current updated = Inr updated"
    using assms(2) by (auto simp: mergeDeploymentForUpdate_def has_kind_def Let_def)
  with assms(3) obtain u where u: "mergeServiceForUpdate current updated = Inr u"
      "andThen (mergeServiceAccountForUpdate current u) (\<lambda>u. Inr (mergeMetadataForUpdate cd current u)) = Inr r"
    by (auto simp: MergeObjectForUpdate_def andThen_def split: sum.splits)
  have top: "fmlookup u g = fmlookup updated g" if "g \<noteq> ''spec''" for g
    by (rule mergeService_writes [OF assms(2) u(1)]) (use that in \<open>simp add: writes_spec_def\<close>)
  have "has_kind u '''' ''Service''"
    using kind_eq [of u updated "''''" "''Service''"] top assms(2) by simp
  then have "mergeServiceAccountForUpdate current u = Inr u"
    by (auto simp: mergeServiceAccountForUpdate_def has_kind_def Let_def)
  moreover have "GetName u \<noteq> ''''"
    using assms(1) meta_eq [of u updated] top by simp
  ultimately have "NestedFieldNoCopy r [''spec'', k] = NestedFieldNoCopy u [''spec'', k]" for k
    using u(2) mergeMetadata_top [of u "''spec''" cd current]
    by (intro NestedFieldNoCopy_top) (auto simp: andThen_def)
  with u(1) show thesis by (rule that)
qed

lemma read_written:
  "NestedFieldNoCopy m' path = (if x \<noteq> None then Inr (map_option JStr x) else NestedFieldNoCopy m path) \<Longrightarrow>
     NestedString m' path = (if x = None then NestedString m path else Inr x)"
  by (cases x) (simp_all add: NestedString_def)

lemma read_written_slice:
  "NestedFieldNoCopy m' path =
     (if x \<noteq> None then Inr (map_option (\<lambda>ss. JArr (map JStr ss)) x) else NestedFieldNoCopy m path) \<Longrightarrow>
   NestedStringSlice m' path = (if x = None then NestedStringSlice m path else Inr x)"
  by (cases x) (simp_all add: NestedStringSlice_def)

section \<open>Properties\<close>

text \<open>C36.
  Updating a service keeps its addresses. When the merge of an existing service with the desired one
  succeeds, the result has the cluster IP, the list of cluster IPs and the IP families of the existing
  service wherever that has them, and those of the desired one otherwise; the family policy is
  the desired one if there is one and the existing one otherwise.\<close>

theorem service_addresses_kept:
  assumes "GetName updated \<noteq> ''''" and "has_kind updated '''' ''Service''"
    and "MergeObjectForUpdate cd current updated = Inr r"
  shows "NestedString r [''spec'', ''clusterIP''] =
      (if NestedString current [''spec'', ''clusterIP''] = Inr None then NestedString updated [''spec'', ''clusterIP'']
       else NestedString current [''spec'', ''clusterIP'']) \<and>
    NestedStringSlice r [''spec'', ''clusterIPs''] =
      (if NestedStringSlice current [''spec'', ''clusterIPs''] = Inr None then NestedStringSlice updated [''spec'', ''clusterIPs'']
       else NestedStringSlice current [''spec'', ''clusterIPs'']) \<and>
    NestedStringSlice r [''spec'', ''ipFamilies''] =
      (if NestedStringSlice current [''spec'', ''ipFamilies''] = Inr None then NestedStringSlice updated [''spec'', ''ipFamilies'']
       else NestedStringSlice current [''spec'', ''ipFamilies'']) \<and>
    NestedString r [''spec'', ''ipFamilyPolicy''] =
      (if NestedString updated [''spec'', ''ipFamilyPolicy''] = Inr None then NestedString current [''spec'', ''ipFamilyPolicy'']
       else NestedString updated [''spec'', ''ipFamilyPolicy''])"
proof -
  obtain u where u: "mergeServiceForUpdate current updated = Inr u"
      and r: "\<And>k. NestedFieldNoCopy r [''spec'', k] = NestedFieldNoCopy u [''spec'', k]"
    using merge_service [OF assms] by blast
  obtain ip ips fams old new u1 u2 u3 where cur:
    "NestedString current [''spec'', ''clusterIP''] = Inr ip"
    "NestedStringSlice current [''spec'', ''clusterIPs''] = Inr ips"
    "NestedStringSlice current [''spec'', ''ipFamilies''] = Inr fams"
    "NestedString current [''spec'', ''ipFamilyPolicy''] = Inr old"
    "NestedString u3 [''spec'', ''ipFamilyPolicy''] = Inr new"
    and w: "writes_spec ''clusterIP'' (map_option JStr ip) updated u1"
    "writes_spec ''clusterIPs'' (map_option (\<lambda>ss. JArr (map JStr ss)) ips) u1 u2"
    "writes_spec ''ipFamilies'' (map_option (\<lambda>ss. JArr (map JStr ss)) fams) u2 u3"
    "writes_spec ''ipFamilyPolicy'' (if new = None then map_option JStr old else None) u3 u"
    by (rule mergeService_writes [OF assms(2) u])
  note field = w [unfolded writes_spec_def, THEN conjunct1, rule_format]
  have "NestedString r [''spec'', ''clusterIP''] =
      (if ip = None then NestedString updated [''spec'', ''clusterIP''] else Inr ip)"
    by (rule read_written) (simp add: field r)
  moreover have "NestedStringSlice r [''spec'', ''clusterIPs''] =
      (if ips = None then NestedStringSlice updated [''spec'', ''clusterIPs''] else Inr ips)"
    by (rule read_written_slice) (simp add: field r)
  moreover have "NestedStringSlice r [''spec'', ''ipFamilies''] =
      (if fams = None then NestedStringSlice updated [''spec'', ''ipFamilies''] else Inr fams)"
    by (rule read_written_slice) (simp add: field r)
  moreover have "NestedString r [''spec'', ''ipFamilyPolicy''] =
      (if (if new = None then old else None) = None then NestedString updated [''spec'', ''ipFamilyPolicy'']
       else Inr (if new = None then old else None))"
    by (rule read_written) (auto simp: field r)
  moreover have "NestedString updated [''spec'', ''ipFamilyPolicy''] = Inr new"
    using cur(5) NestedString_cong [of u3 "[''spec'', ''ipFamilyPolicy'']" updated] by (simp add: field)
  ultimately show ?thesis
    by (cases new; cases old) (simp_all add: cur)
qed

definition plain_codec :: "unit codec" where
  "plain_codec = \<lparr>parse_time = (\<lambda>_. None), format_time = (\<lambda>_. ''''),
     from_unstructured = (\<lambda>_. None), to_unstructured = (\<lambda>_. None)\<rparr>"

definition test_object :: "string \<Rightarrow> string \<Rightarrow> object \<Rightarrow> object \<Rightarrow> object" where
  "test_object v k md spec =
     fmupd ''kind'' (JStr k) (fmupd ''apiVersion'' (JStr v)
       (fmupd ''metadata'' (JObj md) (fmupd ''spec'' (JObj spec) fmempty)))"

lemma test_object_meta [simp]: "meta (test_object v k md spec) = md"
  by (simp add: meta_def test_object_def)

lemma test_object_kind [simp]:
  "GetKind (test_object v k md spec) = k"
  "GetAPIVersion (test_object v k md spec) = v"
  by (simp_all add: test_object_def GetKind_def GetAPIVersion_def getNestedString_def NestedString_def NestedFieldNoCopy_def)

lemma has_kind_core: "has_kind (test_object ''v1'' k md spec) g k' \<longleftrightarrow> g = '''' \<and> k' = k"
  by (auto simp: has_kind_def GetGroupVersionKind_def ParseGroupVersion_def)

lemma NestedFieldNoCopy_spec:
  "NestedFieldNoCopy (test_object v k md spec) [''spec'', f] = Inr (fmlookup spec f)"
  by (simp add: NestedFieldNoCopy_def test_object_def split: option.split)

lemma setNestedField_spec:
  "setNestedField (test_object v k md spec) x [''spec'', f] = Inr (test_object v k md (fmupd f x spec))"
  by (auto simp: setNestedField.simps test_object_def intro!: fmap_ext)

lemmas test_simps = NestedString_def NestedStringSlice_def NestedFieldNoCopy_spec setNestedField_spec
  has_kind_core md_string_def

theorem service_addresses_kept_witness:
  "\<exists>r. MergeObjectForUpdate plain_codec
        (test_object ''v1'' ''Service'' (fmupd ''name'' (JStr ''svc'') fmempty) (fmupd ''clusterIP'' (JStr ''10.0.0.1'') fmempty))
        (test_object ''v1'' ''Service'' (fmupd ''name'' (JStr ''svc'') fmempty) fmempty) = Inr r \<and>
      NestedString r [''spec'', ''clusterIP''] = Inr (Some ''10.0.0.1'')"
proof -
  let ?md = "fmupd ''name'' (JStr ''svc'') fmempty"
  let ?cur = "test_object ''v1'' ''Service'' ?md (fmupd ''clusterIP'' (JStr ''10.0.0.1'') fmempty)"
  let ?upd = "test_object ''v1'' ''Service'' ?md fmempty"
  have gvk: "GetGroupVersionKind (test_object ''v1'' ''Service'' md spec) = \<lparr>gvk_Group = '''', gvk_Version = ''v1'', gvk_Kind = ''Service''\<rparr>" for md spec
    by (simp add: GetGroupVersionKind_def ParseGroupVersion_def)
  obtain r where r: "MergeObjectForUpdate plain_codec ?cur ?upd = Inr r"
    by (simp add: MergeObjectForUpdate_def andThen_def mergeDeploymentForUpdate_def mergeServiceForUpdate_def
        mergeServiceAccountForUpdate_def gvk test_simps)
  have name: "GetName ?upd \<noteq> ''''" "has_kind ?upd '''' ''Service''"
    by (simp_all add: test_simps)
  show ?thesis
    using service_addresses_kept [OF name r] r by (simp add: test_simps)
qed

text \<open>What an update of an object keeps of its metadata. The values that the API server owns (identity,
  versions, link, generation, creation time, managed fields) and the finalizers are those of the existing object; a
  label or an annotation is the desired one if there is one and the existing one otherwise; every
  other entry of the metadata and every other part of the object is as desired.\<close>

lemma merge_metadata_entries:
  assumes "GetName updated \<noteq> ''''" and "codec_stable cd current"
    and "r = mergeMetadataForUpdate cd current updated"
  shows "GetUID r = GetUID current \<and> GetResourceVersion r = GetResourceVersion current \<and>
      GetSelfLink r = GetSelfLink current \<and> GetGeneration r = GetGeneration current \<and>
      GetCreationTimestamp cd r = GetCreationTimestamp cd current \<and>
      GetManagedFields cd r = GetManagedFields cd current \<and> GetFinalizers r = GetFinalizers current \<and>
      or_empty (GetLabels r) = or_empty (GetLabels current) ++\<^sub>f or_empty (GetLabels updated) \<and>
      or_empty (GetAnnotations r) = or_empty (GetAnnotations current) ++\<^sub>f or_empty (GetAnnotations updated) \<and>
      (\<forall>k. k \<notin> {''uid'', ''resourceVersion'', ''selfLink'', ''generation'', ''creationTimestamp'', ''managedFields'',
             ''finalizers'', ''labels'', ''annotations''} \<longrightarrow> fmlookup (meta r) k = fmlookup (meta updated) k) \<and>
      (\<forall>k. k \<noteq> ''metadata'' \<longrightarrow> fmlookup r k = fmlookup updated k)"
proof -
  obtain mm where mm: "mergeMetadataForUpdate cd current (with_meta updated (meta updated)) = with_meta updated mm"
      "is_merged cd (meta current) (meta updated) mm"
    by (rule mergeMetadata_meta)
  with assms(3) named_meta [OF assms(1)] have r: "r = with_meta updated mm" by simp
  have "time_stable cd (md_time cd (meta current))" "managed_stable cd (md_managed cd (meta current))"
    using assms(2) by (simp_all add: codec_stable_def)
  note kept' = kept(2,3) [OF mm(2)] kept_time [OF mm(2) this(1)] kept_managed [OF mm(2) this(2)]
    kept_strings [OF mm(2)] kept_map(1) [OF mm(2)]
  have "fmlookup mm k = fmlookup (meta updated) k"
    if "k \<notin> {''uid'', ''resourceVersion'', ''selfLink'', ''generation'', ''creationTimestamp'', ''managedFields'',
             ''finalizers'', ''labels'', ''annotations''}" for k
    using that by (simp add: merged_lookup [OF mm(2)] merged_entry_def)
  then show ?thesis
    unfolding r by (simp add: kept' merged_strings_def)
qed

section \<open>Applying\<close>

text \<open>What follows the first request, by its answer, and whether the call succeeds.\<close>

definition apply_rest ::
  "'m codec \<Rightarrow> object \<Rightarrow> go_error + object \<Rightarrow> go_error option \<Rightarrow> apply_event list \<Rightarrow> bool" where
  "apply_rest cd obj got err rest =
     (case got of
        Inl e \<Rightarrow>
          if e = NotFound then \<exists>c. rest = [LCreate obj c] \<and> (err = None \<longleftrightarrow> c = None)
          else rest = [] \<and> err \<noteq> None
      | Inr existing \<Rightarrow>
          (case MergeObjectForUpdate cd existing obj of
             Inl e \<Rightarrow> rest = [] \<and> err \<noteq> None
           | Inr merged \<Rightarrow>
               if merged = existing then rest = [] \<and> err = None
               else \<exists>u. rest = [LUpdate merged u] \<and> (err = None \<longleftrightarrow> u = None)))"

lemma Wrapf_Some [simp]: "Wrapf (Some e) msg \<noteq> None" "None \<noteq> Wrapf (Some e) msg" "\<exists>y. Wrapf (Some e) msg = Some y"
  by (simp_all add: Wrapf_def)

text \<open>C37.
  What \<open>ApplyObject\<close> does on each path: a nameless or unsupported object is rejected before any request;
  an object that is not found is created; an error of the first request or of the merge ends the
  call without a write; an existing object gets at most one update, with the merged object,
  and only if that differs from what is there. The call succeeds exactly if no step has failed.\<close>

theorem ApplyObject_outcomes:
  "emits (ApplyObject cd client obj) (\<lambda>err evs.
     if GetName obj \<noteq> '''' \<and> IsObjectSupported obj = None
     then \<exists>got rest.
       evs = LGet (GetGroupVersionKind obj) \<lparr>key_Namespace = GetNamespace obj, key_Name = GetName obj\<rparr> got # rest \<and>
       apply_rest cd obj got err rest
     else evs = [] \<and> err \<noteq> None)"
proof (cases "GetName obj \<noteq> '''' \<and> IsObjectSupported obj = None")
  case False
  then show ?thesis
    by (auto simp: ApplyObject_def Let_def simp del: get_meta_accessors intro!: emits_ret)
next
  case True
  then have ok: "GetName obj \<noteq> ''''" "IsObjectSupported obj = None" by simp_all
  show ?thesis
    unfolding ApplyObject_def Let_def if_not_P [OF ok(1)] ok(2) option.case
    apply (rule emits_perform_bind)
    subgoal for got
      apply (rule emits_mono [where Q = "apply_rest cd obj got"])
      subgoal
        by (cases got) (auto simp: apply_rest_def intro!: emits_intros split: option.split sum.split)
      subgoal
        using ok by auto
      done
    done
qed

section \<open>When an existing object is up to date\<close>

text \<open>
  The metadata of an object as the API server returns it: the entries that it owns and the finalizers are spelled as they are printed, so reading
  and printing them gives them back.
\<close>

definition server_form :: "'m codec \<Rightarrow> object \<Rightarrow> bool" where
  "server_form cd md \<longleftrightarrow>
     fmlookup md ''creationTimestamp'' = json_of_time cd (md_time cd md) \<and>
     (\<forall>k \<in> {''selfLink'', ''uid'', ''resourceVersion''}. fmlookup md k = non_empty (md_string md k)) \<and>
     fmlookup md ''generation'' = (if md_generation md = 0 then None else Some (JInt (md_generation md))) \<and>
     (case md_managed cd md of
        None \<Rightarrow> fmlookup md ''managedFields'' = None
      | Some ms \<Rightarrow> \<exists>items. managedFields_to cd ms [] = Some items \<and> fmlookup md ''managedFields'' = Some (JArr items)) \<and>
     fmlookup md ''finalizers'' = map_option (\<lambda>fs. JArr (map JStr fs)) (md_finalizers md)"

text \<open>An entry that is absent or a map of strings with at least one of them.\<close>

definition string_map :: "object \<Rightarrow> string \<Rightarrow> bool" where
  "string_map md k \<longleftrightarrow>
     fmlookup md k = (let m = or_empty (md_strings md k) in if m = fmempty then None else Some (JObj (fmmap JStr m)))"

text \<open>
  What it means that an existing object is as the manifest wants it, without a word on merging: everything but the metadata is the same, the labels and
  annotations of the manifest are there, and so is every other entry of its metadata, the ones that are not the manifest's to choose excepted.
\<close>

definition server_owned :: "string set" where
  "server_owned = {''creationTimestamp'', ''selfLink'', ''generation'', ''uid'', ''resourceVersion'', ''managedFields'', ''finalizers''}"

definition up_to_date :: "object \<Rightarrow> object \<Rightarrow> bool" where
  "up_to_date existing obj \<longleftrightarrow>
     (\<forall>k. k \<noteq> ''metadata'' \<longrightarrow> fmlookup existing k = fmlookup obj k) \<and>
     or_empty (GetLabels obj) \<subseteq>\<^sub>f or_empty (GetLabels existing) \<and>
     or_empty (GetAnnotations obj) \<subseteq>\<^sub>f or_empty (GetAnnotations existing) \<and>
     (\<forall>k. k \<notin> server_owned \<union> {''labels'', ''annotations''} \<longrightarrow> fmlookup (meta existing) k = fmlookup (meta obj) k)"

lemma fmmap_JStr_inject: "fmmap JStr m = fmmap JStr n \<longleftrightarrow> m = n"
  by (metis strings_of_JStr)

lemma fmadd_subset: "m ++\<^sub>f n = m \<longleftrightarrow> n \<subseteq>\<^sub>f m"
proof
  assume eq: "m ++\<^sub>f n = m"
  show "n \<subseteq>\<^sub>f m"
    unfolding fmsubset_alt_def fmpred_iff
  proof (intro allI impI)
    show "fmlookup m k = Some v" if "fmlookup n k = Some v" for k v
      using arg_cong [OF eq, of "\<lambda>f. fmlookup f k"] that by (auto simp: fmlookup_dom_iff split: if_splits)
  qed
next
  assume "n \<subseteq>\<^sub>f m"
  then show "m ++\<^sub>f n = m"
    by (intro fmap_ext) (auto simp: fmsubset_alt_def fmpred_iff fmlookup_dom_iff)
qed

lemma fmadd_is_empty: "m ++\<^sub>f n = fmempty \<longleftrightarrow> m = fmempty \<and> n = fmempty"
proof
  assume eq: "m ++\<^sub>f n = fmempty"
  have "n = fmempty"
  proof (rule fmap_ext)
    show "fmlookup n k = fmlookup fmempty k" for k
      using arg_cong [OF eq, of "\<lambda>f. fmlookup f k"] by (cases "fmlookup n k") (auto simp: fmlookup_dom_iff)
  qed
  with eq show "m = fmempty \<and> n = fmempty" by simp
qed simp

lemma strings_entry_same:
  assumes "string_map cm k" and "string_map um k"
  shows "strings_entry cm um k = fmlookup cm k \<longleftrightarrow> or_empty (md_strings um k) \<subseteq>\<^sub>f or_empty (md_strings cm k)"
proof -
  let ?c = "or_empty (md_strings cm k)" and ?u = "or_empty (md_strings um k)"
  have cm: "fmlookup cm k = (if ?c = fmempty then None else Some (JObj (fmmap JStr ?c)))"
    and um: "fmlookup um k = (if ?u = fmempty then None else Some (JObj (fmmap JStr ?u)))"
    using assms by (simp_all add: string_map_def Let_def)
  note empty = fmadd_is_empty [of ?c ?u]
  show ?thesis
    using empty fmadd_subset [of ?c ?u]
    by (auto simp: strings_entry_def merged_strings_def Let_def cm um fmmap_JStr_inject simp del: fmmap_add)
qed

lemma server_form_owned:
  assumes "server_form cd cm" and "k \<in> server_owned"
  shows "merged_entry cd cm um k = fmlookup cm k"
proof -
  have managed: "managed_entry cd cm um = fmlookup cm ''managedFields''"
    using assms(1) by (cases "md_managed cd cm") (auto simp: server_form_def managed_entry_def)
  from assms(2) consider "k = ''creationTimestamp''" | "k \<in> {''selfLink'', ''uid'', ''resourceVersion''}" | "k = ''generation''"
    | "k = ''managedFields''" | "k = ''finalizers''"
    unfolding server_owned_def by (elim insertE emptyE) simp_all
  then show ?thesis
  proof cases
    case 2
    then have "merged_entry cd cm um k = non_empty (md_string cm k)" by (auto simp: merged_entry_def)
    with 2 assms(1) show ?thesis by (simp only: server_form_def)
  qed (use assms(1) managed in \<open>simp_all add: merged_entry_def server_form_def\<close>)
qed

text \<open>Merging gives the existing object back exactly if it is up to date.\<close>

lemma merge_up_to_date:
  assumes "GetName obj \<noteq> ''''" and "\<not> has_kind obj '''' ''Service''" "\<not> has_kind obj '''' ''ServiceAccount''"
    and "\<not> has_kind obj ''apps'' ''Deployment''"
    and "fmlookup existing ''metadata'' = Some (JObj cm)" and "server_form cd cm"
    and "\<And>k. k \<in> {''labels'', ''annotations''} \<Longrightarrow> string_map cm k \<and> string_map (meta obj) k"
  shows "\<exists>merged. MergeObjectForUpdate cd existing obj = Inr merged \<and> (merged = existing \<longleftrightarrow> up_to_date existing obj)"
proof -
  have meta: "meta existing = cm" using assms(5) by (simp add: meta_def)
  obtain mm where mm: "MergeObjectForUpdate cd existing obj = Inr (with_meta obj mm)" "is_merged cd cm (meta obj) mm"
    using merge_other_kinds [OF assms(1-3), of cd existing] assms(4) meta by auto
  have "with_meta obj mm = existing \<longleftrightarrow>
      (\<forall>k. k \<noteq> ''metadata'' \<longrightarrow> fmlookup existing k = fmlookup obj k) \<and> mm = cm" (is "?eq \<longleftrightarrow> ?fields \<and> _")
  proof
    assume ?eq
    then show "?fields \<and> mm = cm" using assms(5) by (auto simp flip: \<open>?eq\<close>)
  next
    assume "?fields \<and> mm = cm"
    then show ?eq using assms(5) by (intro fmap_ext) auto
  qed
  moreover have "mm = cm \<longleftrightarrow> (\<forall>k. merged_entry cd cm (meta obj) k = fmlookup cm k)"
    using mm(2) unfolding is_merged_def by (metis fmap_ext)
  moreover have "(\<forall>k. merged_entry cd cm (meta obj) k = fmlookup cm k) \<longleftrightarrow>
      (\<forall>k \<in> {''labels'', ''annotations''}. strings_entry cm (meta obj) k = fmlookup cm k) \<and>
      (\<forall>k. k \<notin> server_owned \<union> {''labels'', ''annotations''} \<longrightarrow> fmlookup cm k = fmlookup (meta obj) k)"
  proof -
    note owned = server_form_owned [OF assms(6)]
    have strings: "merged_entry cd cm (meta obj) k = strings_entry cm (meta obj) k" if "k \<in> {''labels'', ''annotations''}" for k
      using that by (auto simp: merged_entry_def)
    have other: "merged_entry cd cm (meta obj) k = fmlookup (meta obj) k" if "k \<notin> server_owned \<union> {''labels'', ''annotations''}" for k
      using that by (simp add: merged_entry_def server_owned_def)
    have "(\<forall>k. merged_entry cd cm (meta obj) k = fmlookup cm k) \<longleftrightarrow>
        (\<forall>k \<in> {''labels'', ''annotations''}. merged_entry cd cm (meta obj) k = fmlookup cm k) \<and>
        (\<forall>k. k \<notin> server_owned \<union> {''labels'', ''annotations''} \<longrightarrow> merged_entry cd cm (meta obj) k = fmlookup cm k)"
      using owned by blast
    also have "(\<forall>k \<in> {''labels'', ''annotations''}. merged_entry cd cm (meta obj) k = fmlookup cm k) \<longleftrightarrow>
        (\<forall>k \<in> {''labels'', ''annotations''}. strings_entry cm (meta obj) k = fmlookup cm k)"
      by (rule ball_cong [OF refl]) (simp only: strings)
    also have "(\<forall>k. k \<notin> server_owned \<union> {''labels'', ''annotations''} \<longrightarrow> merged_entry cd cm (meta obj) k = fmlookup cm k) \<longleftrightarrow>
        (\<forall>k. k \<notin> server_owned \<union> {''labels'', ''annotations''} \<longrightarrow> fmlookup cm k = fmlookup (meta obj) k)"
      by (rule iff_allI, rule imp_cong [OF refl]) (metis other)
    finally show ?thesis .
  qed
  moreover have "strings_entry cm (meta obj) k = fmlookup cm k \<longleftrightarrow> or_empty (md_strings (meta obj) k) \<subseteq>\<^sub>f or_empty (md_strings cm k)"
      if "k \<in> {''labels'', ''annotations''}" for k
    using strings_entry_same assms(7) [OF that] by blast
  ultimately have "with_meta obj mm = existing \<longleftrightarrow> up_to_date existing obj"
    unfolding up_to_date_def get_meta_accessors meta by simp
  with mm(1) show ?thesis by blast
qed

text \<open>C35.
  When applying a manifest writes. If the object exists, \<open>ApplyObject\<close> asks for it and then writes nothing and succeeds exactly if the object is up to
  date; otherwise it sends one update, with the merged object. Up to date means: everything but the metadata is the same as in the manifest, its labels and
  annotations are there (others may be, too), and the rest of the metadata is the same, except for the entries that the API server
  owns and the finalizers. This holds for objects without a merge rule of their own (no service, service account or deployment), such as the daemon set
  of the agents, in the form in which the API server returns them. In particular a field that the server adds to the object, such as
  its status or a default, makes every further call an update.\<close>

theorem apply_writes_iff:
  assumes "GetName obj \<noteq> ''''" and "\<not> has_kind obj '''' ''Service''" "\<not> has_kind obj '''' ''ServiceAccount''"
    and "\<not> has_kind obj ''apps'' ''Deployment''"
    and "fmlookup existing ''metadata'' = Some (JObj cm)" and "server_form cd cm"
    and "\<And>k. k \<in> {''labels'', ''annotations''} \<Longrightarrow> string_map cm k \<and> string_map (meta obj) k"
    and "get = LGet (GetGroupVersionKind obj) \<lparr>key_Namespace = GetNamespace obj, key_Name = GetName obj\<rparr> (Inr existing)"
    and "run_state (client_Get client (GetGroupVersionKind obj)
           \<lparr>key_Namespace = GetNamespace obj, key_Name = GetName obj\<rparr>) (world s) = (Inr existing, w)"
    and "run_state (ApplyObject cd client obj) s = (err, s')"
  shows "if up_to_date existing obj then err = None \<and> trace s' = trace s @ [get]
    else \<exists>merged u. MergeObjectForUpdate cd existing obj = Inr merged \<and> trace s' = trace s @ [get, LUpdate merged u] \<and>
      (err = None \<longleftrightarrow> u = None)"
proof -
  obtain merged where merged: "MergeObjectForUpdate cd existing obj = Inr merged" "merged = existing \<longleftrightarrow> up_to_date existing obj"
    using merge_up_to_date [OF assms(1-7)] by blast
  have supported: "IsObjectSupported obj = None"
    using assms(3) by (auto simp: IsObjectSupported_def has_kind_def Let_def)
  show ?thesis
    using assms(1,8-10) merged supported
    by (auto simp: ApplyObject_def Let_def run_perform simp del: get_meta_accessors split: option.splits if_splits)
qed

definition sample_manifest :: object where
  "sample_manifest = test_object ''apps/v1'' ''DaemonSet'' (fmupd ''name'' (JStr ''poison-pill-ds'') fmempty) fmempty"

definition sample_existing :: object where
  "sample_existing = test_object ''apps/v1'' ''DaemonSet''
     (fmupd ''name'' (JStr ''poison-pill-ds'') (fmupd ''uid'' (JStr ''u1'') (fmupd ''resourceVersion'' (JStr ''7'') fmempty))) fmempty"

text \<open>The object as it was created is left alone; once it has a status, it is updated.\<close>

theorem apply_writes_iff_witness:
  "let client = (\<lambda>existing. \<lparr>client_Get = (\<lambda>_ _. ret (Inr existing)), client_Create = (\<lambda>_. ret None), client_Update = (\<lambda>_. ret None)\<rparr> :: unit apply_env);
       writes = (\<lambda>existing. length (trace (snd (run_state (ApplyObject plain_codec (client existing) sample_manifest) \<lparr>world = (), trace = []\<rparr>))))
   in writes sample_existing = 1 \<and> writes (fmupd ''status'' (JObj fmempty) sample_existing) = 2"
proof -
  let ?client = "\<lambda>existing. \<lparr>client_Get = (\<lambda>_ _. ret (Inr existing)), client_Create = (\<lambda>_. ret None), client_Update = (\<lambda>_. ret None)\<rparr> :: unit apply_env"
  let ?s = "\<lparr>world = (), trace = []\<rparr> :: unit apply_state"
  let ?cm = "fmupd ''name'' (JStr ''poison-pill-ds'') (fmupd ''uid'' (JStr ''u1'') (fmupd ''resourceVersion'' (JStr ''7'') fmempty))"
  let ?status = "fmupd ''status'' (JObj fmempty) sample_existing"
  have obj: "GetName sample_manifest \<noteq> ''''" "\<not> has_kind sample_manifest '''' ''Service''"
      "\<not> has_kind sample_manifest '''' ''ServiceAccount''" "\<not> has_kind sample_manifest ''apps'' ''Deployment''"
    by (simp_all add: sample_manifest_def md_string_def has_kind_def GetGroupVersionKind_def ParseGroupVersion_def)
  have cm: "fmlookup sample_existing ''metadata'' = Some (JObj ?cm)" "fmlookup ?status ''metadata'' = Some (JObj ?cm)"
    by (simp_all add: sample_existing_def test_object_def)
  have form: "server_form plain_codec ?cm"
    by (simp add: server_form_def md_time_def md_string_def json_of_time_def non_empty_def md_generation_def md_managed_def md_finalizers_def)
  have strings: "string_map ?cm k \<and> string_map (meta sample_manifest) k" if "k \<in> {''labels'', ''annotations''}" for k
    using that by (auto simp: string_map_def md_strings_def or_empty_def sample_manifest_def)
  have same: "up_to_date sample_existing sample_manifest" "\<not> up_to_date ?status sample_manifest"
    by (auto simp: up_to_date_def sample_existing_def sample_manifest_def server_owned_def md_strings_def or_empty_def test_object_def meta_def
        fmsubset_alt_def)
  have got: "run_state (client_Get (?client x) gvk key) (world ?s) = (Inr x, ())" for x gvk key by simp
  have run: "run_state (ApplyObject plain_codec (?client x) sample_manifest) ?s =
      (fst (run_state (ApplyObject plain_codec (?client x) sample_manifest) ?s), snd (run_state (ApplyObject plain_codec (?client x) sample_manifest) ?s))" for x
    by simp
  show ?thesis
    using apply_writes_iff [OF obj cm(1) form strings refl got run] apply_writes_iff [OF obj cm(2) form strings refl got run] same
    unfolding Let_def by auto
qed

end
