(* ===== verification/Render.thy ===== *)
theory Render
  imports Unstructured Strconv "HOL-Library.Sublist" "HOL-Library.List_Lexorder" "HOL-Library.Char_ord"
    "HOL-Library.Multiset"
begin

text \<open>
  Rendering the manifests of a directory, \<open>src/pkg/render\<close>. Template engine, template functions of \<open>sprig\<close>, the
  YAML decoder and reading of a file are operations of an argument; the walk over the
  directory (\<open>filepath.Walk\<close>), paths and white space are modelled.
\<close>

section \<open>Functions for all templates (\<open>funcs.go\<close>)\<close>

definition getOr :: "object \<Rightarrow> string \<Rightarrow> string \<Rightarrow> json" where
  "getOr m key fallback =
     (case fmlookup m key of
        None \<Rightarrow> JStr fallback
      | Some val \<Rightarrow> (case val of JStr s \<Rightarrow> if s = '''' then JStr fallback else val | _ \<Rightarrow> val))"

definition isSet :: "object \<Rightarrow> string \<Rightarrow> json" where
  "isSet m key = (case fmlookup m key of None \<Rightarrow> JBool False | Some val \<Rightarrow> val)"

section \<open>Paths and files\<close>

text \<open>
  A tree of files, as \<open>filepath.Walk\<close> finds it: a file with its size, a directory with its entries and
  the error of reading them, or an entry that \<open>Lstat\<close> fails on.
\<close>

datatype fs = FFile nat | FDir "go_error option" "(string \<times> fs) list" | FLost go_error

record FileInfo =
  info_Name :: string
  info_IsDir :: bool
  info_Size :: nat

definition info_of :: "string \<Rightarrow> fs \<Rightarrow> FileInfo option" where
  "info_of name t =
     (case t of
        FFile n \<Rightarrow> Some \<lparr>info_Name = name, info_IsDir = False, info_Size = n\<rparr>
      | FDir _ _ \<Rightarrow> Some \<lparr>info_Name = name, info_IsDir = True, info_Size = 0\<rparr>
      | FLost _ \<Rightarrow> None)"

definition clean_step :: "bool \<Rightarrow> string \<Rightarrow> string list \<Rightarrow> string list" where
  "clean_step rooted c out =
     (if c = '''' \<or> c = ''.'' then out
      else if c = ''..'' then
        (if out \<noteq> [] \<and> hd out \<noteq> ''..'' then tl out else if rooted then out else ''..'' # out)
      else c # out)"

fun join_slash :: "string list \<Rightarrow> string" where
  "join_slash [] = ''''"
| "join_slash [c] = c"
| "join_slash (c # cs) = c @ ''/'' @ join_slash cs"

definition Clean :: "string \<Rightarrow> string" where
  "Clean path =
     (let rooted = (path \<noteq> '''' \<and> hd path = CHR ''/'');
          out = (if rooted then ''/'' else '''') @
                join_slash (rev (fold (clean_step rooted) (split_slash path []) []))
      in if out = '''' then ''.'' else out)"

definition Join :: "string \<Rightarrow> string \<Rightarrow> string" where
  "Join dir name = Clean (if dir = '''' then name else dir @ ''/'' @ name)"

definition Base :: "string \<Rightarrow> string" where
  "Base path =
     (if path = '''' then ''.''
      else let p = rev (dropWhile (\<lambda>c. c = CHR ''/'') (rev path))
           in if p = '''' then ''/'' else rev (takeWhile (\<lambda>c. c \<noteq> CHR ''/'') (rev p)))"

section \<open>Walking\<close>

text \<open>
  \<open>filepath.Walk\<close> visits the entries of a directory in the order of their names. None of the
  functions it is called with returns \<open>SkipDir\<close>, so any error they return ends the walk.
\<close>

type_synonym 'st walk_fn = "string \<Rightarrow> FileInfo option \<Rightarrow> go_error option \<Rightarrow> ('st, go_error option) state"

lemma size_list_sort [simp]: "size_list f (sort_key k xs) = size_list f xs"
  by (simp add: size_list_conv_sum_list flip: sum_mset_sum_list)

function walk :: "'st walk_fn \<Rightarrow> string \<Rightarrow> string \<Rightarrow> fs \<Rightarrow> ('st, go_error option) state"
  and walk_names :: "'st walk_fn \<Rightarrow> string \<Rightarrow> (string \<times> fs) list \<Rightarrow> ('st, go_error option) state" where
  "walk fn path name t =
     (case t of
        FLost err \<Rightarrow> fn path None (Some err)
      | FFile n \<Rightarrow> fn path (info_of name t) None
      | FDir err entries \<Rightarrow> do {
          err1 \<leftarrow> fn path (info_of name t) err;
          if err \<noteq> None \<or> err1 \<noteq> None then ret err1
          else walk_names fn path (sort_key fst entries)
        })"
| "walk_names fn path [] = ret None"
| "walk_names fn path ((name, t) # rest) = do {
     err \<leftarrow> walk fn (Join path name) name t;
     if err \<noteq> None then ret err else walk_names fn path rest
   }"
  by pat_completeness auto
termination
  by (relation "measure (\<lambda>x. case x of Inl (fn, path, name, t) \<Rightarrow> 2 * size t | Inr (fn, path, es) \<Rightarrow> Suc (2 * size_list (size_prod (\<lambda>_. 0) size) es))")
     auto

definition Walk :: "'st walk_fn \<Rightarrow> string \<Rightarrow> fs \<Rightarrow> ('st, go_error option) state" where
  "Walk fn root t = walk fn root (Base root) t"

section \<open>Rendering (\<open>render.go\<close>)\<close>

text \<open>
  A template function is one of the caller, one of the two above, or one of \<open>sprig\<close>. A template collects
  functions by name, and a later definition replaces an earlier one.
\<close>

datatype 'f tmpl_func = UserFunc 'f | GetOr | IsSet | SprigFunc 'f

record 'f RenderData =
  rd_Funcs :: "(string \<rightharpoonup> 'f) option"
  rd_Data :: object

definition MakeRenderData :: "'f RenderData" where
  "MakeRenderData = \<lparr>rd_Funcs = Some Map.empty, rd_Data = fmempty\<rparr>"

record 'f tmpl =
  tmpl_name :: string
  tmpl_missingkey_error :: bool
  tmpl_funcs :: "string \<rightharpoonup> 'f tmpl_func"

definition add_Funcs :: "(string \<rightharpoonup> 'f tmpl_func) \<Rightarrow> 'f tmpl \<Rightarrow> 'f tmpl" where
  "add_Funcs fs t = t\<lparr>tmpl_funcs := tmpl_funcs t ++ fs\<rparr>"

text \<open>
  \<open>yaml_documents\<close> is what successive calls of the decoder give before \<open>io.EOF\<close>: objects, or an error.
\<close>

record ('s, 'f, 'p) render_env =
  ReadFile :: "string \<Rightarrow> ('s, go_error + string) state"
  sprig_TxtFuncMap :: "string \<rightharpoonup> 'f"
  tmpl_Parse :: "'f tmpl \<Rightarrow> string \<Rightarrow> go_error + 'p"
  tmpl_Execute :: "'p \<Rightarrow> object \<Rightarrow> go_error + string"
  yaml_documents :: "string \<Rightarrow> (go_error + object) list"

datatype render_event = RRead string "go_error + string"

definition renderTemplate ::
  "('s, 'f, 'p) render_env \<Rightarrow> string \<Rightarrow> 'f RenderData \<Rightarrow> (('s, render_event, 'z) io_scheme, go_error + string) state" where
  "renderTemplate env path d = do {
     let t = \<lparr>tmpl_name = path, tmpl_missingkey_error = True, tmpl_funcs = Map.empty\<rparr>;
     let t = (case rd_Funcs d of None \<Rightarrow> t | Some fs \<Rightarrow> add_Funcs (map_option UserFunc \<circ> fs) t);
     let t = add_Funcs [''getOr'' \<mapsto> GetOr, ''isSet'' \<mapsto> IsSet] t;
     let t = add_Funcs (map_option SprigFunc \<circ> sprig_TxtFuncMap env) t;
     source \<leftarrow> perform (ReadFile env path) (RRead path);
     case source of
       Inl err \<Rightarrow> ret (Inl (Wrap err (''failed to read manifest '' @ path)))
     | Inr source \<Rightarrow>
         (case tmpl_Parse env t source of
            Inl err \<Rightarrow> ret (Inl (Wrap err (''failed to parse manifest '' @ path @ '' as template'')))
          | Inr parsed \<Rightarrow>
              (case tmpl_Execute env parsed (rd_Data d) of
                 Inl err \<Rightarrow> ret (Inl (Wrap err (''failed to render manifest '' @ path)))
               | Inr rendered \<Rightarrow> ret (Inr rendered)))
   }"

text \<open>
  White space as \<open>strings.TrimSpace\<close> knows it: the length of a leading white space character in UTF-8, 0 if
  there is none.
\<close>

definition space_length :: "nat list \<Rightarrow> nat" where
  "space_length bs =
     (case bs of
        [] \<Rightarrow> 0
      | b # _ \<Rightarrow>
          if b \<in> {9, 10, 11, 12, 13, 32} then 1
          else if take 2 bs \<in> {[0xC2, 0x85], [0xC2, 0xA0]} then 2
          else if take 3 bs \<in> {[0xE1, 0x9A, 0x80], [0xE2, 0x80, 0xA8], [0xE2, 0x80, 0xA9], [0xE2, 0x80, 0xAF],
                               [0xE2, 0x81, 0x9F], [0xE3, 0x80, 0x80]} then 3
          else if take 2 bs = [0xE2, 0x80] \<and> length bs > 2 \<and> 0x80 \<le> bs ! 2 \<and> bs ! 2 \<le> 0x8A then 3
          else 0)"

lemma space_length_Nil [simp]: "space_length [] = 0"
  by (simp add: space_length_def)

function all_space :: "nat list \<Rightarrow> bool" where
  "all_space bs =
     (if bs = [] then True
      else if space_length bs = 0 then False
      else all_space (drop (space_length bs) bs))"
  by pat_completeness auto
termination
  by (relation "measure length") auto

declare all_space.simps [simp del]

definition is_blank :: "string \<Rightarrow> bool" where
  "is_blank s = all_space (map of_char s)"

fun decode_loop :: "(go_error + object) list \<Rightarrow> object list \<Rightarrow> go_error + object list" where
  "decode_loop [] out = Inr out"
| "decode_loop (Inl err # _) out = Inl err"
| "decode_loop (Inr u # docs) out = decode_loop docs (out @ [u])"

definition RenderTemplate ::
  "('s, 'f, 'p) render_env \<Rightarrow> string \<Rightarrow> 'f RenderData \<Rightarrow> (('s, render_event, 'z) io_scheme, go_error + object list) state" where
  "RenderTemplate env path d = do {
     rendered \<leftarrow> renderTemplate env path d;
     case rendered of
       Inl err \<Rightarrow> ret (Inl err)
     | Inr rendered \<Rightarrow>
         if is_blank rendered then ret (Inr [])
         else (case decode_loop (yaml_documents env rendered) [] of
                 Inl err \<Rightarrow> ret (Inl (Wrap err (''failed to unmarshal manifest '' @ path)))
               | Inr out \<Rightarrow> ret (Inr out))
   }"

text \<open>The variable \<open>out\<close> that the function passed to \<open>Walk\<close> appends to.\<close>

record 's render_vars = "('s, render_event) io" +
  rv_out :: "object list"

definition is_manifest :: "string \<Rightarrow> bool" where
  "is_manifest path \<longleftrightarrow> suffix ''.yml'' path \<or> suffix ''.yaml'' path \<or> suffix ''.json'' path"

definition RenderDir_fn :: "('s, 'f, 'p) render_env \<Rightarrow> 'f RenderData \<Rightarrow> 's render_vars walk_fn" where
  "RenderDir_fn env d path info err =
     (case err of
        Some e \<Rightarrow> ret (Some e)
      | None \<Rightarrow>
          if info_IsDir (the info) then ret None
          else if \<not> is_manifest path then ret None
          else do {
            objs \<leftarrow> RenderTemplate env path d;
            case objs of
              Inl e \<Rightarrow> ret (Some e)
            | Inr objs \<Rightarrow> do { modify (rv_out_update (\<lambda>out. out @ objs)); ret None }
          })"

definition RenderDir ::
  "('s, 'f, 'p) render_env \<Rightarrow> string \<Rightarrow> fs \<Rightarrow> 'f RenderData \<Rightarrow> (('s, render_event) io, go_error + object list) state" where
  "RenderDir env manifestDir tree d = State (\<lambda>st.
     case run_state (Walk (RenderDir_fn env d) manifestDir tree)
            \<lparr>world = world st, trace = trace st, rv_out = []\<rparr> of
       (err, v) \<Rightarrow>
         ((case err of Some e \<Rightarrow> Inl (Wrap e ''error rendering manifests'') | None \<Rightarrow> Inr (rv_out v)),
          \<lparr>world = world v, trace = trace v\<rparr>))"

section \<open>Helpers\<close>

record DeviceInfo =
  PciAddress :: string
  NumVfs :: int

fun formateDeviceList_loop :: "DeviceInfo list \<Rightarrow> string \<Rightarrow> string" where
  "formateDeviceList_loop [] out = out"
| "formateDeviceList_loop (dev # devs) out =
     formateDeviceList_loop devs (out @ PciAddress dev @ '' '' @ Itoa (NumVfs dev) @ [CHR 0x0A])"

definition formateDeviceList :: "DeviceInfo list \<Rightarrow> string" where
  "formateDeviceList devs = formateDeviceList_loop devs ''''"

text \<open>The verb \<open>%q\<close>, for a path without characters that it escapes.\<close>

definition quoted :: "string \<Rightarrow> string" where
  "quoted s = CHR 0x22 # s @ [CHR 0x22]"

datatype stat_result = StatInfo FileInfo | StatNotExist go_error | StatError go_error

definition existsDir :: "(string \<Rightarrow> stat_result) \<Rightarrow> string \<Rightarrow> bool \<times> go_error option" where
  "existsDir stat path =
     (let (info, err) = (case stat path of
            StatInfo i \<Rightarrow> (Some i, None) | StatNotExist e \<Rightarrow> (None, Some e) | StatError e \<Rightarrow> (None, Some e))
      in case info of
           None \<Rightarrow>
             (case stat path of
                StatNotExist _ \<Rightarrow> (False, None)
              | _ \<Rightarrow> (False, Wrapf err (''failed to open dir '' @ quoted path)))
         | Some i \<Rightarrow>
             if \<not> info_IsDir i
             then (False, Wrapf err (''expected template directory, '' @ quoted path @ '' is not a directory''))
             else (True, None))"

record 's filter_vars = "('s, render_event) io" +
  toFilter :: "string \<rightharpoonup> string"

definition filterTemplates_fn :: "('s, 'f, 'p) render_env \<Rightarrow> 'f RenderData \<Rightarrow> 's filter_vars walk_fn" where
  "filterTemplates_fn env d path info err =
     (case err of
        Some e \<Rightarrow> ret (Some e)
      | None \<Rightarrow>
          if info_IsDir (the info) then ret None
          else if info_Size (the info) = 0 then do {
            modify (toFilter_update (\<lambda>m. m(info_Name (the info) := None)));
            ret None
          }
          else do {
            renderedData \<leftarrow> renderTemplate env path d;
            case renderedData of
              Inl e \<Rightarrow> ret (Some e)
            | Inr s \<Rightarrow> do {
                modify (toFilter_update (\<lambda>m. m(info_Name (the info) \<mapsto> s)));
                ret None
              }
          })"

definition filterTemplates ::
  "('s, 'f, 'p) render_env \<Rightarrow> string \<Rightarrow> fs \<Rightarrow> 'f RenderData \<Rightarrow> ('s filter_vars, go_error option) state" where
  "filterTemplates env path tree d = Walk (filterTemplates_fn env d) path tree"

end
