(* ===== verification/Render_Dir.thy ===== *)
theory Render_Dir
  imports Render
begin

text \<open>
  What rendering a directory gives: a list of all visits of the walk as a reference definition, that \<open>RenderDir\<close> is
  rendering the manifests of that list one after the other, and which entries of the directory the list holds.
\<close>

section \<open>The visits of a walk\<close>

datatype visit = Visit string FileInfo | Failed string "FileInfo option" go_error

function visits :: "string \<Rightarrow> string \<Rightarrow> fs \<Rightarrow> visit list"
  and visits_names :: "string \<Rightarrow> (string \<times> fs) list \<Rightarrow> visit list" where
  "visits path name (FLost err) = [Failed path None err]"
| "visits path name (FFile n) = [Visit path \<lparr>info_Name = name, info_IsDir = False, info_Size = n\<rparr>]"
| "visits path name (FDir err entries) =
     (let info = \<lparr>info_Name = name, info_IsDir = True, info_Size = 0\<rparr>
      in case err of
           Some e \<Rightarrow> [Failed path (Some info) e]
         | None \<Rightarrow> Visit path info # visits_names path (sort_key fst entries))"
| "visits_names path [] = []"
| "visits_names path ((name, t) # rest) = visits (Join path name) name t @ visits_names path rest"
  by pat_completeness auto
termination
  by (relation "measure (\<lambda>x. case x of Inl (path, name, t) \<Rightarrow> 2 * size t | Inr (path, es) \<Rightarrow> Suc (2 * size_list (size_prod (\<lambda>_. 0) size) es))")
     auto

text \<open>Go on unless there is an error.\<close>

definition or_next :: "('st, 'e option) state \<Rightarrow> ('st, 'e option) state \<Rightarrow> ('st, 'e option) state" where
  "or_next m n = do { e \<leftarrow> m; if e \<noteq> None then ret e else n }"

lemma run_or_next [run_simps]:
  "run_state (or_next m n) s =
     (case run_state m s of (e, s') \<Rightarrow> (case e of None \<Rightarrow> run_state n s' | Some _ \<Rightarrow> (e, s')))"
  by (auto simp: or_next_def split: prod.split option.split)

lemma or_next_laws [simp]:
  "or_next (ret None) n = n"
  "or_next (ret (Some e)) n = ret (Some e)"
  "or_next m (ret None) = m"
  "or_next (or_next m n) k = or_next m (or_next n k)"
  by (rule state.expand, rule ext, simp add: run_or_next split: prod.split option.split)+

fun visit_all :: "'st walk_fn \<Rightarrow> visit list \<Rightarrow> ('st, go_error option) state" where
  "visit_all fn [] = ret None"
| "visit_all fn (Visit p i # vs) = or_next (fn p (Some i) None) (visit_all fn vs)"
| "visit_all fn (Failed p i e # vs) = or_next (fn p i (Some e)) (visit_all fn vs)"

lemma visit_all_append: "visit_all fn (vs @ vs') = or_next (visit_all fn vs) (visit_all fn vs')"
  by (induction fn vs rule: visit_all.induct) simp_all

text \<open>A function that ends the walk on every error it is given.\<close>

definition passes_errors :: "'st walk_fn \<Rightarrow> bool" where
  "passes_errors fn \<longleftrightarrow> (\<forall>p i e. fn p i (Some e) = ret (Some e))"

lemma walk_dir:
  "walk fn path name (FDir None es) =
     or_next (fn path (Some \<lparr>info_Name = name, info_IsDir = True, info_Size = 0\<rparr>) None) (walk_names fn path (sort_key fst es))"
  by (simp add: or_next_def info_of_def)

lemma walk_names_Cons:
  "walk_names fn path ((name, t) # rest) = or_next (walk fn (Join path name) name t) (walk_names fn path rest)"
  by (simp add: or_next_def)

lemma walk_visits:
  assumes "passes_errors fn"
  shows "walk fn path name t = visit_all fn (visits path name t)"
    and "walk_names fn path es = visit_all fn (visits_names path es)"
proof (induction path name t and path es rule: visits_visits_names.induct)
  case (3 path name err entries)
  then show ?case
    using assms
    by (cases err) (simp_all only: walk_dir visits.simps, simp_all add: info_of_def Let_def passes_errors_def)
next
  case (5 path name t rest)
  then show ?case by (simp only: walk_names_Cons visits_names.simps visit_all_append)
qed (use assms in \<open>simp_all add: info_of_def passes_errors_def\<close>)

declare walk.simps [simp del]

section \<open>Rendering in order\<close>

fun render_all ::
  "('s, 'f, 'p) render_env \<Rightarrow> 'f RenderData \<Rightarrow> string list \<Rightarrow> object list \<Rightarrow>
    (('s, render_event, 'z) io_scheme, go_error + object list) state" where
  "render_all env d [] out = ret (Inr out)"
| "render_all env d (path # paths) out = do {
     objs \<leftarrow> RenderTemplate env path d;
     case objs of Inl e \<Rightarrow> ret (Inl e) | Inr objs \<Rightarrow> render_all env d paths (out @ objs)
   }"

fun readable :: "visit \<Rightarrow> bool" where
  "readable (Visit p i) = True"
| "readable (Failed p i e) = False"

fun manifest_of :: "visit \<Rightarrow> string option" where
  "manifest_of (Visit p i) = (if \<not> info_IsDir i \<and> is_manifest p then Some p else None)"
| "manifest_of (Failed p i e) = None"

fun first_failure :: "visit list \<Rightarrow> go_error option" where
  "first_failure [] = None"
| "first_failure (Visit p i # vs) = first_failure vs"
| "first_failure (Failed p i e # vs) = Some e"

text \<open>The paths of the manifests, in the order of the visits and up to the first failure.\<close>

definition manifests :: "string \<Rightarrow> fs \<Rightarrow> string list" where
  "manifests dir tree = List.map_filter manifest_of (takeWhile readable (visits dir (Base dir) tree))"

lemma RenderTemplate_vars:
  "run_state (RenderTemplate env path d) \<lparr>world = w, trace = tr, rv_out = out\<rparr> =
     (case run_state (RenderTemplate env path d) \<lparr>world = w, trace = tr\<rparr> of
        (r, s) \<Rightarrow> (r, \<lparr>world = world s, trace = trace s, rv_out = out\<rparr>))"
  by (auto simp: RenderTemplate_def renderTemplate_def run_perform Let_def split: sum.split prod.split)

lemma RenderDir_fn_simps:
  "RenderDir_fn env d p i (Some e) = ret (Some e)"
  "info_IsDir i' \<or> \<not> is_manifest p \<Longrightarrow> RenderDir_fn env d p (Some i') None = ret None"
  "\<not> info_IsDir i' \<Longrightarrow> is_manifest p \<Longrightarrow> run_state (RenderDir_fn env d p (Some i') None) s =
     (case run_state (RenderTemplate env p d) s of
        (Inl e, s') \<Rightarrow> (Some e, s')
      | (Inr objs, s') \<Rightarrow> (None, s'\<lparr>rv_out := rv_out s' @ objs\<rparr>))"
  by (auto simp: RenderDir_fn_def run_modify split: prod.split sum.split)

lemma RenderDir_visits:
  "\<exists>v. run_state (visit_all (RenderDir_fn env d) vs) \<lparr>world = w, trace = tr, rv_out = out\<rparr> =
     (case run_state (render_all env d (List.map_filter manifest_of (takeWhile readable vs)) out) \<lparr>world = w, trace = tr\<rparr> of
        (r, s) \<Rightarrow> (case r of Inl e \<Rightarrow> Some e | Inr objs \<Rightarrow> first_failure vs,
          \<lparr>world = world s, trace = trace s, rv_out = (case r of Inl e \<Rightarrow> v | Inr objs \<Rightarrow> objs)\<rparr>))"
proof (induction vs arbitrary: w tr out rule: first_failure.induct)
  case (2 p i vs)
  show ?case
  proof (cases "info_IsDir i \<or> \<not> is_manifest p")
    case True
    then have "manifest_of (Visit p i) = None" by auto
    with True 2 [of w tr out] show ?thesis
      unfolding first_failure.simps by (simp add: RenderDir_fn_simps List.map_filter_simps)
  next
    case False
    obtain r w' tr' where run: "run_state (RenderTemplate env p d) \<lparr>world = w, trace = tr\<rparr> = (r, \<lparr>world = w', trace = tr'\<rparr>)"
      by (metis prod.exhaust io.cases)
    show ?thesis
    proof (cases r)
      case (Inl e)
      with False run show ?thesis
        by (simp add: RenderDir_fn_simps List.map_filter_simps run_or_next RenderTemplate_vars)
    next
      case (Inr objs)
      with False run 2 [of w' tr' "out @ objs"] show ?thesis
        unfolding first_failure.simps
        by (simp add: RenderDir_fn_simps List.map_filter_simps run_or_next RenderTemplate_vars)
    qed
  qed
qed (simp_all add: RenderDir_fn_simps List.map_filter_simps)

lemma RenderDir_passes_errors: "passes_errors (RenderDir_fn env d)"
  by (simp add: passes_errors_def RenderDir_fn_simps)

text \<open>C39.
  \<open>RenderDir\<close> is rendering the manifests of the directory one after the other, in the order of the walk: it returns all their
  objects, or the first error of a template or of an entry that cannot be read, and what comes after an error is
  not read. Both sides read the same files in the same order.\<close>

theorem RenderDir_manifests:
  "run_state (RenderDir env dir tree d) st = run_state (do {
     r \<leftarrow> render_all env d (manifests dir tree) [];
     ret (case r of
            Inl e \<Rightarrow> Inl (Wrap e ''error rendering manifests'')
          | Inr objs \<Rightarrow>
              (case first_failure (visits dir (Base dir) tree) of
                 None \<Rightarrow> Inr objs
               | Some e \<Rightarrow> Inl (Wrap e ''error rendering manifests'')))
   }) st"
proof -
  obtain w tr where st: "st = \<lparr>world = w, trace = tr\<rparr>" by (cases st)
  let ?vs = "visits dir (Base dir) tree"
  obtain r w' tr' where run: "run_state (render_all env d (manifests dir tree) []) st = (r, \<lparr>world = w', trace = tr'\<rparr>)"
    by (metis prod.exhaust io.cases)
  obtain v where "run_state (visit_all (RenderDir_fn env d) ?vs) \<lparr>world = w, trace = tr, rv_out = []\<rparr> =
      (case r of Inl e \<Rightarrow> Some e | Inr objs \<Rightarrow> first_failure ?vs,
       \<lparr>world = w', trace = tr', rv_out = (case r of Inl e \<Rightarrow> v | Inr objs \<Rightarrow> objs)\<rparr>)"
    using RenderDir_visits [of env d ?vs w tr "[]"] run by (auto simp: st manifests_def)
  then show ?thesis
    using run
    by (simp add: RenderDir_def Walk_def walk_visits(1) [OF RenderDir_passes_errors] st
        split: sum.split option.split)
qed

section \<open>Which entries are visited\<close>

text \<open>\<open>below path name t p m u\<close>: \<open>u\<close>, of name \<open>m\<close>, is at path \<open>p\<close> of the tree \<open>t\<close> at \<open>path\<close>.\<close>

inductive below :: "string \<Rightarrow> string \<Rightarrow> fs \<Rightarrow> string \<Rightarrow> string \<Rightarrow> fs \<Rightarrow> bool" where
  here: "below path name t path name t"
| entry: "(n, t) \<in> set es \<Longrightarrow> below (Join path n) n t p m u \<Longrightarrow> below path name (FDir None es) p m u"

inductive_simps below_leaf: "below path name (FFile k) p m u" "below path name (FLost e) p m u"
  "below path name (FDir (Some e) es) p m u"
inductive_simps below_dir: "below path name (FDir None es) p m u"

definition visit_of :: "string \<Rightarrow> string \<Rightarrow> fs \<Rightarrow> visit" where
  "visit_of p m u =
     (case u of
        FLost e \<Rightarrow> Failed p None e
      | FFile n \<Rightarrow> Visit p \<lparr>info_Name = m, info_IsDir = False, info_Size = n\<rparr>
      | FDir (Some e) _ \<Rightarrow> Failed p (Some \<lparr>info_Name = m, info_IsDir = True, info_Size = 0\<rparr>) e
      | FDir None _ \<Rightarrow> Visit p \<lparr>info_Name = m, info_IsDir = True, info_Size = 0\<rparr>)"

lemma visit_of_simps [simp]:
  "visit_of p m (FLost e) = Failed p None e"
  "visit_of p m (FFile n) = Visit p \<lparr>info_Name = m, info_IsDir = False, info_Size = n\<rparr>"
  "visit_of p m (FDir (Some e) es) = Failed p (Some \<lparr>info_Name = m, info_IsDir = True, info_Size = 0\<rparr>) e"
  "visit_of p m (FDir None es) = Visit p \<lparr>info_Name = m, info_IsDir = True, info_Size = 0\<rparr>"
  by (simp_all add: visit_of_def)

lemma visits_below:
  "v \<in> set (visits path name t) \<longleftrightarrow> (\<exists>p m u. below path name t p m u \<and> v = visit_of p m u)"
  "v \<in> set (visits_names path es) \<longleftrightarrow>
     (\<exists>n t p m u. (n, t) \<in> set es \<and> below (Join path n) n t p m u \<and> v = visit_of p m u)"
proof (induction path name t and path es rule: visits_visits_names.induct)
  case (3 path name err entries)
  show ?case
  proof (cases err)
    case None
    have "v \<in> set (visits path name (FDir None entries)) \<longleftrightarrow>
        v = visit_of path name (FDir None entries) \<or> v \<in> set (visits_names path (sort_key fst entries))"
      by (simp add: Let_def)
    with 3 None show ?thesis
      unfolding None below_dir by (simp only: set_sort) blast
  qed (auto simp: below_leaf Let_def)
next
  case (5 path name t rest)
  then show ?case
    unfolding visits_names.simps set_append Un_iff set_simps insert_iff by blast
qed (auto simp: below_leaf)

lemma readable_all: "first_failure vs = None \<longleftrightarrow> (\<forall>v \<in> set vs. readable v)"
  by (induction vs rule: first_failure.induct) auto

lemma visit_of_manifest: "manifest_of (visit_of q m u) = Some p \<longleftrightarrow> q = p \<and> is_manifest p \<and> (\<exists>n. u = FFile n)"
  by (auto simp: visit_of_def split: fs.split option.split)

text \<open>Which manifests are rendered: when every entry of the directory can be read, exactly the regular files of the tree, at any
  depth, whose path ends in one of the three suffixes.\<close>

lemma manifests_complete:
  assumes "first_failure (visits dir (Base dir) tree) = None"
  shows "set (manifests dir tree) = {p. \<exists>m n. below dir (Base dir) tree p m (FFile n) \<and> is_manifest p}"
proof -
  let ?vs = "visits dir (Base dir) tree"
  have "takeWhile readable ?vs = ?vs"
    using assms by (simp add: readable_all)
  then have "p \<in> set (manifests dir tree) \<longleftrightarrow> (\<exists>v \<in> set ?vs. manifest_of v = Some p)" for p
    by (simp only: manifests_def List.map_filter_def) (auto intro: rev_image_eqI)
  moreover have "(\<exists>v \<in> set ?vs. manifest_of v = Some p) \<longleftrightarrow>
      (\<exists>q m u. below dir (Base dir) tree q m u \<and> manifest_of (visit_of q m u) = Some p)" for p
    unfolding Bex_def visits_below(1) by blast
  ultimately show ?thesis
    by (simp only: visit_of_manifest) blast
qed

section \<open>Helpers\<close>

text \<open>A path that is no directory is not reported as an error, since wrapping a nil error gives nil.\<close>

lemma existsDir_not_dir:
  assumes "stat path = StatInfo i" and "\<not> info_IsDir i"
  shows "existsDir stat path = (False, None)"
  using assms by (simp add: existsDir_def Wrapf_def)

end
