(* ===== verification/Config_Controller.thy ===== *)
theory Config_Controller
  imports Certificates_Trust Apply_Convergence Render_Dir
begin

text \<open>
  The config controller of the manager, \<open>src/controllers/poisonpillconfig_controller.go\<close>: for a
  \<open>PoisonPillConfig\<close> it makes the certificates unless there are some, renders the manifests of the agents
  with the values of the configuration, and applies them. It is put together from the models of the packages it
  calls: \<open>certificates\<close>, \<open>render\<close> and \<open>apply\<close>. \<open>SetControllerReference\<close> of the controller framework is a
  parameter.
\<close>

datatype ('k, 'p) config_event =
    GGetConfig ObjectKey "go_error + PoisonPillConfig"
  | GCreateDefault "go_error option"
  | GSecret secret_event
  | GX509 "('k, 'p) x509_event"
  | GRender render_event
  | GApply apply_event

record ('s, 'k, 'p, 'f, 't, 'm) PoisonPillConfigReconciler =
  ppcr_Get :: "ObjectKey \<Rightarrow> ('s, go_error + PoisonPillConfig) state"
  ppcr_secrets :: "'s secret_env"
  ppcr_apply :: "'s apply_env"
  ppcr_codec :: "'m codec"
  ppcr_x509 :: "('s, 'k, 'p) x509_env"
  ppcr_render :: "('s, 'f, 't) render_env"
  ppcr_InstallFileFolder :: string
  ppcr_install :: fs
  ppcr_getenv :: "string \<Rightarrow> string"
  ppcr_SetControllerReference :: "PoisonPillConfig \<Rightarrow> object \<Rightarrow> go_error + object"
  ppcr_DefaultPpcCreator :: "('s, go_error option) state"

type_synonym ('s, 'k, 'p) config_state = "('s, ('k, 'p) config_event) io"

section \<open>Certificates\<close>

definition syncCerts ::
  "('s, 'k, 'p, 'f, 't, 'm) PoisonPillConfigReconciler \<Rightarrow> PoisonPillConfig \<Rightarrow>
    (('s, 'k, 'p) config_state, go_error option) state" where
  "syncCerts r cr = do {
     let st = NewSecretCertStorage (Namespace (ppc_Meta cr));
     (pem, st) \<leftarrow> embed GSecret (GetCerts (ppcr_secrets r) st);
     case pem of
       Inr _ \<Rightarrow> ret None
     | Inl err \<Rightarrow>
         if \<not> IsNotFound err then ret (Some err)
         else do {
           made \<leftarrow> embed GX509 (CreateCerts (ppcr_x509 r));
           case made of
             Inl err \<Rightarrow> ret (Some err)
           | Inr c \<Rightarrow> embed GSecret (StoreCerts (ppcr_secrets r) st c)
         }
   }"

section \<open>The daemon set\<close>

definition daemonSet_data :: "('s, 'k, 'p, 'f, 't, 'm) PoisonPillConfigReconciler \<Rightarrow> PoisonPillConfig \<Rightarrow> 'f RenderData" where
  "daemonSet_data r ppc =
     (let data = MakeRenderData;
          data = data\<lparr>rd_Data := fmupd ''Image'' (JStr (ppcr_getenv r ''POISON_PILL_IMAGE'')) (rd_Data data)\<rparr>;
          data = data\<lparr>rd_Data := fmupd ''Namespace'' (JStr (Namespace (ppc_Meta ppc))) (rd_Data data)\<rparr>;
          watchdogPath = WatchdogFilePath (ppc_Spec ppc);
          watchdogPath = (if watchdogPath = '''' then ''/dev/watchdog1'' else watchdogPath);
          data = data\<lparr>rd_Data := fmupd ''WatchdogPath'' (JStr watchdogPath) (rd_Data data)\<rparr>;
          timeToAssumeNodeRebooted = SafeTimeToAssumeNodeRebootedSeconds (ppc_Spec ppc);
          timeToAssumeNodeRebooted = (if timeToAssumeNodeRebooted = 0 then 180 else timeToAssumeNodeRebooted)
      in data\<lparr>rd_Data := fmupd ''TimeToAssumeNodeRebooted'' (JStr (quoted (Itoa timeToAssumeNodeRebooted)))
           (rd_Data data)\<rparr>)"

text \<open>The error that an object could not be applied is made by \<open>fmt.Errorf\<close>: it has no API reason any more.\<close>

definition syncK8sResource ::
  "('s, 'k, 'p, 'f, 't, 'm) PoisonPillConfigReconciler \<Rightarrow> PoisonPillConfig \<Rightarrow> object \<Rightarrow>
    (('s, 'k, 'p) config_state, go_error option) state" where
  "syncK8sResource r cr obj =
     (case (if GetKind obj \<noteq> ''ClusterRole'' \<and> GetKind obj \<noteq> ''ClusterRoleBinding''
            then ppcr_SetControllerReference r cr obj else Inr obj) of
        Inl err \<Rightarrow> ret (Some err)
      | Inr obj \<Rightarrow> do {
          e \<leftarrow> embed GApply (ApplyObject (ppcr_codec r) (ppcr_apply r) obj);
          case e of
            Some err \<Rightarrow> ret (Some (Other ''failed to apply object''))
          | None \<Rightarrow> ret None
        })"

primrec syncK8sResources ::
  "('s, 'k, 'p, 'f, 't, 'm) PoisonPillConfigReconciler \<Rightarrow> PoisonPillConfig \<Rightarrow> object list \<Rightarrow>
    (('s, 'k, 'p) config_state, go_error option) state" where
  "syncK8sResources r ppc [] = ret None"
| "syncK8sResources r ppc (obj # objs) = do {
     err \<leftarrow> syncK8sResource r ppc obj;
     case err of Some e \<Rightarrow> ret (Some e) | None \<Rightarrow> syncK8sResources r ppc objs
   }"

definition syncConfigDaemonSet ::
  "('s, 'k, 'p, 'f, 't, 'm) PoisonPillConfigReconciler \<Rightarrow> PoisonPillConfig \<Rightarrow>
    (('s, 'k, 'p) config_state, go_error option) state" where
  "syncConfigDaemonSet r ppc = do {
     let data = daemonSet_data r ppc;
     objs \<leftarrow> embed GRender (RenderDir (ppcr_render r) (ppcr_InstallFileFolder r) (ppcr_install r) data);
     case objs of
       Inl err \<Rightarrow> ret (Some err)
     | Inr objs \<Rightarrow> syncK8sResources r ppc objs
   }"

section \<open>Reconcile\<close>

text \<open>The result of \<open>Reconcile\<close> is always empty; only the error matters.\<close>

definition config_Reconcile ::
  "('s, 'k, 'p, 'f, 't, 'm) PoisonPillConfigReconciler \<Rightarrow> ObjectKey \<Rightarrow>
    (('s, 'k, 'p) config_state, go_error option) state" where
  "config_Reconcile r req = do {
     got \<leftarrow> perform (ppcr_Get r req) (GGetConfig req);
     case got of
       Inl err \<Rightarrow>
         if IsNotFound err then perform (ppcr_DefaultPpcCreator r) GCreateDefault
         else ret (Some err)
     | Inr config \<Rightarrow> do {
         e \<leftarrow> syncCerts r config;
         case e of
           Some err \<Rightarrow> ret (Some err)
         | None \<Rightarrow> syncConfigDaemonSet r config
       }
   }"

section \<open>What a reconcile does\<close>

lemma emits_GetCerts_fresh:
  "emits (GetCerts env (NewSecretCertStorage ns)) (\<lambda>(got, st) evs. \<exists>answer.
     evs = [SGet \<lparr>key_Namespace = ns, key_Name = secretName\<rparr> answer] \<and> scs_namespace st = ns \<and>
     got = map_sum id secret_certs answer)"
  by (auto simp: GetCerts_def NewSecretCertStorage_def Let_def intro!: emits_intros split: sum.split)

end
