(* ===== verification/Watchdog.thy ===== *)
theory Watchdog
  imports Prelude "HOL-Library.Signed_Division"
begin

text \<open>
  The watchdog, \<open>src/pkg/watchdog\<close>: the interface of an implementation (\<open>interface.go\<close>), the
  synchronized watchdog on top of it (\<open>synchronized.go\<close>), the Linux and the fake implementation
  (\<open>linux.go\<close>, \<open>fake.go\<close>). The mutex makes each locked region one step; the calls of \<open>Start\<close>,
  the feeding goroutine and the calls of \<open>Stop\<close> interleave in a step relation. The system calls
  are the fields of an argument.
\<close>

section \<open>The interface of an implementation\<close>

record 'i watchdogImpl =
  impl_start :: "('i, go_error + duration) state"
  impl_feed :: "('i, go_error option) state"
  impl_disarm :: "('i, go_error option) state"

text \<open>The calls of the synchronized watchdog into its implementation and the clock.\<close>

datatype wd_event =
    WStart "go_error + duration"
  | WFeed "go_error option"
  | WDisarm "go_error option"
  | WNow time

section \<open>The synchronized watchdog\<close>

text \<open>
  The world is the state of the implementation. \<open>swd_stop\<close> is the cancel function, nil at first:
  it names the context that it cancels. \<open>contexts\<close> tells for each feeding context made so far
  whether it is cancelled.
\<close>

record 'i synchronizedWatchdog = "('i, wd_event) io" +
  swd_timeout :: duration
  isStarted :: bool
  swd_stop :: "nat option"
  isStopped :: bool
  lastFoodTime :: time
  contexts :: "bool list"

definition newSynced :: "'i \<Rightarrow> 'i synchronizedWatchdog" where
  "newSynced impl = \<lparr>world = impl, trace = [], swd_timeout = 0, isStarted = False, swd_stop = None,
     isStopped = False, lastFoodTime = zeroTime, contexts = []\<rparr>"

text \<open>
  \<open>Start\<close> up to its first \<open>Unlock\<close>: the value returned, if it returns there.
\<close>

definition Start_locked :: "'i watchdogImpl \<Rightarrow> ('i synchronizedWatchdog, go_error option option) state" where
  "Start_locked impl = do {
     started \<leftarrow> gets isStarted;
     if started then
       ret (Some (Some (Other (''watchdog was started more than once. This is likely to be caused '' @
         ''by being added to a manager multiple times''))))
     else do {
       got \<leftarrow> perform (impl_start impl) WStart;
       case got of
         Inl err \<Rightarrow> ret (Some None)
       | Inr timeout \<Rightarrow> do {
           modify (swd_timeout_update (\<lambda>_. timeout));
           modify (isStarted_update (\<lambda>_. True));
           ret None
         }
     }
   }"

text \<open>A new context and the assignment of its cancel function, after the \<open>Unlock\<close>.\<close>

definition Start_assign :: "('i synchronizedWatchdog, nat) state" where
  "Start_assign = do {
     feedCtx \<leftarrow> gets (\<lambda>swd. length (contexts swd));
     modify (contexts_update (\<lambda>cs. cs @ [False]));
     modify (swd_stop_update (\<lambda>_. Some feedCtx));
     ret feedCtx
   }"

text \<open>The function that the feeding goroutine runs every third of the timeout.\<close>

definition feed_locked ::
  "'i watchdogImpl \<Rightarrow> ('i, time) state \<Rightarrow> ('i synchronizedWatchdog, unit) state" where
  "feed_locked impl now = do {
     stopped \<leftarrow> gets isStopped;
     if stopped then ret ()
     else do {
       e \<leftarrow> perform (impl_feed impl) WFeed;
       case e of
         Some err \<Rightarrow> ret ()
       | None \<Rightarrow> do {
           t \<leftarrow> perform now WNow;
           modify (lastFoodTime_update (\<lambda>_. t))
         }
     }
   }"

definition feed_period :: "duration \<Rightarrow> duration" where
  "feed_period timeout = word_of_int (sint timeout sdiv 3)"

text \<open>Calling \<open>swd.stop\<close>: a nil function panics, a cancel function marks its context.\<close>

definition call_stop :: "('i synchronizedWatchdog, unit call) state" where
  "call_stop = do {
     stop \<leftarrow> gets swd_stop;
     case stop of
       None \<Rightarrow> ret Panic
     | Some c \<Rightarrow> do {
         modify (contexts_update (\<lambda>cs. cs[c := True]));
         ret (Return ())
       }
   }"

text \<open>The region of \<open>Start\<close> after the context of the manager is done.\<close>

definition Start_disarm :: "'i watchdogImpl \<Rightarrow> ('i synchronizedWatchdog, unit call) state" where
  "Start_disarm impl = do {
     started \<leftarrow> gets isStarted;
     stopped \<leftarrow> gets isStopped;
     if started \<and> \<not> stopped then do {
       e \<leftarrow> perform (impl_disarm impl) WDisarm;
       case e of
         Some err \<Rightarrow> ret (Return ())
       | None \<Rightarrow> do {
           called \<leftarrow> call_stop;
           case called of
             Return _ \<Rightarrow> do { modify (isStopped_update (\<lambda>_. True)); ret (Return ()) }
           | _ \<Rightarrow> ret called
         }
     }
     else ret (Return ())
   }"

definition IsStarted :: "('i synchronizedWatchdog, bool) state" where
  "IsStarted = gets isStarted"

definition Stop :: "('i synchronizedWatchdog, unit call) state" where
  "Stop = do {
     started \<leftarrow> gets isStarted;
     stopped \<leftarrow> gets isStopped;
     if \<not> started \<or> stopped then ret (Return ())
     else if started then do {
       called \<leftarrow> call_stop;
       case called of
         Return _ \<Rightarrow> do { modify (isStopped_update (\<lambda>_. True)); ret (Return ()) }
       | _ \<Rightarrow> ret called
     }
     else ret (Return ())
   }"

definition GetTimeout :: "('i synchronizedWatchdog, duration) state" where
  "GetTimeout = gets swd_timeout"

definition LastFoodTime :: "('i synchronizedWatchdog, time) state" where
  "LastFoodTime = gets lastFoodTime"

section \<open>The watchdog at run time\<close>

text \<open>
  Where a call of \<open>Start\<close> is, and where a feeding goroutine (\<open>wait.NonSlidingUntilWithContext\<close>) is:
  looking at its context, about to run the function, or waiting for the timer or the context.
\<close>

datatype start_pc = Begin | Unlocked | Assigned nat | Waiting | Returned "go_error option"

datatype feeder_pc = Checking | Feeding | Sleeping | Finished

record 'i wd_system =
  swd :: "'i synchronizedWatchdog"
  starters :: "start_pc list"
  feeders :: "(nat \<times> feeder_pc) list"
  crashed :: bool

definition wd_init :: "'i \<Rightarrow> 'i wd_system" where
  "wd_init impl = \<lparr>swd = newSynced impl, starters = [], feeders = [], crashed = False\<rparr>"

inductive wd_step :: "'i watchdogImpl \<Rightarrow> ('i, time) state \<Rightarrow> 'i wd_system \<Rightarrow> 'i wd_system \<Rightarrow> bool"
  for impl now where
  call_Start:
    "\<not> crashed s \<Longrightarrow> wd_step impl now s (s\<lparr>starters := starters s @ [Begin]\<rparr>)"
| Start_returns:
    "\<not> crashed s \<Longrightarrow> i < length (starters s) \<Longrightarrow> starters s ! i = Begin \<Longrightarrow>
     run_state (Start_locked impl) (swd s) = (Some e, w) \<Longrightarrow>
     wd_step impl now s (s\<lparr>swd := w, starters := (starters s)[i := Returned e]\<rparr>)"
| Start_unlocks:
    "\<not> crashed s \<Longrightarrow> i < length (starters s) \<Longrightarrow> starters s ! i = Begin \<Longrightarrow>
     run_state (Start_locked impl) (swd s) = (None, w) \<Longrightarrow>
     wd_step impl now s (s\<lparr>swd := w, starters := (starters s)[i := Unlocked]\<rparr>)"
| Start_assigns:
    "\<not> crashed s \<Longrightarrow> i < length (starters s) \<Longrightarrow> starters s ! i = Unlocked \<Longrightarrow>
     run_state Start_assign (swd s) = (c, w) \<Longrightarrow>
     wd_step impl now s (s\<lparr>swd := w, starters := (starters s)[i := Assigned c]\<rparr>)"
| Start_spawns:
    "\<not> crashed s \<Longrightarrow> i < length (starters s) \<Longrightarrow> starters s ! i = Assigned c \<Longrightarrow>
     wd_step impl now s (s\<lparr>starters := (starters s)[i := Waiting],
       feeders := feeders s @ [(c, Checking)]\<rparr>)"
| Start_disarms:
    "\<not> crashed s \<Longrightarrow> i < length (starters s) \<Longrightarrow> starters s ! i = Waiting \<Longrightarrow>
     run_state (Start_disarm impl) (swd s) = (Return u, w) \<Longrightarrow>
     wd_step impl now s (s\<lparr>swd := w, starters := (starters s)[i := Returned None]\<rparr>)"
| Start_panics:
    "\<not> crashed s \<Longrightarrow> i < length (starters s) \<Longrightarrow> starters s ! i = Waiting \<Longrightarrow>
     run_state (Start_disarm impl) (swd s) = (Panic, w) \<Longrightarrow>
     wd_step impl now s (s\<lparr>swd := w, crashed := True\<rparr>)"
| feeder_sees_cancel:
    "\<not> crashed s \<Longrightarrow> j < length (feeders s) \<Longrightarrow> feeders s ! j = (c, pc) \<Longrightarrow> pc \<in> {Checking, Sleeping} \<Longrightarrow>
     contexts (swd s) ! c \<Longrightarrow>
     wd_step impl now s (s\<lparr>feeders := (feeders s)[j := (c, Finished)]\<rparr>)"
| feeder_goes_on:
    "\<not> crashed s \<Longrightarrow> j < length (feeders s) \<Longrightarrow> feeders s ! j = (c, Checking) \<Longrightarrow>
     \<not> contexts (swd s) ! c \<Longrightarrow>
     wd_step impl now s (s\<lparr>feeders := (feeders s)[j := (c, Feeding)]\<rparr>)"
| feeder_feeds:
    "\<not> crashed s \<Longrightarrow> j < length (feeders s) \<Longrightarrow> feeders s ! j = (c, Feeding) \<Longrightarrow>
     run_state (feed_locked impl now) (swd s) = (u, w) \<Longrightarrow>
     wd_step impl now s (s\<lparr>swd := w, feeders := (feeders s)[j := (c, Sleeping)]\<rparr>)"
| feeder_timer:
    "\<not> crashed s \<Longrightarrow> j < length (feeders s) \<Longrightarrow> feeders s ! j = (c, Sleeping) \<Longrightarrow>
     wd_step impl now s (s\<lparr>feeders := (feeders s)[j := (c, Checking)]\<rparr>)"
| Stop_returns:
    "\<not> crashed s \<Longrightarrow> run_state Stop (swd s) = (Return u, w) \<Longrightarrow> wd_step impl now s (s\<lparr>swd := w\<rparr>)"
| Stop_panics:
    "\<not> crashed s \<Longrightarrow> run_state Stop (swd s) = (Panic, w) \<Longrightarrow>
     wd_step impl now s (s\<lparr>swd := w, crashed := True\<rparr>)"

abbreviation wd_steps ::
  "'i watchdogImpl \<Rightarrow> ('i, time) state \<Rightarrow> 'i wd_system \<Rightarrow> 'i wd_system \<Rightarrow> bool" where
  "wd_steps impl now \<equiv> (wd_step impl now)\<^sup>*\<^sup>*"

section \<open>The fake implementation\<close>

definition fakeTimeout :: duration where
  "fakeTimeout = 1 * Second"

definition fakeWatchdog :: "unit watchdogImpl" where
  "fakeWatchdog = \<lparr>impl_start = (do { let t = fakeTimeout; ret (Inr t) }), impl_feed = ret None,
     impl_disarm = ret None\<rparr>"

definition NewFake :: "unit synchronizedWatchdog" where
  "NewFake = newSynced ()"

section \<open>The Linux implementation\<close>

record watchdogInfo =
  options :: "32 word"
  firmwareVersion :: "32 word"
  identity :: "8 word list"

datatype sys_event =
    SOpen string "go_error + int"
  | SGetSupport int "watchdogInfo option"
  | SGetTimeout int "go_error + int"
  | SWrite int string "go_error option"
  | SClose int "go_error option"

text \<open>The system calls of \<open>golang.org/x/sys/unix\<close>: each may answer as it likes.\<close>

record 'k syscalls =
  sys_open :: "string \<Rightarrow> ('k, go_error + int) state"
  sys_getsupport :: "int \<Rightarrow> ('k, watchdogInfo option) state"
  sys_gettimeout :: "int \<Rightarrow> ('k, go_error + int) state"
  sys_write :: "int \<Rightarrow> string \<Rightarrow> ('k, go_error option) state"
  sys_close :: "int \<Rightarrow> ('k, go_error option) state"
  sys_now :: "('k, time) state"

record 'k linuxWatchdog = "('k, sys_event) io" +
  fd :: int
  info :: "watchdogInfo option"

definition openDevice :: "'k syscalls \<Rightarrow> string \<Rightarrow> ('k linuxWatchdog, go_error + int) state" where
  "openDevice sys watchdogDevice = perform (sys_open sys watchdogDevice) (SOpen watchdogDevice)"

definition getInfo :: "'k syscalls \<Rightarrow> int \<Rightarrow> ('k linuxWatchdog, watchdogInfo option) state" where
  "getInfo sys n = perform (sys_getsupport sys n) (SGetSupport n)"

definition linux_getTimeout :: "'k syscalls \<Rightarrow> ('k linuxWatchdog, go_error + duration) state" where
  "linux_getTimeout sys = do {
     n \<leftarrow> gets fd;
     got \<leftarrow> perform (sys_gettimeout sys n) (SGetTimeout n);
     case got of
       Inl err \<Rightarrow> ret (Inl err)
     | Inr timeout \<Rightarrow> do {
         let timeoutDuration = word_of_int timeout * Second;
         ret (Inr timeoutDuration)
       }
   }"

definition linux_feed :: "'k syscalls \<Rightarrow> ('k linuxWatchdog, go_error option) state" where
  "linux_feed sys = do {
     n \<leftarrow> gets fd;
     perform (sys_write sys n ''a'') (SWrite n ''a'')
   }"

definition linux_disarm :: "'k syscalls \<Rightarrow> ('k linuxWatchdog, go_error option) state" where
  "linux_disarm sys = do {
     n \<leftarrow> gets fd;
     e \<leftarrow> perform (sys_write sys n ''V'') (SWrite n ''V'');
     case e of
       Some err \<Rightarrow> ret (Some err)
     | None \<Rightarrow> perform (sys_close sys n) (SClose n)
   }"

definition linux_start ::
  "'k syscalls \<Rightarrow> string \<Rightarrow> ('k linuxWatchdog, go_error + duration) state" where
  "linux_start sys watchdogDevice = do {
     opened \<leftarrow> openDevice sys watchdogDevice;
     case opened of
       Inl err \<Rightarrow> ret (Inl err)
     | Inr wdFd \<Rightarrow> do {
         modify (fd_update (\<lambda>_. wdFd));
         i \<leftarrow> getInfo sys wdFd;
         modify (info_update (\<lambda>_. i));
         got \<leftarrow> linux_getTimeout sys;
         case got of
           Inl err \<Rightarrow> do {
             _ \<leftarrow> linux_disarm sys;
             ret (Inl err)
           }
         | Inr timeout \<Rightarrow> ret (Inr timeout)
       }
   }"

definition linuxWatchdogImpl :: "'k syscalls \<Rightarrow> string \<Rightarrow> 'k linuxWatchdog watchdogImpl" where
  "linuxWatchdogImpl sys watchdogDevice = \<lparr>impl_start = linux_start sys watchdogDevice,
     impl_feed = linux_feed sys, impl_disarm = linux_disarm sys\<rparr>"

text \<open>\<open>time.Now\<close> on the host: it is not an event of the device.\<close>

definition linux_now :: "'k syscalls \<Rightarrow> ('k linuxWatchdog, time) state" where
  "linux_now sys = State (\<lambda>wd. case run_state (sys_now sys) (world wd) of
     (t, k) \<Rightarrow> (t, wd\<lparr>world := k\<rparr>))"

text \<open>
  The package variables \<open>mutex\<close> (is it locked) and \<open>linuxWatchDogInstantiated\<close>. \<open>Lock\<close> on a locked
  mutex that nobody unlocks blocks. An error of \<open>os.Stat\<close> is its text and \<open>os.IsNotExist\<close> of it.
\<close>

record linux_vars =
  mutex :: bool
  linuxWatchDogInstantiated :: bool

definition NewLinux ::
  "(string \<Rightarrow> (bool \<times> string) option) \<Rightarrow> string \<Rightarrow> 'k \<Rightarrow>
    (linux_vars, (go_error + 'k linuxWatchdog synchronizedWatchdog) call) state" where
  "NewLinux stat watchdogDevice host = do {
     locked \<leftarrow> gets mutex;
     if locked then ret Block
     else do {
       modify (mutex_update (\<lambda>_. True));
       inst \<leftarrow> gets linuxWatchDogInstantiated;
       if inst then ret (Return (Inl (Other ''linux watchdog already instantiated'')))
       else do {
         modify (linuxWatchDogInstantiated_update (\<lambda>_. True));
         modify (mutex_update (\<lambda>_. False));
         case stat watchdogDevice of
           Some (notExist, err) \<Rightarrow>
             if notExist then ret (Return (Inl (Other (''watchdog device not found: '' @ err))))
             else ret (Return (Inl (Other (''failed to check for watchdog device: '' @ err))))
         | None \<Rightarrow> do {
             let wd = \<lparr>world = host, trace = [], fd = 0, info = None\<rparr>;
             ret (Return (Inr (newSynced wd)))
           }
       }
     }
   }"

end
