(* ===== verification/Watchdog_Safety.thy ===== *)
theory Watchdog_Safety
  imports Watchdog "HOL-Library.Multiset"
begin

text \<open>
  What the watchdog promises: one feeding goroutine at most, nothing after \<open>Stop\<close>, a device that
  stays armed until it is disarmed on purpose. The contract of an implementation is the locale
  \<open>watchdog_contract\<close>, interpreted on the Linux and the fake watchdog.
\<close>

section \<open>The locked regions\<close>

lemma run_Start_locked:
  "run_state (Start_locked impl) w =
     (if isStarted w then
        (Some (Some (Other (''watchdog was started more than once. This is likely to be caused '' @
           ''by being added to a manager multiple times''))), w)
      else case run_state (impl_start impl) (world w) of
        (Inl err, i) \<Rightarrow> (Some None, w\<lparr>world := i, trace := trace w @ [WStart (Inl err)]\<rparr>)
      | (Inr d, i) \<Rightarrow> (None, w\<lparr>world := i, trace := trace w @ [WStart (Inr d)], swd_timeout := d,
          isStarted := True\<rparr>))"
  by (simp add: Start_locked_def run_simps split: prod.split sum.split)

lemma run_Start_assign:
  "run_state Start_assign w = (length (contexts w),
     w\<lparr>contexts := contexts w @ [False], swd_stop := Some (length (contexts w))\<rparr>)"
  by (simp add: Start_assign_def run_simps)

lemma run_feed_locked:
  "run_state (feed_locked impl now) w =
     (if isStopped w then ((), w)
      else case run_state (impl_feed impl) (world w) of
        (Some err, i) \<Rightarrow> ((), w\<lparr>world := i, trace := trace w @ [WFeed (Some err)]\<rparr>)
      | (None, i) \<Rightarrow> (case run_state now i of
          (t, i') \<Rightarrow> ((), w\<lparr>world := i', trace := trace w @ [WFeed None, WNow t], lastFoodTime := t\<rparr>)))"
  by (simp add: feed_locked_def run_simps split: prod.split option.split)

lemma run_Stop:
  "run_state Stop w =
     (if \<not> isStarted w \<or> isStopped w then (Return (), w)
      else case swd_stop w of
        None \<Rightarrow> (Panic, w)
      | Some c \<Rightarrow> (Return (), w\<lparr>contexts := (contexts w)[c := True], isStopped := True\<rparr>))"
  by (simp add: Stop_def call_stop_def run_simps split: option.split)

lemma run_Start_disarm:
  "run_state (Start_disarm impl) w =
     (if isStarted w \<and> \<not> isStopped w then
        case run_state (impl_disarm impl) (world w) of
          (Some err, i) \<Rightarrow> (Return (), w\<lparr>world := i, trace := trace w @ [WDisarm (Some err)]\<rparr>)
        | (None, i) \<Rightarrow> (case swd_stop w of
            None \<Rightarrow> (Panic, w\<lparr>world := i, trace := trace w @ [WDisarm None]\<rparr>)
          | Some c \<Rightarrow> (Return (), w\<lparr>world := i, trace := trace w @ [WDisarm None],
              contexts := (contexts w)[c := True], isStopped := True\<rparr>))
      else (Return (), w))"
  by (simp add: Start_disarm_def call_stop_def run_simps split: option.split prod.split)

lemmas locked_regions = run_Start_locked run_Start_assign run_feed_locked run_Stop run_Start_disarm

section \<open>The invariant of a run\<close>

text \<open>The calls of \<open>Start\<close> that have started the device and not yet spawned the feeder.\<close>

definition launching :: "start_pc list \<Rightarrow> start_pc multiset" where
  "launching pcs = filter_mset (\<lambda>pc. pc = Unlocked \<or> (\<exists>c. pc = Assigned c)) (mset pcs)"

text \<open>
  The phases of the watchdog: not started; started and no cancel function yet; with a cancel
  function and no feeder yet; fed by exactly one goroutine.
\<close>

definition phase_idle :: "'i wd_system \<Rightarrow> bool" where
  "phase_idle s \<longleftrightarrow> \<not> isStarted (swd s) \<and> \<not> isStopped (swd s) \<and> swd_stop (swd s) = None \<and>
     contexts (swd s) = [] \<and> feeders s = [] \<and> launching (starters s) = {#} \<and> Waiting \<notin> set (starters s)"

definition phase_unlocked :: "'i wd_system \<Rightarrow> bool" where
  "phase_unlocked s \<longleftrightarrow> isStarted (swd s) \<and> \<not> isStopped (swd s) \<and> swd_stop (swd s) = None \<and>
     contexts (swd s) = [] \<and> feeders s = [] \<and> launching (starters s) = {#Unlocked#} \<and>
     Waiting \<notin> set (starters s)"

definition phase_assigned :: "'i wd_system \<Rightarrow> bool" where
  "phase_assigned s \<longleftrightarrow> isStarted (swd s) \<and> swd_stop (swd s) = Some 0 \<and>
     contexts (swd s) = [isStopped (swd s)] \<and> feeders s = [] \<and>
     launching (starters s) = {#Assigned 0#} \<and> Waiting \<notin> set (starters s)"

definition phase_feeding :: "'i wd_system \<Rightarrow> bool" where
  "phase_feeding s \<longleftrightarrow> isStarted (swd s) \<and> swd_stop (swd s) = Some 0 \<and>
     contexts (swd s) = [isStopped (swd s)] \<and> launching (starters s) = {#} \<and>
     (\<exists>pc. feeders s = [(0, pc)] \<and> (pc = Finished \<longrightarrow> isStopped (swd s)))"

definition wd_inv :: "'i wd_system \<Rightarrow> bool" where
  "wd_inv s \<longleftrightarrow> phase_idle s \<or> phase_unlocked s \<or> phase_assigned s \<or> phase_feeding s"

lemmas phase_defs = phase_idle_def phase_unlocked_def phase_assigned_def phase_feeding_def

lemma launching_snoc [simp]: "launching (pcs @ [Begin]) = launching pcs"
  by (simp add: launching_def)

lemma launching_update:
  "i < length pcs \<Longrightarrow> launching (pcs[i := pc]) =
     (launching pcs - launching [pcs ! i]) + launching [pc]"
  by (simp add: launching_def mset_update filter_diff_mset)

lemma launching_single [simp]:
  "launching [Begin] = {#}" "launching [Waiting] = {#}" "launching [Returned e] = {#}"
  "launching [Unlocked] = {#Unlocked#}" "launching [Assigned c] = {#Assigned c#}"
  by (simp_all add: launching_def)

lemma launching_mem:
  "i < length pcs \<Longrightarrow> pcs ! i = Unlocked \<Longrightarrow> Unlocked \<in># launching pcs"
  "i < length pcs \<Longrightarrow> pcs ! i = Assigned c \<Longrightarrow> Assigned c \<in># launching pcs"
  by (force simp: launching_def set_mset_mset dest: nth_mem)+

lemma notin_set_update: "x \<notin> set xs \<Longrightarrow> x \<noteq> y \<Longrightarrow> x \<notin> set (xs[i := y])"
  using set_update_subset_insert by fastforce

lemma wd_inv_init: "wd_inv (wd_init i)"
  by (simp add: wd_inv_def phase_idle_def wd_init_def newSynced_def launching_def)

lemma wd_inv_Waiting:
  "wd_inv s \<Longrightarrow> i < length (starters s) \<Longrightarrow> starters s ! i = Waiting \<Longrightarrow> phase_feeding s"
  by (metis nth_mem phase_assigned_def phase_idle_def phase_unlocked_def wd_inv_def)

lemma wd_inv_Unlocked:
  "wd_inv s \<Longrightarrow> i < length (starters s) \<Longrightarrow> starters s ! i = Unlocked \<Longrightarrow> phase_unlocked s"
  using launching_mem(1) [of i "starters s"] by (auto simp: wd_inv_def phase_defs)

lemma wd_inv_Assigned:
  "wd_inv s \<Longrightarrow> i < length (starters s) \<Longrightarrow> starters s ! i = Assigned c \<Longrightarrow> phase_assigned s \<and> c = 0"
  using launching_mem(2) [of i "starters s" c] by (auto simp: wd_inv_def phase_defs)

lemma wd_inv_feeder:
  "wd_inv s \<Longrightarrow> j < length (feeders s) \<Longrightarrow> phase_feeding s"
  by (auto simp: wd_inv_def phase_defs)

lemma wd_inv_feeding: "phase_feeding s \<Longrightarrow> wd_inv s"
  by (simp add: wd_inv_def)

lemma wd_inv_Stop:
  assumes "wd_inv s" and "run_state Stop (swd s) = (Return u, w)"
  shows "wd_inv (s\<lparr>swd := w\<rparr>)"
proof (cases "isStarted (swd s) \<and> \<not> isStopped (swd s)")
  case False
  with assms(2) have "w = swd s" by (auto simp: run_Stop)
  with assms(1) show ?thesis by simp
next
  case True
  with assms(2) obtain c where c: "swd_stop (swd s) = Some c"
    "w = (swd s)\<lparr>contexts := (contexts (swd s))[c := True], isStopped := True\<rparr>"
    by (auto simp: run_Stop split: option.splits)
  from c(1) assms(1) have "phase_assigned s \<or> phase_feeding s"
    by (auto simp: wd_inv_def phase_idle_def phase_unlocked_def)
  then have "phase_assigned (s\<lparr>swd := w\<rparr>) \<or> phase_feeding (s\<lparr>swd := w\<rparr>)"
    using c by (auto simp: phase_assigned_def phase_feeding_def)
  then show ?thesis by (auto simp: wd_inv_def)
qed

lemma wd_inv_step:
  assumes "wd_step impl now s s'" and "wd_inv s"
  shows "wd_inv s'"
  using assms
proof (cases rule: wd_step.cases)
  case call_Start
  with assms(2) show ?thesis by (auto simp: wd_inv_def phase_defs)
next
  case (Start_returns i e w)
  with assms(2) show ?thesis
    by (auto simp: wd_inv_def phase_defs run_Start_locked launching_update notin_set_update
        split: if_splits prod.splits sum.splits)
next
  case (Start_unlocks i w)
  with assms(2) show ?thesis
    by (auto simp: wd_inv_def phase_defs run_Start_locked launching_update notin_set_update
        split: if_splits prod.splits sum.splits)
next
  case (Start_assigns i c w)
  have "phase_unlocked s" using Start_assigns wd_inv_Unlocked [OF assms(2)] by simp
  with Start_assigns have "phase_assigned s'"
    by (auto simp: phase_unlocked_def phase_assigned_def run_Start_assign launching_update notin_set_update)
  then show ?thesis by (simp add: wd_inv_def)
next
  case (Start_spawns i c)
  have "phase_assigned s \<and> c = 0" using Start_spawns wd_inv_Assigned [OF assms(2)] by simp
  with Start_spawns show ?thesis
    by (intro wd_inv_feeding) (auto simp: phase_assigned_def phase_feeding_def launching_update)
next
  case (Start_disarms i u w)
  have "phase_feeding s" using Start_disarms wd_inv_Waiting [OF assms(2)] by simp
  with Start_disarms show ?thesis
    by (intro wd_inv_feeding) (auto simp: phase_feeding_def run_Start_disarm launching_update
        split: if_splits prod.splits option.splits)
next
  case (Start_panics i w)
  have "phase_feeding s" using Start_panics wd_inv_Waiting [OF assms(2)] by simp
  with Start_panics show ?thesis
    by (auto simp: phase_feeding_def run_Start_disarm split: if_splits prod.splits option.splits)
next
  case (feeder_sees_cancel j c pc)
  have "phase_feeding s" using feeder_sees_cancel wd_inv_feeder [OF assms(2)] by simp
  with feeder_sees_cancel show ?thesis by (intro wd_inv_feeding) (auto simp: phase_feeding_def)
next
  case (feeder_goes_on j c)
  have "phase_feeding s" using feeder_goes_on wd_inv_feeder [OF assms(2)] by simp
  with feeder_goes_on show ?thesis by (intro wd_inv_feeding) (auto simp: phase_feeding_def)
next
  case (feeder_feeds j c u w)
  have "phase_feeding s" using feeder_feeds wd_inv_feeder [OF assms(2)] by simp
  with feeder_feeds show ?thesis
    by (intro wd_inv_feeding) (auto simp: phase_feeding_def run_feed_locked
        split: if_splits prod.splits option.splits)
next
  case (feeder_timer j c)
  have "phase_feeding s" using feeder_timer wd_inv_feeder [OF assms(2)] by simp
  with feeder_timer show ?thesis by (intro wd_inv_feeding) (auto simp: phase_feeding_def)
next
  case (Stop_returns u w)
  then show ?thesis using wd_inv_Stop [OF assms(2)] by simp
next
  case (Stop_panics w)
  then have "w = swd s" by (simp add: run_Stop split: if_splits option.splits)
  with Stop_panics assms(2) show ?thesis by (simp add: wd_inv_def phase_defs)
qed

lemma wd_inv_reachable: "wd_steps impl now (wd_init i) s \<Longrightarrow> wd_inv s"
  by (induction rule: rtranclp_induct) (auto intro: wd_inv_init wd_inv_step)

text \<open>What a step does to the watchdog itself is one of the locked regions, or nothing.\<close>

lemma wd_step_regions:
  assumes "wd_step impl now s s'"
  shows "swd s' = swd s \<or> swd s' = snd (run_state (Start_locked impl) (swd s)) \<or>
    swd s' = snd (run_state Start_assign (swd s)) \<or>
    swd s' = snd (run_state (feed_locked impl now) (swd s)) \<or>
    swd s' = snd (run_state Stop (swd s)) \<or> swd s' = snd (run_state (Start_disarm impl) (swd s))"
  using assms by cases simp_all

section \<open>After \<open>Stop\<close>\<close>

lemma wd_inv_stopped_started: "wd_inv s \<Longrightarrow> isStopped (swd s) \<Longrightarrow> isStarted (swd s)"
  by (auto simp: wd_inv_def phase_defs)

text \<open>Everything an implementation could notice.\<close>

definition quiet :: "'i synchronizedWatchdog \<Rightarrow> 'i synchronizedWatchdog \<Rightarrow> bool" where
  "quiet w w' \<longleftrightarrow> world w' = world w \<and> trace w' = trace w \<and> lastFoodTime w' = lastFoodTime w \<and>
     isStopped w'"

lemma stopped_step:
  assumes "wd_step impl now s s'" and "wd_inv s" and "isStopped (swd s)"
  shows "quiet (swd s) (swd s')"
  using assms(1) wd_inv_stopped_started [OF assms(2,3)] assms(3)
  by (cases rule: wd_step.cases) (auto simp: quiet_def locked_regions split: if_splits)

lemma stopped_steps:
  assumes "wd_steps impl now s s'" and "wd_inv s" and "isStopped (swd s)"
  shows "wd_inv s' \<and> quiet (swd s) (swd s')"
  using assms(1)
proof (induction rule: rtranclp_induct)
  case base
  with assms(2,3) show ?case by (simp add: quiet_def)
next
  case (step s1 s2)
  then have i: "wd_inv s1" "isStopped (swd s1)" by (auto simp: quiet_def)
  from stopped_step [OF step.hyps(2) i] step.IH wd_inv_step [OF step.hyps(2) i(1)]
  show ?case by (auto simp: quiet_def)
qed

section \<open>The contract of an implementation\<close>

text \<open>
  \<open>armed i\<close>: in the state \<open>i\<close> of the implementation the hardware counts down. A successful start
  arms it; feeding it and reading the clock leave it armed.
\<close>

locale watchdog_contract =
  fixes impl :: "'i watchdogImpl" and now :: "('i, time) state" and armed :: "'i \<Rightarrow> bool"
  assumes start_arms: "run_state (impl_start impl) i = (Inr d, i') \<Longrightarrow> armed i'"
    and feed_keeps: "armed i \<Longrightarrow> armed (snd (run_state (impl_feed impl) i))"
    and now_keeps: "armed i \<Longrightarrow> armed (snd (run_state now i))"
begin

definition held :: "'i wd_system \<Rightarrow> bool" where
  "held s \<longleftrightarrow> (isStarted (swd s) \<and> (\<forall>e. WDisarm e \<notin> set (trace (swd s))) \<longrightarrow> armed (world (swd s)))"

lemma held_feed_locked:
  assumes "isStarted w \<longrightarrow> (\<forall>e. WDisarm e \<notin> set (trace w)) \<longrightarrow> armed (world w)"
    and "run_state (feed_locked impl now) w = (u, w')"
  shows "isStarted w' \<longrightarrow> (\<forall>e. WDisarm e \<notin> set (trace w')) \<longrightarrow> armed (world w')"
  using assms feed_keeps [of "world w"] now_keeps [of "snd (run_state (impl_feed impl) (world w))"]
  by (auto simp: run_feed_locked split: if_splits prod.splits option.splits)

lemma held_step:
  assumes "wd_step impl now s s'" and "held s"
  shows "held s'"
  using assms(1)
proof (cases rule: wd_step.cases)
  case (Start_unlocks i w)
  with start_arms show ?thesis
    by (auto simp: held_def run_Start_locked split: if_splits prod.splits sum.splits)
next
  case (feeder_feeds j c u w)
  with held_feed_locked [of "swd s" u w] assms(2) show ?thesis by (auto simp: held_def)
qed (use assms(2) in \<open>auto simp: held_def run_Start_locked run_Start_assign run_Stop run_Start_disarm
  split: if_splits prod.splits sum.splits option.splits\<close>)

lemma held_init: "held (wd_init i)"
  by (simp add: held_def wd_init_def newSynced_def)

lemma stays_armed:
  assumes "wd_steps impl now (wd_init i) s" and "isStarted (swd s)"
    and "\<forall>e. WDisarm e \<notin> set (trace (swd s))"
  shows "armed (world (swd s))"
proof -
  have "held s" using assms(1)
    by (induction rule: rtranclp_induct) (auto intro: held_init held_step)
  with assms(2,3) show ?thesis by (simp add: held_def)
qed

end


section \<open>The Linux device\<close>

text \<open>
  The watchdog device of Linux, as its API documents it: opening it arms it, a write feeds it, and
  closing it after the magic character disarms it. What the device has seen so far decides whether
  it counts down; a close is taken to disarm whatever it answers.
\<close>

fun device_step :: "sys_event \<Rightarrow> bool \<Rightarrow> bool" where
  "device_step (SOpen dev got) armed = (armed \<or> \<not> isl got)"
| "device_step (SClose n e) armed = False"
| "device_step _ armed = armed"

definition device_armed :: "sys_event list \<Rightarrow> bool" where
  "device_armed evs = fold device_step evs False"

lemma device_armed_append [simp]:
  "device_armed (evs @ evs') = fold device_step evs' (device_armed evs)"
  by (simp add: device_armed_def)

lemmas linux_defs = linuxWatchdogImpl_def linux_start_def linux_feed_def linux_disarm_def
  linux_getTimeout_def openDevice_def getInfo_def linux_now_def

interpretation linux_wd: watchdog_contract "linuxWatchdogImpl sys dev" "linux_now sys" "\<lambda>wd. device_armed (trace wd)"
  for sys :: "'k syscalls" and dev
proof unfold_locales
  show "device_armed (trace i')"
    if "run_state (impl_start (linuxWatchdogImpl sys dev)) i = (Inr d, i')" for i d i'
    using that by (auto simp: linux_defs run_simps split: sum.splits prod.splits)
  show "device_armed (trace (snd (run_state (impl_feed (linuxWatchdogImpl sys dev)) i)))"
    if "device_armed (trace i)" for i
    using that by (simp add: linux_defs run_simps)
  show "device_armed (trace (snd (run_state (linux_now sys) i)))" if "device_armed (trace i)" for i
    using that by (simp add: linux_defs split: prod.split)
qed

interpretation fake_wd: watchdog_contract fakeWatchdog "ret t" "\<lambda>_. True"
  for t
  by unfold_locales simp_all

section \<open>A scheduler\<close>

text \<open>The steps as a function of what is scheduled next; \<open>None\<close> when that is not enabled.\<close>

datatype wd_action = CallStart | RunStart nat | CallStop | RunFeeder nat | Timer nat

fun run_starter ::
  "'i watchdogImpl \<Rightarrow> nat \<Rightarrow> start_pc \<Rightarrow> 'i wd_system \<Rightarrow> 'i wd_system option" where
  "run_starter impl i Begin s =
     (case run_state (Start_locked impl) (swd s) of
        (Some e, w) \<Rightarrow> Some (s\<lparr>swd := w, starters := (starters s)[i := Returned e]\<rparr>)
      | (None, w) \<Rightarrow> Some (s\<lparr>swd := w, starters := (starters s)[i := Unlocked]\<rparr>))"
| "run_starter impl i Unlocked s =
     (case run_state Start_assign (swd s) of
        (c, w) \<Rightarrow> Some (s\<lparr>swd := w, starters := (starters s)[i := Assigned c]\<rparr>))"
| "run_starter impl i (Assigned c) s =
     Some (s\<lparr>starters := (starters s)[i := Waiting], feeders := feeders s @ [(c, Checking)]\<rparr>)"
| "run_starter impl i Waiting s =
     (case run_state (Start_disarm impl) (swd s) of
        (Return u, w) \<Rightarrow> Some (s\<lparr>swd := w, starters := (starters s)[i := Returned None]\<rparr>)
      | (Panic, w) \<Rightarrow> Some (s\<lparr>swd := w, crashed := True\<rparr>)
      | (Block, w) \<Rightarrow> None)"
| "run_starter impl i (Returned e) s = None"

fun run_feeder ::
  "'i watchdogImpl \<Rightarrow> ('i, time) state \<Rightarrow> nat \<Rightarrow> nat \<times> feeder_pc \<Rightarrow> 'i wd_system \<Rightarrow> 'i wd_system option" where
  "run_feeder impl now j (c, Checking) s =
     Some (s\<lparr>feeders := (feeders s)[j := (c, if contexts (swd s) ! c then Finished else Feeding)]\<rparr>)"
| "run_feeder impl now j (c, Feeding) s =
     (case run_state (feed_locked impl now) (swd s) of
        (u, w) \<Rightarrow> Some (s\<lparr>swd := w, feeders := (feeders s)[j := (c, Sleeping)]\<rparr>))"
| "run_feeder impl now j (c, Sleeping) s =
     (if contexts (swd s) ! c then Some (s\<lparr>feeders := (feeders s)[j := (c, Finished)]\<rparr>) else None)"
| "run_feeder impl now j (c, Finished) s = None"

definition wd_act ::
  "'i watchdogImpl \<Rightarrow> ('i, time) state \<Rightarrow> 'i wd_system \<Rightarrow> wd_action \<Rightarrow> 'i wd_system option" where
  "wd_act impl now s a =
     (if crashed s then None
      else case a of
        CallStart \<Rightarrow> Some (s\<lparr>starters := starters s @ [Begin]\<rparr>)
      | RunStart i \<Rightarrow> if i < length (starters s) then run_starter impl i (starters s ! i) s else None
      | RunFeeder j \<Rightarrow> if j < length (feeders s) then run_feeder impl now j (feeders s ! j) s else None
      | Timer j \<Rightarrow>
          if j < length (feeders s) then
            (case feeders s ! j of
               (c, Sleeping) \<Rightarrow> Some (s\<lparr>feeders := (feeders s)[j := (c, Checking)]\<rparr>)
             | _ \<Rightarrow> None)
          else None
      | CallStop \<Rightarrow>
          (case run_state Stop (swd s) of
             (Return u, w) \<Rightarrow> Some (s\<lparr>swd := w\<rparr>)
           | (Panic, w) \<Rightarrow> Some (s\<lparr>swd := w, crashed := True\<rparr>)
           | (Block, w) \<Rightarrow> None))"

primrec wd_exec ::
  "'i watchdogImpl \<Rightarrow> ('i, time) state \<Rightarrow> wd_action list \<Rightarrow> 'i wd_system \<Rightarrow> 'i wd_system option" where
  "wd_exec impl now [] s = Some s"
| "wd_exec impl now (a # as) s = Option.bind (wd_act impl now s a) (wd_exec impl now as)"

lemma run_starter_step:
  assumes "run_starter impl i pc s = Some s'" and "\<not> crashed s" and "i < length (starters s)"
    and "starters s ! i = pc"
  shows "wd_step impl now s s'"
  using assms
  by (cases pc) (auto intro: wd_step.intros split: prod.splits option.splits call.splits)

lemma run_feeder_step:
  assumes "run_feeder impl now j (c, pc) s = Some s'" and "\<not> crashed s" and "j < length (feeders s)"
    and "feeders s ! j = (c, pc)"
  shows "wd_step impl now s s'"
  using assms
  by (cases pc) (auto intro: wd_step.intros split: prod.splits if_splits)

lemma wd_act_step:
  assumes "wd_act impl now s a = Some s'"
  shows "wd_step impl now s s'"
proof (cases a)
  case (RunFeeder j)
  with assms show ?thesis
    by (cases "feeders s ! j") (auto simp: wd_act_def intro: run_feeder_step split: if_splits)
qed (use assms in \<open>auto simp: wd_act_def intro: wd_step.intros run_starter_step
  split: if_splits prod.splits feeder_pc.splits call.splits\<close>)

lemma wd_exec_steps: "wd_exec impl now as s = Some s' \<Longrightarrow> wd_steps impl now s s'"
proof (induction as arbitrary: s)
  case (Cons a as)
  then obtain s1 where "wd_act impl now s a = Some s1" "wd_exec impl now as s1 = Some s'"
    by (auto simp: bind_eq_Some_conv)
  with Cons.IH show ?case by (metis wd_act_step converse_rtranclp_into_rtranclp)
qed simp

lemma wd_step_act:
  assumes "wd_step impl now s s'"
  shows "\<exists>a. wd_act impl now s a = Some s'"
  using assms
proof (cases rule: wd_step.cases)
  case (feeder_sees_cancel j c pc)
  then show ?thesis by (intro exI [of _ "RunFeeder j"]) (auto simp: wd_act_def)
next
  case (feeder_timer j c)
  then show ?thesis by (intro exI [of _ "Timer j"]) (simp add: wd_act_def)
next
  case call_Start
  then show ?thesis by (intro exI [of _ CallStart]) (simp add: wd_act_def)
next
  case (Stop_returns u w)
  then show ?thesis by (intro exI [of _ CallStop]) (simp add: wd_act_def)
next
  case (Stop_panics w)
  then show ?thesis by (intro exI [of _ CallStop]) (simp add: wd_act_def)
next
  case (feeder_goes_on j c)
  then show ?thesis by (intro exI [of _ "RunFeeder j"]) (simp add: wd_act_def)
next
  case (feeder_feeds j c u w)
  then show ?thesis by (intro exI [of _ "RunFeeder j"]) (simp add: wd_act_def)
next
  case (Start_returns i e w)
  then show ?thesis by (intro exI [of _ "RunStart i"]) (simp add: wd_act_def)
next
  case (Start_unlocks i w)
  then show ?thesis by (intro exI [of _ "RunStart i"]) (simp add: wd_act_def)
next
  case (Start_assigns i c w)
  then show ?thesis by (intro exI [of _ "RunStart i"]) (simp add: wd_act_def)
next
  case (Start_spawns i c)
  then show ?thesis by (intro exI [of _ "RunStart i"]) (simp add: wd_act_def)
next
  case (Start_disarms i u w)
  then show ?thesis by (intro exI [of _ "RunStart i"]) (simp add: wd_act_def)
next
  case (Start_panics i w)
  then show ?thesis by (intro exI [of _ "RunStart i"]) (simp add: wd_act_def)
qed

section \<open>Starting and feeding\<close>

definition successful_starts :: "wd_event list \<Rightarrow> nat" where
  "successful_starts evs = length (filter (\<lambda>ev. \<exists>d. ev = WStart (Inr d)) evs)"

lemma successful_starts_simps [simp]:
  "successful_starts [] = 0"
  "successful_starts (evs @ evs') = successful_starts evs + successful_starts evs'"
  "successful_starts (WStart got # evs) = (if isl got then 0 else 1) + successful_starts evs"
  "successful_starts (WFeed e # evs) = successful_starts evs"
  "successful_starts (WDisarm e # evs) = successful_starts evs"
  "successful_starts (WNow t # evs) = successful_starts evs"
  by (auto simp: successful_starts_def) (metis sum.collapse(2))

definition one_start :: "'i synchronizedWatchdog \<Rightarrow> bool" where
  "one_start w \<longleftrightarrow> successful_starts (trace w) = (if isStarted w then 1 else 0)"

lemma one_start_regions:
  assumes "one_start w"
  shows "one_start (snd (run_state (Start_locked impl) w))" "one_start (snd (run_state Start_assign w))"
    "one_start (snd (run_state (feed_locked impl now) w))" "one_start (snd (run_state Stop w))"
    "one_start (snd (run_state (Start_disarm impl) w))"
  using assms by (auto simp: one_start_def locked_regions split: prod.split sum.split option.split)

lemma one_start_step: "wd_step impl now s s' \<Longrightarrow> one_start (swd s) \<Longrightarrow> one_start (swd s')"
  by (drule wd_step_regions) (elim disjE, simp_all add: one_start_regions)

lemma one_start_reachable: "wd_steps impl now (wd_init i) s \<Longrightarrow> one_start (swd s)"
proof (induction rule: rtranclp_induct)
  case base
  show ?case by (simp add: one_start_def wd_init_def newSynced_def)
next
  case (step s s')
  then show ?case by (auto intro: one_start_step)
qed

lemma feed_emits_event:
  assumes "\<not> isStopped w"
  shows "\<exists>e evs. trace (snd (run_state (feed_locked impl now) w)) = trace w @ WFeed e # evs"
  using assms by (simp add: run_feed_locked split: prod.split option.split)

lemma feeding_step:
  assumes "\<not> crashed s" and "feeders s = [(0, Feeding)]" and "\<not> isStopped (swd s)"
  shows "\<exists>s' e evs. wd_steps impl now s s' \<and> trace (swd s') = trace (swd s) @ WFeed e # evs"
proof -
  let ?w = "snd (run_state (feed_locked impl now) (swd s))"
  have "wd_step impl now s (s\<lparr>swd := ?w, feeders := (feeders s)[0 := (0, Sleeping)]\<rparr>)"
    using assms(1,2) by (intro wd_step.feeder_feeds) (auto simp: prod_eq_iff)
  then have "wd_steps impl now s (s\<lparr>swd := ?w, feeders := (feeders s)[0 := (0, Sleeping)]\<rparr>)" ..
  with feed_emits_event [OF assms(3)] show ?thesis by fastforce
qed

lemma checking_step:
  assumes "\<not> crashed s" and "feeders s = [(0, Checking)]" and "contexts (swd s) = [False]"
  shows "wd_step impl now s (s\<lparr>feeders := [(0, Feeding)]\<rparr>)"
  using wd_step.feeder_goes_on [of s 0 0] assms by simp

lemma sleeping_step:
  assumes "\<not> crashed s" and "feeders s = [(0, Sleeping)]"
  shows "wd_step impl now s (s\<lparr>feeders := [(0, Checking)]\<rparr>)"
  using wd_step.feeder_timer [of s 0 0] assms by simp

section \<open>Sample runs\<close>

definition sample_sys :: "unit syscalls" where
  "sample_sys = \<lparr>sys_open = (\<lambda>_. ret (Inr 3)), sys_getsupport = (\<lambda>_. ret None),
     sys_gettimeout = (\<lambda>_. ret (Inr 60)), sys_write = (\<lambda>_ _. ret None), sys_close = (\<lambda>_. ret None),
     sys_now = ret 7\<rparr>"

definition sample_linux :: "unit linuxWatchdog" where
  "sample_linux = \<lparr>world = (), trace = [], fd = 0, info = None\<rparr>"

definition sample_exec :: "wd_action list \<Rightarrow> unit linuxWatchdog wd_system option" where
  "sample_exec as = wd_exec (linuxWatchdogImpl sample_sys ''/dev/watchdog'') (linux_now sample_sys) as
     (wd_init sample_linux)"

text \<open>Start, feed once, stop; then the feeder, already past its check, runs once more.\<close>

definition sample_feeding :: "wd_action list" where
  "sample_feeding = [CallStart, RunStart 0, RunStart 0, RunStart 0, RunFeeder 0, RunFeeder 0, Timer 0,
     RunFeeder 0]"

definition sample_stopped :: "unit linuxWatchdog wd_system" where
  "sample_stopped = the (sample_exec (sample_feeding @ [CallStop]))"

lemmas sample_wd_eval = sample_exec_def sample_feeding_def sample_sys_def sample_linux_def
  wd_act_def wd_init_def newSynced_def locked_regions linux_defs run_simps zeroTime_def

lemma sample_exec_steps:
  "sample_exec as = Some s \<Longrightarrow>
     wd_steps (linuxWatchdogImpl sample_sys ''/dev/watchdog'') (linux_now sample_sys) (wd_init sample_linux) s"
  unfolding sample_exec_def by (rule wd_exec_steps)

lemma sample_exec_stopped: "sample_exec (sample_feeding @ [CallStop]) = Some sample_stopped"
  by (simp add: sample_stopped_def sample_wd_eval)

lemma sample_stopped_eq:
  "isStopped (swd sample_stopped)"
  "trace (swd sample_stopped) = [WStart (Inr (60 * Second)), WFeed None, WNow 7]"
  "trace (world (swd sample_stopped)) =
     [SOpen ''/dev/watchdog'' (Inr 3), SGetSupport 3 None, SGetTimeout 3 (Inr 60), SWrite 3 ''a'' None]"
  by (simp_all add: sample_stopped_def sample_wd_eval)

lemma sample_stopped_step:
  "wd_step (linuxWatchdogImpl sample_sys ''/dev/watchdog'') (linux_now sample_sys) sample_stopped
     (sample_stopped\<lparr>feeders := [(0, Sleeping)]\<rparr>)"
  by (rule wd_act_step [of _ _ _ "RunFeeder 0"]) (simp add: sample_stopped_def sample_wd_eval)

section \<open>Properties\<close>

text \<open>
  C23. Once the watchdog is stopped it is never fed again and never disarmed: from any state that the
  watchdog can reach, under any interleaving of calls of \<open>Start\<close>, of \<open>Stop\<close> and of the feeding
  goroutine, after \<open>isStopped\<close> is set the implementation is not called any more and its state does
  not change.
\<close>

theorem stopped_is_silent:
  assumes "wd_steps impl now (wd_init i) s" and "isStopped (swd s)" and "wd_steps impl now s s'"
  shows "trace (swd s') = trace (swd s) \<and> world (swd s') = world (swd s) \<and> isStopped (swd s') \<and>
    lastFoodTime (swd s') = lastFoodTime (swd s)"
  using stopped_steps [OF assms(3) wd_inv_reachable [OF assms(1)] assms(2)] by (simp add: quiet_def)

theorem stopped_is_silent_witness:
  "isStopped (swd sample_stopped) \<and> trace (swd (sample_stopped\<lparr>feeders := [(0, Sleeping)]\<rparr>)) =
     [WStart (Inr (60 * Second)), WFeed None, WNow 7]"
  using stopped_is_silent [OF sample_exec_steps [OF sample_exec_stopped] sample_stopped_eq(1)
    r_into_rtranclp [of "wd_step _ _", OF sample_stopped_step]] sample_stopped_eq(1,2)
  by simp

text \<open>
  Stopping the Linux watchdog lets the node reboot: if it was stopped without an attempt to
  disarm it, then from there on no system call reaches the device and the device stays armed.
\<close>

lemma linux_stop_leaves_armed:
  assumes "wd_steps (linuxWatchdogImpl sys dev) (linux_now sys) (wd_init i) s"
    and "isStopped (swd s)" and "\<forall>e. WDisarm e \<notin> set (trace (swd s))"
    and "wd_steps (linuxWatchdogImpl sys dev) (linux_now sys) s s'"
  shows "trace (world (swd s')) = trace (world (swd s)) \<and> device_armed (trace (world (swd s')))"
proof -
  have inv: "wd_inv s" by (rule wd_inv_reachable [OF assms(1)])
  have "world (swd s') = world (swd s)"
    using stopped_steps [OF assms(4) inv assms(2)] by (simp add: quiet_def)
  with linux_wd.stays_armed [OF assms(1) wd_inv_stopped_started [OF inv assms(2)] assms(3)]
  show ?thesis by simp
qed


text \<open>
  C24. There is one device and one feeder: in every reachable state the implementation has been
  started successfully at most once (exactly when \<open>isStarted\<close> is set), at most one feeding goroutine
  was ever spawned, and \<open>isStopped\<close> implies \<open>isStarted\<close>; a further call of \<open>Start\<close> then returns its
  error without touching the implementation.
\<close>

theorem single_start_single_feeder:
  assumes "wd_steps impl now (wd_init i) s"
  shows "successful_starts (trace (swd s)) = (if isStarted (swd s) then 1 else 0) \<and>
    length (feeders s) \<le> 1 \<and> (feeders s \<noteq> [] \<or> isStopped (swd s) \<longrightarrow> isStarted (swd s)) \<and>
    (isStarted (swd s) \<longrightarrow> (\<exists>err. run_state (Start_locked impl) (swd s) = (Some (Some err), swd s)))"
  using one_start_reachable [OF assms] wd_inv_reachable [OF assms]
  by (auto simp: one_start_def wd_inv_def phase_defs run_Start_locked)

theorem single_start_single_feeder_witness:
  "successful_starts (trace (swd sample_stopped)) = 1 \<and> length (feeders sample_stopped) \<le> 1"
  using single_start_single_feeder [OF sample_exec_steps [OF sample_exec_stopped]] sample_stopped_eq(2)
  by simp

text \<open>
  C33. When \<open>Stop\<close> panics. \<open>Start\<close> sets \<open>isStarted\<close> under the mutex but assigns the cancel function
  after releasing it: in a reachable state a call of \<open>Stop\<close> calls a nil function if and only if
  some call of \<open>Start\<close> is between its \<open>Unlock\<close> and the assignment. The call of the cancel function at
  the end of \<open>Start\<close> itself never panics.
\<close>

theorem Stop_panics_iff:
  assumes "wd_steps impl now (wd_init i) s"
  shows "(fst (run_state Stop (swd s)) = Panic \<longleftrightarrow> Unlocked \<in> set (starters s)) \<and>
    (Waiting \<in> set (starters s) \<longrightarrow> fst (run_state (Start_disarm impl) (swd s)) = Return ())"
proof
  have inv: "wd_inv s" by (rule wd_inv_reachable [OF assms])
  have "Unlocked \<in> set (starters s) \<longleftrightarrow> Unlocked \<in># launching (starters s)"
    by (auto simp: launching_def)
  with inv show "fst (run_state Stop (swd s)) = Panic \<longleftrightarrow> Unlocked \<in> set (starters s)"
    by (auto simp: wd_inv_def phase_defs run_Stop)
  have "phase_feeding s" if "Waiting \<in> set (starters s)"
    using inv that by (auto simp: wd_inv_def phase_idle_def phase_unlocked_def phase_assigned_def)
  then show "Waiting \<in> set (starters s) \<longrightarrow> fst (run_state (Start_disarm impl) (swd s)) = Return ()"
    by (auto simp: phase_feeding_def run_Start_disarm split: prod.split option.split)
qed

definition sample_unlocked :: "unit linuxWatchdog wd_system" where
  "sample_unlocked = the (sample_exec [CallStart, RunStart 0])"

lemma sample_exec_unlocked: "sample_exec [CallStart, RunStart 0] = Some sample_unlocked"
  by (simp add: sample_unlocked_def sample_wd_eval)

theorem Stop_panics_iff_witness:
  "starters sample_unlocked = [Unlocked] \<and> fst (run_state Stop (swd sample_unlocked)) = Panic"
proof
  show s: "starters sample_unlocked = [Unlocked]" by (simp add: sample_unlocked_def sample_wd_eval)
  show "fst (run_state Stop (swd sample_unlocked)) = Panic"
    using Stop_panics_iff [OF sample_exec_steps [OF sample_exec_unlocked]] s by simp
qed

text \<open>
  A started watchdog is kept fed: as long as the process runs, \<open>Start\<close> has spawned its goroutine
  and the watchdog is not stopped, the goroutine has not ended and can always go on to feed the
  device again; a feeding that fails does not end it.
\<close>

lemma feeding_goes_on:
  assumes "wd_steps impl now (wd_init i) s" and "\<not> crashed s" and "feeders s \<noteq> []"
    and "\<not> isStopped (swd s)"
  shows "\<exists>s' e evs. wd_steps impl now s s' \<and> trace (swd s') = trace (swd s) @ WFeed e # evs"
proof -
  have "phase_feeding s" using wd_inv_reachable [OF assms(1)] assms(3) wd_inv_feeder [of s 0] by simp
  then obtain pc where pc: "feeders s = [(0, pc)]" "pc \<noteq> Finished" "contexts (swd s) = [False]"
    using assms(4) by (auto simp: phase_feeding_def)
  have chk: "\<exists>s' e evs. wd_steps impl now s1 s' \<and> trace (swd s') = trace (swd s) @ WFeed e # evs"
    if s1: "feeders s1 = [(0, Checking)]" "swd s1 = swd s" "\<not> crashed s1" for s1
  proof -
    have 1: "wd_step impl now s1 (s1\<lparr>feeders := [(0, Feeding)]\<rparr>)"
      using s1 pc(3) by (intro checking_step) simp_all
    obtain s' e evs where "wd_steps impl now (s1\<lparr>feeders := [(0, Feeding)]\<rparr>) s'"
      "trace (swd s') = trace (swd s) @ WFeed e # evs"
      using feeding_step [of "s1\<lparr>feeders := [(0, Feeding)]\<rparr>" impl now] s1 assms(4) by auto
    with 1 show ?thesis by (meson converse_rtranclp_into_rtranclp)
  qed
  show ?thesis
  proof (cases pc)
    case Feeding
    with feeding_step [OF assms(2) _ assms(4)] pc show ?thesis by simp
  next
    case Checking
    with chk [of s] pc assms(2) show ?thesis by simp
  next
    case Sleeping
    with pc have 1: "wd_step impl now s (s\<lparr>feeders := [(0, Checking)]\<rparr>)"
      using sleeping_step [OF assms(2)] by simp
    from chk [of "s\<lparr>feeders := [(0, Checking)]\<rparr>"] assms(2) 1 show ?thesis
      by (simp, meson converse_rtranclp_into_rtranclp)
  qed (use pc in simp)
qed

definition sample_fed :: "unit linuxWatchdog wd_system" where
  "sample_fed = the (sample_exec sample_feeding)"

lemma sample_exec_fed: "sample_exec sample_feeding = Some sample_fed"
  by (simp add: sample_fed_def sample_wd_eval)

section \<open>The timeout of the device\<close>

lemma sint_seconds:
  assumes "- (2 ^ 31) \<le> t" and "t < 2 ^ 31"
  shows "sint (word_of_int t * Second) = t * 1000000000"
proof -
  have "word_of_int t * Second = (word_of_int (t * 1000000000) :: duration)"
    by (simp add: Second_def)
  with assms sint_word_of_int_64 [of "t * 1000000000"] show ?thesis by simp
qed

lemma feed_period_bounds:
  assumes "0 \<le> sint d"
  shows "3 * sint (feed_period d) \<le> sint d" and "sint d < 3 * sint (feed_period d) + 3"
proof -
  have "sint d sdiv 3 = sint d div 3" using assms
    by (cases "sint d = 0") (simp_all add: signed_divide_int_def)
  moreover have "sint d < 2 ^ 63" using sint_lt [of d] by simp
  ultimately have "sint (feed_period d) = sint d div 3"
    using assms sint_word_of_int_64 [of "sint d div 3"] by (simp add: feed_period_def)
  then show "3 * sint (feed_period d) \<le> sint d" "sint d < 3 * sint (feed_period d) + 3"
    by simp_all
qed

text \<open>
  The device is fed three times per timeout: when the driver answers \<open>WDIOC_GETTIMEOUT\<close> with a
  timeout of \<open>t\<close> seconds (a C \<open>int\<close> that is not negative), the duration does not overflow, it is
  exactly \<open>t\<close> seconds, and three feeding periods fit into it with less than 3 ns to spare.
\<close>

lemma linux_feed_period:
  assumes "fst (run_state (sys_gettimeout sys (fd wd)) (world wd)) = Inr t" and "0 \<le> t" and "t < 2 ^ 31"
  shows "\<exists>d. fst (run_state (linux_getTimeout sys) wd) = Inr d \<and> sint d = t * 1000000000 \<and>
    3 * sint (feed_period d) \<le> sint d \<and> sint d < 3 * sint (feed_period d) + 3"
proof (intro exI [of _ "word_of_int t * Second"] conjI)
  show "fst (run_state (linux_getTimeout sys) wd) = Inr (word_of_int t * Second)"
    using assms(1) by (simp add: linux_getTimeout_def run_simps)
  show s: "sint (word_of_int t * Second) = t * 1000000000" using assms(2,3) by (intro sint_seconds) auto
  show "3 * sint (feed_period (word_of_int t * Second)) \<le> sint (word_of_int t * Second)"
    "sint (word_of_int t * Second) < 3 * sint (feed_period (word_of_int t * Second)) + 3"
    using feed_period_bounds [of "word_of_int t * Second"] s assms(2) by simp_all
qed

text \<open>
  The system calls of a start: the device is opened, asked for its identity and its timeout. A
  start that fails after the device was opened does not leave it armed behind the caller's back
  unless the kernel refuses the magic character: the last calls are the write of it and, if that
  succeeded, the close.
\<close>

lemma linux_start_syscalls:
  "emits (linux_start sys dev) (\<lambda>res evs.
     case res of
       Inl err \<Rightarrow> evs = [SOpen dev (Inl err)] \<or>
         (\<exists>n i e. evs = [SOpen dev (Inr n), SGetSupport n i, SGetTimeout n (Inl err), SWrite n ''V'' (Some e)]) \<or>
         (\<exists>n i e. evs = [SOpen dev (Inr n), SGetSupport n i, SGetTimeout n (Inl err), SWrite n ''V'' None, SClose n e])
     | Inr d \<Rightarrow> \<exists>n i t. evs = [SOpen dev (Inr n), SGetSupport n i, SGetTimeout n (Inr t)] \<and>
         d = word_of_int t * Second)"
  unfolding emits_def
  by (auto simp: linux_defs run_simps split: sum.split option.split)

text \<open>
  C34. The package makes one Linux watchdog, and a second attempt harms: the first call of
  \<open>NewLinux\<close> returns (a watchdog, or an error when the device file cannot be read); the second
  returns the error \<open>linux watchdog already instantiated\<close> but leaves the package mutex locked, so
  that every further call blocks for ever.
\<close>

theorem NewLinux_calls:
  "let (r1, v1) = run_state (NewLinux stat dev host) \<lparr>mutex = False, linuxWatchDogInstantiated = False\<rparr>;
       (r2, v2) = run_state (NewLinux stat2 dev2 host2) v1;
       (r3, v3) = run_state (NewLinux stat3 dev3 host3) v2
   in (case stat dev of
         None \<Rightarrow> r1 = Return (Inr (newSynced \<lparr>world = host, trace = [], fd = 0, info = None\<rparr>))
       | Some _ \<Rightarrow> \<exists>err. r1 = Return (Inl err)) \<and>
      r2 = Return (Inl (Other ''linux watchdog already instantiated'')) \<and> mutex v2 \<and>
      r3 = Block \<and> v3 = v2"
  by (simp add: NewLinux_def run_simps split: option.split prod.split)


end
