(* ===== verification/Reboot.thy ===== *)
theory Reboot
  imports Watchdog_Safety
begin

text \<open>
  The rebooter, \<open>src/pkg/reboot/rebooter.go\<close>: it stops the watchdog if there is one that runs, and
  otherwise runs \<open>systemctl reboot\<close> on the host. What its callers (the remediation controller and the
  connectivity check) rely on is the locale \<open>rebooter\<close>.
\<close>

section \<open>The rebooter\<close>

datatype cmd_event = Command string "string list" "go_error option"

text \<open>The watchdog is nil when \<open>NewLinux\<close> failed.\<close>

record ('i, 'h) WatchdogRebooter = "('h, cmd_event) io" +
  rb_wd :: "'i synchronizedWatchdog option"

definition NewWatchdogRebooter ::
  "'h \<Rightarrow> 'i synchronizedWatchdog option \<Rightarrow> ('i, 'h) WatchdogRebooter" where
  "NewWatchdogRebooter host wd = \<lparr>world = host, trace = [], rb_wd = wd\<rparr>"

definition softwareReboot ::
  "(string \<Rightarrow> string list \<Rightarrow> ('h, go_error option) state) \<Rightarrow>
    (('i, 'h) WatchdogRebooter, go_error option) state" where
  "softwareReboot run = do {
     let path = ''/usr/bin/nsenter'';
     let args = [''-m/proc/1/ns/mnt'', ''/bin/systemctl'', ''reboot'', ''--force'', ''--force''];
     perform (run path args) (Command path args)
   }"

text \<open>A call of the watchdog the rebooter holds.\<close>

definition on_watchdog ::
  "('i synchronizedWatchdog, 'a) state \<Rightarrow> (('i, 'h) WatchdogRebooter, 'a option) state" where
  "on_watchdog m = State (\<lambda>r. case rb_wd r of
     None \<Rightarrow> (None, r)
   | Some wd \<Rightarrow> (case run_state m wd of (a, wd') \<Rightarrow> (Some a, r\<lparr>rb_wd := Some wd'\<rparr>)))"

definition Reboot ::
  "(string \<Rightarrow> string list \<Rightarrow> ('h, go_error option) state) \<Rightarrow>
    (('i, 'h) WatchdogRebooter, go_error option call) state" where
  "Reboot run = do {
     started \<leftarrow> on_watchdog IsStarted;
     if started = None \<or> started = Some False then do {
       e \<leftarrow> softwareReboot run;
       case e of
         Some err \<Rightarrow> ret (Return None)
       | None \<Rightarrow> ret (Return None)
     }
     else do {
       stopped \<leftarrow> on_watchdog Stop;
       case stopped of
         Some Panic \<Rightarrow> ret Panic
       | Some Block \<Rightarrow> ret Block
       | _ \<Rightarrow> ret (Return None)
     }
   }"

section \<open>Lemmas\<close>

lemma run_on_watchdog [run_simps]:
  "run_state (on_watchdog m) r =
     (case rb_wd r of
        None \<Rightarrow> (None, r)
      | Some wd \<Rightarrow> (Some (fst (run_state m wd)), r\<lparr>rb_wd := Some (snd (run_state m wd))\<rparr>))"
  by (simp add: on_watchdog_def split: option.split prod.split)

abbreviation reboot_command :: "go_error option \<Rightarrow> cmd_event" where
  "reboot_command \<equiv> Command ''/usr/bin/nsenter''
     [''-m/proc/1/ns/mnt'', ''/bin/systemctl'', ''reboot'', ''--force'', ''--force'']"

lemma run_softwareReboot:
  "run_state (softwareReboot run) r =
     (let args = [''-m/proc/1/ns/mnt'', ''/bin/systemctl'', ''reboot'', ''--force'', ''--force''];
          (e, h) = run_state (run ''/usr/bin/nsenter'' args) (world r)
      in (e, r\<lparr>world := h, trace := trace r @ [reboot_command e]\<rparr>))"
  by (simp add: softwareReboot_def run_simps Let_def split: prod.split)

lemma run_IsStarted: "run_state IsStarted w = (isStarted w, w)"
  by (simp add: IsStarted_def run_simps)

lemma rb_wd_update_same: "rb_wd r = Some w \<Longrightarrow> r\<lparr>rb_wd := Some w\<rparr> = r"
  by (cases r) simp

section \<open>What a caller relies on\<close>

text \<open>
  \<open>ready\<close>: the rebooter may be called; \<open>down\<close>: the node has been told to go down. A call returns no
  error, brings the node down, and may be repeated.
\<close>

locale rebooter =
  fixes Reboot :: "('s, go_error option call) state" and ready :: "'s \<Rightarrow> bool" and down :: "'s \<Rightarrow> bool"
  assumes reboots: "ready s \<Longrightarrow> \<exists>s'. run_state Reboot s = (Return None, s') \<and> down s' \<and> ready s'"
begin

lemma reboot_result: "ready s \<Longrightarrow> fst (run_state Reboot s) = Return None"
  using reboots by fastforce

lemma reboot_down: "ready s \<Longrightarrow> down (snd (run_state Reboot s))"
  using reboots by fastforce

lemma reboot_ready: "ready s \<Longrightarrow> ready (snd (run_state Reboot s))"
  using reboots by fastforce

end

text \<open>
  The watchdog rebooter may be called unless its watchdog is in the short window in which it is
  started and has no cancel function yet.
\<close>

definition wd_ready :: "('i, 'h) WatchdogRebooter \<Rightarrow> bool" where
  "wd_ready r \<longleftrightarrow> (case rb_wd r of
     None \<Rightarrow> True | Some w \<Rightarrow> isStarted w \<longrightarrow> isStopped w \<or> swd_stop w \<noteq> None)"

definition going_down :: "('i, 'h) WatchdogRebooter \<Rightarrow> bool" where
  "going_down r \<longleftrightarrow> (\<exists>e. reboot_command e \<in> set (trace r)) \<or>
     (case rb_wd r of None \<Rightarrow> False | Some w \<Rightarrow> isStopped w)"

lemma run_Reboot:
  "run_state (Reboot run) r =
     (case rb_wd r of
        Some w \<Rightarrow>
          if isStarted w then
            (case fst (run_state Stop w) of Panic \<Rightarrow> Panic | Block \<Rightarrow> Block | Return _ \<Rightarrow> Return None,
             r\<lparr>rb_wd := Some (snd (run_state Stop w))\<rparr>)
          else (Return None, snd (run_state (softwareReboot run) r))
      | None \<Rightarrow> (Return None, snd (run_state (softwareReboot run) r)))"
  by (auto simp: Reboot_def run_simps run_IsStarted rb_wd_update_same case_prod_beta
      split: option.split call.split)

lemma going_down_software: "going_down (snd (run_state (softwareReboot run) r))"
  by (auto simp: going_down_def run_softwareReboot Let_def split: prod.split)

lemma wd_ready_software: "wd_ready r \<Longrightarrow> wd_ready (snd (run_state (softwareReboot run) r))"
  by (simp add: wd_ready_def run_softwareReboot Let_def split: prod.split)

interpretation watchdog_rebooter: rebooter "Reboot run" wd_ready going_down
  for run :: "string \<Rightarrow> string list \<Rightarrow> ('h, go_error option) state"
proof unfold_locales
  fix r :: "('i, 'h) WatchdogRebooter"
  assume ready: "wd_ready r"
  show "\<exists>r'. run_state (Reboot run) r = (Return None, r') \<and> going_down r' \<and> wd_ready r'"
  proof (cases "\<exists>w. rb_wd r = Some w \<and> isStarted w")
    case True
    with ready show ?thesis
      by (auto simp: run_Reboot run_Stop wd_ready_def going_down_def split: option.splits)
  next
    case False
    then have "run_state (Reboot run) r = (Return None, snd (run_state (softwareReboot run) r))"
      by (auto simp: run_Reboot split: option.split)
    with ready going_down_software wd_ready_software show ?thesis by blast
  qed
qed

section \<open>Properties\<close>

text \<open>
  \<open>Reboot\<close> never reports an error and always tells the node to go down: with no watchdog, or one
  that is not started, it runs the reboot command on the host, and an error of that command is
  dropped; with a started watchdog it runs no command and stops the feeding. It fails to return only
  by a panic, when the watchdog is started and has no cancel function yet.
\<close>

lemma Reboot_outcome:
  "case run_state (Reboot run) (NewWatchdogRebooter host wd) of (res, r) \<Rightarrow>
     (case wd of
        None \<Rightarrow> res = Return None \<and> (\<exists>e. trace r = [reboot_command e]) \<and> rb_wd r = None
      | Some w \<Rightarrow>
          if isStarted w then
            if isStopped w \<or> (\<exists>cancel. swd_stop w = Some cancel) then
              res = Return None \<and> trace r = [] \<and> (\<exists>w'. rb_wd r = Some w' \<and> isStopped w' \<and> trace w' = trace w)
            else res = Panic \<and> trace r = [] \<and> rb_wd r = Some w
          else res = Return None \<and> (\<exists>e. trace r = [reboot_command e]) \<and> rb_wd r = Some w)"
  by (auto simp: NewWatchdogRebooter_def run_Reboot run_softwareReboot run_Stop Let_def case_prod_beta
      split: option.split)

text \<open>
  C6. A reboot through the Linux watchdog cannot be taken back: when the feeding goroutine runs and
  nobody has tried to disarm the device, \<open>Reboot\<close> returns no error, and whatever the calls of
  \<open>Start\<close> and \<open>Stop\<close>, the feeder and the end of the process' context do afterwards, the device gets
  no further system call and stays armed.
\<close>

theorem linux_reboot_is_final:
  assumes "wd_steps (linuxWatchdogImpl sys dev) (linux_now sys) (wd_init i) s" and "feeders s \<noteq> []"
    and "\<not> crashed s" and "\<forall>e. WDisarm e \<notin> set (trace (swd s))"
    and "run_state (Reboot run) (NewWatchdogRebooter host (Some (swd s))) = (res, r)"
    and "wd_steps (linuxWatchdogImpl sys dev) (linux_now sys) (s\<lparr>swd := the (rb_wd r)\<rparr>) s'"
  shows "res = Return None \<and> isStopped (swd s') \<and> trace (world (swd s')) = trace (world (swd s)) \<and>
    device_armed (trace (world (swd s')))"
proof -
  let ?s = "s\<lparr>swd := the (rb_wd r)\<rparr>"
  have f: "phase_feeding s"
    using wd_inv_reachable [OF assms(1)] assms(2) wd_inv_feeder [of s 0] by simp
  then have st: "isStarted (swd s)" "swd_stop (swd s) = Some 0" by (auto simp: phase_feeding_def)
  have fst_stop: "fst (run_state Stop (swd s)) = Return ()" using st by (simp add: run_Stop)
  then have stop: "run_state Stop (swd s) = (Return (), snd (run_state Stop (swd s)))"
    by (metis prod.collapse)
  have r: "res = Return None" "the (rb_wd r) = snd (run_state Stop (swd s))"
    using assms(5) st fst_stop by (auto simp: run_Reboot NewWatchdogRebooter_def)
  with wd_step.Stop_returns [OF assms(3) stop] have
    step: "wd_step (linuxWatchdogImpl sys dev) (linux_now sys) s ?s" by simp
  then have reach: "wd_steps (linuxWatchdogImpl sys dev) (linux_now sys) (wd_init i) ?s"
    using assms(1) by (rule rtranclp.rtrancl_into_rtrancl [rotated])
  have same: "isStopped (swd ?s)" "trace (swd ?s) = trace (swd s)" "world (swd ?s) = world (swd s)"
    "isStarted (swd ?s)" using r(2) st by (auto simp: run_Stop)
  have q: "quiet (swd ?s) (swd s')"
    using stopped_steps [OF assms(6) wd_inv_reachable [OF reach] same(1)] by simp
  have "device_armed (trace (world (swd ?s)))"
    using linux_wd.stays_armed [OF reach same(4)] assms(4) unfolding same(2) by simp
  with q same(3) r(1) show ?thesis by (simp add: quiet_def)
qed

theorem linux_reboot_is_final_witness:
  "let (res, r) = run_state (Reboot (\<lambda>_ _. ret None)) (NewWatchdogRebooter () (Some (swd sample_fed)));
       s' = sample_fed\<lparr>swd := the (rb_wd r)\<rparr>
   in res = Return None \<and> isStopped (swd s') \<and> device_armed (trace (world (swd s')))"
proof -
  let ?run = "run_state (Reboot (\<lambda>_ _. ret None)) (NewWatchdogRebooter () (Some (swd sample_fed)))"
  have "feeders sample_fed \<noteq> []" "\<not> crashed sample_fed" "\<forall>e. WDisarm e \<notin> set (trace (swd sample_fed))"
    by (simp_all add: sample_fed_def sample_wd_eval)
  from linux_reboot_is_final [OF sample_exec_steps [OF sample_exec_fed] this, of "\<lambda>_ _. ret None" "()"
      "fst ?run" "snd ?run" "sample_fed\<lparr>swd := the (rb_wd (snd ?run))\<rparr>"]
  show ?thesis by (auto simp: Let_def case_prod_beta)
qed


end
