(* ===== verification/Api_Check.thy ===== *)
theory Api_Check
  imports Kube_Objects Strconv
begin

text \<open>
  The connectivity check, \<open>src/pkg/apicheck/check.go\<close>: an agent that cannot reach the API server
  asks its peers, in batches, whether it is healthy, and reboots its node when they say it is not or
  when nobody answers. The API server, the peers, the certificates and the rebooter are the fields
  of the argument \<open>env\<close>. The goroutines of a batch run in an order chosen by the argument \<open>sched\<close>, and
  the channel holds their answers in that order.
\<close>

section \<open>State and environment\<close>

datatype api_event =
    AReadyz "go_error + int"
  | APeers "NodeAddress list list"
  | ACreds "go_error option"
  | ADial string "go_error + nat"
  | AIsHealthy nat string "go_error + 32 word"
  | AClose nat
  | AReboot "go_error option call"

record ('s, 'c) api_env =
  api_readyz :: "('s, go_error + int) state"
  api_peers :: "('s, NodeAddress list list) state"
  api_creds :: "('s, go_error + 'c) state"
  api_dial :: "string \<Rightarrow> 'c option \<Rightarrow> ('s, go_error + nat) state"
  api_isHealthy :: "nat \<Rightarrow> string \<Rightarrow> ('s, go_error + 32 word) state"
  api_close :: "nat \<Rightarrow> ('s, unit) state"
  api_reboot :: "('s, go_error option call) state"

record ApiConnectivityCheckConfig =
  cfg_MyNodeName :: string
  cfg_CheckInterval :: duration
  cfg_MaxErrorsThreshold :: int
  cfg_ApiServerTimeout :: duration
  cfg_PeerDialTimeout :: duration
  cfg_PeerRequestTimeout :: duration
  cfg_PeerHealthPort :: int

record ('s, 'c) ApiConnectivityCheck = "('s, api_event) io" +
  errorCount :: int
  clientCreds :: "'c option"

definition api_New :: "'s \<Rightarrow> ('s, 'c) ApiConnectivityCheck" where
  "api_New w = \<lparr>world = w, trace = [], errorCount = 0, clientCreds = None\<rparr>"

section \<open>Asking a peer\<close>

definition initClientCreds ::
  "('s, 'c) api_env \<Rightarrow> (('s, 'c) ApiConnectivityCheck, go_error option) state" where
  "initClientCreds env = do {
     creds \<leftarrow> gets clientCreds;
     if creds = None then do {
       got \<leftarrow> perform (api_creds env) (\<lambda>got. ACreds (case got of Inl err \<Rightarrow> Some err | Inr _ \<Rightarrow> None));
       case got of
         Inl err \<Rightarrow> ret (Some err)
       | Inr c \<Rightarrow> do {
           modify (clientCreds_update (\<lambda>_. Some c));
           ret None
         }
     }
     else ret None
   }"

text \<open>The goroutine: what it sends is appended to the channel.\<close>

definition getHealthStatusFromPeer ::
  "('s, 'c) api_env \<Rightarrow> ApiConnectivityCheckConfig \<Rightarrow> string \<Rightarrow> HealthCheckResponseCode list \<Rightarrow>
    (('s, 'c) ApiConnectivityCheck, HealthCheckResponseCode list) state" where
  "getHealthStatusFromPeer env cfg endpointIp results = do {
     e \<leftarrow> initClientCreds env;
     case e of
       Some err \<Rightarrow> ret (results @ [RequestFailed])
     | None \<Rightarrow> do {
         let serverAddr = endpointIp @ '':'' @ Itoa (cfg_PeerHealthPort cfg);
         creds \<leftarrow> gets clientCreds;
         dialled \<leftarrow> perform (api_dial env serverAddr creds) (ADial serverAddr);
         case dialled of
           Inl err \<Rightarrow> ret (results @ [RequestFailed])
         | Inr phClient \<Rightarrow> do {
             resp \<leftarrow> perform (api_isHealthy env phClient (cfg_MyNodeName cfg))
               (AIsHealthy phClient (cfg_MyNodeName cfg));
             case resp of
               Inl err \<Rightarrow> do {
                 perform (api_close env phClient) (\<lambda>_. AClose phClient);
                 ret (results @ [RequestFailed])
               }
             | Inr status \<Rightarrow> do {
                 perform (api_close env phClient) (\<lambda>_. AClose phClient);
                 ret (results @ [sint status])
               }
           }
       }
   }"

primrec askPeers ::
  "('s, 'c) api_env \<Rightarrow> ApiConnectivityCheckConfig \<Rightarrow> string list \<Rightarrow> HealthCheckResponseCode list \<Rightarrow>
    (('s, 'c) ApiConnectivityCheck, HealthCheckResponseCode list) state" where
  "askPeers env cfg [] results = ret results"
| "askPeers env cfg (address # addresses) results = do {
     results \<leftarrow> getHealthStatusFromPeer env cfg address results;
     askPeers env cfg addresses results
   }"

text \<open>Receiving from an empty channel to which nobody sends any more blocks.\<close>

fun sumPeersResponses_loop ::
  "nat \<Rightarrow> HealthCheckResponseCode list \<Rightarrow> int \<Rightarrow> int \<Rightarrow> int \<Rightarrow> int \<Rightarrow> (int \<times> int \<times> int \<times> int) call" where
  "sumPeersResponses_loop 0 chan healthy unhealthy apiErrors noResponse =
     Return (healthy, unhealthy, apiErrors, noResponse)"
| "sumPeersResponses_loop (Suc n) [] healthy unhealthy apiErrors noResponse = Block"
| "sumPeersResponses_loop (Suc n) (response # chan) healthy unhealthy apiErrors noResponse =
     (if response = Unhealthy then
        sumPeersResponses_loop n chan healthy (unhealthy + 1) apiErrors noResponse
      else if response = Healthy then
        sumPeersResponses_loop n chan (healthy + 1) unhealthy apiErrors noResponse
      else if response = ApiError then
        sumPeersResponses_loop n chan healthy unhealthy (apiErrors + 1) noResponse
      else if response = RequestFailed then
        sumPeersResponses_loop n chan healthy unhealthy apiErrors (noResponse + 1)
      else sumPeersResponses_loop n chan healthy unhealthy apiErrors noResponse)"

definition sumPeersResponses ::
  "nat \<Rightarrow> HealthCheckResponseCode list \<Rightarrow> (int \<times> int \<times> int \<times> int) call" where
  "sumPeersResponses nodesBatchCount responsesChan =
     sumPeersResponses_loop nodesBatchCount responsesChan 0 0 0 0"

section \<open>Choosing the peers\<close>

function popNodes_loop :: "NodeAddress list list \<Rightarrow> nat \<Rightarrow> nat \<Rightarrow> string list \<Rightarrow> string list" where
  "popNodes_loop nodes count i addresses =
     (if i < count then
        let nodeAddresses = nodes ! i
        in if nodeAddresses = [] \<or> addr_Address (nodeAddresses ! 0) = ''''
           then popNodes_loop nodes count (Suc i) addresses
           else popNodes_loop nodes count (Suc i) (addresses[i := addr_Address (nodeAddresses ! 0)])
      else addresses)"
  by pat_completeness auto
termination
  by (relation "measure (\<lambda>(nodes, count, i, addresses). count - i)") auto

definition popNodes :: "NodeAddress list list \<Rightarrow> nat \<Rightarrow> string list \<times> NodeAddress list list" where
  "popNodes nodes count =
     (let nrOfNodes = length nodes
      in if nrOfNodes = 0 then ([], nodes)
         else let count = (if count > nrOfNodes then nrOfNodes else count)
              in (popNodes_loop nodes count 0 (replicate count ''''), drop count nodes))"

text \<open>Three peers first, then a tenth of the remaining ones but at least one.\<close>

definition nodesBatchCount :: "nat \<Rightarrow> nat \<Rightarrow> nat" where
  "nodesBatchCount i remaining =
     (let n = 3;
          n = (if i > 0 then let n = remaining div 10 in if n = 0 then 1 else n else n)
      in if remaining < n then remaining else n)"

section \<open>The verdict\<close>

function handleError_loop ::
  "('s, 'c) api_env \<Rightarrow> ApiConnectivityCheckConfig \<Rightarrow> (nat \<Rightarrow> string list \<Rightarrow> string list) \<Rightarrow> nat \<Rightarrow>
    nat \<Rightarrow> NodeAddress list list \<Rightarrow> int \<Rightarrow> (('s, 'c) ApiConnectivityCheck, bool call) state" where
  "handleError_loop env cfg sched nrAllNodes i nodesToAsk apiErrorsResponsesSum =
     (if 0 < length nodesToAsk then do {
        let chosenNodesAddresses = fst (popNodes nodesToAsk (nodesBatchCount i (length nodesToAsk)));
        let nrAddresses = length chosenNodesAddresses;
        responsesChan \<leftarrow> askPeers env cfg (sched i chosenNodesAddresses) [];
        case sumPeersResponses nrAddresses responsesChan of
          Return (healthyResponses, unhealthyResponses, apiErrorsResponses, _) \<Rightarrow>
            if healthyResponses > 0 then do {
              modify (errorCount_update (\<lambda>_. 0));
              ret (Return True)
            }
            else if unhealthyResponses > 0 then ret (Return False)
            else if apiErrorsResponses > 0 then
              if apiErrorsResponsesSum + apiErrorsResponses > int (nrAllNodes div 2) then ret (Return True)
              else handleError_loop env cfg sched nrAllNodes (Suc i)
                (snd (popNodes nodesToAsk (nodesBatchCount i (length nodesToAsk))))
                (apiErrorsResponsesSum + apiErrorsResponses)
            else handleError_loop env cfg sched nrAllNodes (Suc i)
              (snd (popNodes nodesToAsk (nodesBatchCount i (length nodesToAsk)))) apiErrorsResponsesSum
        | Panic \<Rightarrow> ret Panic
        | Block \<Rightarrow> ret Block
      }
      else ret (Return False))"
  by pat_completeness auto

lemma popNodes_shrinks:
  "nodes \<noteq> [] \<Longrightarrow> length (snd (popNodes nodes (nodesBatchCount i (length nodes)))) < length nodes"
  by (auto simp: popNodes_def nodesBatchCount_def Let_def)

termination handleError_loop
  by (relation "measure (\<lambda>(env, cfg, sched, n, i, nodes, s). length nodes)")
     (auto intro: popNodes_shrinks)

definition handleError ::
  "('s, 'c) api_env \<Rightarrow> ApiConnectivityCheckConfig \<Rightarrow> (nat \<Rightarrow> string list \<Rightarrow> string list) \<Rightarrow>
    (('s, 'c) ApiConnectivityCheck, bool call) state" where
  "handleError env cfg sched = do {
     modify (errorCount_update (\<lambda>n. n + 1));
     count \<leftarrow> gets errorCount;
     if count < cfg_MaxErrorsThreshold cfg then ret (Return True)
     else do {
       nodesToAsk \<leftarrow> perform (api_peers env) APeers;
       if length nodesToAsk = 0 then ret (Return True)
       else handleError_loop env cfg sched (length nodesToAsk) 0 nodesToAsk 0
     }
   }"

text \<open>The function that \<open>Start\<close> runs at every interval.\<close>

definition checkApiServer ::
  "('s, 'c) api_env \<Rightarrow> ApiConnectivityCheckConfig \<Rightarrow> (nat \<Rightarrow> string list \<Rightarrow> string list) \<Rightarrow>
    (('s, 'c) ApiConnectivityCheck, unit call) state" where
  "checkApiServer env cfg sched = do {
     result \<leftarrow> perform (api_readyz env) AReadyz;
     let failure = (case result of Inl err \<Rightarrow> True | Inr statusCode \<Rightarrow> statusCode \<noteq> 200);
     if failure then do {
       isHealthy \<leftarrow> handleError env cfg sched;
       case isHealthy of
         Return True \<Rightarrow> ret (Return ())
       | Return False \<Rightarrow> do {
           e \<leftarrow> perform (api_reboot env) AReboot;
           case e of Return _ \<Rightarrow> ret (Return ()) | Panic \<Rightarrow> ret Panic | Block \<Rightarrow> ret Block
         }
       | Panic \<Rightarrow> ret Panic
       | Block \<Rightarrow> ret Block
     }
     else do {
       modify (errorCount_update (\<lambda>_. 0));
       ret (Return ())
     }
   }"

end
