(* ===== verification/Api_Check_Verdict.thy ===== *)
theory Api_Check_Verdict
  imports Api_Check "HOL-Library.Multiset"
begin

text \<open>
  What the verdict of the connectivity check means: the answers of the peers that the trace records
  decide it, whatever the order in which they arrive; the check always comes to a verdict; and how
  many rounds of questions it takes.
\<close>

section \<open>Answers in a trace\<close>

text \<open>The codes that peers sent, and the number of peers that were tried.\<close>

fun answer :: "api_event \<Rightarrow> HealthCheckResponseCode list" where
  "answer (AIsHealthy conn name (Inr status)) = [sint status]"
| "answer _ = []"

definition answers :: "api_event list \<Rightarrow> HealthCheckResponseCode list" where
  "answers evs = concat (map answer evs)"

fun attempt :: "api_event \<Rightarrow> nat" where
  "attempt (ADial addr got) = 1"
| "attempt (ACreds (Some err)) = 1"
| "attempt _ = 0"

definition attempts :: "api_event list \<Rightarrow> nat" where
  "attempts evs = sum_list (map attempt evs)"

lemma answers_simps [simp]:
  "answers [] = []" "answers (ev # evs) = answer ev @ answers evs"
  "answers (evs @ evs') = answers evs @ answers evs'"
  by (simp_all add: answers_def)

lemma attempts_simps [simp]:
  "attempts [] = 0" "attempts (ev # evs) = attempt ev + attempts evs"
  "attempts (evs @ evs') = attempts evs + attempts evs'"
  by (simp_all add: attempts_def)

text \<open>The answers of a batch, up to the failed requests, which no peer sends.\<close>

definition answered :: "HealthCheckResponseCode list \<Rightarrow> HealthCheckResponseCode list" where
  "answered rs = filter (\<lambda>c. c \<noteq> RequestFailed) rs"

lemma answered_simps [simp]:
  "answered [] = []" "answered (rs @ rs') = answered rs @ answered rs'" "answered [RequestFailed] = []"
  by (simp_all add: answered_def)

lemma answered_cong:
  assumes "answered rs = answered rs'" and "c \<noteq> RequestFailed"
  shows "c \<in> set rs \<longleftrightarrow> c \<in> set rs'" "count_list rs c = count_list rs' c"
proof -
  have s: "c \<in> set (answered xs) \<longleftrightarrow> c \<in> set xs" "count_list (answered xs) c = count_list xs c" for xs
    using assms(2) by (induction xs) (auto simp: answered_def)
  show "c \<in> set rs \<longleftrightarrow> c \<in> set rs'" "count_list rs c = count_list rs' c"
    using assms(1) s [of rs] s [of rs'] by simp_all
qed

lemma emits_initClientCreds:
  "emits (initClientCreds env) (\<lambda>e evs.
     (e = None \<and> answers evs = [] \<and> attempts evs = 0) \<or>
     (e \<noteq> None \<and> answers evs = [] \<and> attempts evs = 1))"
  unfolding emits_def
  by (simp add: initClientCreds_def run_simps split: sum.split)

lemma emits_gets_bind: "(\<And>x. emits (f x) R) \<Longrightarrow> emits (State_Monad.bind (gets g) f) R"
  by (rule emits_bind [where Q = "\<lambda>a evs. evs = []"]) (auto simp: emits_def run_gets)

lemma emits_getHealthStatusFromPeer:
  "emits (getHealthStatusFromPeer env cfg ip results) (\<lambda>results' evs.
     \<exists>r. results' = results @ [r] \<and> answered [r] = answered (answers evs) \<and> attempts evs = 1)"
  unfolding getHealthStatusFromPeer_def Let_def
  apply (rule emits_bind [OF emits_initClientCreds])
  apply (auto split: option.split sum.split intro!: emits_intros emits_gets_bind)
  done

lemma emits_askPeers:
  "emits (askPeers env cfg as results) (\<lambda>results' evs.
     \<exists>rs. results' = results @ rs \<and> length rs = length as \<and> answered rs = answered (answers evs) \<and>
       attempts evs = length as)"
proof (induction as arbitrary: results)
  case Nil
  show ?case by (auto intro: emits_ret)
next
  case (Cons a as)
  show ?case unfolding askPeers.simps
  proof (rule emits_bind [OF emits_getHealthStatusFromPeer], elim exE conjE, rule emits_mono [OF Cons], elim exE conjE)
    fix results' evs r results'' evs' rs
    assume "results' = results @ [r]" "answered [r] = answered (answers evs)" "attempts evs = 1"
      "results'' = results' @ rs" "length rs = length as" "answered rs = answered (answers evs')"
      "attempts evs' = length as"
    then show "\<exists>rs. results'' = results @ rs \<and> length rs = length (a # as) \<and>
        answered rs = answered (answers (evs @ evs')) \<and> attempts (evs @ evs') = length (a # as)"
      using answered_simps(2) [of "[r]" rs] by (intro exI [of _ "[r] @ rs"]) simp
  qed
qed

section \<open>Counting\<close>

lemma sumPeersResponses_loop_eq:
  "sumPeersResponses_loop (length rs) rs h u a n =
     Return (h + int (count_list rs Healthy), u + int (count_list rs Unhealthy),
       a + int (count_list rs ApiError), n + int (count_list rs RequestFailed))"
  by (induction rs arbitrary: h u a n) (simp_all add: code_defs)

lemma sumPeersResponses_eq:
  "sumPeersResponses (length rs) rs =
     Return (int (count_list rs Healthy), int (count_list rs Unhealthy), int (count_list rs ApiError),
       int (count_list rs RequestFailed))"
  by (simp add: sumPeersResponses_def sumPeersResponses_loop_eq)

section \<open>Batches\<close>

text \<open>The address under which a peer is asked: its first one, or the empty string.\<close>

definition peerAddress :: "NodeAddress list \<Rightarrow> string" where
  "peerAddress as = (case as of [] \<Rightarrow> '''' | a # _ \<Rightarrow> addr_Address a)"

declare popNodes_loop.simps [simp del]

lemma popNodes_loop_eq:
  assumes "length acc = cnt" and "i \<le> cnt" and "cnt \<le> length nodes" and "drop i acc = replicate (cnt - i) ''''"
  shows "popNodes_loop nodes cnt i acc = take i acc @ map peerAddress (drop i (take cnt nodes))"
  using assms
proof (induction nodes cnt i acc rule: popNodes_loop.induct)
  case (1 nodes cnt i acc)
  show ?case
  proof (cases "i < cnt")
    case False
    with 1 show ?thesis by (subst popNodes_loop.simps) simp
  next
    case True
    have d: "drop i (take cnt nodes) = nodes ! i # drop (Suc i) (take cnt nodes)"
      using True "1.prems"(3) by (subst Cons_nth_drop_Suc [symmetric]) simp_all
    have z: "acc ! i = ''''" "drop (Suc i) acc = replicate (cnt - Suc i) ''''"
      using "1.prems"(1,4) True by (metis Cons_nth_drop_Suc Suc_diff_Suc list.inject replicate_Suc)+
    have t: "take (Suc i) acc = take i acc @ [acc ! i]"
      using True "1.prems"(1) by (simp add: take_Suc_conv_app_nth)
    show ?thesis
    proof (cases "nodes ! i = [] \<or> addr_Address (nodes ! i ! 0) = ''''")
      case empty: True
      then have "peerAddress (nodes ! i) = ''''" by (auto simp: peerAddress_def split: list.split)
      with "1.IH"(1) [OF True refl empty] "1.prems" True z d t empty show ?thesis
        by (subst popNodes_loop.simps) (simp add: Let_def)
    next
      case addr: False
      then have "peerAddress (nodes ! i) = addr_Address (nodes ! i ! 0)"
        by (auto simp: peerAddress_def split: list.split)
      with "1.IH"(2) [OF True refl addr] "1.prems" True z d addr show ?thesis
        by (subst popNodes_loop.simps) (simp add: Let_def take_Suc_conv_app_nth)
    qed
  qed
qed

lemma popNodes_eq:
  "popNodes nodes cnt = (map peerAddress (take cnt nodes), drop cnt nodes)"
proof -
  have "popNodes_loop nodes (min cnt (length nodes)) 0 (replicate (min cnt (length nodes)) '''') =
      map peerAddress (take (min cnt (length nodes)) nodes)"
    by (subst popNodes_loop_eq) simp_all
  moreover have "(if cnt > length nodes then length nodes else cnt) = min cnt (length nodes)" by simp
  ultimately show ?thesis by (simp add: popNodes_def Let_def min_def)
qed

lemma nodesBatchCount_le: "nodesBatchCount i m \<le> m"
  by (simp add: nodesBatchCount_def Let_def)

lemma nodesBatchCount_pos: "0 < m \<Longrightarrow> 0 < nodesBatchCount i m"
  by (auto simp: nodesBatchCount_def Let_def)

section \<open>The verdict of the loop\<close>

definition fair_sched :: "(nat \<Rightarrow> string list \<Rightarrow> string list) \<Rightarrow> bool" where
  "fair_sched sched \<longleftrightarrow> (\<forall>i addresses. mset (sched i addresses) = mset addresses)"

lemma fair_sched_length: "fair_sched sched \<Longrightarrow> length (sched i as) = length as"
  by (metis fair_sched_def size_mset)

text \<open>
  The verdict on answers \<open>as\<close> of \<open>tried\<close> peers out of \<open>m\<close>, when \<open>s\<close> API errors are known from
  earlier batches and \<open>n\<close> is the number of all peers.
\<close>

definition verdict_spec ::
  "nat \<Rightarrow> int \<Rightarrow> nat \<Rightarrow> bool \<Rightarrow> HealthCheckResponseCode list \<Rightarrow> nat \<Rightarrow> bool" where
  "verdict_spec n s m healthy as tried \<longleftrightarrow>
     (if healthy
      then Healthy \<in> set as \<or>
        (Healthy \<notin> set as \<and> Unhealthy \<notin> set as \<and> int (n div 2) < s + int (count_list as ApiError))
      else Healthy \<notin> set as \<and>
        (Unhealthy \<in> set as \<or> tried = m \<and> s + int (count_list as ApiError) \<le> int (n div 2)))"

lemma verdict_spec_step:
  assumes "verdict_spec n (s + int (count_list as ApiError)) m healthy as' tried"
    and "Healthy \<notin> set as" and "Unhealthy \<notin> set as"
  shows "verdict_spec n s (k + m) healthy (as @ as') (k + tried)"
  using assms by (auto simp: verdict_spec_def split: if_splits)

declare handleError_loop.simps [simp del]

lemma answers_of_batch:
  assumes "answered rs = answered as"
  shows "Healthy \<in> set rs \<longleftrightarrow> Healthy \<in> set as" "Unhealthy \<in> set rs \<longleftrightarrow> Unhealthy \<in> set as"
    "count_list rs ApiError = count_list as ApiError"
  using answered_cong [OF assms] by (simp_all add: code_defs)

lemma count_list_pos: "0 < count_list xs x \<longleftrightarrow> x \<in> set xs"
  by (induction xs) auto

text \<open>What a round does with the answers \<open>rs\<close> of its batch.\<close>

lemma emits_round:
  assumes ans: "answered rs = answered (answers evs)" and att: "attempts evs = k"
    and s: "s + int (count_list rs ApiError) \<le> int (n div 2) \<Longrightarrow> Healthy \<notin> set rs \<Longrightarrow> Unhealthy \<notin> set rs \<Longrightarrow>
      emits (cont (s + int (count_list rs ApiError)))
        (\<lambda>res evs'. \<exists>b. res = Return b \<and>
           verdict_spec n (s + int (count_list rs ApiError)) m b (answers evs') (attempts evs'))"
    and le: "s \<le> int (n div 2)"
  shows "emits
    (if int (count_list rs Healthy) > 0 then do {
       modify (errorCount_update (\<lambda>_. 0));
       ret (Return True)
     }
     else if int (count_list rs Unhealthy) > 0 then ret (Return False)
     else if int (count_list rs ApiError) > 0 then
       if s + int (count_list rs ApiError) > int (n div 2) then ret (Return True)
       else cont (s + int (count_list rs ApiError))
     else cont s)
    (\<lambda>res evs'. \<exists>b. res = Return b \<and>
       verdict_spec n s (k + m) b (answers (evs @ evs')) (attempts (evs @ evs')))"
proof -
  note b = answers_of_batch [OF ans]
  consider (healthy) "Healthy \<in> set rs" | (unhealthy) "Healthy \<notin> set rs" "Unhealthy \<in> set rs"
    | (errors) "Healthy \<notin> set rs" "Unhealthy \<notin> set rs" "int (n div 2) < s + int (count_list rs ApiError)"
    | (cont) "Healthy \<notin> set rs" "Unhealthy \<notin> set rs" "s + int (count_list rs ApiError) \<le> int (n div 2)"
    by linarith
  then show ?thesis
  proof cases
    case healthy
    with b show ?thesis
      by (simp add: count_list_pos) (intro emits_intros exI [of _ True] conjI refl; simp add: verdict_spec_def)
  next
    case unhealthy
    with b show ?thesis
      by (simp add: count_list_pos) (intro emits_ret exI [of _ False] conjI refl; simp add: verdict_spec_def)
  next
    case errors
    with le have "0 < count_list rs ApiError" by linarith
    with errors b show ?thesis
      by (simp add: count_list_pos) (intro emits_ret exI [of _ True] conjI refl; simp add: verdict_spec_def)
  next
    case cont
    have c: "emits (cont (s + int (count_list rs ApiError))) (\<lambda>res evs'. \<exists>b. res = Return b \<and>
       verdict_spec n s (k + m) b (answers (evs @ evs')) (attempts (evs @ evs')))"
      using s [OF cont(3,1,2)] cont b att
      by (elim emits_mono) (auto intro!: verdict_spec_step)
    have "count_list rs ApiError = 0 \<or> 0 < count_list rs ApiError" by blast
    with c cont show ?thesis by (auto simp: count_list_pos not_less)
  qed
qed

lemma handleError_loop_unfold:
  assumes "nodes \<noteq> []" and "fair_sched sched"
  shows "handleError_loop env cfg sched n i nodes s = do {
     let k = nodesBatchCount i (length nodes);
     rs \<leftarrow> askPeers env cfg (sched i (map peerAddress (take k nodes))) [];
     case sumPeersResponses k rs of
       Return (h, u, a, _) \<Rightarrow>
         if h > 0 then do {
           modify (errorCount_update (\<lambda>_. 0));
           ret (Return True)
         }
         else if u > 0 then ret (Return False)
         else if a > 0 then
           if s + a > int (n div 2) then ret (Return True)
           else handleError_loop env cfg sched n (Suc i) (drop k nodes) (s + a)
         else handleError_loop env cfg sched n (Suc i) (drop k nodes) s
     | Panic \<Rightarrow> ret Panic
     | Block \<Rightarrow> ret Block
   }"
  using assms(1) nodesBatchCount_le [of i "length nodes"]
  by (subst handleError_loop.simps) (unfold popNodes_eq Let_def fst_conv snd_conv, simp add: min_absorb2)

lemma emits_handleError_loop:
  assumes "fair_sched sched"
  shows "s \<le> int (n div 2) \<Longrightarrow> emits (handleError_loop env cfg sched n i nodes s)
     (\<lambda>res evs. \<exists>b. res = Return b \<and> verdict_spec n s (length nodes) b (answers evs) (attempts evs))"
proof (induction "length nodes" arbitrary: i nodes s rule: less_induct)
  case less
  show ?case
  proof (cases "nodes = []")
    case True
    with less.prems show ?thesis
      by (subst handleError_loop.simps, simp)
         (intro emits_ret exI [of _ False] conjI refl; simp add: verdict_spec_def)
  next
    case False
    let ?k = "nodesBatchCount i (length nodes)"
    have k: "0 < ?k" "?k \<le> length nodes"
      using False nodesBatchCount_pos nodesBatchCount_le by simp_all
    have len: "length (sched i (map peerAddress (take ?k nodes))) = ?k"
      using fair_sched_length [OF assms] k by simp
    show ?thesis
      unfolding handleError_loop_unfold [OF False assms] Let_def
    proof (rule emits_bind [OF emits_askPeers], unfold len append_Nil, elim exE conjE)
      fix chan evs rs
      assume rs: "chan = rs" "length rs = ?k" "answered rs = answered (answers evs)" "attempts evs = ?k"
      have sum: "sumPeersResponses ?k chan = Return (int (count_list rs Healthy), int (count_list rs Unhealthy),
          int (count_list rs ApiError), int (count_list rs RequestFailed))"
        using sumPeersResponses_eq [of rs] rs(1,2) by simp
      have m: "length nodes = ?k + (length nodes - ?k)" using k by simp
      show "emits
        (case sumPeersResponses ?k chan of
           Return (h, u, a, x) \<Rightarrow>
             if h > 0 then do { modify (errorCount_update (\<lambda>_. 0)); ret (Return True) }
             else if u > 0 then ret (Return False)
             else if a > 0 then
               if s + a > int (n div 2) then ret (Return True)
               else handleError_loop env cfg sched n (Suc i) (drop ?k nodes) (s + a)
             else handleError_loop env cfg sched n (Suc i) (drop ?k nodes) s
         | Panic \<Rightarrow> ret Panic | Block \<Rightarrow> ret Block)
        (\<lambda>res evs'. \<exists>b. res = Return b \<and>
          verdict_spec n s (length nodes) b (answers (evs @ evs')) (attempts (evs @ evs')))"
        unfolding sum call.case prod.case
        by (subst (2) m, rule emits_round [OF rs(3,4)])
           (use less.hyps [of "drop ?k nodes"] k less.prems in auto)
    qed
  qed
qed


section \<open>Rounds\<close>

text \<open>The batches into which the peers are cut, and the loop as a recursion over them.\<close>

function batches :: "nat \<Rightarrow> NodeAddress list list \<Rightarrow> string list list" where
  "batches i nodes =
     (if nodes = [] then []
      else let k = nodesBatchCount i (length nodes)
           in map peerAddress (take k nodes) # batches (Suc i) (drop k nodes))"
  by pat_completeness auto
termination
  by (relation "measure (\<lambda>(i, nodes). length nodes)") (auto simp: nodesBatchCount_pos)

function rounds :: "nat \<Rightarrow> nat \<Rightarrow> nat" where
  "rounds i m = (if m = 0 then 0 else Suc (rounds (Suc i) (m - nodesBatchCount i m)))"
  by pat_completeness auto
termination
  by (relation "measure (\<lambda>(i, m). m)") (auto simp: nodesBatchCount_pos)

primrec ask_batches ::
  "('s, 'c) api_env \<Rightarrow> ApiConnectivityCheckConfig \<Rightarrow> (nat \<Rightarrow> string list \<Rightarrow> string list) \<Rightarrow> nat \<Rightarrow>
    string list list \<Rightarrow> nat \<Rightarrow> int \<Rightarrow> (('s, 'c) ApiConnectivityCheck, bool call) state" where
  "ask_batches env cfg sched n [] i s = ret (Return False)"
| "ask_batches env cfg sched n (batch # bs) i s = do {
     rs \<leftarrow> askPeers env cfg (sched i batch) [];
     case sumPeersResponses (length batch) rs of
       Return (h, u, a, _) \<Rightarrow>
         if h > 0 then do {
           modify (errorCount_update (\<lambda>_. 0));
           ret (Return True)
         }
         else if u > 0 then ret (Return False)
         else if a > 0 then
           if s + a > int (n div 2) then ret (Return True)
           else ask_batches env cfg sched n bs (Suc i) (s + a)
         else ask_batches env cfg sched n bs (Suc i) s
     | Panic \<Rightarrow> ret Panic
     | Block \<Rightarrow> ret Block
   }"

declare batches.simps [simp del] rounds.simps [simp del]

lemma batches_Nil [simp]: "batches i [] = []"
  by (simp add: batches.simps)

lemma batches_Cons:
  "nodes \<noteq> [] \<Longrightarrow> batches i nodes = map peerAddress (take (nodesBatchCount i (length nodes)) nodes) #
     batches (Suc i) (drop (nodesBatchCount i (length nodes)) nodes)"
  by (subst batches.simps) (simp add: Let_def)

lemma concat_batches: "concat (batches i nodes) = map peerAddress nodes"
proof (induction i nodes rule: batches.induct)
  case (1 i nodes)
  show ?case
  proof (cases "nodes = []")
    case False
    with 1 show ?thesis
      by (simp add: batches_Cons flip: map_append)
  qed simp
qed

lemma length_batches: "length (batches i nodes) = rounds i (length nodes)"
proof (induction i nodes rule: batches.induct)
  case (1 i nodes)
  then show ?case
    by (cases "nodes = []") (simp_all add: batches_Cons rounds.simps [of _ "length nodes"] rounds.simps [of _ 0])
qed

lemma handleError_loop_batches:
  "fair_sched sched \<Longrightarrow>
     handleError_loop env cfg sched n i nodes s = ask_batches env cfg sched n (batches i nodes) i s"
proof (induction i nodes arbitrary: s rule: batches.induct)
  case (1 i nodes)
  show ?case
  proof (cases "nodes = []")
    case True
    then show ?thesis by (subst handleError_loop.simps) simp
  next
    case False
    with 1 have IH: "handleError_loop env cfg sched n (Suc i) (drop (nodesBatchCount i (length nodes)) nodes) s' =
        ask_batches env cfg sched n (batches (Suc i) (drop (nodesBatchCount i (length nodes)) nodes)) (Suc i) s'"
      for s' by simp
    show ?thesis
      unfolding handleError_loop_unfold [OF False "1.prems"] batches_Cons [OF False] ask_batches.simps IH Let_def
      using nodesBatchCount_le [of i "length nodes"] by (simp add: min_absorb2)
  qed
qed

text \<open>From the second round on, a tenth of what is left is asked, or one peer.\<close>

lemma rounds_small: "m < 20 \<Longrightarrow> rounds (Suc i) m = m"
proof (induction m arbitrary: i rule: less_induct)
  case (less m)
  show ?case
  proof (cases "m = 0")
    case True
    then show ?thesis by (simp add: rounds.simps)
  next
    case False
    have "nodesBatchCount (Suc i) m = 1"
      using less.prems False by (cases "m < 10") (auto simp: nodesBatchCount_def Let_def)
    with False less show ?thesis by (subst rounds.simps) simp
  qed
qed

lemma rounds_large: "20 \<le> m \<Longrightarrow> 19 \<le> rounds (Suc i) m"
proof (induction m arbitrary: i rule: less_induct)
  case (less m)
  have k: "nodesBatchCount (Suc i) m = m div 10"
    using less.prems by (auto simp: nodesBatchCount_def Let_def)
  have r: "rounds (Suc i) m = Suc (rounds (Suc (Suc i)) (m - m div 10))"
    using less.prems k by (subst rounds.simps) simp
  show ?case
  proof (cases "m - m div 10 < 20")
    case True
    have "18 \<le> m - m div 10" using less.prems by linarith
    with True r rounds_small [OF True, of "Suc i"] show ?thesis by simp
  next
    case False
    have "m - m div 10 < m" using less.prems by linarith
    with less.IH [of "m - m div 10" "Suc i"] False r show ?thesis by simp
  qed
qed

lemma rounds_0: "rounds 0 n = (if n = 0 then 0 else Suc (rounds (Suc 0) (n - 3)))"
  by (subst rounds.simps) (auto simp: nodesBatchCount_def Let_def)

lemma rounds_le_11: "rounds 0 n \<le> 11 \<longleftrightarrow> n \<le> 13"
proof (cases "n - 3 < 20")
  case True
  then show ?thesis using rounds_small [of "n - 3" 0] by (auto simp: rounds_0)
next
  case False
  then show ?thesis using rounds_large [of "n - 3" 0] by (auto simp: rounds_0)
qed


section \<open>The whole check\<close>

definition handleError_spec ::
  "ApiConnectivityCheckConfig \<Rightarrow> int \<Rightarrow> bool \<Rightarrow> api_event list \<Rightarrow> bool" where
  "handleError_spec cfg errors healthy evs \<longleftrightarrow>
     (if errors + 1 < cfg_MaxErrorsThreshold cfg then healthy \<and> evs = []
      else \<exists>nodes evs'. evs = APeers nodes # evs' \<and>
        (if nodes = [] then healthy \<and> evs' = []
         else verdict_spec (length nodes) 0 (length nodes) healthy (answers evs') (attempts evs')))"

lemma handleError_trace:
  assumes "fair_sched sched"
  shows "\<exists>healthy evs. fst (run_state (handleError env cfg sched) c) = Return healthy \<and>
    trace (snd (run_state (handleError env cfg sched) c)) = trace c @ evs \<and>
    handleError_spec cfg (errorCount c) healthy evs"
proof (cases "errorCount c + 1 < cfg_MaxErrorsThreshold cfg")
  case True
  then show ?thesis
    by (intro exI [of _ True] exI [of _ "[]"]) (simp add: handleError_def run_simps handleError_spec_def)
next
  case False
  obtain nodes w where p: "run_state (api_peers env) (world c) = (nodes, w)" by (metis surj_pair)
  let ?c = "(errorCount_update (\<lambda>n. n + 1) c)\<lparr>world := w, trace := trace c @ [APeers nodes]\<rparr>"
  show ?thesis
  proof (cases "nodes = []")
    case True
    with False p show ?thesis
      by (intro exI [of _ True] exI [of _ "[APeers []]"])
         (simp add: handleError_def run_simps handleError_spec_def)
  next
    case ne: False
    then have run: "run_state (handleError env cfg sched) c =
        run_state (handleError_loop env cfg sched (length nodes) 0 nodes 0) ?c"
      using False p by (simp add: handleError_def run_simps)
    have "emits (handleError_loop env cfg sched (length nodes) 0 nodes 0)
        (\<lambda>res evs. \<exists>b. res = Return b \<and> verdict_spec (length nodes) 0 (length nodes) b (answers evs) (attempts evs))"
      by (rule emits_handleError_loop [OF assms]) simp
    then obtain evs b where "trace (snd (run_state (handleError_loop env cfg sched (length nodes) 0 nodes 0) ?c)) = trace ?c @ evs"
      "fst (run_state (handleError_loop env cfg sched (length nodes) 0 nodes 0) ?c) = Return b"
      "verdict_spec (length nodes) 0 (length nodes) b (answers evs) (attempts evs)"
      unfolding emits_def by blast
    with run False ne show ?thesis
      by (intro exI [of _ b] exI [of _ "APeers nodes # evs"]) (simp add: handleError_spec_def)
  qed
qed

text \<open>A check that ends with the verdict unhealthy goes on to the rebooter.\<close>

lemma run_checkApiServer_unhealthy:
  assumes "run_state (api_readyz env) (world c) = (got, w)" and "got \<noteq> Inr 200"
    and "run_state (handleError env cfg sched) (c\<lparr>world := w, trace := trace c @ [AReadyz got]\<rparr>) = (Return False, c2)"
  shows "run_state (checkApiServer env cfg sched) c =
     (case run_state (api_reboot env) (world c2) of
        (e, w') \<Rightarrow> (case e of Return _ \<Rightarrow> Return () | Panic \<Rightarrow> Panic | Block \<Rightarrow> Block,
          c2\<lparr>world := w', trace := trace c2 @ [AReboot e]\<rparr>))"
  using assms
  by (cases got) (auto simp: checkApiServer_def run_simps Let_def split: prod.split call.split)

lemma run_checkApiServer_healthy:
  assumes "run_state (api_readyz env) (world c) = (got, w)" and "got \<noteq> Inr 200"
    and "run_state (handleError env cfg sched) (c\<lparr>world := w, trace := trace c @ [AReadyz got]\<rparr>) = (Return True, c2)"
  shows "run_state (checkApiServer env cfg sched) c = (Return (), c2)"
  using assms by (cases got) (auto simp: checkApiServer_def run_simps Let_def)

lemma run_checkApiServer_ok:
  assumes "run_state (api_readyz env) (world c) = (Inr 200, w)"
  shows "run_state (checkApiServer env cfg sched) c =
    (Return (), c\<lparr>world := w, trace := trace c @ [AReadyz (Inr 200)], errorCount := 0\<rparr>)"
  using assms by (simp add: checkApiServer_def run_simps Let_def)

lemma isolated_verdict:
  assumes "fair_sched sched" and "trace c = []" and "run_state (checkApiServer env cfg sched) c = (res, c')"
    and "trace c' = AReadyz (Inl err) # APeers nodes # evs" and "nodes \<noteq> []" and "answers evs = []"
  shows "\<exists>w c2 e w' pre. run_state (api_readyz env) (world c) = (Inl err, w) \<and>
    run_state (handleError env cfg sched) (c\<lparr>world := w, trace := trace c @ [AReadyz (Inl err)]\<rparr>) = (Return False, c2) \<and>
    run_state (api_reboot env) (world c2) = (e, w') \<and>
    res = (case e of Return _ \<Rightarrow> Return () | Panic \<Rightarrow> Panic | Block \<Rightarrow> Block) \<and> world c' = w' \<and>
    evs = pre @ [AReboot e] \<and> attempts pre = length nodes"
proof -
  obtain got w where g: "run_state (api_readyz env) (world c) = (got, w)" by (metis surj_pair)
  let ?c = "c\<lparr>world := w, trace := trace c @ [AReadyz got]\<rparr>"
  obtain healthy evs' c2 where h: "run_state (handleError env cfg sched) ?c = (Return healthy, c2)"
    "trace c2 = AReadyz got # evs'" "handleError_spec cfg (errorCount c) healthy evs'"
    using handleError_trace [OF assms(1), of env cfg ?c] assms(2)
    by (cases "run_state (handleError env cfg sched) ?c") auto
  obtain e w' where e: "run_state (api_reboot env) (world c2) = (e, w')" by (metis surj_pair)
  have ne: "got \<noteq> Inr 200"
    using run_checkApiServer_ok [of env c w cfg sched] g assms(2-4) by auto
  have t: "c' = (if healthy then c2 else c2\<lparr>world := w', trace := trace c2 @ [AReboot e]\<rparr>)"
    "\<not> healthy \<longrightarrow> res = (case e of Return _ \<Rightarrow> Return () | Panic \<Rightarrow> Panic | Block \<Rightarrow> Block)"
    using run_checkApiServer_healthy [OF g ne] run_checkApiServer_unhealthy [OF g ne] h(1) e assms(3)
    by (cases healthy; simp)+
  then have evs: "got = Inl err" "APeers nodes # evs = evs' @ (if healthy then [] else [AReboot e])"
    using assms(4) h(2) by (auto split: if_splits)
  then have "evs' \<noteq> []" by (cases evs') (auto split: if_splits)
  with h(3) evs obtain pre where p: "evs' = APeers nodes # pre"
    "verdict_spec (length nodes) 0 (length nodes) healthy (answers pre) (attempts pre)"
    using assms(5) by (auto simp: handleError_spec_def split: if_splits)
  with evs assms(6) have "answers pre = []" by (auto split: if_splits)
  with p(2) have u: "\<not> healthy" "attempts pre = length nodes" by (auto simp: verdict_spec_def split: if_splits)
  with g h(1) e t evs p(1) show ?thesis
    by auto
qed

section \<open>A sample agent\<close>

definition sample_cfg :: ApiConnectivityCheckConfig where
  "sample_cfg = \<lparr>cfg_MyNodeName = ''n1'', cfg_CheckInterval = 15 * Second, cfg_MaxErrorsThreshold = 3,
     cfg_ApiServerTimeout = 5 * Second, cfg_PeerDialTimeout = 5 * Second, cfg_PeerRequestTimeout = 5 * Second,
     cfg_PeerHealthPort = 30001\<rparr>"

text \<open>Two peers; \<open>reach\<close> tells whether they can be dialled, \<open>code\<close> is what they answer.\<close>

definition sample_api :: "bool \<Rightarrow> 32 word \<Rightarrow> (unit, unit) api_env" where
  "sample_api reach code = \<lparr>api_readyz = ret (Inl (Other ''timeout'')),
     api_peers = ret [[\<lparr>addr_Type = ''InternalIP'', addr_Address = ''10.0.0.2''\<rparr>],
       [\<lparr>addr_Type = ''InternalIP'', addr_Address = ''10.0.0.3''\<rparr>]],
     api_creds = ret (Inr ()), api_dial = (\<lambda>_ _. ret (if reach then Inr 0 else Inl (Other ''timeout''))),
     api_isHealthy = (\<lambda>_ _. ret (Inr code)), api_close = (\<lambda>_. ret ()), api_reboot = ret (Return None)\<rparr>"

definition sample_agent :: "(unit, unit) ApiConnectivityCheck" where
  "sample_agent = \<lparr>world = (), trace = [], errorCount = 2, clientCreds = Some ()\<rparr>"

lemma fair_id [simp]: "fair_sched (\<lambda>_ as. as)"
  by (simp add: fair_sched_def)

lemmas sample_api_eval = sample_api_def sample_agent_def sample_cfg_def handleError_def checkApiServer_def
  handleError_loop.simps getHealthStatusFromPeer_def initClientCreds_def run_simps popNodes_eq
  nodesBatchCount_def Let_def peerAddress_def sumPeersResponses_def code_defs

section \<open>Properties\<close>

text \<open>
  C5. The check always reaches a verdict, and the answers of the peers decide it. \<open>handleError\<close>
  returns (no receive from the channel blocks) a verdict such that: below the threshold of errors the
  node counts as healthy and nobody is asked; with no known peers it counts as healthy; otherwise
  it counts as healthy only if some peer said so, or if nobody called it unhealthy and more than half of all
  peers reported an API error; and it counts as unhealthy only if no peer called it healthy, and
  some peer called it unhealthy or every peer was tried and at most half of them reported an API
  error.
\<close>

theorem handleError_verdict:
  assumes "fair_sched sched" and "trace c = []" and "run_state (handleError env cfg sched) c = (res, c')"
  shows "\<exists>healthy. res = Return healthy \<and>
    (if errorCount c + 1 < cfg_MaxErrorsThreshold cfg then healthy \<and> trace c' = []
     else \<exists>nodes evs. trace c' = APeers nodes # evs \<and>
       (if nodes = [] then healthy \<and> evs = []
        else if healthy then Healthy \<in> set (answers evs) \<or>
          (Unhealthy \<notin> set (answers evs) \<and> length nodes div 2 < count_list (answers evs) ApiError)
        else Healthy \<notin> set (answers evs) \<and>
          (Unhealthy \<in> set (answers evs) \<or>
           attempts evs = length nodes \<and> count_list (answers evs) ApiError \<le> length nodes div 2)))"
proof -
  obtain healthy evs where h: "res = Return healthy" "trace c' = evs"
    "handleError_spec cfg (errorCount c) healthy evs"
    using handleError_trace [OF assms(1), of env cfg c] assms(2,3) by auto
  show ?thesis
    unfolding h(1,2) using h(3) unfolding handleError_spec_def verdict_spec_def
    by (intro exI [of _ healthy]) (auto split: if_splits)
qed

theorem handleError_verdict_witness:
  "\<exists>healthy nodes evs. fst (run_state (handleError (sample_api True 2) sample_cfg (\<lambda>_ as. as)) sample_agent) = Return healthy \<and>
     trace (snd (run_state (handleError (sample_api True 2) sample_cfg (\<lambda>_ as. as)) sample_agent)) = APeers nodes # evs \<and>
     nodes \<noteq> [] \<and> Unhealthy \<in> set (answers evs) \<and> \<not> healthy"
proof -
  let ?r = "run_state (handleError (sample_api True 2) sample_cfg (\<lambda>_ as. as)) sample_agent"
  have r: "fst ?r = Return False" by (simp add: sample_api_eval)
  have "answers (trace (snd ?r)) = [2, 2]" by (simp add: sample_api_eval)
  moreover have "\<exists>a as. trace (snd ?r) = APeers (a # as) # tl (trace (snd ?r))" by (simp add: sample_api_eval)
  ultimately show ?thesis
    using handleError_verdict [of "\<lambda>_ as. as" sample_agent "sample_api True 2" sample_cfg "fst ?r" "snd ?r"] r
    by (auto simp: sample_agent_def sample_cfg_def code_defs)
qed

text \<open>
  A node that is cut off reboots: when the API server does not answer for the third time (the
  threshold), the agent knows peers, and no peer answers, the check ends by calling the rebooter.
\<close>

lemma isolated_node_reboots:
  assumes "fair_sched sched" and "trace c = []" and "run_state (checkApiServer env cfg sched) c = (res, c')"
    and "trace c' = AReadyz (Inl err) # APeers nodes # evs" and "nodes \<noteq> []" and "answers evs = []"
  shows "\<exists>r pre. evs = pre @ [AReboot r] \<and> attempts pre = length nodes"
  using isolated_verdict [OF assms] by blast

text \<open>
  C25. Every peer is asked at most once, in the order of the list and in batches: the loop of
  \<open>handleError\<close> is a walk over a fixed partition of the peers into \<open>rounds\<close> batches, one address per
  peer.
\<close>

theorem peers_asked_in_batches:
  assumes "fair_sched sched"
  shows "handleError_loop env cfg sched n 0 nodes 0 = ask_batches env cfg sched n (batches 0 nodes) 0 0 \<and>
    concat (batches 0 nodes) = map peerAddress nodes \<and> length (batches 0 nodes) = rounds 0 (length nodes) \<and>
    (\<forall>b \<in> set (batches 0 nodes). b \<noteq> [])"
proof (intro conjI)
  have "\<forall>b \<in> set (batches i nodes). b \<noteq> []" for i
  proof (induction i nodes rule: batches.induct)
    case (1 i nodes)
    then show ?case
      by (cases "nodes = []") (auto simp: batches_Cons nodesBatchCount_pos dest: nodesBatchCount_pos [of "length nodes" i])
  qed
  then show "\<forall>b \<in> set (batches 0 nodes). b \<noteq> []" .
qed (simp_all add: handleError_loop_batches [OF assms] concat_batches length_batches)

theorem peers_asked_in_batches_witness:
  "handleError_loop (sample_api True 2) sample_cfg (\<lambda>_ as. as) 1 0 [[]] 0 =
     ask_batches (sample_api True 2) sample_cfg (\<lambda>_ as. as) 1 (batches 0 [[]]) 0 0 \<and>
   concat (batches 0 [[]]) = ['''']"
  using peers_asked_in_batches [of "\<lambda>_ as. as" "sample_api True 2" sample_cfg 1 "[[]]"]
  by (simp add: peerAddress_def)

text \<open>
  C26. How long the peers can keep an isolated node waiting: after the first batch of three, each
  batch is a tenth of the peers that are \<^emph>\<open>left\<close>, not of all peers. So the number of batches is at
  most the 11 that the safe reboot time allows for if and only if there are at most 13 peers; with
  20 further peers or more there are at least 20 batches.
\<close>

theorem batches_at_most_11:
  "(length (batches 0 nodes) \<le> 11 \<longleftrightarrow> length nodes \<le> 13) \<and>
   (length nodes < 23 \<or> 20 \<le> length (batches 0 nodes))"
proof
  show "length (batches 0 nodes) \<le> 11 \<longleftrightarrow> length nodes \<le> 13"
    unfolding length_batches by (rule rounds_le_11)
  have "20 \<le> rounds 0 (length nodes)" if "23 \<le> length nodes"
    using rounds_large [of "length nodes - 3" 0] that by (auto simp: rounds_0)
  then show "length nodes < 23 \<or> 20 \<le> length (batches 0 nodes)"
    unfolding length_batches by (meson not_less)
qed

text \<open>
  The order in which the answers of a batch arrive does not matter: receiving as many answers as
  were sent never blocks, and the four counts depend only on the multiset of the answers.
\<close>

lemma responses_order_irrelevant:
  assumes "mset rs = mset rs'"
  shows "sumPeersResponses (length rs) rs = sumPeersResponses (length rs) rs' \<and>
    (\<exists>counts. sumPeersResponses (length rs) rs = Return counts)"
proof -
  have "count_list rs c = count_list rs' c" for c using assms by (metis count_mset)
  moreover have "length rs = length rs'" using assms by (metis size_mset)
  ultimately show ?thesis using sumPeersResponses_eq [of rs] sumPeersResponses_eq [of rs'] by simp
qed

end
