(* ===== verification/Peers.thy ===== *)
theory Peers
  imports Kube_Objects "HOL-Library.Char_ord" "HOL-Library.List_Lexorder"
begin

text \<open>
  The list of peers, \<open>src/pkg/peers/peers.go\<close>, with the label selector it uses
  (\<open>src/vendor/k8s.io/apimachinery/pkg/labels/selector.go\<close>). Slices are references into an explicit
  store, because \<open>GetPeersAddresses\<close> makes a promise about sharing.
\<close>

section \<open>Label selectors\<close>

text \<open>The two operators that the peers use.\<close>

datatype Operator = NotEquals | Exists

record Requirement =
  req_key :: string
  req_operator :: Operator
  req_strValues :: "string list"

definition label_alnum :: "char \<Rightarrow> bool" where
  "label_alnum c = (CHR ''A'' \<le> c \<and> c \<le> CHR ''Z'' \<or> CHR ''a'' \<le> c \<and> c \<le> CHR ''z'' \<or>
     CHR ''0'' \<le> c \<and> c \<le> CHR ''9'')"

definition label_char :: "char \<Rightarrow> bool" where
  "label_char c = (label_alnum c \<or> c = CHR ''-'' \<or> c = CHR ''_'' \<or> c = CHR ''.'')"

text \<open>At most 63 characters, and \<open>(([A-Za-z0-9][-A-Za-z0-9_.]*)?[A-Za-z0-9])?\<close>.\<close>

definition IsValidLabelValue :: "string \<Rightarrow> bool" where
  "IsValidLabelValue v = (length v \<le> 63 \<and>
     (v = [] \<or> label_alnum (hd v) \<and> label_alnum (last v) \<and> list_all label_char v))"

text \<open>The keys of the program are constants and valid.\<close>

definition NewRequirement :: "string \<Rightarrow> Operator \<Rightarrow> string list \<Rightarrow> Requirement option" where
  "NewRequirement key oper vals =
     (if (case oper of NotEquals \<Rightarrow> length vals \<noteq> 1 | Exists \<Rightarrow> length vals \<noteq> 0) then None
      else if \<not> list_all IsValidLabelValue vals then None
      else Some \<lparr>req_key = key, req_operator = oper, req_strValues = vals\<rparr>)"

fun hasValue :: "string list \<Rightarrow> string \<Rightarrow> bool" where
  "hasValue [] v = False"
| "hasValue (x # xs) v = (if x = v then True else hasValue xs v)"

definition Requirement_Matches :: "Requirement \<Rightarrow> (string \<rightharpoonup> string) \<Rightarrow> bool" where
  "Requirement_Matches r ls =
     (case req_operator r of
        NotEquals \<Rightarrow> (case ls (req_key r) of None \<Rightarrow> True | Some v \<Rightarrow> \<not> hasValue (req_strValues r) v)
      | Exists \<Rightarrow> ls (req_key r) \<noteq> None)"

definition Selector_Add :: "Requirement list \<Rightarrow> Requirement list \<Rightarrow> Requirement list" where
  "Selector_Add s reqs = sort_key req_key (s @ reqs)"

fun Selector_Matches :: "Requirement list \<Rightarrow> (string \<rightharpoonup> string) \<Rightarrow> bool" where
  "Selector_Matches [] l = True"
| "Selector_Matches (r # rs) l = (if \<not> Requirement_Matches r l then False else Selector_Matches rs l)"

section \<open>The peers\<close>

definition hostnameLabelName :: string where
  "hostnameLabelName = ''kubernetes.io/hostname''"

definition workerLabelName :: string where
  "workerLabelName = ''node-role.kubernetes.io/worker''"

datatype peers_event =
    PGet ObjectKey "go_error + Node"
  | PList "Requirement list" "go_error + Node list"

record 's peers_env =
  peers_get :: "ObjectKey \<Rightarrow> ('s, go_error + Node) state"
  peers_list :: "Requirement list \<Rightarrow> ('s, go_error + Node list) state"

text \<open>
  A slice of addresses is a reference into \<open>heap\<close>; \<open>peersAddresses\<close> is a slice of such references.
\<close>

record 's Peers = "('s, peers_event) io" +
  heap :: "NodeAddress list list"
  peerSelector :: "Requirement list"
  peerUpdateInterval :: duration
  myNodeName :: string
  apiServerTimeout :: duration
  peersAddresses :: "nat list"

definition peers_New :: "string \<Rightarrow> duration \<Rightarrow> 's \<Rightarrow> duration \<Rightarrow> 's Peers" where
  "peers_New me interval reader timeout =
     \<lparr>world = reader, trace = [], heap = [], peerSelector = [], peerUpdateInterval = interval,
      myNodeName = me, apiServerTimeout = timeout, peersAddresses = []\<rparr>"

text \<open>
  \<open>Start\<close> up to the point where it spawns the updates: an error ends it, a nil requirement panics.
\<close>

definition peers_Start :: "'s peers_env \<Rightarrow> ('s Peers, go_error option call) state" where
  "peers_Start env = do {
     me \<leftarrow> gets myNodeName;
     let key = \<lparr>key_Namespace = '''', key_Name = me\<rparr>;
     got \<leftarrow> perform (peers_get env key) (PGet key);
     case got of
       Inl err \<Rightarrow> ret (Return (Some err))
     | Inr myNode \<Rightarrow>
         (case Labels (node_Meta myNode) hostnameLabelName of
            None \<Rightarrow> ret (Return (Some (Other (hostnameLabelName @ '' label not set on own node''))))
          | Some hostname \<Rightarrow>
              (case (NewRequirement hostnameLabelName NotEquals [hostname],
                     NewRequirement workerLabelName Exists []) of
                 (Some reqNotMe, Some reqWorkers) \<Rightarrow> do {
                   let selector = [];
                   let selector = Selector_Add selector [reqNotMe, reqWorkers];
                   modify (peerSelector_update (\<lambda>_. selector));
                   ret (Return None)
                 }
               | _ \<Rightarrow> ret Panic))
   }"

text \<open>The decoded list brings a slice of addresses for each node.\<close>

definition alloc :: "'a list \<Rightarrow> 'a list list \<Rightarrow> nat \<times> 'a list list" where
  "alloc xs h = (length h, h @ [xs])"

fun copyAddresses :: "Node list \<Rightarrow> NodeAddress list list \<Rightarrow> nat list \<Rightarrow> nat list \<times> NodeAddress list list" where
  "copyAddresses [] h addresses = (addresses, h)"
| "copyAddresses (node # nodes) h addresses =
     (case alloc (status_Addresses (node_Status node)) h of
        (ref, h') \<Rightarrow> copyAddresses nodes h' (addresses @ [ref]))"

definition updatePeers :: "'s peers_env \<Rightarrow> ('s Peers, unit) state" where
  "updatePeers env = do {
     selector \<leftarrow> gets peerSelector;
     got \<leftarrow> perform (peers_list env selector) (PList selector);
     case got of
       Inl err \<Rightarrow>
         if IsNotFound err then modify (peersAddresses_update (\<lambda>_. [])) else ret ()
     | Inr nodes \<Rightarrow> do {
         h \<leftarrow> gets heap;
         let (addresses, h') = copyAddresses nodes h [];
         modify (heap_update (\<lambda>_. h'));
         modify (peersAddresses_update (\<lambda>_. addresses))
       }
   }"

text \<open>
  The loop of \<open>GetPeersAddresses\<close>: each round makes a new slice of zero addresses for position \<open>i\<close>
  and then copies all of \<open>p.peersAddresses\<close>, the references, over the result.
\<close>

definition zeroAddress :: NodeAddress where
  "zeroAddress = \<lparr>addr_Type = '''', addr_Address = ''''\<rparr>"

fun GetPeersAddresses_loop ::
  "nat list \<Rightarrow> nat list \<Rightarrow> NodeAddress list list \<Rightarrow> nat list \<Rightarrow> nat list \<times> NodeAddress list list" where
  "GetPeersAddresses_loop addrs [] h addressesCopy = (addressesCopy, h)"
| "GetPeersAddresses_loop addrs (i # is) h addressesCopy =
     (case alloc (replicate (length (h ! (addrs ! i))) zeroAddress) h of
        (ref, h') \<Rightarrow>
          let addressesCopy = addressesCopy[i := ref];
              addressesCopy = take (length addressesCopy) addrs @ drop (length addrs) addressesCopy
          in GetPeersAddresses_loop addrs is h' addressesCopy)"

text \<open>A nil slice is written as the reference 0 until it is assigned.\<close>

definition GetPeersAddresses :: "('s Peers, nat list) state" where
  "GetPeersAddresses = do {
     addrs \<leftarrow> gets peersAddresses;
     h \<leftarrow> gets heap;
     let addressesCopy = replicate (length addrs) 0;
     let (addressesCopy, h') = GetPeersAddresses_loop addrs [0..<length addrs] h addressesCopy;
     modify (heap_update (\<lambda>_. h'));
     ret addressesCopy
   }"

text \<open>What a caller reads through a slice of references.\<close>

definition read_addresses :: "'s Peers \<Rightarrow> nat list \<Rightarrow> NodeAddress list list" where
  "read_addresses p refs = map (\<lambda>ref. heap p ! ref) refs"

text \<open>What the API server documents of a list with a label selector.\<close>

definition list_obeys_selector :: "'s peers_env \<Rightarrow> bool" where
  "list_obeys_selector env \<longleftrightarrow> (\<forall>sel s nodes n. fst (run_state (peers_list env sel) s) = Inr nodes \<longrightarrow>
     n \<in> set nodes \<longrightarrow> Selector_Matches sel (Labels (node_Meta n)))"

section \<open>Lemmas\<close>

lemma hasValue_iff [simp]: "hasValue xs v \<longleftrightarrow> v \<in> set xs"
  by (induction xs) auto

lemma Selector_Matches_iff: "Selector_Matches rs l \<longleftrightarrow> (\<forall>r \<in> set rs. Requirement_Matches r l)"
  by (induction rs) auto

lemma set_Selector_Add [simp]: "set (Selector_Add s reqs) = set s \<union> set reqs"
  by (simp add: Selector_Add_def)

lemma copyAddresses_eq:
  "copyAddresses nodes h acc =
     (acc @ [length h ..< length h + length nodes], h @ map (\<lambda>n. status_Addresses (node_Status n)) nodes)"
proof (induction nodes arbitrary: h acc)
  case (Cons n ns)
  have "[length h ..< Suc (length h + length ns)] = length h # [Suc (length h) ..< Suc (length h) + length ns]"
    by (subst upt_conv_Cons) simp_all
  with Cons.IH [of "h @ [status_Addresses (node_Status n)]" "acc @ [length h]"] show ?case
    by (simp add: alloc_def del: upt_Suc)
qed simp

lemma GetPeersAddresses_loop_eq:
  assumes "length acc = length addrs" and "ks \<noteq> []"
  shows "\<exists>h'. GetPeersAddresses_loop addrs ks h acc = (addrs, h @ h')"
  using assms
proof (induction ks arbitrary: h acc)
  case (Cons k ks)
  show ?case
  proof (cases "ks = []")
    case True
    with Cons.prems show ?thesis by (simp add: alloc_def)
  next
    case False
    with Cons.IH [of addrs "h @ [replicate (length (h ! (addrs ! k))) zeroAddress]"] Cons.prems
    show ?thesis by (auto simp: alloc_def)
  qed
qed simp

lemma run_GetPeersAddresses:
  "\<exists>h'. run_state GetPeersAddresses p = (peersAddresses p, p\<lparr>heap := heap p @ h'\<rparr>)"
proof (cases "peersAddresses p = []")
  case True
  then show ?thesis
    by (intro exI [of _ "[]"]) (simp add: GetPeersAddresses_def run_simps)
next
  case False
  then obtain h' where "GetPeersAddresses_loop (peersAddresses p) [0..<length (peersAddresses p)] (heap p)
      (replicate (length (peersAddresses p)) 0) = (peersAddresses p, heap p @ h')"
    using GetPeersAddresses_loop_eq [of "replicate (length (peersAddresses p)) 0" "peersAddresses p"
        "[0..<length (peersAddresses p)]" "heap p"] by auto
  then show ?thesis
    by (intro exI [of _ h']) (simp add: GetPeersAddresses_def run_simps Let_def)
qed

lemma run_updatePeers:
  "run_state (updatePeers env) p =
     (let (got, w) = run_state (peers_list env (peerSelector p)) (world p);
          p = p\<lparr>world := w, trace := trace p @ [PList (peerSelector p) got]\<rparr>
      in ((), case got of
           Inl err \<Rightarrow> if err = NotFound then p\<lparr>peersAddresses := []\<rparr> else p
         | Inr nodes \<Rightarrow> p\<lparr>heap := heap p @ map (\<lambda>n. status_Addresses (node_Status n)) nodes,
             peersAddresses := [length (heap p) ..< length (heap p) + length nodes]\<rparr>))"
  by (simp add: updatePeers_def run_simps copyAddresses_eq split: prod.split sum.split)

lemma read_addresses_fresh:
  "heap p = h @ xss \<Longrightarrow> read_addresses p [length h ..< length h + length xss] = xss"
  by (rule nth_equalityI) (simp_all add: read_addresses_def nth_append)

lemma peers_Start_selector:
  assumes "run_state (peers_Start env) p = (Return None, p1)"
  shows "\<exists>myNode hostname. PGet \<lparr>key_Namespace = '''', key_Name = myNodeName p\<rparr> (Inr myNode) \<in> set (trace p1) \<and>
    Labels (node_Meta myNode) hostnameLabelName = Some hostname \<and>
    set (peerSelector p1) =
      {\<lparr>req_key = hostnameLabelName, req_operator = NotEquals, req_strValues = [hostname]\<rparr>,
       \<lparr>req_key = workerLabelName, req_operator = Exists, req_strValues = []\<rparr>}"
  using assms
  by (auto simp: peers_Start_def run_simps Let_def NewRequirement_def split: sum.splits option.splits if_splits)

section \<open>Properties\<close>

text \<open>
  What an update does to the list of peers: an answer replaces it by the addresses of the listed
  nodes, in their order; a not-found answer empties it; after any other error the peers known so far
  stay as they are, so an agent that has lost the API server still has peers to ask.
\<close>

lemma updatePeers_addresses:
  "let p' = snd (run_state (updatePeers env) p)
   in case fst (run_state (peers_list env (peerSelector p)) (world p)) of
        Inr nodes \<Rightarrow> read_addresses p' (peersAddresses p') = map (\<lambda>n. status_Addresses (node_Status n)) nodes
      | Inl err \<Rightarrow> peersAddresses p' = (if IsNotFound err then [] else peersAddresses p) \<and> heap p' = heap p"
proof (cases "run_state (peers_list env (peerSelector p)) (world p)")
  case (Pair got w)
  show ?thesis
  proof (cases got)
    case (Inl err)
    with Pair show ?thesis by (simp add: run_updatePeers Let_def)
  next
    case (Inr nodes)
    let ?p = "snd (run_state (updatePeers env) p)"
    have "heap ?p = heap p @ map (\<lambda>n. status_Addresses (node_Status n)) nodes"
      "peersAddresses ?p = [length (heap p) ..< length (heap p) + length (map (\<lambda>n. status_Addresses (node_Status n)) nodes)]"
      using Pair Inr by (simp_all add: run_updatePeers Let_def)
    with read_addresses_fresh [of ?p "heap p" "map (\<lambda>n. status_Addresses (node_Status n)) nodes"] Pair Inr
    show ?thesis by (simp add: Let_def)
  qed
qed

text \<open>
  An agent never counts its own node among its peers: after a successful start, if the API server
  lists only nodes that match the selector, every listed node is a worker and its host name is not
  the one on the agent's own node, which was read from the API.
\<close>

lemma peers_exclude_self:
  assumes "run_state (peers_Start env) p = (Return None, p1)"
    and "list_obeys_selector env"
    and "fst (run_state (peers_list env (peerSelector p1)) (world p1)) = Inr nodes" and "n \<in> set nodes"
  shows "workerLabelName \<in> dom (Labels (node_Meta n)) \<and>
    (\<exists>myNode hostname. PGet \<lparr>key_Namespace = '''', key_Name = myNodeName p\<rparr> (Inr myNode) \<in> set (trace p1) \<and>
      Labels (node_Meta myNode) hostnameLabelName = Some hostname \<and>
      Labels (node_Meta n) hostnameLabelName \<noteq> Some hostname)"
proof -
  obtain myNode hostname where m:
    "PGet \<lparr>key_Namespace = '''', key_Name = myNodeName p\<rparr> (Inr myNode) \<in> set (trace p1)"
    "Labels (node_Meta myNode) hostnameLabelName = Some hostname"
    "set (peerSelector p1) =
      {\<lparr>req_key = hostnameLabelName, req_operator = NotEquals, req_strValues = [hostname]\<rparr>,
       \<lparr>req_key = workerLabelName, req_operator = Exists, req_strValues = []\<rparr>}"
    using peers_Start_selector [OF assms(1)] by blast
  have "Selector_Matches (peerSelector p1) (Labels (node_Meta n))" 
    using assms(2-4) by (auto simp: list_obeys_selector_def)
  with m(3) have "workerLabelName \<in> dom (Labels (node_Meta n))"
    "Labels (node_Meta n) hostnameLabelName \<noteq> Some hostname"
    by (auto simp: Selector_Matches_iff Requirement_Matches_def split: option.splits)
  with m(1,2) show ?thesis by blast
qed

definition sample_peer :: "string \<Rightarrow> Node" where
  "sample_peer name = \<lparr>node_Kind = ''Node'', node_APIVersion = ''v1'',
     node_Meta = emptyMeta\<lparr>Name := name, Labels := [hostnameLabelName \<mapsto> name, workerLabelName \<mapsto> '''']\<rparr>,
     node_Spec = \<lparr>spec_PodCIDR = '''', spec_PodCIDRs = [], spec_ProviderID = '''', spec_Unschedulable = False,
       spec_Taints = []\<rparr>,
     node_Status = emptyNodeStatus\<lparr>status_Addresses := [\<lparr>addr_Type = ''InternalIP'', addr_Address = name\<rparr>]\<rparr>\<rparr>"

definition sample_peers_env :: "unit peers_env" where
  "sample_peers_env = \<lparr>peers_get = (\<lambda>_. ret (Inr (sample_peer ''n1''))),
     peers_list = (\<lambda>sel. ret (Inr (filter (\<lambda>n. Selector_Matches sel (Labels (node_Meta n)))
       [sample_peer ''n1'', sample_peer ''n2''])))\<rparr>"

definition sample_peers :: "unit Peers" where
  "sample_peers = snd (run_state (peers_Start sample_peers_env) (peers_New ''n1'' (15 * Minute) () (5 * Second)))"

lemmas sample_peers_eval = sample_peers_def peers_Start_def sample_peers_env_def peers_New_def run_simps Let_def
  sample_peer_def NewRequirement_def IsValidLabelValue_def label_alnum_def label_char_def
  hostnameLabelName_def workerLabelName_def Selector_Add_def Requirement_Matches_def emptyMeta_def

lemma sample_peers_start:
  "run_state (peers_Start sample_peers_env) (peers_New ''n1'' (15 * Minute) () (5 * Second)) =
     (Return None, sample_peers)"
  by (simp add: sample_peers_eval less_eq_char_def)

text \<open>
  C32. What \<open>GetPeersAddresses\<close> returns, and that it shares: the result reads as the current list and
  leaves the list as it is, but it holds the very references of the list, in spite of the slices
  that the loop allocates. So a caller that writes an address through the result changes what the
  next caller gets, although a comment promises a deep copy.
\<close>

theorem GetPeersAddresses_shares:
  assumes "run_state GetPeersAddresses p = (res, p')" and "\<forall>ref \<in> set (peersAddresses p). ref < length (heap p)"
  shows "res = peersAddresses p \<and> peersAddresses p' = peersAddresses p \<and>
    read_addresses p' res = read_addresses p (peersAddresses p) \<and>
    (\<forall>i xs. i < length res \<longrightarrow>
      read_addresses (p'\<lparr>heap := (heap p')[res ! i := xs]\<rparr>) (peersAddresses p') ! i = xs)"
proof -
  obtain h' where "run_state GetPeersAddresses p = (peersAddresses p, p\<lparr>heap := heap p @ h'\<rparr>)"
    using run_GetPeersAddresses by blast
  with assms have r: "res = peersAddresses p" "p' = p\<lparr>heap := heap p @ h'\<rparr>" by auto
  have "peersAddresses p ! i < length (heap p @ h')" if "i < length (peersAddresses p)" for i
    using assms(2) nth_mem [OF that] by (simp add: trans_less_add1)
  with r assms(2) show ?thesis by (auto simp: read_addresses_def nth_append)
qed

theorem GetPeersAddresses_shares_witness:
  "let p = snd (run_state (updatePeers sample_peers_env) sample_peers);
       (res, p') = run_state GetPeersAddresses p
   in read_addresses p' res = [[\<lparr>addr_Type = ''InternalIP'', addr_Address = ''n2''\<rparr>]] \<and>
      read_addresses (p'\<lparr>heap := (heap p')[res ! 0 := []]\<rparr>) (peersAddresses p') ! 0 = []"
proof -
  let ?p = "snd (run_state (updatePeers sample_peers_env) sample_peers)"
  have p: "peersAddresses ?p = [0]" "heap ?p = [[\<lparr>addr_Type = ''InternalIP'', addr_Address = ''n2''\<rparr>]]"
    by (simp_all add: run_updatePeers Let_def sample_peers_eval less_eq_char_def)
  obtain res p' where r: "run_state GetPeersAddresses ?p = (res, p')" by (metis surj_pair)
  from GetPeersAddresses_shares [OF r] p show ?thesis
    by (auto simp: r read_addresses_def)
qed


end
