(* ===== verification/Peer_Health.thy ===== *)
theory Peer_Health
  imports Remediation_Safety Strconv
begin

text \<open>
  The peer health service, \<open>src/pkg/peerhealth/server.go\<close> and \<open>client.go\<close>: an agent answers, for a
  node that asks, whether a PPR for that node exists, from what the remediation controller of the same
  process has seen last (\<open>lastSeenPprNamespace\<close>, \<open>wasLastSeenPprMachine\<close>) and what the API server says
  now. The messages are those of \<open>peerhealth.pb.go\<close>; the dynamic client and the transport are
  arguments.
\<close>

section \<open>Messages\<close>

record HealthRequest =
  NodeName :: string

record HealthResponse =
  Status :: "32 word"

definition GetNodeName :: "HealthRequest option \<Rightarrow> string" where
  "GetNodeName x = (case x of Some r \<Rightarrow> NodeName r | None \<Rightarrow> '''')"

definition GetStatus :: "HealthResponse option \<Rightarrow> 32 word" where
  "GetStatus x = (case x of Some r \<Rightarrow> Status r | None \<Rightarrow> 0)"

definition toResponse :: "HealthCheckResponseCode \<Rightarrow> go_error + HealthResponse" where
  "toResponse status = Inr \<lparr>Status = word_of_int status\<rparr>"

section \<open>Machine names\<close>

text \<open>\<open>cache.SplitMetaNamespaceKey\<close>.\<close>

definition SplitMetaNamespaceKey :: "string \<Rightarrow> go_error + string \<times> string" where
  "SplitMetaNamespaceKey key =
     (case split_slash key [] of
        [name] \<Rightarrow> Inr ('''', name)
      | [ns, name] \<Rightarrow> Inr (ns, name)
      | _ \<Rightarrow> Inl (Other (''unexpected key format: '' @ key)))"

section \<open>The server\<close>

definition machineAnnotation :: string where
  "machineAnnotation = ''machine.openshift.io/machine''"

definition apiServerTimeout :: duration where
  "apiServerTimeout = 3 * Second"

record 's dynamic_client =
  dyn_getPPR :: "ObjectKey \<Rightarrow> ('s, go_error + PoisonPillRemediation) state"
  dyn_getNode :: "ObjectKey \<Rightarrow> ('s, go_error + Node) state"

definition server_getNode :: "'s dynamic_client \<Rightarrow> string \<Rightarrow> ('s rec_state, go_error + Node) state" where
  "server_getNode client nodeName = do {
     let key = \<lparr>key_Namespace = '''', key_Name = nodeName\<rparr>;
     got \<leftarrow> perform (dyn_getNode client key) (EGetNode key);
     case got of
       Inl err \<Rightarrow> ret (Inl err)
     | Inr node \<Rightarrow> ret (Inr node)
   }"

definition isHealthyByPpr ::
  "'s dynamic_client \<Rightarrow> string \<Rightarrow> string \<Rightarrow> ('s rec_state, HealthCheckResponseCode) state" where
  "isHealthyByPpr client pprName pprNamespace = do {
     let key = \<lparr>key_Namespace = pprNamespace, key_Name = pprName\<rparr>;
     got \<leftarrow> perform (dyn_getPPR client key) (EGetPPR key);
     case got of
       Inl err \<Rightarrow> if IsNotFound err then ret Healthy else ret ApiError
     | Inr _ \<Rightarrow> ret Unhealthy
   }"

definition isHealthyNode ::
  "'s dynamic_client \<Rightarrow> string \<Rightarrow> string \<Rightarrow> ('s rec_state, HealthCheckResponseCode) state" where
  "isHealthyNode client nodeName ns = isHealthyByPpr client nodeName ns"

definition isHealthyMachine ::
  "'s dynamic_client \<Rightarrow> string \<Rightarrow> string \<Rightarrow> ('s rec_state, HealthCheckResponseCode) state" where
  "isHealthyMachine client nodeName ns = do {
     got \<leftarrow> server_getNode client nodeName;
     case got of
       Inl err \<Rightarrow> ret ApiError
     | Inr node \<Rightarrow> do {
         let ann = Annotations (node_Meta node);
         case ann machineAnnotation of
           None \<Rightarrow> ret Unhealthy
         | Some namespacedMachine \<Rightarrow>
             (case SplitMetaNamespaceKey namespacedMachine of
                Inl err \<Rightarrow> ret Unhealthy
              | Inr (_, machineName) \<Rightarrow> isHealthyByPpr client machineName ns)
       }
   }"

definition IsHealthy ::
  "'s dynamic_client \<Rightarrow> HealthRequest option \<Rightarrow> ('s rec_state, go_error + HealthResponse) state" where
  "IsHealthy client request = do {
     let nodeName = GetNodeName request;
     if nodeName = '''' then ret (Inl (Other ''empty node name in HealthRequest''))
     else do {
       ns \<leftarrow> GetLastSeenPprNamespace;
       isMachine \<leftarrow> WasLastSeenPprMachine;
       if ns = '''' then do {
         got \<leftarrow> server_getNode client nodeName;
         case got of
           Inl err \<Rightarrow> ret (toResponse ApiError)
         | Inr _ \<Rightarrow> ret (toResponse Healthy)
       }
       else if isMachine then do {
         code \<leftarrow> isHealthyMachine client nodeName ns;
         ret (toResponse code)
       }
       else do {
         code \<leftarrow> isHealthyNode client nodeName ns;
         ret (toResponse code)
       }
     }
   }"

section \<open>The client\<close>

datatype 'c DialOption = WithTransportCredentials 'c | WithInsecure | WithReturnConnectionError

text \<open>
  \<open>dial\<close> stands for \<open>grpc.DialContext\<close> under a timeout, \<open>invoke\<close> for the call over the connection.
\<close>

definition NewClient ::
  "(duration \<Rightarrow> string \<Rightarrow> 'c DialOption list \<Rightarrow> ('s, go_error + 'conn) state) \<Rightarrow> string \<Rightarrow> duration \<Rightarrow>
    'c option \<Rightarrow> ('s, go_error + 'conn) state" where
  "NewClient dial serverAddr peerDialTimeout creds = do {
     let opts = [];
     let opts = (case creds of
           Some c \<Rightarrow> opts @ [WithTransportCredentials c]
         | None \<Rightarrow> opts @ [WithInsecure]);
     let opts = opts @ [WithReturnConnectionError];
     got \<leftarrow> dial peerDialTimeout serverAddr opts;
     case got of
       Inl err \<Rightarrow> ret (Inl err)
     | Inr conn \<Rightarrow> ret (Inr conn)
   }"

definition peerHealthClient_IsHealthy ::
  "('conn \<Rightarrow> string \<Rightarrow> HealthRequest \<Rightarrow> ('s, go_error + HealthResponse) state) \<Rightarrow> 'conn \<Rightarrow> HealthRequest \<Rightarrow>
    ('s, go_error + HealthResponse) state" where
  "peerHealthClient_IsHealthy invoke cc req = do {
     got \<leftarrow> invoke cc ''/poisonpill.health.PeerHealth/IsHealthy'' req;
     case got of
       Inl err \<Rightarrow> ret (Inl err)
     | Inr out \<Rightarrow> ret (Inr out)
   }"

section \<open>Lemmas\<close>

lemmas server_defs = IsHealthy_def isHealthyMachine_def isHealthyNode_def isHealthyByPpr_def
  server_getNode_def GetLastSeenPprNamespace_def WasLastSeenPprMachine_def toResponse_def

lemma sint_word_of_int_32: "- (2 ^ 31) \<le> k \<Longrightarrow> k < 2 ^ 31 \<Longrightarrow> sint (word_of_int k :: 32 word) = k"
  by (simp add: sint_sbintrunc' signed_take_bit_int_eq_self)

lemma split_slash_nil: "CHR ''/'' \<notin> set xs \<Longrightarrow> split_slash xs acc = [acc @ xs]"
  by (induction xs arbitrary: acc) auto

lemma split_slash_append:
  "CHR ''/'' \<notin> set xs \<Longrightarrow> split_slash (xs @ CHR ''/'' # ys) acc = (acc @ xs) # split_slash ys []"
  by (induction xs arbitrary: acc) auto

lemma SplitMetaNamespaceKey_pair:
  "CHR ''/'' \<notin> set ns \<Longrightarrow> CHR ''/'' \<notin> set name \<Longrightarrow>
     SplitMetaNamespaceKey (ns @ CHR ''/'' # name) = Inr (ns, name)"
  by (simp add: SplitMetaNamespaceKey_def split_slash_append split_slash_nil)

section \<open>Properties\<close>

text \<open>
  C28. What an answer of the health service means. An answer is one of the three codes; it changes
  nothing that the controller keeps; \<open>Healthy\<close> is answered only when the controller has seen no PPR
  yet and the API server knows the node, or when the API server has no PPR of the name looked for in
  the namespace seen last; \<open>Unhealthy\<close> only when it has such a PPR, which carries the name of the node
  itself unless machines are in use, or when machines are in use and the node carries no usable
  machine annotation; and \<open>ApiError\<close> only when a request to the API server failed.
\<close>

theorem IsHealthy_answers:
  assumes "run_state (IsHealthy client (Some req)) s = (Inr resp, s')" and "trace s = []"
  shows "lastSeenPprNamespace s' = lastSeenPprNamespace s \<and> wasLastSeenPprMachine s' = wasLastSeenPprMachine s \<and>
    (let code = sint (Status resp); ns = lastSeenPprNamespace s;
         nodeKey = \<lparr>key_Namespace = '''', key_Name = NodeName req\<rparr>
     in (code = Healthy \<and>
           (ns = '''' \<and> (\<exists>n. EGetNode nodeKey (Inr n) \<in> set (trace s')) \<or>
            (\<exists>name. EGetPPR \<lparr>key_Namespace = ns, key_Name = name\<rparr> (Inl NotFound) \<in> set (trace s')))) \<or>
        (code = Unhealthy \<and> ns \<noteq> '''' \<and>
           ((\<exists>name ppr. EGetPPR \<lparr>key_Namespace = ns, key_Name = name\<rparr> (Inr ppr) \<in> set (trace s') \<and>
               (wasLastSeenPprMachine s \<or> name = NodeName req)) \<or>
            (wasLastSeenPprMachine s \<and> (\<exists>n. EGetNode nodeKey (Inr n) \<in> set (trace s') \<and>
               (case Annotations (node_Meta n) machineAnnotation of
                  None \<Rightarrow> True | Some m \<Rightarrow> isl (SplitMetaNamespaceKey m)))))) \<or>
        (code = ApiError \<and> (\<exists>k e. EGetNode k (Inl e) \<in> set (trace s') \<or> EGetPPR k (Inl e) \<in> set (trace s'))))"
  using assms
  by (auto simp: server_defs run_simps Let_def GetNodeName_def code_defs case_prod_beta
      split: if_splits sum.splits option.splits)


definition sample_client :: "go_error + PoisonPillRemediation \<Rightarrow> unit dynamic_client" where
  "sample_client p = \<lparr>dyn_getPPR = (\<lambda>_. ret p), dyn_getNode = (\<lambda>_. ret (Inr sample_node))\<rparr>"

definition sample_seen :: "unit rec_state" where
  "sample_seen = \<lparr>world = (), trace = [], lastSeenPprNamespace = ''default'', wasLastSeenPprMachine = False\<rparr>"

lemmas sample_server_eval = sample_client_def sample_seen_def server_defs run_simps Let_def GetNodeName_def

theorem IsHealthy_answers_witness:
  "\<exists>resp s'. run_state (IsHealthy (sample_client (Inr sample_ppr)) (Some \<lparr>NodeName = ''node1''\<rparr>)) sample_seen = (Inr resp, s') \<and>
     sint (Status resp) = Unhealthy \<and>
     (\<exists>name (ppr :: PoisonPillRemediation).
        EGetPPR \<lparr>key_Namespace = ''default'', key_Name = name\<rparr> (Inr ppr) \<in> set (trace s') \<and> name = ''node1'')"
proof -
  let ?resp = "\<lparr>Status = word_of_int Unhealthy\<rparr>"
  obtain s' where r: "run_state (IsHealthy (sample_client (Inr sample_ppr)) (Some \<lparr>NodeName = ''node1''\<rparr>)) sample_seen =
      (Inr ?resp, s')"
    by (simp add: sample_server_eval)
  have "sint (Status ?resp) = Unhealthy" by (simp add: code_defs)
  with r IsHealthy_answers [OF r] show ?thesis
    by (auto simp: sample_seen_def code_defs Let_def)
qed

text \<open>
  The code that the server means is the code that the client reads: a response carries it as a
  32-bit integer, and every code of that range (so each code of the program) survives the way to
  the status field and back.
\<close>

lemma response_code_roundtrip:
  assumes "- (2 ^ 31) \<le> code" and "code < 2 ^ 31"
  shows "\<exists>resp. toResponse code = Inr resp \<and> sint (GetStatus (Some resp)) = code"
  using assms by (simp add: toResponse_def GetStatus_def sint_word_of_int_32)

text \<open>
  C29. A machine seen once hides later node remediations. Suppose the controller has ever reconciled a
  PPR with a machine owner and has last read a PPR of namespace \<open>ns\<close>, and the node that asks is backed
  by a machine \<open>m\<close> for which there is no PPR. Then the server answers \<open>Healthy\<close> without looking for a
  PPR with the name of the node, so a PPR for that very node is missed.
\<close>

theorem node_ppr_missed_after_machine:
  assumes "(ns', True) \<in> set (seen_pprs r xs s)" and "fst (last (seen_pprs r xs s)) = ns" and "ns \<noteq> ''''"
    and "nodeName \<noteq> ''''"
    and "\<And>w. fst (run_state (dyn_getNode client \<lparr>key_Namespace = '''', key_Name = nodeName\<rparr>) w) = Inr node"
    and "Annotations (node_Meta node) machineAnnotation = Some (mns @ CHR ''/'' # m)"
    and "CHR ''/'' \<notin> set mns" and "CHR ''/'' \<notin> set m"
    and "\<And>w. fst (run_state (dyn_getPPR client \<lparr>key_Namespace = ns, key_Name = m\<rparr>) w) = Inl NotFound"
  shows "fst (run_state (IsHealthy client (Some \<lparr>NodeName = nodeName\<rparr>)) (run_reconciles r xs s)) = toResponse Healthy"
proof -
  let ?s = "run_reconciles r xs s"
  have ne: "seen_pprs r xs s \<noteq> []" using assms(1) by auto
  have "lastSeenPprNamespace ?s = ns" using assms(2) ne by (simp add: run_reconciles_globals)
  moreover have "wasLastSeenPprMachine ?s" using assms(1) by (force simp: run_reconciles_globals)
  ultimately show ?thesis
    using assms(3-9) by (simp add: server_defs run_simps Let_def GetNodeName_def SplitMetaNamespaceKey_pair)
qed

definition sample_machine_ppr :: PoisonPillRemediation where
  "sample_machine_ppr = sample_ppr\<lparr>ppr_Meta := (ppr_Meta sample_ppr)\<lparr>Name := ''m1'', OwnerReferences :=
     [\<lparr>ref_APIVersion = '''', ref_Kind = ''Machine'', ref_Name = ''m1'', ref_UID = ''''\<rparr>]\<rparr>\<rparr>"

definition sample_history :: "(unit rec_env \<times> ObjectKey) list" where
  "sample_history =
     [(fixed_env (Inr sample_machine_ppr) (Inl NotFound) (Inl NotFound) 0 None, sample_req),
      (fixed_env (Inr sample_ppr) (Inr sample_node) (Inl NotFound) 0 None, sample_req)]"

definition sample_backed_node :: Node where
  "sample_backed_node = sample_node\<lparr>node_Meta := (node_Meta sample_node)
     \<lparr>Annotations := [machineAnnotation \<mapsto> ''default/m2'']\<rparr>\<rparr>"

definition sample_dyn :: "unit dynamic_client" where
  "sample_dyn = \<lparr>dyn_getPPR = (\<lambda>key. ret (if key_Name key = ''node1'' then Inr sample_ppr else Inl NotFound)),
     dyn_getNode = (\<lambda>_. ret (Inr sample_backed_node))\<rparr>"

lemma sample_history_seen:
  "seen_pprs sample_reconciler sample_history start = [(''default'', True), (''default'', False)]"
  by (simp add: sample_history_def machine_owned_def sample_machine_ppr_def fixed_env_def sample_ppr_def
      sample_req_def emptyMeta_def)

text \<open>The PPR for \<open>node1\<close> exists and was the last one reconciled; the answer is \<open>Healthy\<close>.\<close>

theorem node_ppr_missed_after_machine_witness:
  "fst (run_state (dyn_getPPR sample_dyn \<lparr>key_Namespace = ''default'', key_Name = ''node1''\<rparr>) ()) = Inr sample_ppr \<and>
   fst (run_state (IsHealthy sample_dyn (Some \<lparr>NodeName = ''node1''\<rparr>))
     (run_reconciles sample_reconciler sample_history start)) = toResponse Healthy"
proof
  show "fst (run_state (dyn_getPPR sample_dyn \<lparr>key_Namespace = ''default'', key_Name = ''node1''\<rparr>) ()) = Inr sample_ppr"
    by (simp add: sample_dyn_def)
  show "fst (run_state (IsHealthy sample_dyn (Some \<lparr>NodeName = ''node1''\<rparr>))
     (run_reconciles sample_reconciler sample_history start)) = toResponse Healthy"
    by (rule node_ppr_missed_after_machine [where ns' = "''default''" and ns = "''default''" and mns = "''default''" and m = "''m2''"
         and node = sample_backed_node])
       (simp_all add: sample_history_seen sample_dyn_def sample_backed_node_def)
qed


end
