(* ===== verification/Agent.thy ===== *)
theory Agent
  imports Reboot Api_Check_Verdict Peers Peer_Health
begin

text \<open>
  The program itself, \<open>src/main.go\<close>: how the manager and an agent are put together, and the time after
  which a node is assumed to have rebooted. The environment variables, the controller manager
  (\<open>mgr\<close>) and the API client are the fields of an argument; \<open>os.Exit\<close> is a value.
\<close>

section \<open>Environment\<close>

datatype runnable = RWatchdog | RPeers | RApiCheck | RServer

datatype main_event =
    MAdd runnable "go_error option"
  | MSetup string "go_error option"
  | MNewServer "go_error option"
  | MNewManager "go_error option"
  | MHealthzCheck "go_error option"
  | MReadyzCheck "go_error option"
  | MStart "go_error option"
  | MCreateConfig PoisonPillConfig "go_error option"
  | MCreateTemplate PoisonPillRemediationTemplate "go_error option"

record 's main_env =
  lookupEnv :: "string \<Rightarrow> string option"
  os_stat :: "string \<Rightarrow> (bool \<times> string) option"
  new_manager :: "('s, go_error option) state"
  mgr_healthz :: "('s, go_error option) state"
  mgr_readyz :: "('s, go_error option) state"
  mgr_start :: "('s, go_error option) state"
  mgr_add :: "runnable \<Rightarrow> ('s, go_error option) state"
  mgr_setup :: "string \<Rightarrow> ('s, go_error option) state"
  new_server :: "('s, go_error option) state"
  create_config :: "PoisonPillConfig \<Rightarrow> ('s, go_error option) state"
  create_template :: "PoisonPillRemediationTemplate \<Rightarrow> ('s, go_error option) state"

record 's main_state = "('s, main_event) io" +
  wd_vars :: linux_vars

datatype 'a startup = Started 'a | Exit int | Hangs

definition Getenv :: "'s main_env \<Rightarrow> string \<Rightarrow> string" where
  "Getenv env name = (case lookupEnv env name of None \<Rightarrow> '''' | Some v \<Rightarrow> v)"

definition getDeploymentNamespace :: "'s main_env \<Rightarrow> go_error + string" where
  "getDeploymentNamespace env =
     (let deployNamespaceEnvVar = ''DEPLOYMENT_NAMESPACE''
      in case lookupEnv env deployNamespaceEnvVar of
           None \<Rightarrow> Inl (Other (deployNamespaceEnvVar @ '' must be set''))
         | Some ns \<Rightarrow> Inr ns)"

section \<open>The manager\<close>

definition newConfigIfNotExist :: "'s main_env \<Rightarrow> ('s main_state, go_error option) state" where
  "newConfigIfNotExist env =
     (case getDeploymentNamespace env of
        Inl err \<Rightarrow> ret (Some (Wrap err ''unable to get the deployment namespace''))
      | Inr ns \<Rightarrow> do {
          let config = NewDefaultPoisonPillConfig;
          let config = config\<lparr>ppc_Meta := (ppc_Meta config)\<lparr>Namespace := ns\<rparr>\<rparr>;
          e \<leftarrow> perform (create_config env config) (MCreateConfig config);
          case e of
            Some err \<Rightarrow>
              if \<not> IsAlreadyExists err
              then ret (Some (Wrap err ''failed to create a default poison pill config CR''))
              else ret None
          | None \<Rightarrow> ret None
        })"

definition newDefaultTemplateIfNotExist :: "'s main_env \<Rightarrow> ('s main_state, go_error option) state" where
  "newDefaultTemplateIfNotExist env =
     (case getDeploymentNamespace env of
        Inl err \<Rightarrow> ret (Some (Wrap err ''unable to get the deployment namespace''))
      | Inr ns \<Rightarrow> do {
          let pprt = NewDefaultRemediationTemplate;
          let pprt = pprt\<lparr>pprt_Meta := (pprt_Meta pprt)\<lparr>Namespace := ns\<rparr>\<rparr>;
          e \<leftarrow> perform (create_template env pprt) (MCreateTemplate pprt);
          case e of
            Some err \<Rightarrow>
              if \<not> IsAlreadyExists err
              then ret (Some (Wrap err ''failed to create a default poison pill template CR''))
              else ret None
          | None \<Rightarrow> ret None
        })"

definition initPoisonPillManager :: "'s main_env \<Rightarrow> ('s main_state, unit startup) state" where
  "initPoisonPillManager env = do {
     e \<leftarrow> perform (mgr_setup env ''PoisonPillConfig'') (MSetup ''PoisonPillConfig'');
     case e of Some err \<Rightarrow> ret (Exit 1) | None \<Rightarrow> do {
     e \<leftarrow> newConfigIfNotExist env;
     case e of Some err \<Rightarrow> ret (Exit 1) | None \<Rightarrow> do {
     e \<leftarrow> newDefaultTemplateIfNotExist env;
     case e of Some err \<Rightarrow> ret (Exit 1) | None \<Rightarrow> ret (Started ())
   }}}"

section \<open>An agent\<close>

definition peerHealthDefaultPort :: int where
  "peerHealthDefaultPort = 30001"

definition nodeNameEnvVar :: string where
  "nodeNameEnvVar = ''MY_NODE_NAME''"

text \<open>
  The time an unhealthy node needs, as \<open>main.go\<close> computes it: to find out, to ask the peers, for the
  watchdog, and a buffer.
\<close>

definition minTimeToAssumeNodeRebooted ::
  "duration \<Rightarrow> duration \<Rightarrow> int \<Rightarrow> duration \<Rightarrow> duration \<Rightarrow> duration option \<Rightarrow> duration" where
  "minTimeToAssumeNodeRebooted apiCheckInterval apiTimeout maxErrorThreshold peerDialTimeout
       peerRequestTimeout wdTimeout =
     (let t = (apiCheckInterval + apiTimeout) * word_of_int maxErrorThreshold;
          t = t + (10 + 1) * (peerDialTimeout + peerRequestTimeout);
          t = (case wdTimeout of None \<Rightarrow> t | Some d \<Rightarrow> t + d)
      in t + 15 * Second)"

record 'k agent =
  ag_namespace :: string
  ag_wd :: "'k linuxWatchdog synchronizedWatchdog option"
  ag_peerUpdateInterval :: duration
  ag_peerApiServerTimeout :: duration
  ag_apiCheck :: ApiConnectivityCheckConfig
  ag_reconciler :: PoisonPillRemediationReconciler

text \<open>A call of \<open>NewLinux\<close> on the package variables of the watchdog.\<close>

definition call_NewLinux ::
  "'s main_env \<Rightarrow> 'k \<Rightarrow> ('s main_state, (go_error + 'k linuxWatchdog synchronizedWatchdog) call) state" where
  "call_NewLinux env host = State (\<lambda>s.
     case run_state (NewLinux (os_stat env) (Getenv env ''WATCHDOG_PATH'') host) (wd_vars s) of
       (res, v) \<Rightarrow> (res, s\<lparr>wd_vars := v\<rparr>))"

text \<open>
  From the second half of \<open>initPoisonPillAgent\<close>: the connectivity check is set up, the safe time is
  determined and the controller and the server are added.
\<close>

definition initAgent_rest ::
  "'s main_env \<Rightarrow> string \<Rightarrow> string \<Rightarrow> 'k linuxWatchdog synchronizedWatchdog option \<Rightarrow>
    ('s main_state, 'k agent startup) state" where
  "initAgent_rest env me ns wd = do {
     let interval = 15 * Minute;
     let peerApiServerTimeout = 5 * Second;
     e \<leftarrow> perform (mgr_add env RPeers) (MAdd RPeers);
     case e of Some err \<Rightarrow> ret (Exit 1) | None \<Rightarrow> do {
     let apiCheckInterval = 15 * Second;
     let maxErrorThreshold = 3;
     let apiTimeout = 5 * Second;
     let peerDialTimeout = 5 * Second;
     let peerRequestTimeout = 5 * Second;
     let config = \<lparr>cfg_MyNodeName = me, cfg_CheckInterval = apiCheckInterval,
           cfg_MaxErrorsThreshold = maxErrorThreshold, cfg_ApiServerTimeout = apiTimeout,
           cfg_PeerDialTimeout = peerDialTimeout, cfg_PeerRequestTimeout = peerRequestTimeout,
           cfg_PeerHealthPort = peerHealthDefaultPort\<rparr>;
     e \<leftarrow> perform (mgr_add env RApiCheck) (MAdd RApiCheck);
     case e of Some err \<Rightarrow> ret (Exit 1) | None \<Rightarrow>
     case Atoi (Getenv env ''TIME_TO_ASSUME_NODE_REBOOTED'') of
       Inl err \<Rightarrow> ret (Exit 1)
     | Inr timeToAssumeNodeRebootedInt \<Rightarrow> do {
     let timeToAssumeNodeRebooted = word_of_int timeToAssumeNodeRebootedInt * Second;
     let minTime = minTimeToAssumeNodeRebooted apiCheckInterval apiTimeout maxErrorThreshold
           peerDialTimeout peerRequestTimeout (map_option (\<lambda>w. fst (run_state GetTimeout w)) wd);
     let timeToAssumeNodeRebooted =
           (if dur_less timeToAssumeNodeRebooted minTime then minTime else timeToAssumeNodeRebooted);
     let reconciler = \<lparr>SafeTimeToAssumeNodeRebooted = timeToAssumeNodeRebooted, MyNodeName = me\<rparr>;
     e \<leftarrow> perform (mgr_setup env ''PoisonPillRemediation'') (MSetup ''PoisonPillRemediation'');
     case e of Some err \<Rightarrow> ret (Exit 1) | None \<Rightarrow> do {
     e \<leftarrow> perform (new_server env) MNewServer;
     case e of Some err \<Rightarrow> ret (Exit 1) | None \<Rightarrow> do {
     e \<leftarrow> perform (mgr_add env RServer) (MAdd RServer);
     case e of Some err \<Rightarrow> ret (Exit 1) | None \<Rightarrow>
     ret (Started \<lparr>ag_namespace = ns, ag_wd = wd, ag_peerUpdateInterval = interval,
       ag_peerApiServerTimeout = peerApiServerTimeout, ag_apiCheck = config, ag_reconciler = reconciler\<rparr>)
   }}}}}"

definition initPoisonPillAgent :: "'s main_env \<Rightarrow> 'k \<Rightarrow> ('s main_state, 'k agent startup) state" where
  "initPoisonPillAgent env host = do {
     let me = Getenv env nodeNameEnvVar;
     case getDeploymentNamespace env of
       Inl err \<Rightarrow> ret (Exit 1)
     | Inr ns \<Rightarrow> do {
         made \<leftarrow> call_NewLinux env host;
         case made of
           Return (Inl err) \<Rightarrow> initAgent_rest env me ns None
         | Return (Inr wd) \<Rightarrow> do {
             e \<leftarrow> perform (mgr_add env RWatchdog) (MAdd RWatchdog);
             case e of
               Some err \<Rightarrow> ret (Exit 1)
             | None \<Rightarrow> initAgent_rest env me ns (Some wd)
           }
         | _ \<Rightarrow> ret Hangs
       }
   }"

section \<open>The program\<close>

text \<open>
  \<open>main\<close> after the flags are parsed: the manager is made, initialised as the flag says and started.
  \<open>Start\<close> of the manager returns when the process is told to stop; then the program ends with code 0.
\<close>

definition main_serve :: "'s main_env \<Rightarrow> ('s main_state, int startup) state" where
  "main_serve env = do {
     e \<leftarrow> perform (mgr_healthz env) MHealthzCheck;
     case e of Some err \<Rightarrow> ret (Exit 1) | None \<Rightarrow> do {
     e \<leftarrow> perform (mgr_readyz env) MReadyzCheck;
     case e of Some err \<Rightarrow> ret (Exit 1) | None \<Rightarrow> do {
     e \<leftarrow> perform (mgr_start env) MStart;
     case e of Some err \<Rightarrow> ret (Exit 1) | None \<Rightarrow> ret (Exit 0)
   }}}"

definition main :: "'s main_env \<Rightarrow> 'k \<Rightarrow> bool \<Rightarrow> ('s main_state, int startup) state" where
  "main env host isManager = do {
     e \<leftarrow> perform (new_manager env) MNewManager;
     case e of Some err \<Rightarrow> ret (Exit 1) | None \<Rightarrow>
     if isManager then do {
       r \<leftarrow> initPoisonPillManager env;
       case r of Started _ \<Rightarrow> main_serve env | Exit n \<Rightarrow> ret (Exit n) | Hangs \<Rightarrow> ret Hangs
     }
     else do {
       r \<leftarrow> initPoisonPillAgent env host;
       case r of Started _ \<Rightarrow> main_serve env | Exit n \<Rightarrow> ret (Exit n) | Hangs \<Rightarrow> ret Hangs
     }
   }"

end
