(* ===== verification/Agent_Safety.thy ===== *)
theory Agent_Safety
  imports Agent
begin

text \<open>
  Properties that span the components of an agent: an isolated node is brought down by its own agent,
  and which safe reboot time it runs with.
\<close>

section \<open>The connectivity check with a rebooter\<close>

text \<open>
  A connectivity check whose rebooter keeps its promise, and whose other calls do not stop the
  rebooter from working.
\<close>

locale self_fencing = rebooter "api_reboot env" ready down
  for env :: "('s, 'c) api_env" and ready :: "'s \<Rightarrow> bool" and down :: "'s \<Rightarrow> bool" +
  assumes readyz_keeps: "ready s \<Longrightarrow> ready (snd (run_state (api_readyz env) s))"
    and peers_keeps: "ready s \<Longrightarrow> ready (snd (run_state (api_peers env) s))"
    and creds_keeps: "ready s \<Longrightarrow> ready (snd (run_state (api_creds env) s))"
    and dial_keeps: "ready s \<Longrightarrow> ready (snd (run_state (api_dial env addr cred) s))"
    and isHealthy_keeps: "ready s \<Longrightarrow> ready (snd (run_state (api_isHealthy env conn name) s))"
    and close_keeps: "ready s \<Longrightarrow> ready (snd (run_state (api_close env conn) s))"
begin

lemmas env_keeps = readyz_keeps peers_keeps creds_keeps dial_keeps isHealthy_keeps close_keeps

lemma ready_initClientCreds: "world_inv ready (initClientCreds env)"
  unfolding initClientCreds_def
  by (auto intro!: world_inv_intros env_keeps split: sum.split)

lemma ready_getHealthStatusFromPeer: "world_inv ready (getHealthStatusFromPeer env cfg ip results)"
  unfolding getHealthStatusFromPeer_def Let_def
  by (auto intro!: world_inv_intros env_keeps ready_initClientCreds split: sum.split option.split)

lemma ready_askPeers: "world_inv ready (askPeers env cfg as results)"
  by (induction as arbitrary: results)
     (auto intro!: world_inv_intros ready_getHealthStatusFromPeer)

lemma ready_ask_batches: "world_inv ready (ask_batches env cfg sched n bs i s)"
  by (induction bs arbitrary: i s)
     (auto intro!: world_inv_intros ready_askPeers split: call.split)

lemma ready_handleError: "fair_sched sched \<Longrightarrow> world_inv ready (handleError env cfg sched)"
  unfolding handleError_def
  by (auto simp: handleError_loop_batches intro!: world_inv_intros env_keeps ready_ask_batches)

lemma isolated_goes_down:
  assumes "fair_sched sched" and "trace c = []" and "run_state (checkApiServer env cfg sched) c = (res, c')"
    and "trace c' = AReadyz (Inl err) # APeers nodes # evs" and "nodes \<noteq> []" and "answers evs = []"
    and "ready (world c)"
  shows "res = Return () \<and> down (world c')"
proof -
  obtain w c2 e w' where r: "run_state (api_readyz env) (world c) = (Inl err, w)"
    "run_state (handleError env cfg sched) (c\<lparr>world := w, trace := trace c @ [AReadyz (Inl err)]\<rparr>) = (Return False, c2)"
    "run_state (api_reboot env) (world c2) = (e, w')" "world c' = w'"
    "res = (case e of Return _ \<Rightarrow> Return () | Panic \<Rightarrow> Panic | Block \<Rightarrow> Block)"
    using isolated_verdict [OF assms(1-6)] by blast
  have "ready w" using readyz_keeps [OF assms(7)] r(1) by simp
  then have "ready (world c2)"
    using world_invD [OF ready_handleError [OF assms(1)] r(2)] by simp
  with reboot_result [of "world c2"] reboot_down [of "world c2"] r(3-5) show ?thesis by simp
qed

end

text \<open>
  How \<open>main.go\<close> wires the two: the check calls the watchdog rebooter, and everything else it calls is
  outside (\<open>net\<close>).
\<close>

definition wired_api ::
  "('n, 'c) api_env \<Rightarrow> (string \<Rightarrow> string list \<Rightarrow> ('h, go_error option) state) \<Rightarrow>
    (('i, 'h) WatchdogRebooter \<times> 'n, 'c) api_env" where
  "wired_api net run = \<lparr>api_readyz = on_snd (api_readyz net), api_peers = on_snd (api_peers net),
     api_creds = on_snd (api_creds net), api_dial = (\<lambda>addr cred. on_snd (api_dial net addr cred)),
     api_isHealthy = (\<lambda>conn name. on_snd (api_isHealthy net conn name)),
     api_close = (\<lambda>conn. on_snd (api_close net conn)), api_reboot = on_fst (Reboot run)\<rparr>"

interpretation wired: self_fencing "wired_api net run" "\<lambda>w. wd_ready (fst w)" "\<lambda>w. going_down (fst w)"
  for net :: "('n, 'c) api_env" and run :: "string \<Rightarrow> string list \<Rightarrow> ('h, go_error option) state"
proof unfold_locales
  fix w :: "('i, 'h) WatchdogRebooter \<times> 'n"
  assume "wd_ready (fst w)"
  then show "\<exists>w'. run_state (api_reboot (wired_api net run)) w = (Return None, w') \<and>
      going_down (fst w') \<and> wd_ready (fst w')"
    using watchdog_rebooter.reboots [of "fst w" run] by (force simp: wired_api_def run_simps)
qed (simp_all add: wired_api_def run_simps)

text \<open>
  C8. A node that is cut off is brought down by its own agent: with the watchdog rebooter wired in, a
  check that fails at the threshold with peers known and no peer answering returns, and then either
  the reboot command has been run on the host or the watchdog is stopped. This holds unless the
  watchdog is in the window in which stopping it panics.
\<close>

theorem isolated_agent_goes_down:
  assumes "fair_sched sched" and "trace c = []"
    and "run_state (checkApiServer (wired_api net run) cfg sched) c = (res, c')"
    and "trace c' = AReadyz (Inl err) # APeers nodes # evs" and "nodes \<noteq> []" and "answers evs = []"
    and "wd_ready (fst (world c))"
  shows "res = Return () \<and>
    ((\<exists>e. reboot_command e \<in> set (trace (fst (world c')))) \<or>
     (\<exists>w. rb_wd (fst (world c')) = Some w \<and> isStopped w))"
  using wired.isolated_goes_down [OF assms]
  by (auto simp: going_down_def split: option.splits)

definition sample_wired_agent ::
  "((unit linuxWatchdog, unit) WatchdogRebooter \<times> unit, unit) ApiConnectivityCheck" where
  "sample_wired_agent = \<lparr>world = (NewWatchdogRebooter () (Some (swd sample_fed)), ()), trace = [],
     errorCount = 2, clientCreds = Some ()\<rparr>"

theorem isolated_agent_goes_down_witness:
  "\<exists>res c'. run_state (checkApiServer (wired_api (sample_api False 0) (\<lambda>_ _. ret None)) sample_cfg (\<lambda>_ as. as))
     sample_wired_agent = (res, c') \<and> res = Return () \<and>
     ((\<exists>e. reboot_command e \<in> set (trace (fst (world c')))) \<or>
      (\<exists>w. rb_wd (fst (world c')) = Some w \<and> isStopped w))"
proof -
  let ?r = "run_state (checkApiServer (wired_api (sample_api False 0) (\<lambda>_ _. ret None)) sample_cfg (\<lambda>_ as. as))
     sample_wired_agent"
  let ?n = "fst (run_state (api_peers (sample_api False 0)) ())"
  have r: "?r = (fst ?r, snd ?r)" by simp
  have t: "trace sample_wired_agent = []" by (simp add: sample_wired_agent_def)
  have n: "trace (snd ?r) = AReadyz (Inl (Other ''timeout'')) # APeers ?n # drop 2 (trace (snd ?r))"
    "answers (drop 2 (trace (snd ?r))) = []" "?n \<noteq> []"
    by (simp_all add: sample_api_eval wired_api_def sample_wired_agent_def split: call.split)
  have "wd_ready (fst (world sample_wired_agent))"
    by (simp add: sample_wired_agent_def wd_ready_def NewWatchdogRebooter_def sample_fed_def sample_wd_eval)
  from isolated_agent_goes_down [OF fair_id t r n(1,3,2) this] r show ?thesis by blast
qed


section \<open>The safe reboot time\<close>

lemma minTime_value:
  "minTimeToAssumeNodeRebooted (15 * Second) (5 * Second) 3 (5 * Second) (5 * Second) None = 185 * Second"
  "minTimeToAssumeNodeRebooted (15 * Second) (5 * Second) 3 (5 * Second) (5 * Second) (Some d) = 185 * Second + d"
  by (simp_all add: minTimeToAssumeNodeRebooted_def Let_def Second_def)

lemma sint_185_Second: "sint (185 * Second) = 185000000000"
  by (simp add: Second_def)

lemma GetTimeout_newSynced: "fst (run_state GetTimeout (newSynced i)) = 0"
  by (simp add: GetTimeout_def run_simps newSynced_def)

lemma call_NewLinux_fresh:
  "run_state (call_NewLinux env host) s = (Return (Inr w), s') \<Longrightarrow> \<exists>i. w = newSynced i"
  by (auto simp: call_NewLinux_def NewLinux_def run_simps Let_def split: if_splits prod.splits option.splits)

definition safe_time :: "int \<Rightarrow> duration" where
  "safe_time t = (if dur_less (word_of_int t * Second) (185 * Second) then 185 * Second else word_of_int t * Second)"

definition agent_ok ::
  "'s main_env \<Rightarrow> string \<Rightarrow> 'k linuxWatchdog synchronizedWatchdog option \<Rightarrow> 'k agent \<Rightarrow> bool" where
  "agent_ok env me wd ag \<longleftrightarrow>
     (\<exists>t. Atoi (Getenv env ''TIME_TO_ASSUME_NODE_REBOOTED'') = Inr t \<and>
       ag_reconciler ag = \<lparr>SafeTimeToAssumeNodeRebooted = safe_time t, MyNodeName = me\<rparr>) \<and> ag_wd ag = wd \<and>
     ag_apiCheck ag = \<lparr>cfg_MyNodeName = me, cfg_CheckInterval = 15 * Second, cfg_MaxErrorsThreshold = 3,
       cfg_ApiServerTimeout = 5 * Second, cfg_PeerDialTimeout = 5 * Second,
       cfg_PeerRequestTimeout = 5 * Second, cfg_PeerHealthPort = 30001\<rparr>"

lemma minTime_wd:
  assumes "\<forall>w. wd = Some w \<longrightarrow> fst (run_state GetTimeout w) = 0"
  shows "minTimeToAssumeNodeRebooted (15 * Second) (5 * Second) 3 (5 * Second) (5 * Second)
    (map_option (\<lambda>w. fst (run_state GetTimeout w)) wd) = 185 * Second"
  using assms by (cases wd) (simp_all add: minTime_value)

lemma emits_initAgent_rest:
  assumes "\<forall>w. wd = Some w \<longrightarrow> fst (run_state GetTimeout w) = 0"
  shows "emits (initAgent_rest env me ns wd) (\<lambda>res _. \<forall>ag. res = Started ag \<longrightarrow> agent_ok env me wd ag)"
  unfolding initAgent_rest_def Let_def minTime_wd [OF assms] peerHealthDefaultPort_def
    safe_time_def [symmetric]
  by (intro emits_perform_bind) (auto simp: agent_ok_def intro!: emits_intros split: option.split sum.split)

lemma initAgent_rest_started:
  assumes "run_state (initAgent_rest env me ns wd) s = (Started ag, s')"
    and "\<forall>w. wd = Some w \<longrightarrow> fst (run_state GetTimeout w) = 0"
  shows "agent_ok env me wd ag"
  using emits_initAgent_rest [OF assms(2), of env me ns] assms(1) unfolding emits_def by (metis fst_conv)

lemma initPoisonPillAgent_started:
  assumes "run_state (initPoisonPillAgent env host) s = (Started ag, s')"
  shows "\<exists>t. Atoi (Getenv env ''TIME_TO_ASSUME_NODE_REBOOTED'') = Inr t \<and>
    ag_reconciler ag = \<lparr>SafeTimeToAssumeNodeRebooted = safe_time t, MyNodeName = Getenv env nodeNameEnvVar\<rparr> \<and>
    (\<forall>w. ag_wd ag = Some w \<longrightarrow> (\<exists>i. w = newSynced i)) \<and>
    ag_apiCheck ag = \<lparr>cfg_MyNodeName = Getenv env nodeNameEnvVar, cfg_CheckInterval = 15 * Second,
      cfg_MaxErrorsThreshold = 3, cfg_ApiServerTimeout = 5 * Second, cfg_PeerDialTimeout = 5 * Second,
      cfg_PeerRequestTimeout = 5 * Second, cfg_PeerHealthPort = 30001\<rparr>"
proof -
  obtain made s1 where m: "run_state (call_NewLinux env host) s = (made, s1)" by (metis surj_pair)
  obtain wd ns s2 where "run_state (initAgent_rest env (Getenv env nodeNameEnvVar) ns wd) s2 = (Started ag, s')"
    "\<forall>w. wd = Some w \<longrightarrow> made = Return (Inr w)"
    using assms m
    by (auto simp: initPoisonPillAgent_def run_simps Let_def split: sum.splits option.splits call.splits)
  note r = this
  have n: "\<forall>w. wd = Some w \<longrightarrow> (\<exists>i. w = newSynced i)"
    using call_NewLinux_fresh [of env host s _ s1] m r(2) by simp
  then have "\<forall>w. wd = Some w \<longrightarrow> fst (run_state GetTimeout w) = 0"
    using GetTimeout_newSynced by metis
  from initAgent_rest_started [OF r(1) this] n
  have "agent_ok env (Getenv env nodeNameEnvVar) wd ag" "\<forall>w. wd = Some w \<longrightarrow> (\<exists>i. w = newSynced i)"
    by simp_all
  then show ?thesis by (auto simp: agent_ok_def)
qed

lemma safe_time_at_least: "185000000000 \<le> sint (safe_time t)"
  by (auto simp: safe_time_def dur_less_def sint_185_Second)

lemma sint_safe_time:
  assumes "- 9223372036 \<le> t" and "t \<le> 9223372036"
  shows "sint (safe_time t) = max (t * 1000000000) 185000000000"
proof -
  have "word_of_int t * Second = (word_of_int (t * 1000000000) :: duration)"
    by (simp add: Second_def)
  then have "sint (word_of_int t * Second) = t * 1000000000"
    using assms sint_word_of_int_64 [of "t * 1000000000"] by simp
  then show ?thesis by (simp add: safe_time_def dur_less_def sint_185_Second)
qed


definition sample_main_env :: "unit main_env" where
  "sample_main_env = \<lparr>
     lookupEnv = [''DEPLOYMENT_NAMESPACE'' \<mapsto> ''ns'', ''MY_NODE_NAME'' \<mapsto> ''n1'',
       ''TIME_TO_ASSUME_NODE_REBOOTED'' \<mapsto> ''180'', ''WATCHDOG_PATH'' \<mapsto> ''/dev/watchdog''],
     os_stat = (\<lambda>_. None), new_manager = ret None, mgr_healthz = ret None, mgr_readyz = ret None,
     mgr_start = ret None, mgr_add = (\<lambda>_. ret None), mgr_setup = (\<lambda>_. ret None), new_server = ret None,
     create_config = (\<lambda>_. ret None), create_template = (\<lambda>_. ret (Some AlreadyExists))\<rparr>"

definition sample_main_state :: "unit main_state" where
  "sample_main_state = \<lparr>world = (), trace = [],
     wd_vars = \<lparr>mutex = False, linuxWatchDogInstantiated = False\<rparr>\<rparr>"

lemma Atoi_180: "Atoi ''180'' = Inr 180"
  by (simp add: Atoi_def digit_value_def)

lemmas sample_main_eval = sample_main_env_def sample_main_state_def initPoisonPillAgent_def initAgent_rest_def
  getDeploymentNamespace_def call_NewLinux_def NewLinux_def run_simps Let_def nodeNameEnvVar_def Getenv_def
  Atoi_180

lemma sample_agent_starts:
  "\<exists>(ag :: unit agent) s'. run_state (initPoisonPillAgent sample_main_env ()) sample_main_state = (Started ag, s')"
  by (simp add: sample_main_eval)

text \<open>
  C31. Which safe time an agent runs with: when it starts, the environment variable held a number \<open>t\<close>
  and the safe time is at least 185 seconds; it is exactly the larger of \<open>t\<close> and 185 seconds unless \<open>t\<close>
  seconds do not fit into a 64-bit number of nanoseconds. The timeout of the watchdog, which is to
  be part of the minimum, is not: it is read when the watchdog has not been started and is still 0.
\<close>

theorem agent_safe_time:
  assumes "run_state (initPoisonPillAgent env host) s = (Started ag, s')"
  shows "\<exists>t. Atoi (Getenv env ''TIME_TO_ASSUME_NODE_REBOOTED'') = Inr t \<and>
    185000000000 \<le> sint (SafeTimeToAssumeNodeRebooted (ag_reconciler ag)) \<and>
    (\<bar>t\<bar> \<le> 9223372036 \<longrightarrow>
      sint (SafeTimeToAssumeNodeRebooted (ag_reconciler ag)) = max (t * 1000000000) 185000000000) \<and>
    (\<forall>w. ag_wd ag = Some w \<longrightarrow> fst (run_state GetTimeout w) = 0)"
proof -
  from initPoisonPillAgent_started [OF assms] obtain t where
    t: "Atoi (Getenv env ''TIME_TO_ASSUME_NODE_REBOOTED'') = Inr t"
    "SafeTimeToAssumeNodeRebooted (ag_reconciler ag) = safe_time t"
    "\<forall>w. ag_wd ag = Some w \<longrightarrow> (\<exists>i. w = newSynced i)"
    by auto
  show ?thesis
    using t safe_time_at_least [of t] sint_safe_time [of t] GetTimeout_newSynced
    by (intro exI [of _ t]) (auto simp: abs_le_iff)
qed

theorem agent_safe_time_witness:
  "\<exists>(ag :: unit agent) s'. run_state (initPoisonPillAgent sample_main_env ()) sample_main_state = (Started ag, s') \<and>
     sint (SafeTimeToAssumeNodeRebooted (ag_reconciler ag)) = 185000000000"
proof -
  obtain ag :: "unit agent" and s' where
    r: "run_state (initPoisonPillAgent sample_main_env ()) sample_main_state = (Started ag, s')"
    using sample_agent_starts by blast
  from agent_safe_time [OF r] have "sint (SafeTimeToAssumeNodeRebooted (ag_reconciler ag)) = 185000000000"
    by (auto simp: sample_main_env_def Getenv_def Atoi_180)
  with r show ?thesis by blast
qed

section \<open>The manager\<close>

definition configIn :: "string \<Rightarrow> PoisonPillConfig" where
  "configIn ns = \<lparr>ppc_Type = emptyType, ppc_Meta = emptyMeta\<lparr>Name := ''poison-pill-config'', Namespace := ns\<rparr>,
     ppc_Spec = \<lparr>WatchdogFilePath = ''/dev/watchdog1'', SafeTimeToAssumeNodeRebootedSeconds = 180\<rparr>,
     ppc_Status = PoisonPillConfigStatus\<rparr>"

definition templateIn :: "string \<Rightarrow> PoisonPillRemediationTemplate" where
  "templateIn ns = \<lparr>pprt_Type = emptyType,
     pprt_Meta = emptyMeta\<lparr>Name := ''poison-pill-default-template'', Namespace := ns\<rparr>,
     pprt_Spec = \<lparr>Template = \<lparr>resource_Spec = PoisonPillRemediationSpec\<rparr>\<rparr>,
     pprt_Status = PoisonPillRemediationTemplateStatus\<rparr>"

text \<open>The object is there after a creation that succeeded or found it.\<close>

definition there_after :: "go_error option \<Rightarrow> bool" where
  "there_after created \<longleftrightarrow> created = None \<or> created = Some AlreadyExists"

definition exit_unless :: "bool \<Rightarrow> unit startup" where
  "exit_unless ok = (if ok then Started () else Exit 1)"

lemma emits_newConfigIfNotExist:
  "lookupEnv env ''DEPLOYMENT_NAMESPACE'' = Some ns \<Longrightarrow> emits (newConfigIfNotExist env) (\<lambda>e evs.
     \<exists>c. evs = [MCreateConfig (configIn ns) c] \<and> (e = None \<longleftrightarrow> there_after c))"
  by (auto simp: newConfigIfNotExist_def getDeploymentNamespace_def Let_def configIn_def there_after_def
      NewDefaultPoisonPillConfig_def configCRName_def defaultWatchdogPath_def
      defaultSafetToAssumeNodeRebootTimeout_def intro!: emits_intros split: option.split)

lemma emits_newDefaultTemplateIfNotExist:
  "lookupEnv env ''DEPLOYMENT_NAMESPACE'' = Some ns \<Longrightarrow> emits (newDefaultTemplateIfNotExist env) (\<lambda>e evs.
     \<exists>c. evs = [MCreateTemplate (templateIn ns) c] \<and> (e = None \<longleftrightarrow> there_after c))"
  by (auto simp: newDefaultTemplateIfNotExist_def getDeploymentNamespace_def Let_def templateIn_def there_after_def
      NewDefaultRemediationTemplate_def templateCRName_def intro!: emits_intros split: option.split)

text \<open>
  What the manager does at its start: it goes on if and only if its controller is registered, the
  namespace of the deployment is set, and the default configuration and the default template exist
  afterwards, created now or already there; every other error ends the process with code 1. What it creates are the
  defaults (a safe time of 180 seconds, the watchdog \<open>/dev/watchdog1\<close>), in the namespace of the deployment.
\<close>

lemma manager_start:
  "emits (initPoisonPillManager env) (\<lambda>res evs.
     case lookupEnv env ''DEPLOYMENT_NAMESPACE'' of
       None \<Rightarrow> \<exists>e. evs = [MSetup ''PoisonPillConfig'' e] \<and> res = Exit 1
     | Some ns \<Rightarrow>
         (\<exists>e. evs = [MSetup ''PoisonPillConfig'' (Some e)] \<and> res = Exit 1) \<or>
         (\<exists>c. evs = [MSetup ''PoisonPillConfig'' None, MCreateConfig (configIn ns) c] \<and>
            \<not> there_after c \<and> res = Exit 1) \<or>
         (\<exists>c c'. evs = [MSetup ''PoisonPillConfig'' None, MCreateConfig (configIn ns) c,
              MCreateTemplate (templateIn ns) c'] \<and> there_after c \<and>
            res = exit_unless (there_after c')))"
proof (cases "lookupEnv env ''DEPLOYMENT_NAMESPACE''")
  case None
  then show ?thesis
    by (auto simp: initPoisonPillManager_def newConfigIfNotExist_def getDeploymentNamespace_def
        intro!: emits_intros split: option.split)
next
  case (Some ns)
  have t: "emits (State_Monad.bind (newDefaultTemplateIfNotExist env)
      (\<lambda>e. case e of None \<Rightarrow> ret (Started ()) | Some err \<Rightarrow> ret (Exit 1)))
      (\<lambda>res evs. \<exists>c'. evs = [MCreateTemplate (templateIn ns) c'] \<and>
         res = exit_unless (there_after c'))"
    by (rule emits_bind [OF emits_newDefaultTemplateIfNotExist [OF Some]])
       (auto simp: exit_unless_def intro!: emits_ret split: option.split)
  have c: "emits (State_Monad.bind (newConfigIfNotExist env)
      (\<lambda>e. case e of None \<Rightarrow> State_Monad.bind (newDefaultTemplateIfNotExist env)
        (\<lambda>e. case e of None \<Rightarrow> ret (Started ()) | Some err \<Rightarrow> ret (Exit 1)) | Some err \<Rightarrow> ret (Exit 1)))
      (\<lambda>res evs. (\<exists>c. evs = [MCreateConfig (configIn ns) c] \<and> \<not> there_after c \<and> res = Exit 1) \<or>
         (\<exists>c c'. evs = [MCreateConfig (configIn ns) c, MCreateTemplate (templateIn ns) c'] \<and>
            there_after c \<and>
            res = exit_unless (there_after c')))"
    by (rule emits_bind [OF emits_newConfigIfNotExist [OF Some]])
       (auto intro!: emits_ret emits_mono [OF t] split: option.split)
  show ?thesis
    unfolding initPoisonPillManager_def
    by (rule emits_perform_bind) (auto simp: Some intro!: emits_ret emits_mono [OF c] split: option.split)
qed

end
