(* ===== verification/Config_Rollout.thy ===== *)
theory Config_Rollout
  imports Config_Controller Agent_Safety
begin

text \<open>
  What the config controller guarantees: certificates are made once and never replaced, agents are rolled out only
  when certificates are there, and the configured safe time reaches the agents.
\<close>

section \<open>Certificates\<close>

definition certs_key :: "PoisonPillConfig \<Rightarrow> ObjectKey" where
  "certs_key cr = \<lparr>key_Namespace = Namespace (ppc_Meta cr), key_Name = secretName\<rparr>"

text \<open>\<open>c\<close> is the result of making certificates with the steps \<open>xs\<close>.\<close>

definition made_by :: "('s, 'k, 'p) x509_env \<Rightarrow> certs \<Rightarrow> ('k, 'p) x509_event list \<Rightarrow> bool" where
  "made_by env c xs \<longleftrightarrow>
     (\<exists>ca leaf caKey key caBytes leafBytes. cert_chain env ca leaf caKey key caBytes leafBytes xs \<and>
        certToPEM env caBytes = Inr (the_caPem c) \<and> certToPEM env leafBytes = Inr (the_certPem c) \<and>
        privKeyToPEM env key = Inr (the_keyPem c))"

text \<open>What follows the first request of \<open>syncCerts\<close>, by its reply.\<close>

definition certs_rest ::
  "('s, 'k, 'p) x509_env \<Rightarrow> PoisonPillConfig \<Rightarrow> go_error + Secret \<Rightarrow> go_error option \<Rightarrow> ('k, 'p) config_event list \<Rightarrow> bool" where
  "certs_rest env cr reply e rest =
     (case reply of
        Inr _ \<Rightarrow> rest = [] \<and> e = None
      | Inl err \<Rightarrow>
          if err = NotFound then
            (\<exists>xs x. rest = map GX509 xs \<and> e = Some x \<and> step_failed env x xs) \<or>
            (\<exists>xs c stored. rest = map GX509 xs @ [GSecret (SCreate (certs_secret (Namespace (ppc_Meta cr)) c) stored)] \<and>
               made_by env c xs \<and> (e = None \<longleftrightarrow> stored \<in> {None, Some AlreadyExists}))
          else rest = [] \<and> e = Some err)"

lemma emits_syncCerts:
  "emits (syncCerts r cr) (\<lambda>e evs. \<exists>reply rest.
     evs = GSecret (SGet (certs_key cr) reply) # rest \<and> certs_rest (ppcr_x509 r) cr reply e rest)"
proof -
  let ?ns = "Namespace (ppc_Meta cr)"
  have create: "emits (do {
      made \<leftarrow> embed GX509 (CreateCerts (ppcr_x509 r));
      case made of Inl err \<Rightarrow> ret (Some err) | Inr c \<Rightarrow> embed GSecret (StoreCerts (ppcr_secrets r) st c) })
      (certs_rest (ppcr_x509 r) cr (Inl NotFound))" if st: "scs_namespace st = ?ns" for st
  proof (rule emits_embed_bind [OF emits_CreateCerts])
    fix made :: "go_error + certs" and xs
    assume made: "case made of Inl err \<Rightarrow> step_failed (ppcr_x509 r) err xs
      | Inr c \<Rightarrow> \<exists>ca leaf caKey key caBytes leafBytes. cert_chain (ppcr_x509 r) ca leaf caKey key caBytes leafBytes xs \<and>
          certToPEM (ppcr_x509 r) caBytes = Inr (the_caPem c) \<and> certToPEM (ppcr_x509 r) leafBytes = Inr (the_certPem c) \<and>
          privKeyToPEM (ppcr_x509 r) key = Inr (the_keyPem c)"
    show "emits (case made of Inl err \<Rightarrow> ret (Some err) | Inr c \<Rightarrow> embed GSecret (StoreCerts (ppcr_secrets r) st c))
      (\<lambda>e evs. certs_rest (ppcr_x509 r) cr (Inl NotFound) e (map GX509 xs @ evs))"
    proof (cases made)
      case (Inl err)
      with made show ?thesis by (auto simp: certs_rest_def intro!: emits_ret)
    next
      case (Inr c)
      with made have "made_by (ppcr_x509 r) c xs" by (auto simp: made_by_def)
      with Inr st show ?thesis
        by (auto simp: certs_rest_def intro!: emits_mono [OF emits_embed [OF emits_StoreCerts]])
    qed
  qed
  show ?thesis
    unfolding syncCerts_def Let_def
  proof (rule emits_embed_bind [OF emits_GetCerts_fresh], goal_cases)
    case (1 got evs)
    then obtain st reply where got: "got = (map_sum id secret_certs reply, st)" "scs_namespace st = ?ns"
        "evs = [SGet (certs_key cr) reply]"
      by (auto simp: certs_key_def)
    show ?case
      unfolding got(1) using got(3)
      by (cases reply) (auto simp: certs_rest_def intro!: emits_ret emits_mono [OF create [OF got(2)]])
  qed
qed

text \<open>Certificates are made once and never replaced. \<open>syncCerts\<close> asks for the secret first. If there is one, or if
  the reply is an error other than not found, it does nothing more, and succeeds in the first case only.
  If there is none, it makes certificates and creates the secret with exactly these; it fails if a step fails, and a
  secret that somebody else has created in the meantime counts as success.\<close>

lemma syncCerts_outcomes:
  "emits (syncCerts r cr) (\<lambda>e evs. \<exists>reply rest.
     evs = GSecret (SGet (certs_key cr) reply) # rest \<and> certs_rest (ppcr_x509 r) cr reply e rest)"
  by (rule emits_syncCerts)
section \<open>Rolling out\<close>

fun rollout :: "('k, 'p) config_event \<Rightarrow> bool" where
  "rollout (GRender _) = True"
| "rollout (GApply _) = True"
| "rollout _ = False"

text \<open>An event that shows that the secret of the namespace is there.\<close>

fun certs_there :: "ObjectKey \<Rightarrow> ('k, 'p) config_event \<Rightarrow> bool" where
  "certs_there key (GSecret (SGet k (Inr _))) = (k = key)"
| "certs_there key (GSecret (SCreate secret stored)) = (secret_Key secret = key \<and> stored \<in> {None, Some AlreadyExists})"
| "certs_there key _ = False"

lemma certs_rest_no_rollout:
  assumes "certs_rest env cr reply e rest"
  shows "\<forall>ev \<in> set rest. \<not> rollout ev"
    and "e = None \<Longrightarrow> \<exists>ev \<in> set (GSecret (SGet (certs_key cr) reply) # rest). certs_there (certs_key cr) ev"
  using assms
  by (auto simp: certs_rest_def certs_key_def certs_secret_def split: sum.splits if_splits)

lemma emits_syncK8sResource: "emits (syncK8sResource r cr obj) (\<lambda>e evs. \<exists>xs. evs = map GApply xs)"
proof -
  have "emits (do { e \<leftarrow> embed GApply (ApplyObject (ppcr_codec r) (ppcr_apply r) obj);
      case e of Some err \<Rightarrow> ret (Some (Other ''failed to apply object'')) | None \<Rightarrow> ret None })
      (\<lambda>e evs. \<exists>xs. evs = map GApply xs)" for obj
    by (rule emits_bind [OF emits_embed_any]) (auto intro!: emits_ret split: option.split)
  then show ?thesis
    unfolding syncK8sResource_def by (auto intro!: emits_ret split: sum.split)
qed

lemma emits_syncK8sResources: "emits (syncK8sResources r cr objs) (\<lambda>e evs. \<exists>xs. evs = map GApply xs)"
proof (induction objs)
  case (Cons obj objs)
  show ?case
    unfolding syncK8sResources.simps
    apply (rule emits_bind [OF emits_syncK8sResource])
    subgoal for e evs
      by (cases e) (auto intro!: emits_ret emits_mono [OF Cons] simp flip: map_append)
    done
qed (auto intro!: emits_ret)

lemma emits_syncConfigDaemonSet: "emits (syncConfigDaemonSet r ppc) (\<lambda>e evs. \<forall>ev \<in> set evs. rollout ev)"
  unfolding syncConfigDaemonSet_def Let_def
  apply (rule emits_bind [OF emits_embed_any])
  subgoal for objs evs
    by (cases objs) (auto intro!: emits_ret emits_mono [OF emits_syncK8sResources])
  done

text \<open>\<open>guarded g p evs\<close>: no event with \<open>p\<close> comes before the first one with \<open>g\<close>, nor is it that one.\<close>

fun guarded :: "('e \<Rightarrow> bool) \<Rightarrow> ('e \<Rightarrow> bool) \<Rightarrow> 'e list \<Rightarrow> bool" where
  "guarded g p [] = True"
| "guarded g p (ev # evs) = (\<not> p ev \<and> (g ev \<or> guarded g p evs))"

lemma guarded_none: "\<forall>x \<in> set a. \<not> p x \<Longrightarrow> guarded g p a"
  by (induction a) auto

lemma guarded_append: "\<forall>x \<in> set a. \<not> p x \<Longrightarrow> \<exists>x \<in> set a. g x \<Longrightarrow> guarded g p (a @ b)"
  by (induction a) auto

lemma emits_sync_all:
  "emits (do { e \<leftarrow> syncCerts r config;
      case e of Some err \<Rightarrow> ret (Some err) | None \<Rightarrow> syncConfigDaemonSet r config })
   (\<lambda>e rest. guarded (certs_there (certs_key config)) rollout rest)"
proof (rule emits_bind [OF emits_syncCerts], goal_cases)
  case (1 e evs)
  then obtain reply rest where evs: "evs = GSecret (SGet (certs_key config) reply) # rest"
    and rest: "certs_rest (ppcr_x509 r) config reply e rest" by blast
  have none: "\<forall>x \<in> set evs. \<not> rollout x"
    using certs_rest_no_rollout(1) [OF rest] evs by auto
  show ?case
  proof (cases e)
    case None
    then have "\<exists>x \<in> set evs. certs_there (certs_key config) x"
      using certs_rest_no_rollout(2) [OF rest] evs by simp
    with none None show ?thesis
      by (auto intro!: emits_mono [OF emits_syncConfigDaemonSet] guarded_append)
  next
    case (Some err)
    with none show ?thesis
      by (auto intro!: emits_ret guarded_none)
  qed
qed

text \<open>C19.
  Agents are rolled out only after the certificates. In a reconcile of a configuration, every file that is
  rendered and every request to apply a manifest comes after an answer which shows that the secret with the
  certificates exists in the namespace of the configuration. A configuration that is not found is created anew, and
  nothing is rolled out then.\<close>

theorem rollout_after_certs:
  "emits (config_Reconcile r req) (\<lambda>e evs. \<exists>got rest. evs = GGetConfig req got # rest \<and>
     (case got of
        Inl err \<Rightarrow>
          if err = NotFound then rest = [GCreateDefault e] else rest = [] \<and> e = Some err
      | Inr config \<Rightarrow> guarded (certs_there (certs_key config)) rollout rest))"
  unfolding config_Reconcile_def
  apply (rule emits_perform_bind)
  subgoal for got
    by (cases got) (auto intro!: emits_intros emits_mono [OF emits_sync_all])
  done

section \<open>The safe time\<close>

lemma quoted_inject [simp]: "quoted s = quoted t \<longleftrightarrow> s = t"
  by (simp add: quoted_def)

definition configured_seconds :: "PoisonPillConfig \<Rightarrow> int" where
  "configured_seconds ppc =
     (let t = SafeTimeToAssumeNodeRebootedSeconds (ppc_Spec ppc) in if t = 0 then 180 else t)"

lemma daemonSet_time:
  "fmlookup (rd_Data (daemonSet_data r ppc)) ''TimeToAssumeNodeRebooted'' =
     Some (JStr (quoted (Itoa (configured_seconds ppc))))"
  by (simp add: daemonSet_data_def configured_seconds_def Let_def)

lemma daemonSet_watchdog:
  "fmlookup (rd_Data (daemonSet_data r ppc)) ''WatchdogPath'' =
     Some (JStr (if WatchdogFilePath (ppc_Spec ppc) = '''' then defaultWatchdogPath else WatchdogFilePath (ppc_Spec ppc)))"
  by (simp add: daemonSet_data_def defaultWatchdogPath_def Let_def)

text \<open>
  How the manifest \<open>src/install/poison-pill-deamonset.yaml\<close> hands the values on: the variables of the container that the template fills in, each
  with the field whose value it prints. In YAML, a scalar in double quotes (without escapes) stands for what is between them.
\<close>

definition manifest_env :: "(string \<times> string) list" where
  "manifest_env = [(''WATCHDOG_PATH'', ''WatchdogPath''), (''TIME_TO_ASSUME_NODE_REBOOTED'', ''TimeToAssumeNodeRebooted'')]"

definition yaml_scalar :: "string \<Rightarrow> string" where
  "yaml_scalar v = (if 2 \<le> length v \<and> hd v = CHR 0x22 \<and> last v = CHR 0x22 then butlast (tl v) else v)"

definition container_env :: "'f RenderData \<Rightarrow> string \<Rightarrow> string option" where
  "container_env data name =
     (case map_of manifest_env name of
        None \<Rightarrow> None
      | Some field \<Rightarrow> (case fmlookup (rd_Data data) field of Some (JStr v) \<Rightarrow> Some (yaml_scalar v) | _ \<Rightarrow> None))"

lemma yaml_scalar_quoted [simp]: "yaml_scalar (quoted v) = v"
  by (simp add: yaml_scalar_def quoted_def)

text \<open>C12.
  The safe time of the configuration reaches the agents. The manager renders it, 180 seconds if none is configured, as a quoted number into the
  environment of the container. If the agent finds there what the rendered manifest says, it can read the number, and it assumes a node to
  have rebooted after the configured time or after 185 seconds, whichever is more. So the default of 180 seconds is never what is used. This holds
  for every time whose nanoseconds fit into 64 bits.\<close>

theorem safe_time_handed_over:
  assumes "\<And>name v. container_env (daemonSet_data r ppc) name = Some v \<Longrightarrow> lookupEnv env name = Some v"
    and "0 \<le> SafeTimeToAssumeNodeRebootedSeconds (ppc_Spec ppc)"
    and "SafeTimeToAssumeNodeRebootedSeconds (ppc_Spec ppc) \<le> 9223372036"
    and "run_state (initPoisonPillAgent env host) s = (Started ag, s')"
  shows "Atoi (Getenv env ''TIME_TO_ASSUME_NODE_REBOOTED'') = Inr (configured_seconds ppc) \<and>
    sint (SafeTimeToAssumeNodeRebooted (ag_reconciler ag)) = max (configured_seconds ppc) 185 * 1000000000"
proof -
  let ?t = "configured_seconds ppc"
  have bounds: "0 < ?t" "?t \<le> 9223372036"
    using assms(2, 3) by (simp_all add: configured_seconds_def Let_def)
  have "lookupEnv env ''TIME_TO_ASSUME_NODE_REBOOTED'' = Some (Itoa ?t)"
    by (rule assms(1)) (simp add: container_env_def manifest_env_def daemonSet_time)
  then have atoi: "Atoi (Getenv env ''TIME_TO_ASSUME_NODE_REBOOTED'') = Inr ?t"
    using Atoi_Itoa [of ?t] bounds by (simp add: Getenv_def)
  then have "SafeTimeToAssumeNodeRebooted (ag_reconciler ag) = safe_time ?t"
    using initPoisonPillAgent_started [OF assms(4)] by auto
  with atoi sint_safe_time [of ?t] bounds show ?thesis by (simp add: max_def)
qed

definition sample_reconciler :: "(unit, nat, nat, unit, string, unit) PoisonPillConfigReconciler" where
  "sample_reconciler = \<lparr>
     ppcr_Get = (\<lambda>_. ret (Inr NewDefaultPoisonPillConfig)),
     ppcr_secrets = sample_secret_env,
     ppcr_apply = \<lparr>client_Get = (\<lambda>_ _. ret (Inl NotFound)), client_Create = (\<lambda>_. ret None), client_Update = (\<lambda>_. ret None)\<rparr>,
     ppcr_codec = plain_codec,
     ppcr_x509 = \<lparr>x_now = ret 0, x_addDate = (\<lambda>t _ _ _. t), x_generateKey = (\<lambda>n. ret (Inr n)), x_publicKey = id,
       x_createCertificate = (\<lambda>_ _ _ _. ret (Inr '''')), x_marshalKey = (\<lambda>_. ''''), x_pemEncode = (\<lambda>b. Inr (block_Type b))\<rparr>,
     ppcr_render = \<lparr>ReadFile = (\<lambda>p. ret (Inr p)), sprig_TxtFuncMap = Map.empty, tmpl_Parse = (\<lambda>_ s. Inr s),
       tmpl_Execute = (\<lambda>s _. Inr s), yaml_documents = (\<lambda>_. [])\<rparr>,
     ppcr_InstallFileFolder = ''./install'', ppcr_install = FDir None [], ppcr_getenv = (\<lambda>_. ''image''),
     ppcr_SetControllerReference = (\<lambda>_ obj. Inr obj), ppcr_DefaultPpcCreator = ret None\<rparr>"

theorem safe_time_handed_over_witness:
  "\<exists>(ag :: unit agent) s'. container_env (daemonSet_data sample_reconciler NewDefaultPoisonPillConfig) ''TIME_TO_ASSUME_NODE_REBOOTED'' = Some ''180'' \<and>
     run_state (initPoisonPillAgent (sample_main_env\<lparr>lookupEnv := (lookupEnv sample_main_env)(''WATCHDOG_PATH'' \<mapsto> ''/dev/watchdog1'')\<rparr>) ())
       sample_main_state = (Started ag, s') \<and>
     sint (SafeTimeToAssumeNodeRebooted (ag_reconciler ag)) = 185 * 1000000000"
proof -
  let ?ppc = NewDefaultPoisonPillConfig
  let ?env = "sample_main_env\<lparr>lookupEnv := (lookupEnv sample_main_env)(''WATCHDOG_PATH'' \<mapsto> ''/dev/watchdog1'')\<rparr>"
  obtain ag :: "unit agent" and s' where r: "run_state (initPoisonPillAgent ?env ()) sample_main_state = (Started ag, s')"
    by (simp add: sample_main_eval)
  have t: "SafeTimeToAssumeNodeRebootedSeconds (ppc_Spec ?ppc) = 180"
    by (simp add: NewDefaultPoisonPillConfig_def defaultSafetToAssumeNodeRebootTimeout_def)
  have path: "WatchdogFilePath (ppc_Spec ?ppc) = ''/dev/watchdog1''" "yaml_scalar ''/dev/watchdog1'' = ''/dev/watchdog1''"
    by (simp_all add: NewDefaultPoisonPillConfig_def defaultWatchdogPath_def yaml_scalar_def)
  have "Itoa 180 = ''180''" by code_simp
  then have data: "container_env (daemonSet_data sample_reconciler ?ppc) name =
      (if name = ''WATCHDOG_PATH'' then Some ''/dev/watchdog1''
       else if name = ''TIME_TO_ASSUME_NODE_REBOOTED'' then Some ''180'' else None)" for name
    using t path by (simp add: container_env_def manifest_env_def daemonSet_time daemonSet_watchdog configured_seconds_def)
  have env: "container_env (daemonSet_data sample_reconciler ?ppc) name = Some v \<Longrightarrow> lookupEnv ?env name = Some v" for name v
    by (simp add: data sample_main_env_def split: if_splits)
  have "sint (SafeTimeToAssumeNodeRebooted (ag_reconciler ag)) = max (configured_seconds ?ppc) 185 * 1000000000"
    by (rule safe_time_handed_over [where r = sample_reconciler and ppc = ?ppc, OF env _ _ r, THEN conjunct2]) (simp_all add: t)
  with data r show ?thesis by (auto simp: t configured_seconds_def)
qed

end
