(* ===== verification/Proto_Wire.thy ===== *)
theory Proto_Wire
  imports Prelude
begin

text \<open>
  The wire format in which the messages of the peer health service travel: the part of
  \<open>google.golang.org/protobuf/encoding/protowire\<close> (\<open>src/vendor\<close>) that reading and writing such a message goes through.
  A \<open>byte\<close> is an 8-bit word. A negative length of the source is an error code here.
\<close>

unbundle bit_operations_syntax

type_synonym byte = "8 word"

datatype wire_error = errCodeTruncated | errCodeFieldNumber | errCodeOverflow | errCodeReserved | errCodeEndGroup

section \<open>Integers of variable length\<close>

text \<open>The byte of the \<open>i\<close>-th group of seven bits, with the mark that more follow, and the last byte.\<close>

definition varint_more :: "64 word \<Rightarrow> nat \<Rightarrow> byte" where
  "varint_more v i = ucast ((drop_bit (7 * i) v AND 0x7f) OR 0x80)"

definition varint_last :: "64 word \<Rightarrow> nat \<Rightarrow> byte" where
  "varint_last v i = ucast (drop_bit (7 * i) v)"

definition AppendVarint :: "byte list \<Rightarrow> 64 word \<Rightarrow> byte list" where
  "AppendVarint b v =
     (if v < 2 ^ 7 then b @ [varint_last v 0]
      else if v < 2 ^ 14 then b @ [varint_more v 0, varint_last v 1]
      else if v < 2 ^ 21 then b @ map (varint_more v) [0, 1] @ [varint_last v 2]
      else if v < 2 ^ 28 then b @ map (varint_more v) [0, 1, 2] @ [varint_last v 3]
      else if v < 2 ^ 35 then b @ map (varint_more v) [0, 1, 2, 3] @ [varint_last v 4]
      else if v < 2 ^ 42 then b @ map (varint_more v) [0, 1, 2, 3, 4] @ [varint_last v 5]
      else if v < 2 ^ 49 then b @ map (varint_more v) [0, 1, 2, 3, 4, 5] @ [varint_last v 6]
      else if v < 2 ^ 56 then b @ map (varint_more v) [0, 1, 2, 3, 4, 5, 6] @ [varint_last v 7]
      else if v < 2 ^ 63 then b @ map (varint_more v) [0, 1, 2, 3, 4, 5, 6, 7] @ [varint_last v 8]
      else b @ map (varint_more v) [0, 1, 2, 3, 4, 5, 6, 7, 8] @ [1])"

text \<open>The source has the ten steps one after the other; \<open>i\<close> is the number of the step.\<close>

fun ConsumeVarint_step :: "nat \<Rightarrow> 64 word \<Rightarrow> byte list \<Rightarrow> wire_error + 64 word \<times> nat" where
  "ConsumeVarint_step i v [] = Inl errCodeTruncated"
| "ConsumeVarint_step i v (b0 # b) =
     (let y = ucast b0;
          v = v + push_bit (7 * i) y
      in if i < 9 then
           (if y < 0x80 then Inr (v, Suc i)
            else ConsumeVarint_step (Suc i) (v - push_bit (7 * i) 0x80) b)
         else if y < 2 then Inr (v, 10)
         else Inl errCodeOverflow)"

definition ConsumeVarint :: "byte list \<Rightarrow> wire_error + 64 word \<times> nat" where
  "ConsumeVarint b = ConsumeVarint_step 0 0 b"

section \<open>Tags and lengths\<close>

text \<open>Field numbers are \<open>int32\<close>; the numbers of the wire types.\<close>

definition VarintType :: nat where "VarintType = 0"
definition Fixed64Type :: nat where "Fixed64Type = 1"
definition BytesType :: nat where "BytesType = 2"
definition StartGroupType :: nat where "StartGroupType = 3"
definition EndGroupType :: nat where "EndGroupType = 4"
definition Fixed32Type :: nat where "Fixed32Type = 5"

lemmas wire_types = VarintType_def Fixed64Type_def BytesType_def StartGroupType_def EndGroupType_def Fixed32Type_def

definition EncodeTag :: "int \<Rightarrow> nat \<Rightarrow> 64 word" where
  "EncodeTag num typ = push_bit 3 (word_of_int num) OR (of_nat typ AND 7)"

definition DecodeTag :: "64 word \<Rightarrow> int \<times> nat" where
  "DecodeTag x = (if drop_bit 3 x > 0x7fffffff then (- 1, 0) else (uint (drop_bit 3 x), unat (x AND 7)))"

definition AppendTag :: "byte list \<Rightarrow> int \<Rightarrow> nat \<Rightarrow> byte list" where
  "AppendTag b num typ = AppendVarint b (EncodeTag num typ)"

definition ConsumeTag :: "byte list \<Rightarrow> wire_error + int \<times> nat \<times> nat" where
  "ConsumeTag b =
     (case ConsumeVarint b of
        Inl e \<Rightarrow> Inl e
      | Inr (v, n) \<Rightarrow>
          let (num, typ) = DecodeTag v
          in if num < 1 then Inl errCodeFieldNumber else Inr (num, typ, n))"

definition AppendBytes :: "byte list \<Rightarrow> byte list \<Rightarrow> byte list" where
  "AppendBytes b v = AppendVarint b (of_nat (length v)) @ v"

definition ConsumeBytes :: "byte list \<Rightarrow> wire_error + byte list \<times> nat" where
  "ConsumeBytes b =
     (case ConsumeVarint b of
        Inl e \<Rightarrow> Inl e
      | Inr (m, n) \<Rightarrow>
          if unat m > length (drop n b) then Inl errCodeTruncated
          else Inr (take (unat m) (drop n b), n + unat m))"

section \<open>Skipping a value\<close>

definition ConsumeFixed :: "nat \<Rightarrow> byte list \<Rightarrow> wire_error + nat" where
  "ConsumeFixed k b = (if length b < k then Inl errCodeTruncated else Inr k)"

lemma ConsumeVarint_step_length:
  "ConsumeVarint_step i v b = Inr (u, n) \<Longrightarrow> i \<le> 9 \<Longrightarrow> i < n \<and> n \<le> i + length b"
proof (induction i v b arbitrary: u n rule: ConsumeVarint_step.induct)
  case (2 i v b0 b)
  then show ?case by (fastforce simp: Let_def split: if_splits)
qed simp

lemma ConsumeVarint_length: "ConsumeVarint b = Inr (u, n) \<Longrightarrow> 0 < n \<and> n \<le> length b"
  unfolding ConsumeVarint_def using ConsumeVarint_step_length [of 0 0 b u n] by simp

lemma ConsumeTag_length: "ConsumeTag b = Inr (num, typ, n) \<Longrightarrow> 0 < n \<and> n \<le> length b"
  by (auto simp: ConsumeTag_def Let_def dest: ConsumeVarint_length split: sum.splits prod.splits if_splits)

lemma ConsumeBytes_length: "ConsumeBytes b = Inr (v, n) \<Longrightarrow> 0 < n \<and> n \<le> length b \<and> length v < n"
  by (auto simp: ConsumeBytes_def dest!: ConsumeVarint_length split: sum.splits prod.splits if_splits)

text \<open>
  A group is a sequence of fields up to the tag that ends it; its length is what the rest of the bytes falls short of
  the \<open>n0\<close> bytes at its start.
\<close>

function (sequential) ConsumeFieldValue :: "int \<Rightarrow> nat \<Rightarrow> byte list \<Rightarrow> wire_error + nat"
  and ConsumeGroup_loop :: "int \<Rightarrow> nat \<Rightarrow> byte list \<Rightarrow> wire_error + nat" where
  "ConsumeFieldValue num typ b =
     (if typ = VarintType then map_sum id snd (ConsumeVarint b)
      else if typ = Fixed32Type then ConsumeFixed 4 b
      else if typ = Fixed64Type then ConsumeFixed 8 b
      else if typ = BytesType then map_sum id snd (ConsumeBytes b)
      else if typ = StartGroupType then ConsumeGroup_loop num (length b) b
      else if typ = EndGroupType then Inl errCodeEndGroup
      else Inl errCodeReserved)"
| "ConsumeGroup_loop num n0 b =
     (case ConsumeTag b of
        Inl e \<Rightarrow> Inl e
      | Inr (num2, typ2, n) \<Rightarrow>
          if typ2 = EndGroupType then
            (if num \<noteq> num2 then Inl errCodeEndGroup else Inr (n0 - length (drop n b)))
          else
            (case ConsumeFieldValue num2 typ2 (drop n b) of
               Inl e \<Rightarrow> Inl e
             | Inr m \<Rightarrow> ConsumeGroup_loop num n0 (drop m (drop n b))))"
  by pat_completeness auto
termination
  by (relation "measures [\<lambda>x. case x of Inl (num, typ, b) \<Rightarrow> length b | Inr (num, n0, b) \<Rightarrow> length b,
      \<lambda>x. case x of Inl _ \<Rightarrow> 1 | Inr _ \<Rightarrow> 0]")
     (auto dest!: ConsumeTag_length)

declare ConsumeFieldValue.simps [simp del] ConsumeGroup_loop.simps [simp del]

section \<open>Round trips\<close>

lemma bit_0x80 [simp]: "bit (0x80 :: int) n \<longleftrightarrow> n = 7"
proof -
  have "(0x80 :: int) = 2 ^ 7" by simp
  then show ?thesis by (simp only: bit_exp_iff) auto
qed

lemma plus_0x80: "take_bit 7 w + 0x80 = take_bit 7 w OR (0x80 :: 64 word)"
  by (rule disjunctive_add) (auto simp: bit_take_bit_iff)

lemma take_bit_small: "k < LENGTH('a) \<Longrightarrow> take_bit k v = (v :: 'a::len word) \<longleftrightarrow> v < 2 ^ k"
proof -
  assume k: "k < LENGTH('a)"
  then have "uint (2 ^ k :: 'a word) = 2 ^ k"
    by (intro uint_2p) (simp add: word_gt_0 flip: exp_eq_0_imp_not_bit)
  then show "take_bit k v = v \<longleftrightarrow> v < 2 ^ k"
    by (simp add: word_less_def word_uint_eq_iff unsigned_take_bit_eq take_bit_int_eq_self_iff)
qed

lemma not_below_0x80: "\<not> take_bit 7 w + 0x80 < (0x80 :: 64 word)"
proof
  assume "take_bit 7 w + 0x80 < (0x80 :: 64 word)"
  then have "take_bit 7 (take_bit 7 w + 0x80) = take_bit 7 w + (0x80 :: 64 word)"
    by (simp add: take_bit_small)
  then have "bit (take_bit 7 (take_bit 7 w + 0x80 :: 64 word)) 7"
    by (simp only: plus_0x80 bit_or_iff) simp
  then show False by (simp add: bit_take_bit_iff)
qed

lemma varint_more_value:
  "ucast (varint_more v i) = take_bit 7 (drop_bit (7 * i) v) + (0x80 :: 64 word)"
proof -
  have mask: "drop_bit (7 * i) v AND 0x7f = take_bit 7 (drop_bit (7 * i) v)"
    by (simp add: take_bit_eq_mask mask_numeral)
  show ?thesis
    unfolding varint_more_def mask plus_0x80
    by (intro bit_eqI) (auto simp: bit_ucast_iff bit_or_iff bit_take_bit_iff bit_unsigned_iff)
qed

lemma varint_last_value:
  assumes "take_bit (7 * i + 8) v = v"
  shows "ucast (varint_last v i) = drop_bit (7 * i) (v :: 64 word)"
proof -
  have "bit v n \<Longrightarrow> n < 7 * i + 8" for n
    using assms by (metis bit_take_bit_iff)
  then show ?thesis
    unfolding varint_last_def by (intro bit_eqI) (force simp: bit_simps)
qed

lemma take_bit_7_step:
  "take_bit n v + push_bit n (take_bit 7 (drop_bit n v)) = take_bit (n + 7) (v :: 64 word)"
proof -
  have "take_bit n v + push_bit n (take_bit 7 (drop_bit n v)) = take_bit n v OR push_bit n (take_bit 7 (drop_bit n v))"
    by (rule disjunctive_add) (auto simp: bit_simps)
  also have "\<dots> = take_bit (n + 7) v"
    by (rule bit_eqI) (auto simp: bit_simps)
  finally show ?thesis .
qed

text \<open>Reading a marked byte, and the last byte.\<close>

lemma ConsumeVarint_step_more:
  assumes "i < 9"
  shows "ConsumeVarint_step i (take_bit (7 * i) v) (varint_more v i # b) =
     ConsumeVarint_step (Suc i) (take_bit (7 * Suc i) v) b"
proof -
  let ?a = "take_bit 7 (drop_bit (7 * i) v)"
  have "take_bit (7 * i) v + push_bit (7 * i) (?a + 0x80) - push_bit (7 * i) 0x80 = take_bit (7 * Suc i) v"
    using take_bit_7_step [of "7 * i" v] by (simp add: push_bit_eq_mult distrib_right add.commute)
  with assms show ?thesis
    by (simp add: varint_more_value Let_def not_below_0x80 del: push_bit_numeral)
qed

lemma ConsumeVarint_step_last:
  assumes "i \<le> 9" and "take_bit (7 * i + 7) v = v"
  shows "ConsumeVarint_step i (take_bit (7 * i) v) (varint_last v i # b) = Inr (v, Suc i)"
proof -
  have bits: "bit v n \<Longrightarrow> n < 7 * i + 7" for n
    using assms(2) by (metis bit_take_bit_iff)
  have "take_bit (7 * i + 8) v = v"
    by (rule bit_eqI) (use bits in \<open>force simp: bit_take_bit_iff\<close>)
  note val = varint_last_value [OF this]
  have sum: "take_bit (7 * i) v + push_bit (7 * i) (drop_bit (7 * i) v) = v"
    by (metis add.commute bits_ident)
  have "take_bit (if i < 9 then 7 else 1) (drop_bit (7 * i) v) = drop_bit (7 * i) v"
    using assms(1) bits [of "7 * i + _"] bit_imp_le_length [of v "7 * i + _"]
    by (intro bit_eqI) (fastforce simp: bit_simps)
  then have small: "i < 9 \<Longrightarrow> drop_bit (7 * i) v < 2 ^ 7" "i = 9 \<Longrightarrow> drop_bit (7 * i) v < 2 ^ 1"
    using take_bit_small [of 7 "drop_bit (7 * i) v"] take_bit_small [of 1 "drop_bit (7 * i) v"] by simp_all
  show ?thesis
  proof (cases "i < 9")
    case True
    with small(1) show ?thesis by (simp add: val sum Let_def)
  next
    case False
    with assms(1) have i: "i = 9" by simp
    show ?thesis using small(2) val sum unfolding i by (simp add: Let_def)
  qed
qed

lemma ConsumeVarint_groups:
  assumes "i + k \<le> 9" and "take_bit (7 * (i + k) + 7) v = v"
  shows "ConsumeVarint_step i (take_bit (7 * i) v) (map (varint_more v) [i..<i + k] @ varint_last v (i + k) # b) =
    Inr (v, Suc (i + k))"
  using assms
proof (induction k arbitrary: i)
  case 0
  then show ?case using ConsumeVarint_step_last [of i v b] by simp
next
  case (Suc k)
  have "[i..<i + Suc k] = i # [Suc i..<Suc i + k]" by (simp add: upt_rec)
  with Suc.IH [of "Suc i"] Suc.prems ConsumeVarint_step_more [of i v] show ?case
    by simp
qed

text \<open>The unrolled writer is a number of marked groups and a last one, and it is read back.\<close>

definition varint_groups :: "64 word \<Rightarrow> nat" where
  "varint_groups v =
     (if v < 2 ^ 7 then 0 else if v < 2 ^ 14 then 1 else if v < 2 ^ 21 then 2 else if v < 2 ^ 28 then 3
      else if v < 2 ^ 35 then 4 else if v < 2 ^ 42 then 5 else if v < 2 ^ 49 then 6 else if v < 2 ^ 56 then 7
      else if v < 2 ^ 63 then 8 else 9)"

lemma varint_last_9: "\<not> v < 2 ^ 63 \<Longrightarrow> varint_last v 9 = 1"
proof -
  assume "\<not> v < 2 ^ 63"
  then have "take_bit 63 v \<noteq> v" using take_bit_small [of 63 v] by simp
  then obtain n where n: "bit v n" "63 \<le> n"
    by (metis bit_eqI bit_take_bit_iff not_le)
  moreover have "n < 64" using bit_imp_le_length [OF n(1)] by simp
  ultimately have "n = 63" by linarith
  with n have "bit v 63" by simp
  then show ?thesis
    unfolding varint_last_def by (intro bit_eqI) (auto simp: bit_simps bit_1_iff dest: bit_imp_le_length)
qed

lemma upt_0_upto_9:
  "[0..<Suc 0] = [0]" "[0..<2] = [0, 1]" "[0..<3] = [0, 1, 2]" "[0..<4] = [0, 1, 2, 3]" "[0..<5] = [0, 1, 2, 3, 4]"
  "[0..<6] = [0, 1, 2, 3, 4, 5]" "[0..<7] = [0, 1, 2, 3, 4, 5, 6]" "[0..<8] = [0, 1, 2, 3, 4, 5, 6, 7]"
  "[0..<9] = [0, 1, 2, 3, 4, 5, 6, 7, 8]"
  by (simp_all add: eval_nat_numeral)

lemma AppendVarint_eq:
  "AppendVarint b v = b @ map (varint_more v) [0..<varint_groups v] @ [varint_last v (varint_groups v)]"
proof -
  note eval = AppendVarint_def varint_groups_def upt_0_upto_9
  show ?thesis
    apply (cases "v < 2 ^ 7", simp add: eval)
    apply (cases "v < 2 ^ 14", simp add: eval)
    apply (cases "v < 2 ^ 21", simp add: eval)
    apply (cases "v < 2 ^ 28", simp add: eval)
    apply (cases "v < 2 ^ 35", simp add: eval)
    apply (cases "v < 2 ^ 42", simp add: eval)
    apply (cases "v < 2 ^ 49", simp add: eval)
    apply (cases "v < 2 ^ 56", simp add: eval)
    apply (cases "v < 2 ^ 63", simp add: eval)
    apply (simp add: eval varint_last_9)
    done
qed

lemma varint_groups_bound: "varint_groups v \<le> 9" "take_bit (7 * varint_groups v + 7) v = v"
  by (simp_all add: varint_groups_def take_bit_small take_bit_word_beyond_length_eq)

lemma ConsumeVarint_AppendVarint:
  "ConsumeVarint (AppendVarint [] v @ b) = Inr (v, length (AppendVarint [] v))"
  using ConsumeVarint_groups [of 0 "varint_groups v" v b] varint_groups_bound [of v]
  by (simp add: ConsumeVarint_def AppendVarint_eq)

lemma AppendVarint_append: "AppendVarint b v = b @ AppendVarint [] v"
  by (simp add: AppendVarint_eq)

lemma AppendVarint_not_Nil [simp]: "AppendVarint b v \<noteq> []"
  by (simp add: AppendVarint_eq)

lemma ConsumeBytes_AppendBytes:
  assumes "length v < 2 ^ 63"
  shows "ConsumeBytes (AppendBytes [] v @ b) = Inr (v, length (AppendBytes [] v))"
proof -
  have "unat (of_nat (length v) :: 64 word) = length v"
    using assms by (simp add: unat_of_nat)
  then show ?thesis
    using ConsumeVarint_AppendVarint [of "of_nat (length v)" "v @ b"]
    by (simp add: ConsumeBytes_def AppendBytes_def)
qed

lemma and_7: "x AND 7 = take_bit 3 (x :: 64 word)"
  by (simp add: take_bit_eq_mask mask_numeral)

lemma EncodeTag_parts:
  assumes "0 \<le> num" and "num < 2 ^ 29" and "ty < 8"
  shows "drop_bit 3 (EncodeTag num ty) = word_of_int num" "unat (EncodeTag num ty AND 7) = ty"
proof -
  have n: "bit num k \<Longrightarrow> k < 29" for k
    using bit_take_bit_iff [of 29 num k] assms(1,2) by (simp add: take_bit_int_eq_self)
  have "drop_bit 3 (EncodeTag num ty) = word_of_int num"
    unfolding EncodeTag_def and_7 by (rule bit_eqI) (auto simp: bit_simps, drule n, simp)
  moreover have "take_bit 3 (EncodeTag num ty) = take_bit 3 (of_nat ty)"
    unfolding EncodeTag_def and_7 by (rule bit_eqI) (auto simp: bit_simps)
  ultimately show "drop_bit 3 (EncodeTag num ty) = word_of_int num" "unat (EncodeTag num ty AND 7) = ty"
    using assms(3) by (simp_all add: and_7 unsigned_take_bit_eq unat_of_nat take_bit_nat_eq_self)
qed

lemma DecodeTag_EncodeTag:
  assumes "1 \<le> num" and "num < 2 ^ 29" and "ty < 8"
  shows "DecodeTag (EncodeTag num ty) = (num, ty)"
proof -
  note parts = EncodeTag_parts [of num ty]
  have "uint (word_of_int num :: 64 word) = num"
    using assms(1,2) by (simp add: uint_word_of_int)
  then show ?thesis
    using assms parts by (simp add: DecodeTag_def word_less_def)
qed

lemma ConsumeTag_AppendTag:
  assumes "1 \<le> num" and "num < 2 ^ 29" and "ty < 8"
  shows "ConsumeTag (AppendTag [] num ty @ b) = Inr (num, ty, length (AppendTag [] num ty))"
  using DecodeTag_EncodeTag [OF assms] assms(1)
  by (simp add: ConsumeTag_def AppendTag_def ConsumeVarint_AppendVarint)

section \<open>The fast path\<close>

text \<open>The reader of messages tries one and two bytes before it calls the general function.\<close>

definition ConsumeVarint_fast :: "byte list \<Rightarrow> wire_error + 64 word \<times> nat" where
  "ConsumeVarint_fast b =
     (if length b \<ge> 1 \<and> b ! 0 < 0x80 then Inr (ucast (b ! 0), 1)
      else if length b \<ge> 2 \<and> b ! 1 < 128 then
        Inr (ucast (b ! 0 AND 0x7f) + push_bit 7 (ucast (b ! 1)), 2)
      else ConsumeVarint b)"

lemma ucast_less_0x80: "(ucast (b :: byte) :: 64 word) < 0x80 \<longleftrightarrow> b < 0x80"
  using uint_up_ucast [where w = b and 'b = 64] by (simp add: word_less_def is_up)

lemma ucast_minus_0x80:
  assumes "\<not> b < 0x80"
  shows "(ucast (b :: byte) :: 64 word) - 0x80 = ucast (b AND 0x7f)"
proof -
  have low: "b AND 0x7f = take_bit 7 b" by (simp add: take_bit_eq_mask mask_numeral)
  have "take_bit 7 b \<noteq> b" using assms take_bit_small [of 7 b] by simp
  then obtain n where n: "bit b n" "7 \<le> n"
    by (metis bit_eqI bit_take_bit_iff not_le)
  moreover have "n < 8" using bit_imp_le_length [OF n(1)] by simp
  ultimately have "n = 7" by linarith
  with n have "bit b 7" by simp
  then have "(ucast b :: 64 word) = take_bit 7 (ucast b) OR 0x80"
    by (intro bit_eqI) (auto simp: bit_ucast_iff bit_or_iff bit_take_bit_iff bit_unsigned_iff dest: bit_imp_le_length)
  then have "(ucast b :: 64 word) = take_bit 7 (ucast b) + 0x80" by (simp only: plus_0x80)
  moreover have "take_bit 7 (ucast b) = (ucast (take_bit 7 b) :: 64 word)"
    by (intro bit_eqI) (auto simp: bit_simps)
  ultimately show ?thesis by (metis add_diff_cancel_right' low)
qed

lemma ConsumeVarint_fast_eq: "ConsumeVarint_fast b = ConsumeVarint b"
proof (cases b)
  case (Cons b0 bs)
  show ?thesis
  proof (cases bs)
    case (Cons b1 bs')
    with \<open>b = b0 # bs\<close> ucast_minus_0x80 [of b0] show ?thesis
      by (simp add: ConsumeVarint_fast_def ConsumeVarint_def ucast_less_0x80 Let_def)
  qed (simp add: \<open>b = b0 # bs\<close> ConsumeVarint_fast_def ConsumeVarint_def ucast_less_0x80 Let_def)
qed (simp add: ConsumeVarint_fast_def)

end
