(* ===== verification/Proto_Message.thy ===== *)
theory Proto_Message
  imports Proto_Wire Strconv
begin

text \<open>
  Messages of protocol buffers as \<open>google.golang.org/protobuf\<close> (\<open>src/vendor\<close>) reads and writes them: a generated file hands
  its raw descriptor and its Go types to \<open>TypeBuilder.Build\<close> (\<open>internal/filetype\<close>), which reads the descriptor (\<open>internal/filedesc\<close>) and
  pairs every message with its Go type; from the pair follow the coders of the fields (\<open>internal/impl\<close>), and
  from these the functions that write and read a message. The part modelled is that of files whose messages have only
  singular fields of type \<open>string\<close> and \<open>int32\<close> in the syntax proto3. \<open>None\<close> stands for a panic, and for any
  descriptor outside that part.
\<close>

section \<open>Strings\<close>

text \<open>A Go string is a list of bytes.\<close>

definition str_bytes :: "string \<Rightarrow> byte list" where
  "str_bytes s = map (\<lambda>c. word_of_nat (of_char c)) s"

definition bytes_str :: "byte list \<Rightarrow> string" where
  "bytes_str b = map (\<lambda>x. char_of (unat x)) b"

text \<open>\<open>utf8.Valid\<close>: the size of the rune that a byte starts and the range of the byte after it.\<close>

definition utf8_first :: "byte \<Rightarrow> (nat \<times> byte \<times> byte) option" where
  "utf8_first c =
     (if 0xC2 \<le> c \<and> c \<le> 0xDF then Some (2, 0x80, 0xBF)
      else if c = 0xE0 then Some (3, 0xA0, 0xBF)
      else if c = 0xED then Some (3, 0x80, 0x9F)
      else if 0xE1 \<le> c \<and> c \<le> 0xEF then Some (3, 0x80, 0xBF)
      else if c = 0xF0 then Some (4, 0x90, 0xBF)
      else if 0xF1 \<le> c \<and> c \<le> 0xF3 then Some (4, 0x80, 0xBF)
      else if c = 0xF4 then Some (4, 0x80, 0x8F)
      else None)"

definition continuation :: "byte \<Rightarrow> bool" where
  "continuation c \<longleftrightarrow> 0x80 \<le> c \<and> c \<le> 0xBF"

function utf8_Valid :: "byte list \<Rightarrow> bool" where
  "utf8_Valid [] = True"
| "utf8_Valid (c # s) =
     (if c < 0x80 then utf8_Valid s
      else case utf8_first c of
        None \<Rightarrow> False
      | Some (sz, lo, hi) \<Rightarrow>
          if length (c # s) < sz then False
          else if \<not> (lo \<le> s ! 0 \<and> s ! 0 \<le> hi) then False
          else if \<not> list_all continuation (take (sz - 2) (drop 1 s)) then False
          else utf8_Valid (drop (sz - 1) s))"
  by pat_completeness auto
termination by (relation "measure length") auto

section \<open>Descriptors\<close>

datatype raw_value = RVarint "64 word" | RBytes "byte list" | RSkipped

text \<open>
  The loop over the fields of a descriptor. The functions that read the parts of a descriptor (\<open>unmarshalSeed\<close> and \<open>unmarshalFull\<close> of files, messages, fields, services
  and methods) each have a copy of it, which differ in what they do with a number and its value.
\<close>

function raw_fields :: "byte list \<Rightarrow> (int \<times> raw_value) list option" where
  "raw_fields b =
     (if b = [] then Some []
      else case ConsumeTag b of
        Inl _ \<Rightarrow> None
      | Inr (num, typ, n) \<Rightarrow>
          if typ = VarintType then
            (case ConsumeVarint (drop n b) of
               Inl _ \<Rightarrow> None
             | Inr (v, m) \<Rightarrow> map_option ((#) (num, RVarint v)) (raw_fields (drop m (drop n b))))
          else if typ = BytesType then
            (case ConsumeBytes (drop n b) of
               Inl _ \<Rightarrow> None
             | Inr (v, m) \<Rightarrow> map_option ((#) (num, RBytes v)) (raw_fields (drop m (drop n b))))
          else
            (case ConsumeFieldValue num typ (drop n b) of
               Inl _ \<Rightarrow> None
             | Inr m \<Rightarrow> map_option ((#) (num, RSkipped)) (raw_fields (drop m (drop n b)))))"
  by pat_completeness auto
termination by (relation "measure length") (auto dest!: ConsumeTag_length)

definition bytes_of :: "int \<Rightarrow> (int \<times> raw_value) list \<Rightarrow> byte list list" where
  "bytes_of num fs = concat (map (\<lambda>(n, v). case v of RBytes b \<Rightarrow> if n = num then [b] else [] | _ \<Rightarrow> []) fs)"

definition varints_of :: "int \<Rightarrow> (int \<times> raw_value) list \<Rightarrow> 64 word list" where
  "varints_of num fs = concat (map (\<lambda>(n, v). case v of RVarint x \<Rightarrow> if n = num then [x] else [] | _ \<Rightarrow> []) fs)"

definition last_or :: "'a \<Rightarrow> 'a list \<Rightarrow> 'a" where
  "last_or d xs = (if xs = [] then d else last xs)"

text \<open>The declarations of one kind have to stand side by side.\<close>

definition contiguous :: "int \<Rightarrow> (int \<times> raw_value) list \<Rightarrow> bool" where
  "contiguous num fs =
     (let it = (\<lambda>f. bytes_of num [f] \<noteq> [])
      in list_all (Not \<circ> it) (dropWhile it (dropWhile (Not \<circ> it) fs)))"

record FieldDesc =
  fd_FullName :: string
  fd_Number :: int
  fd_Cardinality :: int
  fd_Kind :: int

record MessageDesc =
  md_FullName :: string
  md_Fields :: "FieldDesc list"

record ProtoMethodDesc =
  pm_FullName :: string
  pm_Input :: string
  pm_Output :: string

record ProtoServiceDesc =
  ps_FullName :: string
  ps_Methods :: "ProtoMethodDesc list"

datatype Syntax = Proto2 | Proto3

record FileDesc =
  file_Path :: string
  file_Package :: string
  file_Syntax :: Syntax
  file_Messages :: "MessageDesc list"
  file_Services :: "ProtoServiceDesc list"

definition appendFullName :: "string \<Rightarrow> byte list \<Rightarrow> string" where
  "appendFullName prefix suffix = (if prefix = '''' then bytes_str suffix else prefix @ ''.'' @ bytes_str suffix)"

definition makeFullName :: "byte list \<Rightarrow> string option" where
  "makeFullName b = (case bytes_str b of c # cs \<Rightarrow> if c = CHR ''.'' then Some cs else None | [] \<Rightarrow> None)"

definition int32 :: "64 word \<Rightarrow> int" where
  "int32 v = sint (ucast v :: 32 word)"

definition int8 :: "64 word \<Rightarrow> int" where
  "int8 v = sint (ucast v :: 8 word)"

definition Field_unmarshal :: "string \<Rightarrow> byte list \<Rightarrow> FieldDesc option" where
  "Field_unmarshal parent b = do {
     fs \<leftarrow> raw_fields b;
     if varints_of 9 fs \<noteq> [] \<or> varints_of 17 fs \<noteq> [] \<or> bytes_of 6 fs \<noteq> [] \<or> bytes_of 7 fs \<noteq> [] \<or> bytes_of 8 fs \<noteq> []
     then None
     else Some \<lparr>fd_FullName = last_or '''' (map (appendFullName parent) (bytes_of 1 fs)),
       fd_Number = last_or 0 (map int32 (varints_of 3 fs)),
       fd_Cardinality = last_or 0 (map int8 (varints_of 4 fs)),
       fd_Kind = last_or 0 (map int8 (varints_of 5 fs))\<rparr>
   }"

definition Message_unmarshal :: "string \<Rightarrow> byte list \<Rightarrow> MessageDesc option" where
  "Message_unmarshal parent b = do {
     fs \<leftarrow> raw_fields b;
     if list_ex (\<lambda>num. bytes_of num fs \<noteq> []) [3, 4, 5, 6, 7, 8] then None
     else do {
       let name = last_or '''' (map (appendFullName parent) (bytes_of 1 fs));
       fields \<leftarrow> those (map (Field_unmarshal name) (bytes_of 2 fs));
       Some \<lparr>md_FullName = name, md_Fields = fields\<rparr>
     }
   }"

definition Method_unmarshal :: "string \<Rightarrow> byte list \<Rightarrow> ProtoMethodDesc option" where
  "Method_unmarshal parent b = do {
     fs \<leftarrow> raw_fields b;
     inputs \<leftarrow> those (map makeFullName (bytes_of 2 fs));
     outputs \<leftarrow> those (map makeFullName (bytes_of 3 fs));
     Some \<lparr>pm_FullName = last_or '''' (map (appendFullName parent) (bytes_of 1 fs)),
       pm_Input = last_or '''' inputs, pm_Output = last_or '''' outputs\<rparr>
   }"

definition Service_unmarshal :: "string \<Rightarrow> byte list \<Rightarrow> ProtoServiceDesc option" where
  "Service_unmarshal parent b = do {
     fs \<leftarrow> raw_fields b;
     let name = last_or '''' (map (appendFullName parent) (bytes_of 1 fs));
     methods \<leftarrow> those (map (Method_unmarshal name) (bytes_of 2 fs));
     Some \<lparr>ps_FullName = name, ps_Methods = methods\<rparr>
   }"

definition syntax_of :: "byte list list \<Rightarrow> Syntax option" where
  "syntax_of bs =
     (if list_all (\<lambda>b. bytes_str b = ''proto2'' \<or> bytes_str b = ''proto3'') bs
      then Some (last_or Proto2 (map (\<lambda>b. if bytes_str b = ''proto3'' then Proto3 else Proto2) bs))
      else None)"

definition File_unmarshal :: "byte list \<Rightarrow> FileDesc option" where
  "File_unmarshal b = do {
     fs \<leftarrow> raw_fields b;
     if \<not> list_all (\<lambda>num. contiguous num fs) [4, 5, 6, 7] \<or> bytes_of 5 fs \<noteq> [] \<or> bytes_of 7 fs \<noteq> [] then None
     else do {
       syntax \<leftarrow> syntax_of (bytes_of 12 fs);
       let pkg = last_or '''' (map bytes_str (bytes_of 2 fs));
       messages \<leftarrow> those (map (Message_unmarshal pkg) (bytes_of 4 fs));
       services \<leftarrow> those (map (Service_unmarshal pkg) (bytes_of 6 fs));
       Some \<lparr>file_Path = last_or '''' (map bytes_str (bytes_of 1 fs)), file_Package = pkg, file_Syntax = syntax,
         file_Messages = messages, file_Services = services\<rparr>
     }
   }"

section \<open>Go types\<close>

datatype go_kind = GoString | GoInt32 | GoOther

text \<open>A field of a struct, with the value of the key \<open>protobuf\<close> in its tag (empty if there is none).\<close>

record go_field =
  gf_Name :: string
  gf_Kind :: go_kind
  gf_Tag :: string

record go_struct =
  gs_Name :: string
  gs_Fields :: "go_field list"

fun strings_Split :: "char \<Rightarrow> string \<Rightarrow> string \<Rightarrow> string list" where
  "strings_Split sep [] acc = [acc]"
| "strings_Split sep (c # cs) acc = (if c = sep then acc # strings_Split sep cs [] else strings_Split sep cs (acc @ [c]))"

text \<open>The first part of the tag that consists of digits is the number of the field.\<close>

definition tag_number :: "string \<Rightarrow> int option" where
  "tag_number tag =
     (case List.find (\<lambda>s. s \<noteq> [] \<and> read_digits s 0 \<noteq> None) (strings_Split (CHR '','') tag []) of
        None \<Rightarrow> None
      | Some s \<Rightarrow> map_option int (read_digits s 0))"

definition special_field :: "string \<Rightarrow> bool" where
  "special_field name = List.member [''sizeCache'', ''XXX_sizecache'', ''weakFields'', ''XXX_weak'', ''unknownFields'',
     ''XXX_unrecognized'', ''extensionFields'', ''XXX_InternalExtensions'', ''XXX_extensions''] name"

definition makeStructInfo :: "go_struct \<Rightarrow> int \<rightharpoonup> go_field" where
  "makeStructInfo t =
     fold (\<lambda>f m. if special_field (gf_Name f) then m
        else case tag_number (gf_Tag f) of None \<Rightarrow> m | Some n \<Rightarrow> m(n \<mapsto> f)) (gs_Fields t) Map.empty"

section \<open>Building the types of a file\<close>

record TypeBuilder =
  tb_RawDescriptor :: "byte list"
  tb_NumEnums :: nat
  tb_NumMessages :: nat
  tb_NumExtensions :: nat
  tb_NumServices :: nat
  tb_GoTypes :: "go_struct list"
  tb_DependencyIndexes :: "nat list"
  tb_MessageInfos :: nat

record MessageInfo =
  mi_GoReflectType :: go_struct
  mi_Desc :: MessageDesc
  mi_Syntax :: Syntax

text \<open>
  The number of declarations of each kind must be as announced, unless nothing is; there must be a Go type for every message
  and as many message infos as messages.
\<close>

definition Build :: "TypeBuilder \<Rightarrow> (FileDesc \<times> MessageInfo list) option" where
  "Build tb = do {
     file \<leftarrow> File_unmarshal (tb_RawDescriptor tb);
     let n = length (file_Messages file);
     if tb_NumEnums tb + tb_NumMessages tb + tb_NumExtensions tb + tb_NumServices tb \<noteq> 0 \<and>
        (tb_NumEnums tb, tb_NumMessages tb, tb_NumExtensions tb, tb_NumServices tb) \<noteq> (0, n, 0, length (file_Services file))
     then None
     else if length (tb_GoTypes tb) < n \<or> tb_MessageInfos tb \<noteq> n then None
     else Some (file, map (\<lambda>(t, d). \<lparr>mi_GoReflectType = t, mi_Desc = d, mi_Syntax = file_Syntax file\<rparr>)
       (zip (tb_GoTypes tb) (file_Messages file)))
   }"

text \<open>The last entries of the indexes tell where the list of each kind of dependency starts.\<close>

definition depIdxs_Get :: "nat list \<Rightarrow> nat \<Rightarrow> nat \<Rightarrow> nat option" where
  "depIdxs_Get x i j =
     (if length x < i + 1 then None
      else let k = x ! (length x - i - 1) + j in if length x \<le> k then None else Some (x ! k))"

definition FindMessageByIndex :: "nat list \<Rightarrow> nat \<Rightarrow> nat \<Rightarrow> MessageDesc list \<Rightarrow> MessageDesc option" where
  "FindMessageByIndex deps i j ms = do {
     depIdx \<leftarrow> depIdxs_Get deps i j;
     if depIdx < length ms then Some (ms ! depIdx) else None
   }"

text \<open>The methods of the services with the messages they take and give.\<close>

definition resolveServices ::
  "FileDesc \<Rightarrow> nat list \<Rightarrow> (ProtoMethodDesc \<times> MessageDesc \<times> MessageDesc) list option" where
  "resolveServices file deps =
     those (map (\<lambda>(depIdx, md). do {
         inp \<leftarrow> FindMessageByIndex deps 3 depIdx (file_Messages file);
         out \<leftarrow> FindMessageByIndex deps 4 depIdx (file_Messages file);
         Some (md, inp, out)
       }) (let ms = concat (map ps_Methods (file_Services file)) in zip [0..<length ms] ms))"

section \<open>Coders\<close>

datatype coder = coderInt32NoZero | coderStringNoZeroValidateUTF8

definition fieldCoder :: "Syntax \<Rightarrow> FieldDesc \<Rightarrow> go_kind \<Rightarrow> coder option" where
  "fieldCoder syntax fd ft =
     (if fd_Cardinality fd = 3 \<or> syntax \<noteq> Proto3 then None
      else if fd_Kind fd = 5 \<and> ft = GoInt32 then Some coderInt32NoZero
      else if fd_Kind fd = 9 \<and> ft = GoString then Some coderStringNoZeroValidateUTF8
      else None)"

definition wireType :: "coder \<Rightarrow> nat" where
  "wireType c = (case c of coderInt32NoZero \<Rightarrow> VarintType | coderStringNoZeroValidateUTF8 \<Rightarrow> BytesType)"

record coderFieldInfo =
  cf_num :: int
  cf_wiretag :: "64 word"
  cf_field :: string
  cf_coder :: coder

definition makeCoderField :: "MessageInfo \<Rightarrow> FieldDesc \<Rightarrow> coderFieldInfo option" where
  "makeCoderField mi fd = do {
     fs \<leftarrow> makeStructInfo (mi_GoReflectType mi) (fd_Number fd);
     c \<leftarrow> fieldCoder (mi_Syntax mi) fd (gf_Kind fs);
     Some \<lparr>cf_num = fd_Number fd, cf_wiretag = EncodeTag (fd_Number fd) (wireType c), cf_field = gf_Name fs, cf_coder = c\<rparr>
   }"

text \<open>The fields in the order of their numbers, which have to be distinct.\<close>

definition makeCoderMethods :: "MessageInfo \<Rightarrow> coderFieldInfo list option" where
  "makeCoderMethods mi =
     (if distinct (map fd_Number (md_Fields (mi_Desc mi)))
      then map_option (sort_key cf_num) (those (map (makeCoderField mi) (md_Fields (mi_Desc mi))))
      else None)"

section \<open>Writing and reading a message\<close>

datatype fvalue = FString string | FInt32 "32 word"

text \<open>The exported fields of a struct, by name.\<close>

type_synonym struct_val = "string \<rightharpoonup> fvalue"

definition errDecode :: go_error where
  "errDecode = Other ''cannot parse invalid wire-format data''"

definition errInvalidUTF8 :: go_error where
  "errInvalidUTF8 = Other ''invalid UTF-8''"

definition get_string :: "fvalue option \<Rightarrow> string" where
  "get_string v = (case v of Some (FString s) \<Rightarrow> s | _ \<Rightarrow> '''')"

definition get_int32 :: "fvalue option \<Rightarrow> 32 word" where
  "get_int32 v = (case v of Some (FInt32 i) \<Rightarrow> i | _ \<Rightarrow> 0)"

text \<open>The coders of the two kinds of fields: \<open>append...\<close> writes a field unless it has its zero value, \<open>consume...\<close> reads one.\<close>

definition appendInt32NoZero :: "coderFieldInfo \<Rightarrow> struct_val \<Rightarrow> byte list \<Rightarrow> go_error + byte list" where
  "appendInt32NoZero f p b =
     (let v = get_int32 (p (cf_field f))
      in if v = 0 then Inr b
         else Inr (AppendVarint (AppendVarint b (cf_wiretag f)) (scast v)))"

definition appendStringNoZeroValidateUTF8 ::
  "coderFieldInfo \<Rightarrow> struct_val \<Rightarrow> byte list \<Rightarrow> go_error + byte list" where
  "appendStringNoZeroValidateUTF8 f p b =
     (let v = str_bytes (get_string (p (cf_field f)))
      in if length v = 0 then Inr b
         else let b = AppendBytes (AppendVarint b (cf_wiretag f)) v
              in if \<not> utf8_Valid v then Inl errInvalidUTF8 else Inr b)"

definition marshalField :: "coderFieldInfo \<Rightarrow> struct_val \<Rightarrow> byte list \<Rightarrow> go_error + byte list" where
  "marshalField f =
     (case cf_coder f of
        coderInt32NoZero \<Rightarrow> appendInt32NoZero f
      | coderStringNoZeroValidateUTF8 \<Rightarrow> appendStringNoZeroValidateUTF8 f)"

lemmas marshalField_defs = marshalField_def appendInt32NoZero_def appendStringNoZeroValidateUTF8_def

primrec marshalAppendPointer ::
  "coderFieldInfo list \<Rightarrow> struct_val \<Rightarrow> byte list \<Rightarrow> byte list \<Rightarrow> go_error + byte list" where
  "marshalAppendPointer [] p unknown b = Inr (b @ unknown)"
| "marshalAppendPointer (f # fs) p unknown b =
     (case marshalField f p b of
        Inl err \<Rightarrow> Inl err
      | Inr b \<Rightarrow> marshalAppendPointer fs p unknown b)"

datatype consumed = Unknown | Failed go_error | Consumed fvalue nat

definition consumeInt32 :: "nat \<Rightarrow> byte list \<Rightarrow> consumed" where
  "consumeInt32 wtyp b =
     (if wtyp \<noteq> VarintType then Unknown
      else (case ConsumeVarint_fast b of
          Inl _ \<Rightarrow> Failed errDecode
        | Inr (v, n) \<Rightarrow> Consumed (FInt32 (ucast v)) n))"

definition consumeStringValidateUTF8 :: "nat \<Rightarrow> byte list \<Rightarrow> consumed" where
  "consumeStringValidateUTF8 wtyp b =
     (if wtyp \<noteq> BytesType then Unknown
      else (case ConsumeBytes b of
          Inl _ \<Rightarrow> Failed errDecode
        | Inr (v, n) \<Rightarrow>
            if \<not> utf8_Valid v then Failed errInvalidUTF8 else Consumed (FString (bytes_str v)) n))"

definition unmarshalField :: "coder \<Rightarrow> nat \<Rightarrow> byte list \<Rightarrow> consumed" where
  "unmarshalField c =
     (case c of
        coderInt32NoZero \<Rightarrow> consumeInt32
      | coderStringNoZeroValidateUTF8 \<Rightarrow> consumeStringValidateUTF8)"

lemmas unmarshalField_defs = unmarshalField_def consumeInt32_def consumeStringValidateUTF8_def

definition coderField :: "coderFieldInfo list \<Rightarrow> int \<Rightarrow> coderFieldInfo option" where
  "coderField fs num = List.find (\<lambda>f. cf_num f = num) fs"

lemma ConsumeVarint_fast_length: "ConsumeVarint_fast b = Inr (u, n) \<Longrightarrow> 0 < n \<and> n \<le> length b"
  by (simp add: ConsumeVarint_fast_eq ConsumeVarint_length)

function unmarshalPointer ::
  "coderFieldInfo list \<Rightarrow> byte list \<Rightarrow> struct_val \<Rightarrow> byte list \<Rightarrow> go_error + struct_val \<times> byte list" where
  "unmarshalPointer fs b p unknown =
     (if b = [] then Inr (p, unknown)
      else case ConsumeVarint_fast b of
        Inl _ \<Rightarrow> Inl errDecode
      | Inr (tag, n) \<Rightarrow>
          if drop_bit 3 tag < 1 \<or> drop_bit 3 tag > 2 ^ 29 - 1 then Inl errDecode
          else let num = uint (drop_bit 3 tag);
                   wtyp = unat (tag AND 7)
               in if wtyp = EndGroupType then Inl errDecode
                  else case (case coderField fs num of
                        None \<Rightarrow> Unknown
                      | Some f \<Rightarrow> unmarshalField (cf_coder f) wtyp (drop n b)) of
                    Failed err \<Rightarrow> Inl err
                  | Consumed v m \<Rightarrow>
                      unmarshalPointer fs (drop m (drop n b)) (p(cf_field (the (coderField fs num)) \<mapsto> v)) unknown
                  | Unknown \<Rightarrow>
                      (case ConsumeFieldValue num wtyp (drop n b) of
                         Inl _ \<Rightarrow> Inl errDecode
                       | Inr m \<Rightarrow> unmarshalPointer fs (drop m (drop n b)) p
                           (AppendTag unknown num wtyp @ take m (drop n b))))"
  by pat_completeness auto
termination
  by (relation "measure (\<lambda>(fs, b, p, unknown). length b)") (auto dest!: ConsumeVarint_fast_length)

declare unmarshalPointer.simps [simp del] raw_fields.simps [simp del]

text \<open>The struct with nothing set, from which reading starts.\<close>

definition zero_value :: "go_kind \<Rightarrow> fvalue" where
  "zero_value k = (case k of GoInt32 \<Rightarrow> FInt32 0 | _ \<Rightarrow> FString '''')"

definition zero_struct :: "go_struct \<Rightarrow> struct_val" where
  "zero_struct t = map_of (map (\<lambda>f. (gf_Name f, zero_value (gf_Kind f))) (filter (\<lambda>f. gf_Tag f \<noteq> []) (gs_Fields t)))"

definition Marshal :: "MessageInfo \<Rightarrow> struct_val \<Rightarrow> (go_error + byte list) option" where
  "Marshal mi p = map_option (\<lambda>fs. marshalAppendPointer fs p [] []) (makeCoderMethods mi)"

definition Unmarshal :: "MessageInfo \<Rightarrow> byte list \<Rightarrow> (go_error + struct_val) option" where
  "Unmarshal mi b = map_option (\<lambda>fs. map_sum id fst (unmarshalPointer fs b (zero_struct (mi_GoReflectType mi)) []))
     (makeCoderMethods mi)"

section \<open>The round trip of a message\<close>

lemma bytes_str_bytes [simp]: "bytes_str (str_bytes s) = s"
proof -
  have "unat (word_of_nat (of_char c) :: byte) = of_char c" for c
    by (simp add: unat_of_nat of_char_mod_256)
  then show ?thesis by (simp add: bytes_str_def str_bytes_def map_idI)
qed

lemma length_str_bytes [simp]: "length (str_bytes s) = length s"
  by (simp add: str_bytes_def)

lemma str_bytes_eq_Nil [simp]: "str_bytes s = [] \<longleftrightarrow> s = []"
  by (simp add: str_bytes_def)

text \<open>A table of coders as \<open>makeCoderMethods\<close> makes them, for field numbers in the range of the wire format.\<close>

definition coders_ok :: "coderFieldInfo list \<Rightarrow> bool" where
  "coders_ok fs \<longleftrightarrow> distinct (map cf_num fs) \<and> distinct (map cf_field fs) \<and>
     (\<forall>f \<in> set fs. 1 \<le> cf_num f \<and> cf_num f < 2 ^ 29 \<and> cf_wiretag f = EncodeTag (cf_num f) (wireType (cf_coder f)))"

text \<open>A struct whose fields have values of the right type, strings being valid and of a possible length.\<close>

definition value_ok :: "coder \<Rightarrow> fvalue option \<Rightarrow> bool" where
  "value_ok c v = (case (c, v) of
      (coderInt32NoZero, Some (FInt32 _)) \<Rightarrow> True
    | (coderStringNoZeroValidateUTF8, Some (FString s)) \<Rightarrow> utf8_Valid (str_bytes s) \<and> length s < 2 ^ 63
    | _ \<Rightarrow> False)"

definition zero_of :: "coder \<Rightarrow> fvalue" where
  "zero_of c = (case c of coderInt32NoZero \<Rightarrow> FInt32 0 | coderStringNoZeroValidateUTF8 \<Rightarrow> FString [])"

lemma coderField_Some: "distinct (map cf_num fs) \<Longrightarrow> f \<in> set fs \<Longrightarrow> coderField fs (cf_num f) = Some f"
  unfolding coderField_def by (induction fs) auto

lemma wireType_bound: "wireType c < 8" "wireType c \<noteq> EndGroupType"
  by (cases c; simp add: wireType_def wire_types)+
lemma ucast_scast: "ucast (scast (v :: 32 word) :: 64 word) = v"
  by (rule bit_eqI, rename_tac n, case_tac "n = 31") (auto simp: bit_simps min_def)

lemma tag_in_range:
  assumes "1 \<le> num" and "num < 2 ^ 29" and "wt < 8"
  shows "\<not> drop_bit 3 (EncodeTag num wt) < 1" "\<not> 2 ^ 29 - 1 < drop_bit 3 (EncodeTag num wt)"
    "uint (drop_bit 3 (EncodeTag num wt)) = num" "unat (EncodeTag num wt AND 7) = wt"
proof -
  have num: "uint (word_of_int num :: 64 word) = num" using assms(1,2) by (simp add: uint_word_of_int)
  show "\<not> drop_bit 3 (EncodeTag num wt) < 1" "\<not> 2 ^ 29 - 1 < drop_bit 3 (EncodeTag num wt)"
    "uint (drop_bit 3 (EncodeTag num wt)) = num" "unat (EncodeTag num wt AND 7) = wt"
    using assms EncodeTag_parts [of num wt] num by (simp_all add: word_less_def)
qed

text \<open>A field that is known is read with its coder.\<close>

lemma unmarshal_known:
  assumes "coders_ok fs" and "f \<in> set fs"
    and "unmarshalField (cf_coder f) (wireType (cf_coder f)) b = Consumed v m"
  shows "unmarshalPointer fs (AppendVarint [] (cf_wiretag f) @ b) q u =
    unmarshalPointer fs (drop m b) (q(cf_field f \<mapsto> v)) u"
proof -
  let ?wt = "wireType (cf_coder f)"
  have f: "1 \<le> cf_num f" "cf_num f < 2 ^ 29" "cf_wiretag f = EncodeTag (cf_num f) ?wt"
    and known: "coderField fs (cf_num f) = Some f"
    using assms(1,2) coderField_Some by (auto simp: coders_ok_def)
  show ?thesis
    using tag_in_range [OF f(1,2) wireType_bound(1)] assms(3) known wireType_bound(2) [of "cf_coder f"]
    by (subst unmarshalPointer.simps)
       (simp add: f(3) ConsumeVarint_fast_eq ConsumeVarint_AppendVarint Let_def)
qed

lemma marshalField_zero:
  "p (cf_field f) = Some (zero_of (cf_coder f)) \<Longrightarrow> marshalField f p b = Inr b"
  by (cases "cf_coder f") (simp_all add: marshalField_defs zero_of_def get_int32_def get_string_def str_bytes_def)

lemma marshalField_value:
  assumes "coders_ok fs" and "f \<in> set fs" and "value_ok (cf_coder f) (p (cf_field f))"
    and "p (cf_field f) \<noteq> Some (zero_of (cf_coder f))"
  obtains e where "\<And>b. marshalField f p b = Inr (b @ e)"
    "\<And>rest q u. unmarshalPointer fs (e @ rest) q u = unmarshalPointer fs rest (q(cf_field f := p (cf_field f))) u"
proof (cases "cf_coder f")
  case coderInt32NoZero
  then obtain v where v: "p (cf_field f) = Some (FInt32 v)" "v \<noteq> 0"
    using assms(3,4) by (auto simp: value_ok_def zero_of_def split: option.splits fvalue.splits)
  let ?e = "AppendVarint [] (cf_wiretag f) @ AppendVarint [] (scast v)"
  have "unmarshalField (cf_coder f) (wireType (cf_coder f)) (AppendVarint [] (scast v) @ rest) =
      Consumed (FInt32 v) (length (AppendVarint [] (scast v :: 64 word)))" for rest
    by (simp add: coderInt32NoZero unmarshalField_defs wireType_def ConsumeVarint_fast_eq ConsumeVarint_AppendVarint ucast_scast)
  then have "unmarshalPointer fs (?e @ rest) q u = unmarshalPointer fs rest (q(cf_field f := p (cf_field f))) u" for rest q u
    by (simp add: unmarshal_known [OF assms(1,2)] v(1))
  moreover have "marshalField f p b = Inr (b @ ?e)" for b
    using v by (simp add: marshalField_defs coderInt32NoZero get_int32_def AppendVarint_eq)
  ultimately show ?thesis by (rule that [rotated])
next
  case coderStringNoZeroValidateUTF8
  then obtain s where s: "p (cf_field f) = Some (FString s)" "s \<noteq> []" "utf8_Valid (str_bytes s)" "length s < 2 ^ 63"
    using assms(3,4) by (auto simp: value_ok_def zero_of_def split: option.splits fvalue.splits)
  let ?e = "AppendVarint [] (cf_wiretag f) @ AppendBytes [] (str_bytes s)"
  have "unmarshalField (cf_coder f) (wireType (cf_coder f)) (AppendBytes [] (str_bytes s) @ rest) =
      Consumed (FString s) (length (AppendBytes [] (str_bytes s)))" for rest
    using s by (simp add: coderStringNoZeroValidateUTF8 unmarshalField_defs wireType_def ConsumeBytes_AppendBytes)
  then have "unmarshalPointer fs (?e @ rest) q u = unmarshalPointer fs rest (q(cf_field f := p (cf_field f))) u" for rest q u
    by (simp add: unmarshal_known [OF assms(1,2)] s(1))
  moreover have "marshalField f p b = Inr (b @ ?e)" for b
    using s by (simp add: marshalField_defs coderStringNoZeroValidateUTF8 get_string_def AppendBytes_def AppendVarint_eq Let_def)
  ultimately show ?thesis by (rule that [rotated])
qed

lemma marshal_unmarshal_fields:
  assumes "coders_ok fs" and "set gs \<subseteq> set fs"
    and "\<And>f. f \<in> set gs \<Longrightarrow> value_ok (cf_coder f) (p (cf_field f))"
    and "\<And>f. f \<in> set gs \<Longrightarrow> q (cf_field f) = Some (zero_of (cf_coder f))"
    and "distinct (map cf_field gs)"
  obtains e where "\<And>b. marshalAppendPointer gs p [] b = Inr (b @ e)"
    "unmarshalPointer fs e q u = Inr (\<lambda>x. if x \<in> cf_field ` set gs then p x else q x, u)"
  using assms(2-)
proof (induction gs arbitrary: q thesis)
  case Nil
  show ?case
    by (rule Nil(1) [of "[]"]) (simp_all add: unmarshalPointer.simps [of fs "[]"])
next
  case (Cons f gs)
  have f: "f \<in> set fs" "value_ok (cf_coder f) (p (cf_field f))" using Cons.prems by auto
  show ?case
  proof (cases "p (cf_field f) = Some (zero_of (cf_coder f))")
    case True
    obtain e where e: "\<And>b. marshalAppendPointer gs p [] b = Inr (b @ e)"
      "unmarshalPointer fs e q u = Inr (\<lambda>x. if x \<in> cf_field ` set gs then p x else q x, u)"
      using Cons.IH [of q] Cons.prems by auto
    have "(\<lambda>x. if x \<in> cf_field ` set gs then p x else q x) = (\<lambda>x. if x \<in> cf_field ` set (f # gs) then p x else q x)"
      using True Cons.prems(4) [of f] by auto
    with e show ?thesis
      by (intro Cons.prems(1) [of e]) (simp_all add: marshalField_zero [of p f, OF True])
  next
    case False
    obtain e1 where e1: "\<And>b. marshalField f p b = Inr (b @ e1)"
      "\<And>rest q u. unmarshalPointer fs (e1 @ rest) q u = unmarshalPointer fs rest (q(cf_field f := p (cf_field f))) u"
      using marshalField_value [where p = p, OF assms(1) f False] by blast
    let ?q = "q(cf_field f := p (cf_field f))"
    have zero: "?q (cf_field g) = Some (zero_of (cf_coder g))" if "g \<in> set gs" for g
    proof -
      have "cf_field g \<in> cf_field ` set gs" using that by simp
      then have "cf_field g \<noteq> cf_field f" using Cons.prems(5) by auto
      then show ?thesis using that Cons.prems(4) [of g] by simp
    qed
    have gs: "set gs \<subseteq> set fs" "distinct (map cf_field gs)"
      "\<And>g. g \<in> set gs \<Longrightarrow> value_ok (cf_coder g) (p (cf_field g))"
      using Cons.prems by auto
    obtain e where e: "\<And>b. marshalAppendPointer gs p [] b = Inr (b @ e)"
      "unmarshalPointer fs e ?q u = Inr (\<lambda>x. if x \<in> cf_field ` set gs then p x else ?q x, u)"
      using Cons.IH [of ?q, OF _ gs(1,3) zero gs(2)] by blast
    have "(\<lambda>x. if x \<in> cf_field ` set gs then p x else ?q x) = (\<lambda>x. if x \<in> cf_field ` set (f # gs) then p x else q x)"
      by auto
    with e e1 show ?thesis
      by (intro Cons.prems(1) [of "e1 @ e"]) simp_all
  qed
qed

text \<open>
  Reading what was written gives the same message, for any table of coders and any message whose fields are those of the table.
\<close>

lemma marshal_unmarshal:
  assumes "coders_ok fs" and "\<And>f. f \<in> set fs \<Longrightarrow> value_ok (cf_coder f) (p (cf_field f))"
    and "\<And>f. f \<in> set fs \<Longrightarrow> zero (cf_field f) = Some (zero_of (cf_coder f))"
    and "\<And>x. x \<notin> cf_field ` set fs \<Longrightarrow> p x = zero x"
  obtains e where "marshalAppendPointer fs p [] [] = Inr e" "unmarshalPointer fs e zero [] = Inr (p, [])"
proof -
  have "distinct (map cf_field fs)" using assms(1) by (simp add: coders_ok_def)
  then obtain e where e: "\<And>b. marshalAppendPointer fs p [] b = Inr (b @ e)"
    "unmarshalPointer fs e zero [] = Inr (\<lambda>x. if x \<in> cf_field ` set fs then p x else zero x, [])"
    using marshal_unmarshal_fields [OF assms(1) order_refl assms(2,3)] by blast
  moreover have "(\<lambda>x. if x \<in> cf_field ` set fs then p x else zero x) = p"
    using assms(4) by auto
  ultimately show ?thesis using that [of e] e(1) [of "[]"] by simp
qed

end
