(* ===== verification/Peer_Messages.thy ===== *)
theory Peer_Messages
  imports Proto_Message Peer_Health
begin

text \<open>
  The messages of the peer health service on the wire: the tables of \<open>src/pkg/peerhealth/peerhealth.pb.go\<close> that the generator wrote, the
  types that the protocol buffer library builds from them at the start of the program, and that both messages
  survive the way over the wire.
\<close>

section \<open>The generated tables\<close>

definition file_pkg_peerhealth_peerhealth_proto_rawDesc :: "byte list" where
  "file_pkg_peerhealth_peerhealth_proto_rawDesc =
  [0x0a, 0x1f, 0x70, 0x6b, 0x67, 0x2f, 0x70, 0x65, 0x65, 0x72, 0x68, 0x65, 0x61, 0x6c, 0x74, 0x68,
   0x2f, 0x70, 0x65, 0x65, 0x72, 0x68, 0x65, 0x61, 0x6c, 0x74, 0x68, 0x2e, 0x70, 0x72, 0x6f, 0x74,
   0x6f, 0x12, 0x11, 0x70, 0x6f, 0x69, 0x73, 0x6f, 0x6e, 0x70, 0x69, 0x6c, 0x6c, 0x2e, 0x68, 0x65,
   0x61, 0x6c, 0x74, 0x68, 0x22, 0x2b, 0x0a, 0x0d, 0x48, 0x65, 0x61, 0x6c, 0x74, 0x68, 0x52, 0x65,
   0x71, 0x75, 0x65, 0x73, 0x74, 0x12, 0x1a, 0x0a, 0x08, 0x6e, 0x6f, 0x64, 0x65, 0x4e, 0x61, 0x6d,
   0x65, 0x18, 0x01, 0x20, 0x01, 0x28, 0x09, 0x52, 0x08, 0x6e, 0x6f, 0x64, 0x65, 0x4e, 0x61, 0x6d,
   0x65, 0x22, 0x28, 0x0a, 0x0e, 0x48, 0x65, 0x61, 0x6c, 0x74, 0x68, 0x52, 0x65, 0x73, 0x70, 0x6f,
   0x6e, 0x73, 0x65, 0x12, 0x16, 0x0a, 0x06, 0x73, 0x74, 0x61, 0x74, 0x75, 0x73, 0x18, 0x01, 0x20,
   0x01, 0x28, 0x05, 0x52, 0x06, 0x73, 0x74, 0x61, 0x74, 0x75, 0x73, 0x32, 0x60, 0x0a, 0x0a, 0x50,
   0x65, 0x65, 0x72, 0x48, 0x65, 0x61, 0x6c, 0x74, 0x68, 0x12, 0x52, 0x0a, 0x09, 0x49, 0x73, 0x48,
   0x65, 0x61, 0x6c, 0x74, 0x68, 0x79, 0x12, 0x20, 0x2e, 0x70, 0x6f, 0x69, 0x73, 0x6f, 0x6e, 0x70,
   0x69, 0x6c, 0x6c, 0x2e, 0x68, 0x65, 0x61, 0x6c, 0x74, 0x68, 0x2e, 0x48, 0x65, 0x61, 0x6c, 0x74,
   0x68, 0x52, 0x65, 0x71, 0x75, 0x65, 0x73, 0x74, 0x1a, 0x21, 0x2e, 0x70, 0x6f, 0x69, 0x73, 0x6f,
   0x6e, 0x70, 0x69, 0x6c, 0x6c, 0x2e, 0x68, 0x65, 0x61, 0x6c, 0x74, 0x68, 0x2e, 0x48, 0x65, 0x61,
   0x6c, 0x74, 0x68, 0x52, 0x65, 0x73, 0x70, 0x6f, 0x6e, 0x73, 0x65, 0x22, 0x00, 0x42, 0x10, 0x5a,
   0x0e, 0x70, 0x6b, 0x67, 0x2f, 0x70, 0x65, 0x65, 0x72, 0x68, 0x65, 0x61, 0x6c, 0x74, 0x68, 0x62,
   0x06, 0x70, 0x72, 0x6f, 0x74, 0x6f, 0x33]"

definition HealthRequest_type :: go_struct where
  "HealthRequest_type = \<lparr>gs_Name = ''HealthRequest'', gs_Fields =
     [\<lparr>gf_Name = ''state'', gf_Kind = GoOther, gf_Tag = []\<rparr>,
      \<lparr>gf_Name = ''sizeCache'', gf_Kind = GoInt32, gf_Tag = []\<rparr>,
      \<lparr>gf_Name = ''unknownFields'', gf_Kind = GoOther, gf_Tag = []\<rparr>,
      \<lparr>gf_Name = ''NodeName'', gf_Kind = GoString, gf_Tag = ''bytes,1,opt,name=nodeName,proto3''\<rparr>]\<rparr>"

definition HealthResponse_type :: go_struct where
  "HealthResponse_type = \<lparr>gs_Name = ''HealthResponse'', gs_Fields =
     [\<lparr>gf_Name = ''state'', gf_Kind = GoOther, gf_Tag = []\<rparr>,
      \<lparr>gf_Name = ''sizeCache'', gf_Kind = GoInt32, gf_Tag = []\<rparr>,
      \<lparr>gf_Name = ''unknownFields'', gf_Kind = GoOther, gf_Tag = []\<rparr>,
      \<lparr>gf_Name = ''Status'', gf_Kind = GoInt32, gf_Tag = ''varint,1,opt,name=status,proto3''\<rparr>]\<rparr>"

definition file_pkg_peerhealth_peerhealth_proto_goTypes :: "go_struct list" where
  "file_pkg_peerhealth_peerhealth_proto_goTypes = [HealthRequest_type, HealthResponse_type]"

definition file_pkg_peerhealth_peerhealth_proto_depIdxs :: "nat list" where
  "file_pkg_peerhealth_peerhealth_proto_depIdxs = [0, 1, 1, 0, 0, 0, 0]"

text \<open>The variables of the file, and its \<open>init\<close>, which \<open>Build\<close> fills the message infos for.\<close>

record proto_vars =
  File_pkg_peerhealth_peerhealth_proto :: "FileDesc option"
  msgTypes :: "MessageInfo list"
  rawDesc :: "byte list"
  goTypes :: "go_struct list"
  depIdxs :: "nat list"

definition proto_vars_start :: proto_vars where
  "proto_vars_start = \<lparr>File_pkg_peerhealth_peerhealth_proto = None, msgTypes = [],
     rawDesc = file_pkg_peerhealth_peerhealth_proto_rawDesc, goTypes = file_pkg_peerhealth_peerhealth_proto_goTypes,
     depIdxs = file_pkg_peerhealth_peerhealth_proto_depIdxs\<rparr>"

definition file_pkg_peerhealth_peerhealth_proto_init :: "proto_vars \<Rightarrow> proto_vars option" where
  "file_pkg_peerhealth_peerhealth_proto_init vars =
     (if File_pkg_peerhealth_peerhealth_proto vars \<noteq> None then Some vars
      else do {
        (file, infos) \<leftarrow> Build \<lparr>tb_RawDescriptor = rawDesc vars,
          tb_NumEnums = 0, tb_NumMessages = 2, tb_NumExtensions = 0, tb_NumServices = 1,
          tb_GoTypes = goTypes vars, tb_DependencyIndexes = depIdxs vars, tb_MessageInfos = 2\<rparr>;
        Some (vars\<lparr>File_pkg_peerhealth_peerhealth_proto := Some file, msgTypes := infos,
          rawDesc := [], goTypes := [], depIdxs := []\<rparr>)
      })"

section \<open>The messages\<close>

definition HealthRequest_Reset :: HealthRequest where
  "HealthRequest_Reset = \<lparr>NodeName = ''''\<rparr>"

definition HealthResponse_Reset :: HealthResponse where
  "HealthResponse_Reset = \<lparr>Status = 0\<rparr>"

definition HealthRequest_ProtoReflect :: "MessageInfo option" where
  "HealthRequest_ProtoReflect = map_option (\<lambda>vars. msgTypes vars ! 0) (file_pkg_peerhealth_peerhealth_proto_init proto_vars_start)"

definition HealthResponse_ProtoReflect :: "MessageInfo option" where
  "HealthResponse_ProtoReflect = map_option (\<lambda>vars. msgTypes vars ! 1) (file_pkg_peerhealth_peerhealth_proto_init proto_vars_start)"

text \<open>The fields of the records as the library sees them.\<close>

definition request_struct :: "HealthRequest \<Rightarrow> struct_val" where
  "request_struct r = [''NodeName'' \<mapsto> FString (NodeName r)]"

definition struct_request :: "struct_val \<Rightarrow> HealthRequest" where
  "struct_request p = \<lparr>NodeName = get_string (p ''NodeName'')\<rparr>"

definition response_struct :: "HealthResponse \<Rightarrow> struct_val" where
  "response_struct r = [''Status'' \<mapsto> FInt32 (Status r)]"

definition struct_response :: "struct_val \<Rightarrow> HealthResponse" where
  "struct_response p = \<lparr>Status = get_int32 (p ''Status'')\<rparr>"

text \<open>The codec of gRPC on the two messages.\<close>

definition marshal_request :: "HealthRequest \<Rightarrow> (go_error + byte list) option" where
  "marshal_request r = do { mi \<leftarrow> HealthRequest_ProtoReflect; Marshal mi (request_struct r) }"

definition unmarshal_request :: "byte list \<Rightarrow> (go_error + HealthRequest) option" where
  "unmarshal_request b = do { mi \<leftarrow> HealthRequest_ProtoReflect; map_option (map_sum id struct_request) (Unmarshal mi b) }"

definition marshal_response :: "HealthResponse \<Rightarrow> (go_error + byte list) option" where
  "marshal_response r = do { mi \<leftarrow> HealthResponse_ProtoReflect; Marshal mi (response_struct r) }"

definition unmarshal_response :: "byte list \<Rightarrow> (go_error + HealthResponse) option" where
  "unmarshal_response b = do { mi \<leftarrow> HealthResponse_ProtoReflect; map_option (map_sum id struct_response) (Unmarshal mi b) }"

section \<open>What the tables say\<close>

text \<open>The descriptor of \<open>src/pkg/peerhealth/peerhealth.proto\<close>, as that file is written.\<close>

definition HealthRequest_desc :: MessageDesc where
  "HealthRequest_desc = \<lparr>md_FullName = ''poisonpill.health.HealthRequest'', md_Fields =
     [\<lparr>fd_FullName = ''poisonpill.health.HealthRequest.nodeName'', fd_Number = 1, fd_Cardinality = 1, fd_Kind = 9\<rparr>]\<rparr>"

definition HealthResponse_desc :: MessageDesc where
  "HealthResponse_desc = \<lparr>md_FullName = ''poisonpill.health.HealthResponse'', md_Fields =
     [\<lparr>fd_FullName = ''poisonpill.health.HealthResponse.status'', fd_Number = 1, fd_Cardinality = 1, fd_Kind = 5\<rparr>]\<rparr>"

definition peerhealth_proto :: FileDesc where
  "peerhealth_proto = \<lparr>file_Path = ''pkg/peerhealth/peerhealth.proto'', file_Package = ''poisonpill.health'', file_Syntax = Proto3,
     file_Messages = [HealthRequest_desc, HealthResponse_desc],
     file_Services = [\<lparr>ps_FullName = ''poisonpill.health.PeerHealth'', ps_Methods =
       [\<lparr>pm_FullName = ''poisonpill.health.PeerHealth.IsHealthy'', pm_Input = ''poisonpill.health.HealthRequest'',
         pm_Output = ''poisonpill.health.HealthResponse''\<rparr>]\<rparr>]\<rparr>"

lemma rawDesc_proto: "File_unmarshal file_pkg_peerhealth_peerhealth_proto_rawDesc = Some peerhealth_proto"
  by code_simp

lemma init_types:
  "file_pkg_peerhealth_peerhealth_proto_init proto_vars_start =
    Some \<lparr>File_pkg_peerhealth_peerhealth_proto = Some peerhealth_proto,
      msgTypes = [\<lparr>mi_GoReflectType = HealthRequest_type, mi_Desc = HealthRequest_desc, mi_Syntax = Proto3\<rparr>,
        \<lparr>mi_GoReflectType = HealthResponse_type, mi_Desc = HealthResponse_desc, mi_Syntax = Proto3\<rparr>],
      rawDesc = [], goTypes = [], depIdxs = []\<rparr>"
  by (simp add: file_pkg_peerhealth_peerhealth_proto_init_def proto_vars_start_def Build_def rawDesc_proto
      file_pkg_peerhealth_peerhealth_proto_goTypes_def)
     (simp add: peerhealth_proto_def)

lemma init_once:
  "File_pkg_peerhealth_peerhealth_proto vars \<noteq> None \<Longrightarrow> file_pkg_peerhealth_peerhealth_proto_init vars = Some vars"
  by (simp add: file_pkg_peerhealth_peerhealth_proto_init_def)

lemma init_services:
  "resolveServices peerhealth_proto file_pkg_peerhealth_peerhealth_proto_depIdxs =
    Some [(\<lparr>pm_FullName = ''poisonpill.health.PeerHealth.IsHealthy'', pm_Input = md_FullName HealthRequest_desc,
       pm_Output = md_FullName HealthResponse_desc\<rparr>, HealthRequest_desc, HealthResponse_desc)]"
  by code_simp

definition request_coder :: coderFieldInfo where
  "request_coder = \<lparr>cf_num = 1, cf_wiretag = EncodeTag 1 BytesType, cf_field = ''NodeName'',
     cf_coder = coderStringNoZeroValidateUTF8\<rparr>"

definition response_coder :: coderFieldInfo where
  "response_coder = \<lparr>cf_num = 1, cf_wiretag = EncodeTag 1 VarintType, cf_field = ''Status'', cf_coder = coderInt32NoZero\<rparr>"

lemma request_coders:
  "makeCoderMethods \<lparr>mi_GoReflectType = HealthRequest_type, mi_Desc = HealthRequest_desc, mi_Syntax = Proto3\<rparr> = Some [request_coder]"
  by code_simp

lemma response_coders:
  "makeCoderMethods \<lparr>mi_GoReflectType = HealthResponse_type, mi_Desc = HealthResponse_desc, mi_Syntax = Proto3\<rparr> = Some [response_coder]"
  by code_simp

lemma zero_structs:
  "zero_struct HealthRequest_type = request_struct HealthRequest_Reset"
  "zero_struct HealthResponse_type = response_struct HealthResponse_Reset"
  by (auto simp: zero_struct_def HealthRequest_type_def HealthResponse_type_def request_struct_def response_struct_def
      HealthRequest_Reset_def HealthResponse_Reset_def zero_value_def)

lemmas message_codec = marshal_request_def unmarshal_request_def marshal_response_def unmarshal_response_def
  HealthRequest_ProtoReflect_def HealthResponse_ProtoReflect_def init_types Marshal_def Unmarshal_def
  request_coders response_coders zero_structs

lemma coders_ok_single:
  "coders_ok [request_coder]" "coders_ok [response_coder]"
  by (simp_all add: coders_ok_def request_coder_def response_coder_def wireType_def)

lemma struct_inverse [simp]: "struct_request (request_struct r) = r" "struct_response (response_struct r') = r'"
  by (simp_all add: struct_request_def request_struct_def struct_response_def response_struct_def get_string_def get_int32_def)

section \<open>The way over the wire\<close>

lemma request_survives:
  assumes "utf8_Valid (str_bytes (NodeName req))" and "length (NodeName req) < 2 ^ 63"
  shows "\<exists>b. marshal_request req = Some (Inr b) \<and> unmarshal_request b = Some (Inr req)"
proof -
  obtain e where "marshalAppendPointer [request_coder] (request_struct req) [] [] = Inr e"
    "unmarshalPointer [request_coder] e (request_struct HealthRequest_Reset) [] = Inr (request_struct req, [])"
    by (rule marshal_unmarshal [OF coders_ok_single(1), of "request_struct req" "request_struct HealthRequest_Reset"])
       (use assms in \<open>auto simp: request_coder_def request_struct_def HealthRequest_Reset_def value_ok_def zero_of_def\<close>)
  then show ?thesis by (simp add: message_codec del: marshalAppendPointer.simps)
qed

lemma request_refused:
  "\<not> utf8_Valid (str_bytes (NodeName req)) \<Longrightarrow> marshal_request req = Some (Inl errInvalidUTF8)"
  by (auto simp: message_codec marshalField_defs request_coder_def request_struct_def get_string_def str_bytes_def Let_def)

lemma response_survives: "\<exists>b. marshal_response resp = Some (Inr b) \<and> unmarshal_response b = Some (Inr resp)"
proof -
  obtain e where "marshalAppendPointer [response_coder] (response_struct resp) [] [] = Inr e"
    "unmarshalPointer [response_coder] e (response_struct HealthResponse_Reset) [] = Inr (response_struct resp, [])"
    by (rule marshal_unmarshal [OF coders_ok_single(2), of "response_struct resp" "response_struct HealthResponse_Reset"])
       (auto simp: response_coder_def response_struct_def HealthResponse_Reset_def value_ok_def zero_of_def)
  then show ?thesis by (simp add: message_codec del: marshalAppendPointer.simps)
qed

text \<open>Names of nodes consist of letters, digits, dots and hyphens, so they are valid.\<close>

lemma ascii_valid: "list_all (\<lambda>c. of_char c < (128 :: nat)) s \<Longrightarrow> utf8_Valid (str_bytes s)"
proof (induction s)
  case (Cons c s)
  then have "(word_of_nat (of_char c) :: byte) < 0x80"
    by (simp add: word_less_nat_alt unat_of_nat)
  with Cons show ?case by (simp add: str_bytes_def)
qed (simp add: str_bytes_def)

text \<open>C21.
  The messages of the health service survive the wire. The tables that the generator wrote agree with each other: \<open>init\<close> succeeds,
  the raw descriptor is that of \<open>peerhealth.proto\<close>, the method \<open>IsHealthy\<close> resolves to the messages it names, and with the coders that
  follow from descriptor and struct tags a response with any status, and a request with any name in valid UTF-8, is
  read as it was written. A request with any other name is refused by the sender.\<close>

theorem messages_survive:
  assumes "length (NodeName req) < 2 ^ 63"
  shows "(\<exists>vars. file_pkg_peerhealth_peerhealth_proto_init proto_vars_start = Some vars \<and>
      File_pkg_peerhealth_peerhealth_proto vars = Some peerhealth_proto \<and>
      file_pkg_peerhealth_peerhealth_proto_init vars = Some vars) \<and>
    map_option (map (\<lambda>(m, inp, out). (pm_Input m = md_FullName inp, pm_Output m = md_FullName out)))
      (resolveServices peerhealth_proto file_pkg_peerhealth_peerhealth_proto_depIdxs) = Some [(True, True)] \<and>
    (if utf8_Valid (str_bytes (NodeName req))
     then \<exists>b. marshal_request req = Some (Inr b) \<and> unmarshal_request b = Some (Inr req)
     else marshal_request req = Some (Inl errInvalidUTF8)) \<and>
    (\<exists>b. marshal_response resp = Some (Inr b) \<and> unmarshal_response b = Some (Inr resp))"
  using request_survives [OF _ assms] request_refused [of req] response_survives [of resp]
  by (auto simp: init_types init_services init_once)

theorem messages_survive_witness:
  "marshal_request \<lparr>NodeName = ''n1''\<rparr> = Some (Inr [0x0a, 2, 0x6e, 0x31]) \<and>
   unmarshal_request [0x0a, 2, 0x6e, 0x31] = Some (Inr \<lparr>NodeName = ''n1''\<rparr>)"
proof -
  have m: "marshal_request \<lparr>NodeName = ''n1''\<rparr> = Some (Inr [0x0a, 2, 0x6e, 0x31])"
    by (simp add: message_codec marshalField_defs) code_simp
  moreover have "utf8_Valid (str_bytes ''n1'')" by code_simp
  ultimately show ?thesis
    using messages_survive [of "\<lparr>NodeName = ''n1''\<rparr>" "\<lparr>Status = 0\<rparr>"] by auto
qed

end
