(* ===== verification/Peer_Server.thy ===== *)
theory Peer_Server
  imports Certificates_Trust Peer_Health Api_Check_Verdict
begin

text \<open>
  The transport of the peer health service: \<open>NewServer\<close> and \<open>Server.Start\<close> of
  \<open>src/pkg/peerhealth/server.go\<close>, with the credentials from the certificate storage, and the other end, the
  connectivity check that dials with its credentials. The network and the gRPC library are parameters.
\<close>

section \<open>The server\<close>

definition connectionTimeout :: duration where
  "connectionTimeout = 5 * Second"

datatype ('t, 'x) ServerOption = ConnectionTimeout duration | Creds "('t, 'x) tls_Config"

datatype ('e, 'l, 't, 'x) server_event =
    VCert 'e
  | VListen string "go_error + 'l"
  | VServe 'l "('t, 'x) ServerOption list"
  | VWait "go_error option"
  | VStop

text \<open>
  \<open>srv_serve\<close> starts the goroutine that serves on the listener. \<open>srv_wait\<close> is the select: the error that \<open>Serve\<close> returned
  and the goroutine sent, or \<open>None\<close> when the context is done.
\<close>

record ('s, 'l, 't, 'x) server_env =
  srv_listen :: "string \<Rightarrow> ('s, go_error + 'l) state"
  srv_serve :: "'l \<Rightarrow> ('t, 'x) ServerOption list \<Rightarrow> ('s, unit) state"
  srv_wait :: "('s, go_error option) state"
  srv_stop :: "('s, unit) state"

record 'r Server =
  server_certReader :: 'r
  server_port :: int

definition NewServer :: "(go_error + unit) \<Rightarrow> int \<Rightarrow> 'r \<Rightarrow> go_error + 'r Server" where
  "NewServer dynamicClient port certReader =
     (case dynamicClient of
        Inl err \<Rightarrow> Inl err
      | Inr _ \<Rightarrow> Inr \<lparr>server_certReader = certReader, server_port = port\<rparr>)"

definition Server_Start ::
  "('s, 'l, 't, 'x) server_env \<Rightarrow> ('t, 'x) tls_env \<Rightarrow> ('r \<Rightarrow> (('s, 'e) io, (go_error + certs) \<times> 'r) state) \<Rightarrow>
    'r Server \<Rightarrow> (('s, ('e, 'l, 't, 'x) server_event) io, go_error option) state" where
  "Server_Start env tls getCerts s = do {
     (serverCreds, _) \<leftarrow> embed VCert (GetServerCredentialsFromCerts tls getCerts (server_certReader s));
     case serverCreds of Inl err \<Rightarrow> ret (Some err) | Inr serverCreds \<Rightarrow> do {
     let addr = '':'' @ Itoa (server_port s);
     lis \<leftarrow> perform (srv_listen env addr) (VListen addr);
     case lis of Inl err \<Rightarrow> ret (Some err) | Inr lis \<Rightarrow> do {
     let opts = [ConnectionTimeout connectionTimeout, Creds serverCreds];
     perform (srv_serve env lis opts) (\<lambda>_. VServe lis opts);
     e \<leftarrow> perform (srv_wait env) VWait;
     case e of
       Some err \<Rightarrow> ret (Some err)
     | None \<Rightarrow> do {
         perform (srv_stop env) (\<lambda>_. VStop);
         ret None
       }
   }}}"

section \<open>The server demands a certificate\<close>

lemma emits_server_creds:
  "emits (embed f (GetServerCredentialsFromCerts tls getCerts r)) (\<lambda>(got, r') evs. (\<exists>xs. evs = map f xs) \<and>
     (case got of Inl _ \<Rightarrow> True | Inr c \<Rightarrow> tls_ClientAuth c = RequireAndVerifyClientCert \<and>
        (\<exists>pool. tls_ClientCAs c = Some pool \<and> pool \<noteq> [])))"
  unfolding emits_def
proof (intro allI, goal_cases)
  case (1 s)
  obtain got r' s' where run: "run_state (GetServerCredentialsFromCerts tls getCerts r) \<lparr>world = world s, trace = []\<rparr> = ((got, r'), s')"
    by (metis prod.exhaust)
  show ?case
    using run server_config [of tls getCerts r _ _ r' s'] by (cases got) (auto simp: embed_def)
qed

text \<open>What the server does after the credentials, by its result.\<close>

definition server_rest :: "string \<Rightarrow> go_error option \<Rightarrow> ('e, 'l, 't, 'x) server_event list \<Rightarrow> bool" where
  "server_rest addr e rest \<longleftrightarrow>
     (rest = [] \<and> e \<noteq> None) \<or>
     (\<exists>err. rest = [VListen addr (Inl err)] \<and> e = Some err) \<or>
     (\<exists>lis c pool. rest = [VListen addr (Inr lis), VServe lis [ConnectionTimeout connectionTimeout, Creds c], VWait e] @
          (if e = None then [VStop] else []) \<and>
        tls_ClientAuth c = RequireAndVerifyClientCert \<and> tls_ClientCAs c = Some pool \<and> pool \<noteq> [])"

text \<open>C20.
  The health service is never offered without mutual TLS. Before it has credentials the server does not even listen, and it
  serves with credentials that demand a client certificate and verify it against a pool that is not
  empty. The server ends with the error of the step that failed, or, when it is told to stop, by stopping the service
  without an error.\<close>

theorem server_demands_certificate:
  "emits (Server_Start env tls getCerts s) (\<lambda>e evs. \<exists>xs rest. evs = map VCert xs @ rest \<and>
     server_rest ('':'' @ Itoa (server_port s)) e rest)"
  unfolding Server_Start_def
proof (rule emits_bind [OF emits_server_creds], goal_cases)
  case (1 got evs)
  then obtain creds r' xs where got: "got = (creds, r')" "evs = map VCert xs"
    "case creds of Inl _ \<Rightarrow> True | Inr c \<Rightarrow> tls_ClientAuth c = RequireAndVerifyClientCert \<and>
        (\<exists>pool. tls_ClientCAs c = Some pool \<and> pool \<noteq> [])"
    by (cases got) auto
  show ?case
    unfolding got(1,2) prod.case
    apply (rule emits_mono [where Q = "server_rest ('':'' @ Itoa (server_port s))"])
    subgoal
      using got(3) by (cases creds) (auto simp: server_rest_def Let_def intro!: emits_intros split: sum.split option.split)
    subgoal by blast
    done
qed

section \<open>The check always dials with credentials\<close>

text \<open>The environment in which dialling without credentials never reaches anybody.\<close>

definition tls_only :: "('s, 'c) api_env \<Rightarrow> ('s, 'c) api_env" where
  "tls_only env = env\<lparr>api_dial := (\<lambda>addr creds.
     case creds of None \<Rightarrow> ret (Inl (Other ''no credentials'')) | Some _ \<Rightarrow> api_dial env addr creds)\<rparr>"

lemma initClientCreds_some:
  "run_state (initClientCreds env) s = (None, s') \<Longrightarrow> \<exists>c. clientCreds s' = Some c"
  by (auto simp: initClientCreds_def run_simps split: if_splits sum.splits)

lemma getHealthStatusFromPeer_tls:
  "getHealthStatusFromPeer (tls_only env) cfg ip results = getHealthStatusFromPeer env cfg ip results"
proof (rule state.expand, rule ext)
  fix s :: "('a, 'b) ApiConnectivityCheck"
  obtain e s' where init: "run_state (initClientCreds env) s = (e, s')" by fastforce
  have "initClientCreds (tls_only env) = initClientCreds env"
    by (simp add: initClientCreds_def tls_only_def cong: if_cong)
  with init initClientCreds_some [of env s s'] show "run_state (getHealthStatusFromPeer (tls_only env) cfg ip results) s =
      run_state (getHealthStatusFromPeer env cfg ip results) s"
    by (cases e) (auto simp: getHealthStatusFromPeer_def run_simps tls_only_def Let_def split: sum.split)
qed

lemma askPeers_tls: "askPeers (tls_only env) cfg ips results = askPeers env cfg ips results"
  by (induction ips arbitrary: results) (simp_all add: getHealthStatusFromPeer_tls)

lemma handleError_loop_tls:
  "handleError_loop (tls_only env) cfg sched n i nodes apiErrors = handleError_loop env cfg sched n i nodes apiErrors"
proof (induction nodes arbitrary: i apiErrors rule: measure_induct_rule [where f = length])
  case (less nodes)
  have again: "handleError_loop (tls_only env) cfg sched n (Suc i) (snd (popNodes nodes (nodesBatchCount i (length nodes)))) e =
      handleError_loop env cfg sched n (Suc i) (snd (popNodes nodes (nodesBatchCount i (length nodes)))) e"
    if "0 < length nodes" for e
    using less popNodes_shrinks that by simp
  show ?case
    by (subst (1 2) handleError_loop.simps)
       (simp add: askPeers_tls Let_def again cong: if_cong call.case_cong prod.case_cong)
qed

lemma tls_only_fields [simp]:
  "api_readyz (tls_only env) = api_readyz env" "api_peers (tls_only env) = api_peers env"
  "api_reboot (tls_only env) = api_reboot env"
  by (simp_all add: tls_only_def)

text \<open>The check never asks a peer without credentials: an environment in which dialling without credentials
  reaches nobody makes no difference, whatever state the check is in.\<close>

lemma check_dials_with_credentials:
  "checkApiServer (tls_only env) cfg sched = checkApiServer env cfg sched"
proof -
  have "handleError (tls_only env) cfg sched = handleError env cfg sched"
    by (simp add: handleError_def handleError_loop_tls cong: if_cong)
  then show ?thesis
    by (simp add: checkApiServer_def cong: if_cong call.case_cong bool.case_cong)
qed

end
