(* ===== verification/Peer_Network.thy ===== *)
theory Peer_Network
  imports Peer_Messages Peer_Server
begin

text \<open>
  A health request from end to end: the generated code of the service (\<open>src/pkg/peerhealth/peerhealth_grpc.pb.go\<close>), the
  dispatch of a call by the gRPC server (\<open>src/vendor/google.golang.org/grpc/server.go\<close>), a network of agents that answer with their own
  clients of the API server, and the environment of the connectivity check in that network. The lemmas say what a peer answers: that it is
  what its handler says, whatever the transport loses.
\<close>

section \<open>The generated service\<close>

definition UnimplementedPeerHealthServer_IsHealthy :: "HealthRequest option \<Rightarrow> ('s rec_state, go_error + HealthResponse) state" where
  "UnimplementedPeerHealthServer_IsHealthy _ = ret (Inl (Other ''method IsHealthy not implemented''))"

text \<open>
  A server is its method \<open>IsHealthy\<close>; \<open>dec\<close> is the result of decoding the request; an interceptor gets the request, the name of the method
  and what is left to do.
\<close>

type_synonym 's health_server = "HealthRequest option \<Rightarrow> ('s rec_state, go_error + HealthResponse) state"

type_synonym 's interceptor = "HealthRequest \<Rightarrow> string \<Rightarrow>
  (HealthRequest \<Rightarrow> ('s rec_state, go_error + HealthResponse) state) \<Rightarrow> ('s rec_state, go_error + HealthResponse) state"

definition PeerHealth_IsHealthy_Handler ::
  "'s health_server \<Rightarrow> go_error + HealthRequest \<Rightarrow> 's interceptor option \<Rightarrow> ('s rec_state, go_error + HealthResponse) state" where
  "PeerHealth_IsHealthy_Handler srv dec interceptor =
     (case dec of
        Inl err \<Rightarrow> ret (Inl err)
      | Inr inp \<Rightarrow>
          (case interceptor of
             None \<Rightarrow> srv (Some inp)
           | Some i \<Rightarrow> i inp ''/poisonpill.health.PeerHealth/IsHealthy'' (\<lambda>req. srv (Some req))))"

type_synonym 's method_handler =
  "'s health_server \<Rightarrow> go_error + HealthRequest \<Rightarrow> 's interceptor option \<Rightarrow> ('s rec_state, go_error + HealthResponse) state"

record 's ServiceDesc =
  sd_ServiceName :: string
  sd_Methods :: "(string \<times> 's method_handler) list"
  sd_Metadata :: string

definition PeerHealth_ServiceDesc :: "'s ServiceDesc" where
  "PeerHealth_ServiceDesc = \<lparr>sd_ServiceName = ''poisonpill.health.PeerHealth'',
     sd_Methods = [(''IsHealthy'', PeerHealth_IsHealthy_Handler)],
     sd_Metadata = ''pkg/peerhealth/peerhealth.proto''\<rparr>"

section \<open>The gRPC server\<close>

record 's grpc_server =
  services :: "string \<rightharpoonup> 's health_server \<times> (string \<rightharpoonup> 's method_handler)"
  serving :: bool
  unaryInt :: "'s interceptor option"

definition grpc_NewServer :: "'s grpc_server" where
  "grpc_NewServer = \<lparr>services = Map.empty, serving = False, unaryInt = None\<rparr>"

text \<open>\<open>None\<close>: the library ends the program.\<close>

definition register :: "'s grpc_server \<Rightarrow> 's ServiceDesc \<Rightarrow> 's health_server \<Rightarrow> 's grpc_server option" where
  "register s sd ss =
     (if serving s then None
      else if services s (sd_ServiceName sd) \<noteq> None then None
      else Some (s\<lparr>services := (services s)(sd_ServiceName sd \<mapsto>
        (ss, fold (\<lambda>(name, d) m. m(name \<mapsto> d)) (sd_Methods sd) Map.empty))\<rparr>))"

definition RegisterPeerHealthServer :: "'s grpc_server \<Rightarrow> 's health_server \<Rightarrow> 's grpc_server option" where
  "RegisterPeerHealthServer s srv = register s PeerHealth_ServiceDesc srv"

text \<open>The codec, on types that were built at the start of the program (\<open>None\<close> would have been a panic then).\<close>

definition codec :: "(go_error + 'a) option \<Rightarrow> go_error + 'a" where
  "codec x = (case x of Some r \<Rightarrow> r | None \<Rightarrow> Inl (Other ''message type not built''))"

definition wrap_error :: "string \<Rightarrow> go_error + 'a \<Rightarrow> go_error + 'a" where
  "wrap_error msg x = (case x of Inl _ \<Rightarrow> Inl (Other msg) | Inr a \<Rightarrow> Inr a)"

definition defaultServerMaxReceiveMessageSize :: nat where
  "defaultServerMaxReceiveMessageSize = 1024 * 1024 * 4"

text \<open>A result is a status other than OK, or the bytes of the response.\<close>

definition processUnaryRPC ::
  "'s grpc_server \<Rightarrow> 's health_server \<Rightarrow> 's method_handler \<Rightarrow> byte list \<Rightarrow> ('s rec_state, go_error + byte list) state" where
  "processUnaryRPC s impl handler d =
     (if length d > defaultServerMaxReceiveMessageSize then ret (Inl (Other ''grpc: received message larger than max''))
      else do {
        let df = wrap_error ''grpc: error unmarshalling request'' (codec (unmarshal_request d));
        reply \<leftarrow> handler impl df (unaryInt s);
        case reply of
          Inl appErr \<Rightarrow> ret (Inl appErr)
        | Inr msg \<Rightarrow> ret (wrap_error ''grpc: error while marshaling'' (codec (marshal_response msg)))
      })"

definition LastIndex_slash :: "string \<Rightarrow> (string \<times> string) option" where
  "LastIndex_slash sm =
     (if CHR ''/'' \<in> set sm
      then let method = rev (takeWhile (\<lambda>c. c \<noteq> CHR ''/'') (rev sm))
           in Some (take (length sm - length method - 1) sm, method)
      else None)"

definition handleStream :: "'s grpc_server \<Rightarrow> string \<Rightarrow> byte list \<Rightarrow> ('s rec_state, go_error + byte list) state" where
  "handleStream s fullMethod d =
     (let sm = (case fullMethod of c # cs \<Rightarrow> if c = CHR ''/'' then cs else fullMethod | [] \<Rightarrow> [])
      in case LastIndex_slash sm of
        None \<Rightarrow> ret (Inl (Other ''malformed method name''))
      | Some (service, method) \<Rightarrow>
          (case services s service of
             None \<Rightarrow> ret (Inl (Other (''unknown service '' @ service)))
           | Some (impl, methods) \<Rightarrow>
               (case methods method of
                  None \<Rightarrow> ret (Inl (Other (''unknown method '' @ method @ '' for service '' @ service)))
                | Some md \<Rightarrow> processUnaryRPC s impl md d)))"

text \<open>The server of an agent: \<open>Server.Start\<close> registers the server itself, so its own \<open>IsHealthy\<close>.\<close>

definition health_service :: "'s dynamic_client \<Rightarrow> 's grpc_server" where
  "health_service client = the (RegisterPeerHealthServer grpc_NewServer (IsHealthy client))"

lemma health_service_dispatch:
  "handleStream (health_service client) ''/poisonpill.health.PeerHealth/IsHealthy'' d =
    processUnaryRPC (health_service client) (IsHealthy client) PeerHealth_IsHealthy_Handler d"
proof -
  have "LastIndex_slash ''poisonpill.health.PeerHealth/IsHealthy'' = Some (''poisonpill.health.PeerHealth'', ''IsHealthy'')"
    by code_simp
  then show ?thesis
    by (simp add: handleStream_def health_service_def RegisterPeerHealthServer_def register_def grpc_NewServer_def
        PeerHealth_ServiceDesc_def)
qed

lemma health_service_registered: "RegisterPeerHealthServer grpc_NewServer srv \<noteq> None"
  by (simp add: RegisterPeerHealthServer_def register_def grpc_NewServer_def)

lemma unaryInt_health_service [simp]: "unaryInt (health_service client) = None"
  by (simp add: health_service_def RegisterPeerHealthServer_def register_def grpc_NewServer_def)

section \<open>A network of agents\<close>

text \<open>
  An agent that answers: its client of the API server, and the variables of its remediation controller, which are part of the
  world around the agent that asks.
\<close>

record 's net_host =
  host_client :: "'s dynamic_client"
  host_seen :: "'s \<Rightarrow> string \<times> bool"

record ('s, 'c) network =
  net_hosts :: "string \<rightharpoonup> 's net_host"
  net_connect :: "string \<Rightarrow> 'c option \<Rightarrow> ('s, go_error option) state"
  net_send :: "string \<Rightarrow> ('s, go_error option) state"
  net_reply :: "string \<Rightarrow> ('s, go_error option) state"

definition host_state :: "'s net_host \<Rightarrow> 's \<Rightarrow> 's rec_state" where
  "host_state h w = \<lparr>world = w, trace = [], lastSeenPprNamespace = fst (host_seen h w), wasLastSeenPprMachine = snd (host_seen h w)\<rparr>"

definition host_serve :: "'s net_host \<Rightarrow> string \<Rightarrow> byte list \<Rightarrow> ('s, go_error + byte list) state" where
  "host_serve h fullMethod d =
     State (\<lambda>w. case run_state (handleStream (health_service (host_client h)) fullMethod d) (host_state h w) of
       (r, st) \<Rightarrow> (r, world st))"

text \<open>The world of the asking agent has the open connections too: the addresses they lead to, in the order of opening.\<close>

definition net_dial ::
  "('s, 'c) network \<Rightarrow> duration \<Rightarrow> string \<Rightarrow> 'c DialOption list \<Rightarrow> ('s \<times> string list, go_error + nat) state" where
  "net_dial net timeout addr opts =
     (case net_hosts net addr of
        None \<Rightarrow> ret (Inl (Other ''connection refused''))
      | Some _ \<Rightarrow> do {
          e \<leftarrow> on_fst (net_connect net addr (case opts of WithTransportCredentials c # _ \<Rightarrow> Some c | _ \<Rightarrow> None));
          case e of
            Some err \<Rightarrow> ret (Inl err)
          | None \<Rightarrow> State (\<lambda>(w, conns). (Inr (length conns), (w, conns @ [addr])))
        })"

definition defaultClientMaxReceiveMessageSize :: nat where
  "defaultClientMaxReceiveMessageSize = 1024 * 1024 * 4"

definition net_recv :: "byte list \<Rightarrow> go_error + HealthResponse" where
  "net_recv d =
     (if length d > defaultClientMaxReceiveMessageSize then Inl (Other ''grpc: received message larger than max'')
      else wrap_error ''grpc: failed to unmarshal the received message'' (codec (unmarshal_response d)))"

definition net_call ::
  "('s, 'c) network \<Rightarrow> string \<Rightarrow> string \<Rightarrow> byte list \<Rightarrow> ('s, go_error + HealthResponse) state" where
  "net_call net addr fullMethod d =
     (case net_hosts net addr of
        None \<Rightarrow> ret (Inl (Other ''connection reset''))
      | Some h \<Rightarrow> do {
          e \<leftarrow> net_send net addr;
          case e of Some err \<Rightarrow> ret (Inl err) | None \<Rightarrow> do {
          r \<leftarrow> host_serve h fullMethod d;
          e \<leftarrow> net_reply net addr;
          case e of Some err \<Rightarrow> ret (Inl err) | None \<Rightarrow>
          (case r of Inl err \<Rightarrow> ret (Inl err) | Inr b \<Rightarrow> ret (net_recv b))
        }})"

definition net_invoke ::
  "('s, 'c) network \<Rightarrow> nat \<Rightarrow> string \<Rightarrow> HealthRequest \<Rightarrow> ('s \<times> string list, go_error + HealthResponse) state" where
  "net_invoke net k fullMethod req =
     (case wrap_error ''grpc: error while marshaling'' (codec (marshal_request req)) of
        Inl err \<Rightarrow> ret (Inl err)
      | Inr d \<Rightarrow> do {
          conns \<leftarrow> gets snd;
          if k < length conns then on_fst (net_call net (conns ! k) fullMethod d)
          else ret (Inl (Other ''no such connection''))
        })"

text \<open>The environment of the check in that network: \<open>NewClient\<close> and the generated client on both calls.\<close>

definition networked :: "('s, 'c) api_env \<Rightarrow> ('s, 'c) network \<Rightarrow> ApiConnectivityCheckConfig \<Rightarrow> ('s \<times> string list, 'c) api_env" where
  "networked base net cfg = \<lparr>api_readyz = on_fst (api_readyz base), api_peers = on_fst (api_peers base),
     api_creds = on_fst (api_creds base),
     api_dial = (\<lambda>addr creds. NewClient (net_dial net) addr (cfg_PeerDialTimeout cfg) creds),
     api_isHealthy = (\<lambda>k name. do {
       resp \<leftarrow> peerHealthClient_IsHealthy (net_invoke net) k \<lparr>NodeName = name\<rparr>;
       ret (map_sum id Status resp)
     }),
     api_close = (\<lambda>k. ret ()), api_reboot = on_fst (api_reboot base)\<rparr>"

section \<open>An invariant of the world\<close>

definition keeps :: "('s \<Rightarrow> bool) \<Rightarrow> ('s, 'a) state \<Rightarrow> bool" where
  "keeps I m \<longleftrightarrow> (\<forall>w. I w \<longrightarrow> I (snd (run_state m w)))"

section \<open>What a peer answers\<close>

text \<open>The answer of the handler in the world \<open>w\<close>, and the world after it.\<close>

definition host_says :: "'s net_host \<Rightarrow> string \<Rightarrow> 's \<Rightarrow> (go_error + HealthResponse) \<times> 's" where
  "host_says h name w = (case run_state (IsHealthy (host_client h) (Some \<lparr>NodeName = name\<rparr>)) (host_state h w) of
     (r, st) \<Rightarrow> (r, world st))"

definition valid_name :: "string \<Rightarrow> bool" where
  "valid_name name \<longleftrightarrow> name \<noteq> '''' \<and> list_all (\<lambda>c. of_char c < (128 :: nat)) name \<and> length name \<le> 253"

lemma length_AppendVarint: "length (AppendVarint b v) \<le> length b + 10"
  using varint_groups_bound(1) [of v] by (simp add: AppendVarint_eq)

lemma marshal_sizes:
  "marshal_request req = Some (Inr d) \<Longrightarrow> length d \<le> 20 + length (NodeName req)"
  "marshal_response resp = Some (Inr d') \<Longrightarrow> length d' \<le> 20"
  using length_AppendVarint [of "[]" "cf_wiretag request_coder"]
    length_AppendVarint [of "AppendVarint [] (cf_wiretag request_coder)" "of_nat (length (NodeName req))"]
    length_AppendVarint [of "[]" "cf_wiretag response_coder"]
    length_AppendVarint [of "AppendVarint [] (cf_wiretag response_coder)" "scast (Status resp)"]
  by (auto simp: message_codec marshalField_defs request_coder_def response_coder_def request_struct_def response_struct_def
      get_string_def get_int32_def AppendBytes_def Let_def split: if_splits)

lemma request_on_wire:
  assumes "valid_name name"
  obtains d where "marshal_request \<lparr>NodeName = name\<rparr> = Some (Inr d)" "unmarshal_request d = Some (Inr \<lparr>NodeName = name\<rparr>)"
    "length d \<le> defaultServerMaxReceiveMessageSize"
proof -
  obtain d where d: "marshal_request \<lparr>NodeName = name\<rparr> = Some (Inr d)" "unmarshal_request d = Some (Inr \<lparr>NodeName = name\<rparr>)"
    using request_survives [of "\<lparr>NodeName = name\<rparr>"] ascii_valid [of name] assms by (auto simp: valid_name_def)
  moreover have "length d \<le> defaultServerMaxReceiveMessageSize"
    using marshal_sizes(1) [OF d(1)] assms by (simp add: valid_name_def defaultServerMaxReceiveMessageSize_def)
  ultimately show ?thesis by (rule that)
qed

lemma response_on_wire:
  obtains d where "marshal_response resp = Some (Inr d)" "net_recv d = Inr resp"
proof -
  obtain d where "marshal_response resp = Some (Inr d)" "unmarshal_response d = Some (Inr resp)"
    using response_survives by blast
  with marshal_sizes(2) [of resp d] show ?thesis
    by (intro that [of d]) (simp_all add: net_recv_def codec_def wrap_error_def defaultClientMaxReceiveMessageSize_def)
qed

lemma host_serve_says:
  assumes "unmarshal_request d = Some (Inr \<lparr>NodeName = name\<rparr>)" and "length d \<le> defaultServerMaxReceiveMessageSize"
  shows "snd (run_state (host_serve h ''/poisonpill.health.PeerHealth/IsHealthy'' d) w) = snd (host_says h name w)"
    "(case fst (run_state (host_serve h ''/poisonpill.health.PeerHealth/IsHealthy'' d) w) of Inl err \<Rightarrow> Inl err | Inr b \<Rightarrow> net_recv b) =
      fst (host_says h name w)"
proof -
  obtain r st where run: "run_state (IsHealthy (host_client h) (Some \<lparr>NodeName = name\<rparr>)) (host_state h w) = (r, st)"
    by fastforce
  show "snd (run_state (host_serve h ''/poisonpill.health.PeerHealth/IsHealthy'' d) w) = snd (host_says h name w)"
    using assms run
    by (cases r) (simp_all add: host_serve_def host_says_def health_service_dispatch processUnaryRPC_def codec_def wrap_error_def
        PeerHealth_IsHealthy_Handler_def)
  show "(case fst (run_state (host_serve h ''/poisonpill.health.PeerHealth/IsHealthy'' d) w) of Inl err \<Rightarrow> Inl err | Inr b \<Rightarrow> net_recv b) =
      fst (host_says h name w)"
  proof (cases r)
    case (Inr resp)
    obtain b where "marshal_response resp = Some (Inr b)" "net_recv b = Inr resp" by (rule response_on_wire)
    with assms run Inr show ?thesis
      by (simp add: host_serve_def host_says_def health_service_dispatch processUnaryRPC_def codec_def wrap_error_def
          PeerHealth_IsHealthy_Handler_def)
  qed (use assms run in \<open>simp add: host_serve_def host_says_def health_service_dispatch processUnaryRPC_def codec_def wrap_error_def
          PeerHealth_IsHealthy_Handler_def\<close>)
qed

text \<open>The machine that an annotation names.\<close>

definition machine_of :: "Node \<Rightarrow> string option" where
  "machine_of node = (case Annotations (node_Meta node) machineAnnotation of
     None \<Rightarrow> None
   | Some key \<Rightarrow> (case SplitMetaNamespaceKey key of Inl _ \<Rightarrow> None | Inr (_, name) \<Rightarrow> Some name))"

text \<open>
  What an agent has reconciled since its start: \<open>seen\<close> lists, for every PPR that it has read, its namespace and whether a machine
  owns it. The variables that its health service looks at are the ones that these reconciles have left behind.
\<close>

definition has_reconciled :: "'s net_host \<Rightarrow> 's \<Rightarrow> (string \<times> bool) list \<Rightarrow> bool" where
  "has_reconciled h w seen \<longleftrightarrow>
     (\<exists>r (xs :: ('s rec_env \<times> ObjectKey) list) s. lastSeenPprNamespace s = '''' \<and> \<not> wasLastSeenPprMachine s \<and>
        seen_pprs r xs s = seen \<and>
        host_seen h w = (lastSeenPprNamespace (run_reconciles r xs s), wasLastSeenPprMachine (run_reconciles r xs s)))"

definition machines_seen :: "(string \<times> bool) list \<Rightarrow> bool" where
  "machines_seen seen \<longleftrightarrow> (\<exists>p \<in> set seen. snd p)"

lemma has_reconciled_vars:
  "has_reconciled h w seen \<Longrightarrow> host_seen h w = (if seen = [] then '''' else fst (last seen), machines_seen seen)"
  unfolding has_reconciled_def machines_seen_def by (auto simp: run_reconciles_globals)

text \<open>What the API server answers to an agent.\<close>

definition node_answer :: "'s net_host \<Rightarrow> string \<Rightarrow> 's \<Rightarrow> go_error + Node" where
  "node_answer h name w = fst (run_state (dyn_getNode (host_client h) \<lparr>key_Namespace = '''', key_Name = name\<rparr>) w)"

definition ppr_answer :: "'s net_host \<Rightarrow> string \<Rightarrow> string \<Rightarrow> 's \<Rightarrow> go_error + PoisonPillRemediation" where
  "ppr_answer h ns name w = fst (run_state (dyn_getPPR (host_client h) \<lparr>key_Namespace = ns, key_Name = name\<rparr>) w)"

text \<open>
  An agent that sees a remediation of the node, as long as the world keeps \<open>I\<close>. There is a PPR in a namespace \<open>ns\<close>, and the last PPR that
  the agent has read was in \<open>ns\<close>, too. If none of the PPRs that it has read was owned by a machine, the PPR has the name of the node;
  otherwise, the node names its machine in its annotation, and the PPR has the name of that machine.
\<close>

definition sees_ppr :: "('s \<Rightarrow> bool) \<Rightarrow> 's net_host \<Rightarrow> string \<Rightarrow> bool" where
  "sees_ppr I h name \<longleftrightarrow> (\<exists>ns pprName. ns \<noteq> '''' \<and> (\<forall>w. I w \<longrightarrow>
     (\<exists>ppr. ppr_answer h ns pprName w = Inr ppr) \<and>
     (\<exists>seen. has_reconciled h w seen \<and> seen \<noteq> [] \<and> fst (last seen) = ns \<and>
        (if machines_seen seen then \<exists>node. node_answer h name w = Inr node \<and> machine_of node = Some pprName
         else pprName = name))))"

text \<open>
  An agent that sees that there is none: the node exists, and there is no PPR of its name nor, if its annotation names a machine, of the
  name of the machine. If it names none, the agent has never read a PPR that was owned by a machine.
\<close>

definition sees_no_ppr :: "('s \<Rightarrow> bool) \<Rightarrow> 's net_host \<Rightarrow> string \<Rightarrow> bool" where
  "sees_no_ppr I h name \<longleftrightarrow> (\<forall>w. I w \<longrightarrow>
     (\<forall>ns. ppr_answer h ns name w = Inl NotFound) \<and>
     (\<exists>node. node_answer h name w = Inr node \<and>
        (case machine_of node of
           Some m \<Rightarrow> \<forall>w' ns. I w' \<longrightarrow> ppr_answer h ns m w' = Inl NotFound
         | None \<Rightarrow> \<exists>seen. has_reconciled h w seen \<and> \<not> machines_seen seen)))"

text \<open>An agent whose requests to the API server fail.\<close>

definition api_fails :: "'s net_host \<Rightarrow> 's \<Rightarrow> bool" where
  "api_fails h w \<longleftrightarrow> (\<forall>key. (\<exists>msg. fst (run_state (dyn_getNode (host_client h) key) w) = Inl (Other msg)) \<and>
     (\<exists>msg. fst (run_state (dyn_getPPR (host_client h) key) w) = Inl (Other msg)))"

lemmas host_eval = host_says_def host_state_def server_defs run_simps GetNodeName_def Let_def

text \<open>The answer of the service, by the variables of the controller.\<close>

lemma host_says_cases:
  assumes "name \<noteq> ''''"
  shows "fst (host_says h name w) =
    (let ns = fst (host_seen h w); node = node_answer h name w;
         w' = snd (run_state (dyn_getNode (host_client h) \<lparr>key_Namespace = '''', key_Name = name\<rparr>) w);
         by_ppr = (\<lambda>got. toResponse (case got of Inl err \<Rightarrow> if IsNotFound err then Healthy else ApiError | Inr _ \<Rightarrow> Unhealthy))
     in if ns = '''' then toResponse (case node of Inl _ \<Rightarrow> ApiError | Inr _ \<Rightarrow> Healthy)
        else if snd (host_seen h w) then
          (case node of
             Inl _ \<Rightarrow> toResponse ApiError
           | Inr n \<Rightarrow> (case machine_of n of None \<Rightarrow> toResponse Unhealthy | Some m \<Rightarrow> by_ppr (ppr_answer h ns m w')))
        else by_ppr (ppr_answer h ns name w))"
  using assms
  by (auto simp: node_answer_def ppr_answer_def machine_of_def host_eval split: sum.splits option.splits prod.splits)

lemma says_unhealthy:
  assumes "sees_ppr I h name" and "I w" and "name \<noteq> ''''"
    and "keeps I (dyn_getNode (host_client h) \<lparr>key_Namespace = '''', key_Name = name\<rparr>)"
  shows "fst (host_says h name w) = toResponse Unhealthy"
proof -
  let ?w = "snd (run_state (dyn_getNode (host_client h) \<lparr>key_Namespace = '''', key_Name = name\<rparr>) w)"
  obtain ns pprName where ns: "ns \<noteq> ''''" and ppr: "\<And>w. I w \<Longrightarrow> \<exists>ppr. ppr_answer h ns pprName w = Inr ppr"
    and "\<And>w. I w \<Longrightarrow> \<exists>seen. has_reconciled h w seen \<and> seen \<noteq> [] \<and> fst (last seen) = ns \<and>
        (if machines_seen seen then \<exists>node. node_answer h name w = Inr node \<and> machine_of node = Some pprName
         else pprName = name)"
    using assms(1) unfolding sees_ppr_def by blast
  then obtain seen where seen: "host_seen h w = (ns, machines_seen seen)"
      "if machines_seen seen then \<exists>node. node_answer h name w = Inr node \<and> machine_of node = Some pprName else pprName = name"
    using has_reconciled_vars assms(2) by fastforce
  have "I ?w" using assms(2,4) by (simp add: keeps_def)
  from ppr [OF assms(2)] ppr [OF this] seen ns show ?thesis
    by (auto simp: host_says_cases [OF assms(3)] Let_def split: if_splits)
qed

lemma says_healthy:
  assumes "sees_no_ppr I h name" and "I w" and "name \<noteq> ''''"
    and "keeps I (dyn_getNode (host_client h) \<lparr>key_Namespace = '''', key_Name = name\<rparr>)"
  shows "fst (host_says h name w) = toResponse Healthy"
proof -
  let ?w = "snd (run_state (dyn_getNode (host_client h) \<lparr>key_Namespace = '''', key_Name = name\<rparr>) w)"
  have "I ?w" using assms(2,4) by (simp add: keeps_def)
  have none: "\<And>ns. ppr_answer h ns name w = Inl NotFound"
    using assms(1,2) by (simp add: sees_no_ppr_def)
  obtain node where node: "node_answer h name w = Inr node"
      "case machine_of node of
         Some m \<Rightarrow> \<forall>w' ns. I w' \<longrightarrow> ppr_answer h ns m w' = Inl NotFound
       | None \<Rightarrow> \<exists>seen. has_reconciled h w seen \<and> \<not> machines_seen seen"
    using assms(1,2) unfolding sees_no_ppr_def by blast
  have "machine_of node = None \<Longrightarrow> \<not> snd (host_seen h w)"
    using node(2) has_reconciled_vars by fastforce
  with none node \<open>I ?w\<close> show ?thesis
    by (auto simp: host_says_cases [OF assms(3)] Let_def split: option.splits)
qed

lemma says_api_error:
  assumes "api_fails h w" and "name \<noteq> ''''"
  shows "fst (host_says h name w) = toResponse ApiError"
proof -
  obtain m1 m2 where
    "fst (run_state (dyn_getNode (host_client h) \<lparr>key_Namespace = '''', key_Name = name\<rparr>) w) = Inl (Other m1)"
    "fst (run_state (dyn_getPPR (host_client h) \<lparr>key_Namespace = fst (host_seen h w), key_Name = name\<rparr>) w) = Inl (Other m2)"
    using assms(1) unfolding api_fails_def by blast
  with assms(2) show ?thesis
    by (auto simp: host_eval split: if_splits)
qed

definition network_keeps :: "('s \<Rightarrow> bool) \<Rightarrow> ('s, 'c) api_env \<Rightarrow> ('s, 'c) network \<Rightarrow> bool" where
  "network_keeps I base net \<longleftrightarrow>
     keeps I (api_readyz base) \<and> keeps I (api_peers base) \<and> keeps I (api_creds base) \<and>
     (\<forall>addr creds. keeps I (net_connect net addr creds)) \<and>
     (\<forall>addr. keeps I (net_send net addr) \<and> keeps I (net_reply net addr)) \<and>
     (\<forall>h \<in> ran (net_hosts net). \<forall>key. keeps I (dyn_getNode (host_client h) key) \<and> keeps I (dyn_getPPR (host_client h) key))"

lemma network_keeps_getNode:
  "network_keeps I base net \<Longrightarrow> net_hosts net addr = Some h \<Longrightarrow> keeps I (dyn_getNode (host_client h) key)"
  by (auto simp: network_keeps_def ran_def)

lemma IsHealthy_keeps:
  assumes "\<And>key. keeps I (dyn_getNode client key)" and "\<And>key. keeps I (dyn_getPPR client key)"
  shows "world_inv I (IsHealthy client req)"
proof -
  have ppr: "world_inv I (isHealthyByPpr client name ns)" for name ns
    using assms(2) unfolding isHealthyByPpr_def Let_def keeps_def
    by (intro world_inv_intros) (auto split: sum.split intro: world_inv_intros)
  have node: "world_inv I (server_getNode client name)" for name
    using assms(1) unfolding server_getNode_def Let_def keeps_def
    by (intro world_inv_intros) (auto split: sum.split intro: world_inv_intros)
  have machine: "world_inv I (isHealthyMachine client name ns)" for name ns
    unfolding isHealthyMachine_def Let_def
    by (rule world_inv_bind [OF node]) (auto split: sum.split option.split intro: world_inv_intros ppr)
  show ?thesis
    unfolding IsHealthy_def Let_def isHealthyNode_def GetLastSeenPprNamespace_def WasLastSeenPprMachine_def
    by (auto intro!: world_inv_bind world_inv_intros(1,2) ppr node machine split: sum.split)
qed

lemma host_says_keeps:
  assumes "network_keeps I base net" and "net_hosts net addr = Some h" and "I w"
  shows "I (snd (host_says h name w))"
proof -
  have "world_inv I (IsHealthy (host_client h) (Some \<lparr>NodeName = name\<rparr>))"
    using assms(1,2) by (intro IsHealthy_keeps) (auto simp: network_keeps_def ran_def)
  then show ?thesis
    using assms(3) unfolding world_inv_def host_says_def host_state_def
    by (auto split: prod.split) (metis io.select_convs(1) snd_conv)
qed

text \<open>A call over a connection: the code is one that the peers answer, and the invariant holds after it.\<close>

definition answers_in ::
  "('s \<Rightarrow> bool) \<Rightarrow> ('s, 'c) network \<Rightarrow> string set \<Rightarrow> string \<Rightarrow> HealthCheckResponseCode set \<Rightarrow> bool" where
  "answers_in I net D name C \<longleftrightarrow>
     (\<forall>w addr h. I w \<and> addr \<in> D \<and> net_hosts net addr = Some h \<longrightarrow> (\<exists>c \<in> C. fst (host_says h name w) = toResponse c))"

lemma net_call_answer:
  assumes "network_keeps I base net" and "answers_in I net D name C" and "addr \<in> D" and "I w"
    and "unmarshal_request d = Some (Inr \<lparr>NodeName = name\<rparr>)" and "length d \<le> defaultServerMaxReceiveMessageSize"
    and "run_state (net_call net addr ''/poisonpill.health.PeerHealth/IsHealthy'' d) w = (r, w')"
  shows "I w' \<and> (\<forall>resp. r = Inr resp \<longrightarrow> (\<exists>c \<in> C. toResponse c = Inr resp))"
proof (cases "net_hosts net addr")
  case None
  with assms(4,7) show ?thesis by (auto simp: net_call_def)
next
  case (Some h)
  obtain e w1 where send: "run_state (net_send net addr) w = (e, w1)" by fastforce
  have w1: "I w1" using assms(1,4) send unfolding network_keeps_def keeps_def by (metis snd_conv)
  obtain b w2 where serve: "run_state (host_serve h ''/poisonpill.health.PeerHealth/IsHealthy'' d) w1 = (b, w2)" by fastforce
  have w2: "I w2" and b: "(case b of Inl err \<Rightarrow> Inl err | Inr b \<Rightarrow> net_recv b) = fst (host_says h name w1)"
    using host_serve_says [OF assms(5,6), of h w1] host_says_keeps [OF assms(1) Some w1, of name] serve by simp_all
  obtain e' w3 where reply: "run_state (net_reply net addr) w2 = (e', w3)" by fastforce
  have w3: "I w3" using assms(1) w2 reply unfolding network_keeps_def keeps_def by (metis snd_conv)
  obtain c where "c \<in> C" "fst (host_says h name w1) = toResponse c"
    using assms(2,3) w1 Some unfolding answers_in_def by blast
  with b w1 w3 assms(7) Some send serve reply show ?thesis
    by (cases b) (auto simp: net_call_def split: option.splits)
qed

end
