(* ===== verification/Peer_Verdict.thy ===== *)
theory Peer_Verdict
  imports Peer_Network
begin

text \<open>
  The connectivity check in a network of agents, from end to end: what it makes of a node that has a PPR and of one that
  has none. The transport may lose or refuse anything; what the agents know of the node is an invariant of the world.
\<close>

section \<open>The check in the network\<close>

text \<open>
  The events of asking the peers, with the answers that they can give and the addresses at which somebody can be reached. Only these
  can be the ends of an open connection.
\<close>

fun reply_in :: "HealthCheckResponseCode set \<Rightarrow> string set \<Rightarrow> api_event \<Rightarrow> bool" where
  "reply_in C D (AIsHealthy k name (Inr status)) = (sint status \<in> C)"
| "reply_in C D (ADial addr (Inr k)) = (addr \<in> D)"
| "reply_in C D (AReboot e) = False"
| "reply_in C D _ = True"

definition net_inv :: "('s \<Rightarrow> bool) \<Rightarrow> string set \<Rightarrow> 's \<times> string list \<Rightarrow> bool" where
  "net_inv I D w \<longleftrightarrow> I (fst w) \<and> set (snd w) \<subseteq> D"

definition known_codes :: "HealthCheckResponseCode set" where
  "known_codes = {Healthy, Unhealthy, ApiError}"

lemma sint_known: "c \<in> known_codes \<Longrightarrow> sint (word_of_int c :: 32 word) = c"
  by (auto simp: known_codes_def code_defs)

lemma networked_fields [simp]:
  "api_readyz (networked base net cfg) = on_fst (api_readyz base)" "api_peers (networked base net cfg) = on_fst (api_peers base)"
  "api_creds (networked base net cfg) = on_fst (api_creds base)" "api_reboot (networked base net cfg) = on_fst (api_reboot base)"
  "api_close (networked base net cfg) k = ret ()"
  "api_dial (networked base net cfg) addr creds = NewClient (net_dial net) addr (cfg_PeerDialTimeout cfg) creds"
  by (simp_all add: networked_def)

lemma dial_run:
  "run_state (NewClient (net_dial net) addr t creds) (w, conns) =
    (case net_hosts net addr of
       None \<Rightarrow> (Inl (Other ''connection refused''), (w, conns))
     | Some h \<Rightarrow>
         (case run_state (net_connect net addr creds) w of
            (Some err, w') \<Rightarrow> (Inl err, (w', conns))
          | (None, w') \<Rightarrow> (Inr (length conns), (w', conns @ [addr]))))"
  by (auto simp: NewClient_def net_dial_def run_simps split: option.split prod.split)

lemma isHealthy_run:
  assumes "valid_name name"
  obtains d where "unmarshal_request d = Some (Inr \<lparr>NodeName = name\<rparr>)" "length d \<le> defaultServerMaxReceiveMessageSize"
    "\<And>k w conns. run_state (api_isHealthy (networked base net cfg) k name) (w, conns) =
       (if k < length conns
        then (case run_state (net_call net (conns ! k) ''/poisonpill.health.PeerHealth/IsHealthy'' d) w of
            (r, w') \<Rightarrow> (map_sum id Status r, (w', conns)))
        else (Inl (Other ''no such connection''), (w, conns)))"
proof -
  obtain d where d: "marshal_request \<lparr>NodeName = name\<rparr> = Some (Inr d)" "unmarshal_request d = Some (Inr \<lparr>NodeName = name\<rparr>)"
    "length d \<le> defaultServerMaxReceiveMessageSize"
    using request_on_wire [OF assms] .
  show ?thesis
    by (rule that [OF d(2,3)])
       (auto simp: networked_def peerHealthClient_IsHealthy_def net_invoke_def d(1) codec_def wrap_error_def run_simps
         split: sum.split prod.split)
qed

text \<open>
  All of it together: the network in which the check runs, the addresses \<open>D\<close> outside of which nobody can be reached, and the codes that
  the agents at these addresses answer.
\<close>

definition unreachable :: "('s \<Rightarrow> bool) \<Rightarrow> ('s, 'c) network \<Rightarrow> string \<Rightarrow> bool" where
  "unreachable I net addr \<longleftrightarrow>
     net_hosts net addr = None \<or> (\<forall>w creds. I w \<longrightarrow> fst (run_state (net_connect net addr creds) w) \<noteq> None)"

definition peers_answer ::
  "('s \<Rightarrow> bool) \<Rightarrow> ('s, 'c) api_env \<Rightarrow> ('s, 'c) network \<Rightarrow> ApiConnectivityCheckConfig \<Rightarrow> string set \<Rightarrow>
    HealthCheckResponseCode set \<Rightarrow> bool" where
  "peers_answer I base net cfg D C \<longleftrightarrow> network_keeps I base net \<and> valid_name (cfg_MyNodeName cfg) \<and>
     answers_in I net D (cfg_MyNodeName cfg) C \<and> C \<subseteq> known_codes \<and> (\<forall>addr. addr \<notin> D \<longrightarrow> unreachable I net addr)"

lemma dial_answer:
  assumes "peers_answer I base net cfg D C" and "net_inv I D w"
    and "run_state (NewClient (net_dial net) addr t creds) w = (got, w')"
  shows "net_inv I D w' \<and> reply_in C D (ADial addr got)"
proof -
  obtain e w1 where conn: "run_state (net_connect net addr creds) (fst w) = (e, w1)" by fastforce
  have "I w1" using assms(1,2) conn unfolding peers_answer_def network_keeps_def keeps_def net_inv_def by (metis snd_conv)
  moreover have "addr \<in> D" if "net_hosts net addr = Some h" "e = None" for h
    using assms(1,2) conn that unfolding peers_answer_def unreachable_def net_inv_def by (metis fst_conv option.distinct(1))
  ultimately show ?thesis
    using assms(2,3) conn by (cases w) (auto simp: dial_run net_inv_def split: option.splits prod.splits)
qed

lemma isHealthy_answer:
  assumes "peers_answer I base net cfg D C" and "net_inv I D w"
    and "run_state (api_isHealthy (networked base net cfg) k (cfg_MyNodeName cfg)) w = (got, w')"
  shows "net_inv I D w' \<and> reply_in C D (AIsHealthy k (cfg_MyNodeName cfg) got)"
proof -
  let ?me = "cfg_MyNodeName cfg"
  note asm = assms(1) [unfolded peers_answer_def]
  obtain d where d: "unmarshal_request d = Some (Inr \<lparr>NodeName = ?me\<rparr>)" "length d \<le> defaultServerMaxReceiveMessageSize"
    "\<And>k w conns. run_state (api_isHealthy (networked base net cfg) k ?me) (w, conns) =
       (if k < length conns
        then (case run_state (net_call net (conns ! k) ''/poisonpill.health.PeerHealth/IsHealthy'' d) w of
            (r, w') \<Rightarrow> (map_sum id Status r, (w', conns)))
        else (Inl (Other ''no such connection''), (w, conns)))"
    using isHealthy_run [of ?me base net cfg] asm by blast
  obtain w0 conns where w: "w = (w0, conns)" by fastforce
  show ?thesis
  proof (cases "k < length conns")
    case False
    with assms(2,3) w d(3) show ?thesis by auto
  next
    case True
    obtain r w1 where call: "run_state (net_call net (conns ! k) ''/poisonpill.health.PeerHealth/IsHealthy'' d) w0 = (r, w1)"
      by fastforce
    have "conns ! k \<in> D" using assms(2) w True by (auto simp: net_inv_def)
    then have "I w1" and r: "\<forall>resp. r = Inr resp \<longrightarrow> (\<exists>c \<in> C. toResponse c = Inr resp)"
      using net_call_answer [OF _ _ _ _ d(1,2) call, of I base D C] asm assms(2) w by (auto simp: net_inv_def)
    moreover have "got = map_sum id Status r" "w' = (w1, conns)"
      using assms(3) w d(3) True call by auto
    ultimately show ?thesis
      using asm sint_known assms(2) w by (cases r) (auto simp: toResponse_def net_inv_def)
  qed
qed

lemma ensures_initClientCreds:
  assumes "network_keeps I base net"
  shows "ensures (net_inv I D) (initClientCreds (networked base net cfg)) (\<lambda>_ evs. list_all (reply_in C D) evs)"
proof -
  have "keeps I (api_creds base)" using assms by (simp add: network_keeps_def)
  then show ?thesis
    unfolding ensures_def initClientCreds_def keeps_def net_inv_def by (auto simp: run_simps split: sum.split)
qed

lemma ensures_getHealthStatusFromPeer:
  assumes "peers_answer I base net cfg D C"
  shows "ensures (net_inv I D) (getHealthStatusFromPeer (networked base net cfg) cfg ip results)
    (\<lambda>_ evs. list_all (reply_in C D) evs)"
proof -
  have keeps: "network_keeps I base net" using assms by (simp add: peers_answer_def)
  have close: "ensures (net_inv I D) (do { perform (ret ()) (\<lambda>_. AClose k); ret r }) (\<lambda>_ evs. list_all (reply_in C D) evs)"
    for k and r :: "HealthCheckResponseCode list"
    by (rule ensures_bind [where Q = "\<lambda>_ evs. list_all (reply_in C D) evs"]) (auto intro: ensures_perform ensures_ret)
  have ask: "ensures (net_inv I D) (perform (api_isHealthy (networked base net cfg) k (cfg_MyNodeName cfg))
      (AIsHealthy k (cfg_MyNodeName cfg))) (\<lambda>_ evs. list_all (reply_in C D) evs)" for k
    using isHealthy_answer [OF assms] by (intro ensures_perform) (metis list.pred_inject prod.collapse)
  have dial: "ensures (net_inv I D) (perform (NewClient (net_dial net) addr t creds) (ADial addr))
      (\<lambda>_ evs. list_all (reply_in C D) evs)" for addr t creds
    using dial_answer [OF assms] by (intro ensures_perform) (metis list.pred_inject prod.collapse)
  show ?thesis
    unfolding getHealthStatusFromPeer_def Let_def networked_fields
    by (auto intro!: ensures_bind [OF ensures_initClientCreds [OF keeps]] ensures_bind [OF dial] ensures_bind [OF ask]
        ensures_bind [OF ensures_gets [where Q = "\<lambda>_ evs. evs = []"]] ensures_mono [OF close] ensures_ret split: option.split sum.split)
qed

lemma ensures_askPeers:
  assumes "peers_answer I base net cfg D C"
  shows "ensures (net_inv I D) (askPeers (networked base net cfg) cfg as results) (\<lambda>_ evs. list_all (reply_in C D) evs)"
proof (induction as arbitrary: results)
  case (Cons a as)
  show ?case
    unfolding askPeers.simps
    by (rule ensures_bind [OF ensures_getHealthStatusFromPeer [OF assms]]) (auto intro: ensures_mono [OF Cons])
qed (simp add: ensures_ret)

lemma ensures_ask_batches:
  assumes "peers_answer I base net cfg D C"
  shows "ensures (net_inv I D) (ask_batches (networked base net cfg) cfg sched n bs i s) (\<lambda>_ evs. list_all (reply_in C D) evs)"
proof (induction bs arbitrary: i s)
  case (Cons b bs)
  show ?case
    unfolding ask_batches.simps
    by (rule ensures_bind [OF ensures_askPeers [OF assms]])
       (auto split: call.split intro!: ensures_ret ensures_modify_bind ensures_mono [OF Cons])
qed (simp add: ensures_ret)

lemma ensures_handleError:
  assumes "peers_answer I base net cfg D C" and "fair_sched sched"
  shows "ensures (net_inv I D) (handleError (networked base net cfg) cfg sched) (\<lambda>_ evs. list_all (reply_in C D) evs)"
proof -
  have "keeps I (api_peers base)" using assms(1) by (simp add: peers_answer_def network_keeps_def)
  then have peers: "ensures (net_inv I D) (perform (on_fst (api_peers base)) APeers) (\<lambda>_ evs. list_all (reply_in C D) evs)"
    by (intro ensures_perform) (simp add: run_simps keeps_def net_inv_def)
  show ?thesis
    unfolding handleError_def networked_fields handleError_loop_batches [OF assms(2)]
    by (auto intro!: ensures_modify_bind ensures_bind [OF ensures_gets [where Q = "\<lambda>_ evs. evs = []"]] ensures_bind [OF peers]
        ensures_ret ensures_mono [OF ensures_ask_batches [OF assms(1)]])
qed

lemma answers_reply_in: "list_all (reply_in C D) evs \<Longrightarrow> set (answers evs) \<subseteq> C"
proof (induction evs)
  case (Cons ev evs)
  have "reply_in C D ev \<Longrightarrow> set (answer ev) \<subseteq> C" by (cases ev rule: answer.cases) auto
  with Cons show ?case by simp
qed simp

section \<open>A peer that can be reached\<close>

definition reachable :: "('s \<Rightarrow> bool) \<Rightarrow> ('s, 'c) network \<Rightarrow> string \<Rightarrow> bool" where
  "reachable I net addr \<longleftrightarrow> (\<forall>w. I w \<longrightarrow> (\<forall>creds. fst (run_state (net_connect net addr creds) w) = None) \<and>
     fst (run_state (net_send net addr) w) = None \<and> fst (run_state (net_reply net addr) w) = None)"

definition creds_ok :: "('s \<Rightarrow> bool) \<Rightarrow> ('s, 'c) api_env \<Rightarrow> bool" where
  "creds_ok I base \<longleftrightarrow> (\<forall>w. I w \<longrightarrow> \<not> isl (fst (run_state (api_creds base) w)))"

lemma net_call_reached:
  assumes "network_keeps I base net" and "reachable I net addr" and "net_hosts net addr = Some h" and "I w"
    and "unmarshal_request d = Some (Inr \<lparr>NodeName = name\<rparr>)" and "length d \<le> defaultServerMaxReceiveMessageSize"
    and "\<And>w. I w \<Longrightarrow> fst (host_says h name w) = toResponse c"
  shows "fst (run_state (net_call net addr ''/poisonpill.health.PeerHealth/IsHealthy'' d) w) = toResponse c"
proof -
  obtain w1 where send: "run_state (net_send net addr) w = (None, w1)"
    using assms(2,4) unfolding reachable_def by (metis prod.collapse)
  have w1: "I w1" using assms(1,4) send unfolding network_keeps_def keeps_def by (metis snd_conv)
  obtain b w2 where serve: "run_state (host_serve h ''/poisonpill.health.PeerHealth/IsHealthy'' d) w1 = (b, w2)" by fastforce
  have w2: "I w2" and b: "(case b of Inl err \<Rightarrow> Inl err | Inr b \<Rightarrow> net_recv b) = toResponse c"
    using host_serve_says [OF assms(5,6), of h w1] host_says_keeps [OF assms(1,3) w1, of name] serve assms(7) [OF w1] by simp_all
  obtain w3 where reply: "run_state (net_reply net addr) w2 = (None, w3)"
    using assms(2) w2 unfolding reachable_def by (metis prod.collapse)
  from b assms(3) send serve reply show ?thesis
    by (cases b) (auto simp: net_call_def toResponse_def)
qed

lemma initClientCreds_ok:
  assumes "network_keeps I base net" and "creds_ok I base" and "I (fst (world s))"
    and "run_state (initClientCreds (networked base net cfg)) s = (e, s')"
  shows "e = None \<and> I (fst (world s'))"
proof -
  have "keeps I (api_creds base)" using assms(1) by (simp add: network_keeps_def)
  with assms(2-4) show ?thesis
    unfolding creds_ok_def keeps_def initClientCreds_def by (auto simp: run_simps split: sum.splits if_splits)
qed

text \<open>An address at which an agent can be reached that always answers \<open>code\<close>.\<close>

definition always_says ::
  "('s \<Rightarrow> bool) \<Rightarrow> ('s, 'c) network \<Rightarrow> string \<Rightarrow> string \<Rightarrow> HealthCheckResponseCode \<Rightarrow> bool" where
  "always_says I net addr name code \<longleftrightarrow> reachable I net addr \<and> code \<in> known_codes \<and>
     (\<exists>h. net_hosts net addr = Some h \<and> (\<forall>w. I w \<longrightarrow> fst (host_says h name w) = toResponse code))"

lemma ensures_reached:
  assumes "peers_answer I base net cfg D C" and "creds_ok I base"
    and "always_says I net (ip @ '':'' @ Itoa (cfg_PeerHealthPort cfg)) (cfg_MyNodeName cfg) code"
  shows "ensures (net_inv I D) (getHealthStatusFromPeer (networked base net cfg) cfg ip results) (\<lambda>rs _. rs = results @ [code])"
proof -
  let ?me = "cfg_MyNodeName cfg" and ?m = "getHealthStatusFromPeer (networked base net cfg) cfg ip results"
  let ?addr = "ip @ '':'' @ Itoa (cfg_PeerHealthPort cfg)"
  note asm = assms(1) [unfolded peers_answer_def]
  obtain h where reach: "reachable I net ?addr" and code: "code \<in> known_codes" and h: "net_hosts net ?addr = Some h"
    and says: "\<And>w. I w \<Longrightarrow> fst (host_says h ?me w) = toResponse code"
    using assms(3) unfolding always_says_def by blast
  obtain d where d: "unmarshal_request d = Some (Inr \<lparr>NodeName = ?me\<rparr>)" "length d \<le> defaultServerMaxReceiveMessageSize"
    "\<And>k w conns. run_state (api_isHealthy (networked base net cfg) k ?me) (w, conns) =
       (if k < length conns
        then (case run_state (net_call net (conns ! k) ''/poisonpill.health.PeerHealth/IsHealthy'' d) w of
            (r, w') \<Rightarrow> (map_sum id Status r, (w', conns)))
        else (Inl (Other ''no such connection''), (w, conns)))"
    using isHealthy_run [of ?me base net cfg] asm by blast
  have "fst (run_state ?m s) = results @ [code]" if s: "I (fst (world s))" for s
  proof -
    obtain e s1 where init: "run_state (initClientCreds (networked base net cfg)) s = (e, s1)" by fastforce
    obtain w conns where w: "world s1 = (w, conns)" by fastforce
    have e: "e = None" and "I w" using initClientCreds_ok [OF _ assms(2) s init] asm w by auto
    obtain w1 where conn: "run_state (net_connect net ?addr (clientCreds s1)) w = (None, w1)"
      using reach \<open>I w\<close> unfolding reachable_def by (metis prod.collapse)
    have "I w1" using asm \<open>I w\<close> conn unfolding network_keeps_def keeps_def by (metis snd_conv)
    obtain r w2 where call: "run_state (net_call net ?addr ''/poisonpill.health.PeerHealth/IsHealthy'' d) w1 = (r, w2)" by fastforce
    have "r = toResponse code"
      using net_call_reached [OF _ reach h \<open>I w1\<close> d(1,2) says] asm call by auto
    then show ?thesis
      using init e w conn call h sint_known [OF code]
      by (simp add: getHealthStatusFromPeer_def run_simps Let_def dial_run d(3) toResponse_def)
  qed
  then have "\<And>s. net_inv I D (world s) \<Longrightarrow> fst (run_state ?m s) = results @ [code]" by (simp add: net_inv_def)
  with ensures_getHealthStatusFromPeer [OF assms(1), of ip results] show ?thesis
    unfolding ensures_def by blast
qed

lemma ensures_ask_reached:
  assumes "peers_answer I base net cfg D C" and "creds_ok I base"
    and "always_says I net (ip @ '':'' @ Itoa (cfg_PeerHealthPort cfg)) (cfg_MyNodeName cfg) code"
  shows "ensures (net_inv I D) (askPeers (networked base net cfg) cfg as results)
    (\<lambda>rs _. count_list results code + count_list as ip \<le> count_list rs code)"
proof (induction as arbitrary: results)
  case (Cons a as)
  let ?env = "networked base net cfg"
  have "ensures (net_inv I D) (getHealthStatusFromPeer ?env cfg a results)
      (\<lambda>rs _. count_list results code + (if a = ip then 1 else 0) \<le> count_list rs code)"
  proof (cases "a = ip")
    case True
    then show ?thesis using ensures_mono [OF ensures_reached [OF assms, of results]] by simp
  next
    case False
    have "ensures (net_inv I D) (getHealthStatusFromPeer ?env cfg a results) (\<lambda>rs _. \<exists>r. rs = results @ [r])"
      by (rule ensures_mono [OF ensures_emits [OF ensures_getHealthStatusFromPeer [OF assms(1)] emits_getHealthStatusFromPeer]]) auto
    with False show ?thesis by (elim ensures_mono) auto
  qed
  then show ?case
    unfolding askPeers.simps by (rule ensures_bind) (auto intro: ensures_mono [OF Cons.IH])
qed (simp add: ensures_ret)

text \<open>A batch of questions in a network in which no peer calls the node unhealthy.\<close>

lemma ensures_batch:
  assumes "peers_answer I base net cfg D C" and "Unhealthy \<notin> C" and "creds_ok I base"
    and "always_says I net (ip @ '':'' @ Itoa (cfg_PeerHealthPort cfg)) (cfg_MyNodeName cfg) code"
    and "mset as = mset b"
  shows "ensures (net_inv I D) (askPeers (networked base net cfg) cfg as [])
    (\<lambda>rs _. length rs = length b \<and> count_list rs Unhealthy = 0 \<and> count_list b ip \<le> count_list rs code)"
proof -
  let ?ask = "askPeers (networked base net cfg) cfg as []"
  have len: "length as = length b" using mset_eq_length [OF assms(5)] .
  have "ensures (net_inv I D) ?ask (\<lambda>rs _. length rs = length b \<and> Unhealthy \<notin> set rs)"
  proof (rule ensures_mono [OF ensures_emits [OF ensures_askPeers [OF assms(1)] emits_askPeers]], elim conjE exE)
    fix rs evs rs'
    assume a: "list_all (reply_in C D) evs" "rs = [] @ rs'" "length rs' = length as" "answered rs' = answered (answers evs)"
    then have "Unhealthy \<notin> set (answers evs)" using answers_reply_in assms(2) by blast
    with a len answers_of_batch(2) [OF a(4)] show "length rs = length b \<and> Unhealthy \<notin> set rs" by simp
  qed
  from ensures_conj [OF this ensures_ask_reached [OF assms(1,3,4), of as "[]"]] show ?thesis
    using assms(5) by (elim ensures_mono) (simp add: count_list_0_iff flip: count_mset)
qed

text \<open>
  The verdict is that the node is healthy when one peer that can be reached always says so and no peer calls the node unhealthy, and also
  when nobody calls it unhealthy and more than half of the questions go to one address at which the answer is an API error.
\<close>

lemma ensures_batches_healthy:
  assumes "peers_answer I base net cfg D C" and "Unhealthy \<notin> C" and "creds_ok I base"
    and "always_says I net (ip @ '':'' @ Itoa (cfg_PeerHealthPort cfg)) (cfg_MyNodeName cfg) code"
    and "fair_sched sched"
    and "code = Healthy \<and> ip \<in> set (concat bs) \<or>
      code = ApiError \<and> s \<le> int (n div 2) \<and> int (n div 2) < s + int (count_list (concat bs) ip)"
  shows "ensures (net_inv I D) (ask_batches (networked base net cfg) cfg sched n bs i s) (\<lambda>res _. res = Return True)"
  using assms(6)
proof (induction bs arbitrary: i s)
  case (Cons b bs)
  let ?env = "networked base net cfg"
  have "mset (sched i b) = mset b" using assms(5) by (simp add: fair_sched_def)
  from ensures_batch [OF assms(1-4) this] show ?case
    unfolding ask_batches.simps
  proof (rule ensures_bind, elim conjE)
    fix rs evs
    assume rs: "length rs = length b" "count_list rs Unhealthy = 0" "count_list b ip \<le> count_list rs code"
    have go_on: "code = Healthy \<and> ip \<in> set (concat bs) \<or>
        code = ApiError \<and> s + int (count_list rs ApiError) \<le> int (n div 2) \<and>
          int (n div 2) < s + int (count_list rs ApiError) + int (count_list (concat bs) ip)"
      if "count_list rs Healthy = 0" "s + int (count_list rs ApiError) \<le> int (n div 2)"
      using Cons.prems rs(3) that by (auto simp: count_list_0_iff code_defs)
    have zero: "s + int (count_list rs ApiError) \<le> int (n div 2) \<or> code = Healthy" if "count_list rs ApiError = 0"
      using Cons.prems that by auto
    show "ensures (net_inv I D)
       (case sumPeersResponses (length b) rs of
          Return (h, u, a, x) \<Rightarrow>
            if h > 0 then do { modify (errorCount_update (\<lambda>_. 0)); ret (Return True) }
            else if u > 0 then ret (Return False)
            else if a > 0 then
              if s + a > int (n div 2) then ret (Return True)
              else ask_batches ?env cfg sched n bs (Suc i) (s + a)
            else ask_batches ?env cfg sched n bs (Suc i) s
        | Panic \<Rightarrow> ret Panic | Block \<Rightarrow> ret Block) (\<lambda>res evs'. res = Return True)"
      using sumPeersResponses_eq [of rs] rs(1,2) Cons.IH go_on zero Cons.prems rs(3)
      by (auto intro!: ensures_modify_bind ensures_ret simp: count_list_0_iff)
  qed
qed auto

definition decisive :: "HealthCheckResponseCode \<Rightarrow> string \<Rightarrow> NodeAddress list list \<Rightarrow> bool" where
  "decisive code ip nodes \<longleftrightarrow> code = Healthy \<and> ip \<in> peerAddress ` set nodes \<or>
     code = ApiError \<and> length nodes div 2 < count_list (map peerAddress nodes) ip"

lemma ensures_handleError_healthy:
  assumes "peers_answer I base net cfg D C" and "Unhealthy \<notin> C" and "creds_ok I base"
    and "always_says I net (ip @ '':'' @ Itoa (cfg_PeerHealthPort cfg)) (cfg_MyNodeName cfg) code" and "fair_sched sched"
    and "\<forall>w. I w \<longrightarrow> decisive code ip (fst (run_state (api_peers base) w))"
  shows "ensures (net_inv I D) (handleError (networked base net cfg) cfg sched)
    (\<lambda>res evs. res = Return True \<and> list_all (reply_in C D) evs)"
proof -
  have "keeps I (api_peers base)" using assms(1) by (simp add: peers_answer_def network_keeps_def)
  with assms(6) have peers: "ensures (net_inv I D) (perform (on_fst (api_peers base)) APeers) (\<lambda>nodes _. decisive code ip nodes)"
    by (intro ensures_perform) (simp add: run_simps keeps_def net_inv_def)
  have "ensures (net_inv I D) (handleError (networked base net cfg) cfg sched) (\<lambda>res _. res = Return True)"
    unfolding handleError_def networked_fields handleError_loop_batches [OF assms(5)]
    by (auto intro!: ensures_modify_bind ensures_bind [OF ensures_gets [where Q = "\<lambda>_ evs. evs = []"]] ensures_bind [OF peers]
        ensures_ret ensures_batches_healthy [OF assms(1-5)] simp: concat_batches decisive_def)
  from ensures_conj [OF this ensures_handleError [OF assms(1,5)]] show ?thesis .
qed

section \<open>Properties\<close>

text \<open>A check whose request to the API server failed, and the events it had by its verdict.\<close>

lemma checkApiServer_verdict:
  assumes "fair_sched sched" and "trace c = []" and "run_state (checkApiServer env cfg sched) c = (res, c')"
    and "run_state (api_readyz env) (world c) = (got, w)" and "got \<noteq> Inr 200"
  obtains healthy evs c2 where
    "run_state (handleError env cfg sched) (c\<lparr>world := w, trace := [AReadyz got]\<rparr>) = (Return healthy, c2)"
    "trace c2 = AReadyz got # evs" "handleError_spec cfg (errorCount c) healthy evs"
    "if healthy then trace c' = trace c2 else \<exists>e. trace c' = trace c2 @ [AReboot e]"
proof -
  let ?c = "c\<lparr>world := w, trace := [AReadyz got]\<rparr>"
  obtain healthy evs c2 where h: "run_state (handleError env cfg sched) ?c = (Return healthy, c2)"
    "trace c2 = AReadyz got # evs" "handleError_spec cfg (errorCount c) healthy evs"
    using handleError_trace [OF assms(1), of env cfg ?c]
    by (cases "run_state (handleError env cfg sched) ?c") auto
  have "if healthy then trace c' = trace c2 else \<exists>e. trace c' = trace c2 @ [AReboot e]"
    using run_checkApiServer_healthy [OF assms(4,5), of cfg sched c2] run_checkApiServer_unhealthy [OF assms(4,5), of cfg sched c2]
      h(1) assms(2,3) by (cases healthy) (auto split: prod.splits)
  with h show ?thesis by (rule that)
qed

lemma handleError_peers:
  assumes "fair_sched sched" and "cfg_MaxErrorsThreshold cfg \<le> errorCount c + 1"
  shows "\<exists>evs. trace (snd (run_state (handleError env cfg sched) c)) = trace c @ APeers (fst (run_state (api_peers env) (world c))) # evs"
proof -
  obtain nodes w where p: "run_state (api_peers env) (world c) = (nodes, w)" by (metis surj_pair)
  let ?c = "(errorCount_update (\<lambda>n. n + 1) c)\<lparr>world := w, trace := trace c @ [APeers nodes]\<rparr>"
  have "\<exists>evs. trace (snd (run_state (handleError_loop env cfg sched (length nodes) 0 nodes 0) ?c)) = trace ?c @ evs"
    using emits_handleError_loop [OF assms(1), of 0 "length nodes" env cfg 0 nodes] unfolding emits_def by fastforce
  with assms(2) p show ?thesis by (auto simp: handleError_def run_simps)
qed

text \<open>C9.
  From end to end, a node with a PPR is fenced when its peers see the PPR. Suppose that, as long as the world keeps an invariant, every agent of the
  network either cannot reach the API server or sees the remediation: the PPR is in the namespace of the last PPR that the agent has reconciled,
  and it is named after the node if the agent has reconciled no PPR of a machine so far, and after the machine of the node otherwise. (An agent that has
  reconciled nothing yet, or a PPR of a machine before one that is named after the node, is excluded: it answers that the node is healthy.) If this
  agent knows peers, and its own requests to the API server have failed up to the threshold, then whatever the transport loses, the check ends by
  calling the rebooter, unless no peer said that the node is unhealthy and more than half of all peers answered with an API error.\<close>

theorem node_with_ppr_fenced:
  assumes "fair_sched sched" and "trace c = []" and "network_keeps I base net" and "valid_name (cfg_MyNodeName cfg)"
    and "\<And>addr h. net_hosts net addr = Some h \<Longrightarrow> sees_ppr I h (cfg_MyNodeName cfg) \<or> (\<forall>w. I w \<longrightarrow> api_fails h w)"
    and "I (fst (world c))" and "\<And>w. I w \<Longrightarrow> fst (run_state (api_readyz base) w) \<noteq> Inr 200"
    and "\<And>w. I w \<Longrightarrow> fst (run_state (api_peers base) w) \<noteq> []" and "cfg_MaxErrorsThreshold cfg \<le> errorCount c + 1"
    and "run_state (checkApiServer (networked base net cfg) cfg sched) c = (res, c')"
  shows "\<exists>got nodes evs. trace c' = AReadyz got # APeers nodes # evs \<and> nodes \<noteq> [] \<and>
    ((\<exists>e. last evs = AReboot e) \<or>
     Unhealthy \<notin> set (answers evs) \<and> length nodes div 2 < count_list (answers evs) ApiError)"
proof -
  let ?me = "cfg_MyNodeName cfg" and ?env = "networked base net cfg" and ?C = "{Unhealthy, ApiError}"
  have me: "?me \<noteq> ''''" using assms(4) by (simp add: valid_name_def)
  have "answers_in I net UNIV ?me ?C"
    unfolding answers_in_def
  proof (intro allI impI)
    fix w addr h
    assume h: "I w \<and> addr \<in> UNIV \<and> net_hosts net addr = Some h"
    then have "keeps I (dyn_getNode (host_client h) \<lparr>key_Namespace = '''', key_Name = ?me\<rparr>)"
      using network_keeps_getNode [OF assms(3)] by blast
    note keeps = this
    consider "sees_ppr I h ?me" | "api_fails h w" using assms(5) h by blast
    then show "\<exists>c \<in> ?C. fst (host_says h ?me w) = toResponse c"
      using says_unhealthy [of I h ?me w] says_api_error [of h w ?me] me h keeps by cases simp_all
  qed
  then have peers: "peers_answer I base net cfg UNIV ?C"
    using assms(3,4) by (simp add: peers_answer_def known_codes_def)
  obtain got w where ready: "run_state (api_readyz ?env) (world c) = (got, w)" by (metis surj_pair)
  then have got: "got \<noteq> Inr 200" and "I (fst w)"
    using assms(3,6,7) by (auto simp: run_simps network_keeps_def keeps_def)
  obtain healthy evs c2 where h: "run_state (handleError ?env cfg sched) (c\<lparr>world := w, trace := [AReadyz got]\<rparr>) = (Return healthy, c2)"
    "trace c2 = AReadyz got # evs" "handleError_spec cfg (errorCount c) healthy evs"
    "if healthy then trace c' = trace c2 else \<exists>e. trace c' = trace c2 @ [AReboot e]"
    by (rule checkApiServer_verdict [OF assms(1,2,10) ready got])
  have "\<exists>evs. trace c2 = [AReadyz got] @ evs \<and> list_all (reply_in ?C UNIV) evs"
    using ensures_run [OF ensures_handleError [OF peers assms(1)] h(1)] \<open>I (fst w)\<close> by (auto simp: net_inv_def)
  with h(2) have "list_all (reply_in ?C UNIV) evs" by simp
  then have "set (answers evs) \<subseteq> ?C" by (rule answers_reply_in)
  then have no: "Healthy \<notin> set (answers evs)" by (auto simp: code_defs)
  obtain nodes evs' where e: "evs = APeers nodes # evs'"
    "if nodes = [] then healthy \<and> evs' = [] else verdict_spec (length nodes) 0 (length nodes) healthy (answers evs') (attempts evs')"
    using h(3) assms(9) by (auto simp: handleError_spec_def)
  have nodes: "nodes \<noteq> []"
    using handleError_peers [OF assms(1), of cfg "c\<lparr>world := w, trace := [AReadyz got]\<rparr>" ?env] assms(8,9) \<open>I (fst w)\<close> h(1,2) e(1)
    by (auto simp: run_simps)
  show ?thesis
  proof (cases healthy)
    case True
    with h(2,4) e nodes no show ?thesis by (auto simp: verdict_spec_def)
  next
    case False
    then obtain r where "trace c' = AReadyz got # APeers nodes # (evs' @ [AReboot r])" using h(2,4) e(1) by auto
    with nodes show ?thesis by (intro exI conjI disjI1) auto
  qed
qed

text \<open>The verdict of a check in which no peer calls the node unhealthy and one address speaks for it.\<close>

lemma check_spared:
  assumes "fair_sched sched" and "trace c = []" and "peers_answer I base net cfg D C" and "Unhealthy \<notin> C"
    and "net_inv I D (world c)" and "creds_ok I base"
    and "always_says I net (ip @ '':'' @ Itoa (cfg_PeerHealthPort cfg)) (cfg_MyNodeName cfg) code"
    and "\<forall>w. I w \<longrightarrow> decisive code ip (fst (run_state (api_peers base) w))"
    and "run_state (checkApiServer (networked base net cfg) cfg sched) c = (res, c')"
  shows "res = Return () \<and> list_all (reply_in C D) (trace c')"
proof -
  let ?env = "networked base net cfg"
  obtain got w where ready: "run_state (api_readyz ?env) (world c) = (got, w)" by (metis surj_pair)
  have w: "net_inv I D w"
    using ready assms(3,5) by (auto simp: run_simps peers_answer_def network_keeps_def keeps_def net_inv_def)
  show ?thesis
  proof (cases "got = Inr 200")
    case True
    with run_checkApiServer_ok [of ?env c w cfg sched] ready assms(2,9) show ?thesis by auto
  next
    case False
    let ?c = "c\<lparr>world := w, trace := trace c @ [AReadyz got]\<rparr>"
    obtain r c2 where h: "run_state (handleError ?env cfg sched) ?c = (r, c2)" by (metis surj_pair)
    with ensures_run [OF ensures_handleError_healthy [OF assms(3,4,6,7,1,8)] h] w assms(2)
    have "r = Return True" "list_all (reply_in C D) (trace c2)" by auto
    with run_checkApiServer_healthy [OF ready False, of cfg sched c2] h assms(9) show ?thesis by simp
  qed
qed

text \<open>C10.
  From end to end, a node without a PPR is spared. Suppose that, as long as the world keeps an invariant, no agent of the network sees a remediation of
  this node: each either cannot reach the API server or finds the node there but no PPR, in any namespace, that is named after the node or after the
  machine of its annotation (and if the node has no usable annotation, the agent has never reconciled a PPR of a machine; such an agent would
  call the node unhealthy). If one peer of this agent can be reached and is not cut off itself, and this agent has its credentials or can get
  them, then the check does not call the rebooter, whatever the transport loses of the other questions and whatever this agent's own requests
  to the API server give.\<close>

theorem node_without_ppr_spared:
  assumes "fair_sched sched" and "trace c = []" and "network_keeps I base net" and "valid_name (cfg_MyNodeName cfg)"
    and "\<And>addr h. net_hosts net addr = Some h \<Longrightarrow> sees_no_ppr I h (cfg_MyNodeName cfg) \<or> (\<forall>w. I w \<longrightarrow> api_fails h w)"
    and "I (fst (world c))" and "creds_ok I base"
    and "\<And>w. I w \<Longrightarrow> ip \<in> peerAddress ` set (fst (run_state (api_peers base) w))"
    and "reachable I net (ip @ '':'' @ Itoa (cfg_PeerHealthPort cfg))"
    and "net_hosts net (ip @ '':'' @ Itoa (cfg_PeerHealthPort cfg)) = Some h" and "sees_no_ppr I h (cfg_MyNodeName cfg)"
    and "run_state (checkApiServer (networked base net cfg) cfg sched) c = (res, c')"
  shows "res = Return () \<and> (\<forall>e. AReboot e \<notin> set (trace c'))"
proof -
  let ?me = "cfg_MyNodeName cfg" and ?C = "{Healthy, ApiError}"
  have me: "?me \<noteq> ''''" using assms(4) by (simp add: valid_name_def)
  have healthy: "fst (host_says h ?me w) = toResponse Healthy"
    if "net_hosts net addr = Some h" "sees_no_ppr I h ?me" "I w" for addr h w
    using says_healthy [OF that(2,3) me] network_keeps_getNode [OF assms(3) that(1)] by blast
  have "answers_in I net UNIV ?me ?C"
    unfolding answers_in_def
  proof (intro allI impI)
    fix w addr h
    assume h: "I w \<and> addr \<in> UNIV \<and> net_hosts net addr = Some h"
    then consider "sees_no_ppr I h ?me" | "api_fails h w" using assms(5) by blast
    then show "\<exists>c \<in> ?C. fst (host_says h ?me w) = toResponse c"
      using healthy [of addr h w] says_api_error [of h w ?me] me h by cases simp_all
  qed
  then have peers: "peers_answer I base net cfg UNIV ?C"
    using assms(3,4) by (simp add: peers_answer_def known_codes_def)
  have says: "always_says I net (ip @ '':'' @ Itoa (cfg_PeerHealthPort cfg)) ?me Healthy"
    using assms(9,10,11) healthy [OF assms(10)] by (simp add: always_says_def known_codes_def)
  have "res = Return () \<and> list_all (reply_in ?C UNIV) (trace c')"
    by (rule check_spared [OF assms(1,2) peers _ _ assms(7) says _ assms(12)])
       (use assms(6,8) in \<open>auto simp: code_defs net_inv_def decisive_def\<close>)
  then show ?thesis by (auto simp: list_all_iff)
qed

text \<open>C27.
  Peers without an address hide that a node is isolated. Such a peer is not left out: it is dialled at the empty host, which is the local one, so
  the node asks its own health service. Suppose that this service can be reached there and is cut off from the API server, as the node is, that more
  than half of the known peers have no address, and that nobody else can be reached. Then the check never calls the rebooter: the only
  connections it gets are those to itself, its own service answers each of them with an API error, and these count as answers of more than
  half of the peers.\<close>

theorem peers_without_address:
  assumes "fair_sched sched" and "trace c = []" and "network_keeps I base net" and "valid_name (cfg_MyNodeName cfg)"
    and "local = '':'' @ Itoa (cfg_PeerHealthPort cfg)"
    and "reachable I net local" and "net_hosts net local = Some own" and "\<And>w. I w \<Longrightarrow> api_fails own w"
    and "\<And>addr. addr \<noteq> local \<Longrightarrow> unreachable I net addr"
    and "\<And>w. I w \<Longrightarrow> length (fst (run_state (api_peers base) w)) div 2 <
      length (filter (\<lambda>addrs. peerAddress addrs = '''') (fst (run_state (api_peers base) w)))"
    and "I (fst (world c))" and "snd (world c) = []" and "creds_ok I base"
    and "run_state (checkApiServer (networked base net cfg) cfg sched) c = (res, c')"
  shows "res = Return () \<and> (\<forall>e. AReboot e \<notin> set (trace c')) \<and>
    (\<forall>addr k. ADial addr (Inr k) \<in> set (trace c') \<longrightarrow> addr = local) \<and> set (answers (trace c')) \<subseteq> {ApiError}"
proof -
  let ?me = "cfg_MyNodeName cfg" and ?C = "{ApiError}"
  have says: "fst (host_says own ?me w) = toResponse ApiError" if "I w" for w
    using says_api_error [OF assms(8) [OF that], of ?me] assms(4) by (simp add: valid_name_def)
  then have peers: "peers_answer I base net cfg {local} ?C"
    using assms(3,4,7,9) by (simp add: peers_answer_def known_codes_def answers_in_def)
  have always: "always_says I net ('''' @ '':'' @ Itoa (cfg_PeerHealthPort cfg)) ?me ApiError"
    using assms(5-7) says by (simp add: always_says_def known_codes_def)
  have count: "count_list (map peerAddress nodes) '''' = length (filter (\<lambda>addrs. peerAddress addrs = '''') nodes)" for nodes
    by (induction nodes) auto
  have "res = Return () \<and> list_all (reply_in ?C {local}) (trace c')"
    by (rule check_spared [OF assms(1,2) peers _ _ assms(13) always _ assms(14)])
       (use assms(10-12) count in \<open>auto simp: code_defs net_inv_def decisive_def\<close>)
  then show ?thesis using answers_reply_in [of ?C "{local}" "trace c'"] by (auto simp: list_all_iff)
qed

section \<open>A network of three agents\<close>

text \<open>
  The asking agent and two peers: the first peer has access to the API server, the second has not, and the connection to it cannot be made.
  The first has started without having seen a PPR, and has then reconciled one in the namespace \<open>default\<close>.
\<close>

definition sample_host :: "go_error + PoisonPillRemediation \<Rightarrow> unit net_host" where
  "sample_host p = \<lparr>host_client = sample_client p, host_seen = (\<lambda>_. (''default'', False))\<rparr>"

definition sample_cut_off :: "unit net_host" where
  "sample_cut_off = \<lparr>host_client = \<lparr>dyn_getPPR = (\<lambda>_. ret (Inl (Other ''timeout''))), dyn_getNode = (\<lambda>_. ret (Inl (Other ''timeout'')))\<rparr>,
     host_seen = (\<lambda>_. ('''', False))\<rparr>"

definition sample_addr :: "string \<Rightarrow> string" where
  "sample_addr ip = ip @ '':'' @ Itoa (cfg_PeerHealthPort sample_cfg)"

definition sample_net :: "go_error + PoisonPillRemediation \<Rightarrow> (unit, unit) network" where
  "sample_net p = \<lparr>net_hosts = [sample_addr ''10.0.0.2'' \<mapsto> sample_host p, sample_addr ''10.0.0.3'' \<mapsto> sample_cut_off],
     net_connect = (\<lambda>addr _. ret (if addr = sample_addr ''10.0.0.3'' then Some (Other ''timeout'') else None)),
     net_send = (\<lambda>_. ret None), net_reply = (\<lambda>_. ret None)\<rparr>"

definition sample_net_agent :: "(unit \<times> string list, unit) ApiConnectivityCheck" where
  "sample_net_agent = \<lparr>world = ((), []), trace = [], errorCount = 2, clientCreds = None\<rparr>"

lemma sample_net_keeps: "network_keeps (\<lambda>_. True) (sample_api True 2) (sample_net p)"
  by (simp add: network_keeps_def keeps_def)

lemma sample_name: "valid_name (cfg_MyNodeName sample_cfg)"
  by code_simp

lemma sample_reconciled: "has_reconciled (sample_host p) w [(''default'', False)]"
proof -
  let ?xs = "[(fixed_env (Inr sample_ppr) (Inr sample_node) (Inl NotFound) 0 None, sample_req)]"
  have "seen_pprs sample_reconciler ?xs start = [(''default'', False)]"
    by (simp add: machine_owned_def fixed_env_def sample_ppr_def sample_req_def emptyMeta_def)
  moreover have "lastSeenPprNamespace start = ''''" "\<not> wasLastSeenPprMachine start"
    by (simp_all add: start_def)
  ultimately show ?thesis
    unfolding has_reconciled_def
    by (intro exI [of _ sample_reconciler] exI [of _ ?xs] exI [of _ start] conjI)
       (simp_all only: run_reconciles_globals, simp_all add: sample_host_def)
qed

lemma sample_knowledge:
  "sees_ppr I (sample_host (Inr ppr)) name" "sees_no_ppr I (sample_host (Inl NotFound)) name" "api_fails sample_cut_off w"
proof -
  have none: "\<not> machines_seen [(''default'', False)]" by (simp add: machines_seen_def)
  have answer: "ppr_answer (sample_host p) ns name w = p" "node_answer (sample_host p) name w = Inr sample_node"
    for p ns name w
    by (simp_all add: ppr_answer_def node_answer_def sample_host_def sample_client_def)
  show "sees_ppr I (sample_host (Inr ppr)) name"
    unfolding sees_ppr_def
    by (rule exI [of _ "''default''"], rule exI [of _ name])
       (auto simp: answer none intro!: exI [of _ "[(''default'', False)]"] sample_reconciled)
  show "sees_no_ppr I (sample_host (Inl NotFound)) name"
    unfolding sees_no_ppr_def using sample_reconciled none by (auto simp: answer split: option.split)
  show "api_fails sample_cut_off w" by (simp add: sample_cut_off_def api_fails_def)
qed

lemma sample_hosts:
  "net_hosts (sample_net p) addr = Some h \<Longrightarrow> h = sample_host p \<or> h = sample_cut_off"
  by (simp add: sample_net_def split: if_splits)

lemma sample_start:
  "trace sample_net_agent = []" "cfg_MaxErrorsThreshold sample_cfg \<le> errorCount sample_net_agent + 1"
  "fst (run_state (api_readyz (sample_api True 2)) w) \<noteq> Inr 200" "fst (run_state (api_peers (sample_api True 2)) w) \<noteq> []"
  "creds_ok (\<lambda>_. True) (sample_api True 2)"
  "''10.0.0.2'' \<in> peerAddress ` set (fst (run_state (api_peers (sample_api True 2)) w))"
  by (simp_all add: sample_net_agent_def sample_cfg_def sample_api_def creds_ok_def peerAddress_def)

theorem node_with_ppr_fenced_witness:
  "\<exists>got nodes evs. trace (snd (run_state (checkApiServer (networked (sample_api True 2) (sample_net (Inr sample_ppr)) sample_cfg)
     sample_cfg (\<lambda>_ as. as)) sample_net_agent)) = AReadyz got # APeers nodes # evs \<and>
    ((\<exists>e. last evs = AReboot e) \<or>
     Unhealthy \<notin> set (answers evs) \<and> length nodes div 2 < count_list (answers evs) ApiError)"
proof -
  let ?m = "checkApiServer (networked (sample_api True 2) (sample_net (Inr sample_ppr)) sample_cfg) sample_cfg (\<lambda>_ as. as)"
  obtain res c' where run: "run_state ?m sample_net_agent = (res, c')" by (metis surj_pair)
  have known: "sees_ppr (\<lambda>_. True) h (cfg_MyNodeName sample_cfg) \<or> (\<forall>w. True \<longrightarrow> api_fails h w)"
    if "net_hosts (sample_net (Inr sample_ppr)) addr = Some h" for addr h
    using sample_hosts [OF that] sample_knowledge by auto
  have "\<exists>got nodes evs. trace c' = AReadyz got # APeers nodes # evs \<and> nodes \<noteq> [] \<and>
    ((\<exists>e. last evs = AReboot e) \<or>
     Unhealthy \<notin> set (answers evs) \<and> length nodes div 2 < count_list (answers evs) ApiError)"
    by (rule node_with_ppr_fenced [where I = "\<lambda>_. True", OF fair_id sample_start(1) sample_net_keeps sample_name _ _ _ _ sample_start(2) run])
       (erule known, rule TrueI, rule sample_start(3), rule sample_start(4))
  with run show ?thesis by auto
qed

theorem node_without_ppr_spared_witness:
  "\<forall>e. AReboot e \<notin> set (trace (snd (run_state (checkApiServer (networked (sample_api True 2) (sample_net (Inl NotFound)) sample_cfg)
     sample_cfg (\<lambda>_ as. as)) sample_net_agent)))"
proof -
  let ?m = "checkApiServer (networked (sample_api True 2) (sample_net (Inl NotFound)) sample_cfg) sample_cfg (\<lambda>_ as. as)"
  obtain res c' where run: "run_state ?m sample_net_agent = (res, c')" by (metis surj_pair)
  have known: "sees_no_ppr (\<lambda>_. True) h (cfg_MyNodeName sample_cfg) \<or> (\<forall>w. True \<longrightarrow> api_fails h w)"
    if "net_hosts (sample_net (Inl NotFound)) addr = Some h" for addr h
    using sample_hosts [OF that] sample_knowledge by auto
  have reach: "reachable (\<lambda>_. True) (sample_net (Inl NotFound)) (''10.0.0.2'' @ '':'' @ Itoa (cfg_PeerHealthPort sample_cfg))"
    by (simp add: reachable_def sample_net_def sample_addr_def)
  have host: "net_hosts (sample_net (Inl NotFound)) (''10.0.0.2'' @ '':'' @ Itoa (cfg_PeerHealthPort sample_cfg)) =
      Some (sample_host (Inl NotFound))"
    by (simp add: sample_net_def sample_addr_def)
  have "res = Return () \<and> (\<forall>e. AReboot e \<notin> set (trace c'))"
    by (rule node_without_ppr_spared [where I = "\<lambda>_. True", OF fair_id sample_start(1) sample_net_keeps sample_name _ _ sample_start(5) _ reach host
          sample_knowledge(2) run])
       (erule known, rule TrueI, rule sample_start(6))
  with run show ?thesis by simp
qed

text \<open>A node whose five peers have no address, and which is reached by nobody but itself.\<close>

definition sample_local_net :: "(unit, unit) network" where
  "sample_local_net = \<lparr>net_hosts = [sample_addr '''' \<mapsto> sample_cut_off], net_connect = (\<lambda>_ _. ret None),
     net_send = (\<lambda>_. ret None), net_reply = (\<lambda>_. ret None)\<rparr>"

theorem peers_without_address_witness:
  "\<forall>e. AReboot e \<notin> set (trace (snd (run_state (checkApiServer (networked ((sample_api True 2)\<lparr>api_peers := ret [[], [], [], [], []]\<rparr>)
     sample_local_net sample_cfg) sample_cfg (\<lambda>_ as. as)) sample_net_agent)))"
proof -
  let ?base = "(sample_api True 2)\<lparr>api_peers := ret [[], [], [], [], []]\<rparr>"
  let ?m = "checkApiServer (networked ?base sample_local_net sample_cfg) sample_cfg (\<lambda>_ as. as)"
  obtain res c' where run: "run_state ?m sample_net_agent = (res, c')" by (metis surj_pair)
  have keeps: "network_keeps (\<lambda>_. True) ?base sample_local_net" by (simp add: network_keeps_def keeps_def)
  have creds: "creds_ok (\<lambda>_. True) ?base" by (simp add: creds_ok_def sample_api_def)
  have local: "sample_addr '''' = '':'' @ Itoa (cfg_PeerHealthPort sample_cfg)" by (simp add: sample_addr_def)
  have reach: "reachable (\<lambda>_. True) sample_local_net (sample_addr '''')" "net_hosts sample_local_net (sample_addr '''') = Some sample_cut_off"
    by (simp_all add: reachable_def sample_local_net_def)
  have "res = Return () \<and> (\<forall>e. AReboot e \<notin> set (trace c')) \<and>
      (\<forall>addr k. ADial addr (Inr k) \<in> set (trace c') \<longrightarrow> addr = sample_addr '''') \<and> set (answers (trace c')) \<subseteq> {ApiError}"
    by (rule peers_without_address [where I = "\<lambda>_. True", OF fair_id sample_start(1) keeps sample_name local reach sample_knowledge(3) _ _ _ _ creds run])
       (simp_all add: unreachable_def sample_local_net_def sample_net_agent_def peerAddress_def)
  with run show ?thesis by simp
qed

end
