(* ===== verification/Check_Timing.thy ===== *)
theory Check_Timing
  imports Agent_Safety "HOL-Library.Sublist"
begin

text \<open>
  How long the connectivity check takes. Its calls run under timeouts (\<open>context.WithTimeout\<close> around the request to the API server, the dialling, the
  question and the reading of the secret), the goroutines of a batch run at the same time and meet only at the mutex of
  \<open>initClientCreds\<close>, and a batch is over when all have answered. A timing gives every event of the trace of a run a duration within these limits.
  \<open>wait.UntilWithContext\<close> starts a check one interval after the end of the one before.
\<close>

section \<open>Timings\<close>

definition apiTimeout :: duration where
  "apiTimeout = 10 * Second"

fun time_limit :: "ApiConnectivityCheckConfig \<Rightarrow> api_event \<Rightarrow> int" where
  "time_limit cfg (AReadyz _) = sint (cfg_ApiServerTimeout cfg)"
| "time_limit cfg (ACreds _) = sint apiTimeout"
| "time_limit cfg (ADial _ _) = sint (cfg_PeerDialTimeout cfg)"
| "time_limit cfg (AIsHealthy _ _ _) = sint (cfg_PeerRequestTimeout cfg)"
| "time_limit cfg _ = 0"

fun is_creds :: "api_event \<Rightarrow> bool" where
  "is_creds (ACreds _) = True"
| "is_creds _ = False"

type_synonym timed_event = "api_event \<times> int"

definition within_limits :: "ApiConnectivityCheckConfig \<Rightarrow> timed_event \<Rightarrow> bool" where
  "within_limits cfg x \<longleftrightarrow> 0 \<le> snd x \<and> snd x \<le> time_limit cfg (fst x)"

text \<open>The events of one goroutine \<open>getHealthStatusFromPeer\<close>.\<close>

inductive goroutine :: "api_event list \<Rightarrow> bool" where
  no_creds: "goroutine [ACreds (Some e)]"
| not_dialled: "pre \<in> {[], [ACreds None]} \<Longrightarrow> goroutine (pre @ [ADial addr (Inl e)])"
| asked: "pre \<in> {[], [ACreds None]} \<Longrightarrow> goroutine (pre @ [ADial addr (Inr k), AIsHealthy k name r, AClose k])"

text \<open>The time that it holds the mutex, and the time that it takes after that.\<close>

definition lock_time :: "timed_event list \<Rightarrow> int" where
  "lock_time g = sum_list (map snd (filter (\<lambda>x. is_creds (fst x)) g))"

definition work_time :: "timed_event list \<Rightarrow> int" where
  "work_time g = sum_list (map snd (filter (\<lambda>x. \<not> is_creds (fst x)) g))"

text \<open>
  The end of a batch: the goroutines get the mutex one after the other, \<open>lock\<close> is the time at which it is free, and \<open>latest\<close> the time at which
  the last of those before has answered. The next batch starts when all have.
\<close>

primrec batch_end :: "int \<Rightarrow> int \<Rightarrow> timed_event list list \<Rightarrow> int" where
  "batch_end lock latest [] = latest"
| "batch_end lock latest (g # gs) =
     batch_end (lock + lock_time g) (max latest (lock + lock_time g + work_time g)) gs"

primrec batches_end :: "int \<Rightarrow> timed_event list list list \<Rightarrow> int" where
  "batches_end t [] = t"
| "batches_end t (b # bs) = batches_end (batch_end t t b) bs"

text \<open>
  A check with these events that starts at \<open>t\<close> may end, or call the rebooter, at \<open>t'\<close>. The batches have the sizes that \<open>handleError\<close> gives them; the last
  ones are missing if the verdict was clear before.
\<close>

inductive check_takes :: "ApiConnectivityCheckConfig \<Rightarrow> api_event list \<Rightarrow> time \<Rightarrow> time \<Rightarrow> bool" for cfg where
  quiet: "within_limits cfg (AReadyz got, d) \<Longrightarrow> evs \<in> {[], [APeers []]} \<Longrightarrow>
    check_takes cfg (AReadyz got # evs) t (t + d)"
| asking: "within_limits cfg (AReadyz got, d) \<Longrightarrow>
    \<forall>b \<in> set bs. \<forall>g \<in> set b. goroutine (map fst g) \<and> (\<forall>x \<in> set g. within_limits cfg x) \<Longrightarrow>
    prefix (map length bs) (map length (batches 0 nodes)) \<Longrightarrow>
    evs = map fst (concat (concat bs)) \<or> (\<exists>e. evs = map fst (concat (concat bs)) @ [AReboot e]) \<Longrightarrow>
    check_takes cfg (AReadyz got # APeers nodes # evs) t (batches_end (t + d) bs)"

text \<open>Checks one after the other, the first at \<open>t\<close>, each with its events and its end. The world may change in between.\<close>

inductive checks ::
  "('s, 'c) api_env \<Rightarrow> ApiConnectivityCheckConfig \<Rightarrow> time \<Rightarrow> ('s, 'c) ApiConnectivityCheck \<Rightarrow> (api_event list \<times> time) list \<Rightarrow> bool"
  for env cfg where
  none: "checks env cfg t c []"
| check: "fair_sched sched \<Longrightarrow>
    run_state (checkApiServer env cfg sched) (c\<lparr>world := w, trace := []\<rparr>) = (res, c') \<Longrightarrow>
    check_takes cfg (trace c') t t' \<Longrightarrow>
    checks env cfg (t' + sint (cfg_CheckInterval cfg)) c' rest \<Longrightarrow>
    checks env cfg t c ((trace c', t') # rest)"

inductive_cases checks_ConsE: "checks env cfg t c (x # xs)"
inductive_cases check_takes_quietE: "check_takes cfg [AReadyz got] t t'"
inductive_cases check_takes_askingE: "check_takes cfg (AReadyz got # APeers nodes # evs) t t'"

section \<open>Every run has timings\<close>

lemma emits_creds: "emits (initClientCreds env) (\<lambda>e evs. case e of None \<Rightarrow> evs \<in> {[], [ACreds None]} | Some err \<Rightarrow> evs = [ACreds (Some err)])"
  unfolding emits_def by (auto simp: initClientCreds_def run_simps split: sum.split)

lemma emits_goroutine: "emits (getHealthStatusFromPeer env cfg ip results) (\<lambda>_ evs. goroutine evs)"
  unfolding getHealthStatusFromPeer_def Let_def
proof (rule emits_bind [OF emits_creds], goal_cases)
  case (1 e evs)
  show ?case
  proof (cases e)
    case None
    with 1 show ?thesis
      by (auto intro!: emits_intros emits_gets_bind goroutine.intros split: sum.split
          simp: goroutine.not_dialled [of "[]", simplified] goroutine.asked [of "[]", simplified]
            goroutine.not_dialled [of "[ACreds None]", simplified] goroutine.asked [of "[ACreds None]", simplified])
  next
    case (Some err)
    with 1 show ?thesis by (auto intro!: emits_ret goroutine.no_creds)
  qed
qed

lemma emits_goroutines:
  "emits (askPeers env cfg as results) (\<lambda>_ evs. \<exists>gs. evs = concat gs \<and> length gs = length as \<and> list_all goroutine gs)"
proof (induction as arbitrary: results)
  case (Cons a as)
  show ?case
    unfolding askPeers.simps
  proof (rule emits_bind [OF emits_goroutine], rule emits_mono [OF Cons.IH], elim exE conjE)
    fix evs evs' gs
    assume "goroutine evs" "evs' = concat gs" "length gs = length as" "list_all goroutine gs"
    then show "\<exists>gs. evs @ evs' = concat gs \<and> length gs = length (a # as) \<and> list_all goroutine gs"
      by (intro exI [of _ "evs # gs"]) simp
  qed
qed (auto intro: emits_ret)

definition goroutines_of :: "nat list \<Rightarrow> api_event list \<Rightarrow> bool" where
  "goroutines_of sizes evs \<longleftrightarrow>
     (\<exists>gs. evs = concat (concat gs) \<and> list_all (list_all goroutine) gs \<and> prefix (map length gs) sizes)"

lemma goroutines_of_Nil: "goroutines_of sizes []"
  unfolding goroutines_of_def by (rule exI [of _ "[]"]) simp

lemma goroutines_of_Cons:
  assumes "evs = concat gs" "list_all goroutine gs" "goroutines_of sizes evs'"
  shows "goroutines_of (length gs # sizes) (evs @ evs')"
proof -
  from assms(3) obtain gss where "evs' = concat (concat gss)" "list_all (list_all goroutine) gss" "prefix (map length gss) sizes"
    unfolding goroutines_of_def by blast
  with assms(1,2) show ?thesis unfolding goroutines_of_def by (intro exI [of _ "gs # gss"]) simp
qed

lemma emits_batches:
  assumes "fair_sched sched"
  shows "emits (ask_batches env cfg sched n bs i s) (\<lambda>_ evs. goroutines_of (map length bs) evs)"
proof (induction bs arbitrary: i s)
  case (Cons b bs)
  show ?case
    unfolding ask_batches.simps
  proof (rule emits_bind [OF emits_goroutines], elim exE conjE)
    fix rs evs gs
    assume gs: "evs = concat gs" "length gs = length (sched i b)" "list_all goroutine gs"
    then have len: "length gs = length b" using fair_sched_length [OF assms] by simp
    have stop: "goroutines_of (map length (b # bs)) (evs @ [])"
      using goroutines_of_Cons [OF gs(1,3) goroutines_of_Nil] len by simp
    have go_on: "emits (ask_batches env cfg sched n bs (Suc i) s') (\<lambda>_ evs'. goroutines_of (map length (b # bs)) (evs @ evs'))" for s'
      by (rule emits_mono [OF Cons.IH]) (use goroutines_of_Cons [OF gs(1,3)] len in auto)
    show "emits
       (case sumPeersResponses (length b) rs of
          Return (h, u, a, x) \<Rightarrow>
            if h > 0 then do { modify (errorCount_update (\<lambda>_. 0)); ret (Return True) }
            else if u > 0 then ret (Return False)
            else if a > 0 then
              if s + a > int (n div 2) then ret (Return True)
              else ask_batches env cfg sched n bs (Suc i) (s + a)
            else ask_batches env cfg sched n bs (Suc i) s
        | Panic \<Rightarrow> ret Panic | Block \<Rightarrow> ret Block) (\<lambda>_ evs'. goroutines_of (map length (b # bs)) (evs @ evs'))"
      using stop by (auto split: call.split intro!: emits_ret emits_modify_bind go_on [simplified])
  qed
qed (auto intro: emits_ret goroutines_of_Nil)

text \<open>The events of a check after its first one.\<close>

definition questions :: "api_event list \<Rightarrow> bool" where
  "questions evs \<longleftrightarrow> (\<exists>nodes evs'. evs = APeers nodes # evs' \<and> goroutines_of (map length (batches 0 nodes)) evs')"

lemma emits_handleError:
  assumes "fair_sched sched"
  shows "emits (handleError env cfg sched) (\<lambda>res evs. evs \<in> {[], [APeers []]} \<and> res = Return True \<or> questions evs)"
proof -
  have "emits (ask_batches env cfg sched n (batches 0 nodes) 0 0)
      (\<lambda>_ evs. questions (APeers nodes # evs))" for n nodes
    by (rule emits_mono [OF emits_batches [OF assms]]) (simp add: questions_def)
  then show ?thesis
    unfolding handleError_def handleError_loop_batches [OF assms]
    by (auto intro!: emits_modify_bind emits_gets_bind emits_perform_bind emits_ret)
qed

lemma emits_check:
  assumes "fair_sched sched"
  shows "emits (checkApiServer env cfg sched) (\<lambda>_ evs. \<exists>got rest. evs = AReadyz got # rest \<and>
    (rest \<in> {[], [APeers []]} \<or> questions rest \<or> (\<exists>qs e. questions qs \<and> rest = qs @ [AReboot e])))"
proof -
  have verdict: "emits
     (do { isHealthy \<leftarrow> handleError env cfg sched;
       case isHealthy of
         Return True \<Rightarrow> ret (Return ())
       | Return False \<Rightarrow> do {
           e \<leftarrow> perform (api_reboot env) AReboot;
           case e of Return _ \<Rightarrow> ret (Return ()) | Panic \<Rightarrow> ret Panic | Block \<Rightarrow> ret Block
         }
       | Panic \<Rightarrow> ret Panic
       | Block \<Rightarrow> ret Block })
     (\<lambda>_ rest. rest \<in> {[], [APeers []]} \<or> questions rest \<or> (\<exists>qs e. questions qs \<and> rest = qs @ [AReboot e]))"
    by (rule emits_bind [OF emits_handleError [OF assms]])
       (auto intro!: emits_perform_bind emits_ret split: call.split bool.split)
  show ?thesis
    unfolding checkApiServer_def Let_def
    by (rule emits_perform_bind) (auto intro!: emits_mono [OF verdict] emits_modify_bind emits_ret)
qed

text \<open>So there is a timing of every run: with all durations 0, for example.\<close>

lemma check_has_timing:
  assumes "fair_sched sched" and "run_state (checkApiServer env cfg sched) c = (res, c')" and "trace c = []"
    and "\<And>ev. 0 \<le> time_limit cfg ev"
  shows "\<exists>t'. check_takes cfg (trace c') t t'"
proof -
  have zero: "within_limits cfg (ev, 0)" for ev using assms(4) by (simp add: within_limits_def)
  have timed: "\<exists>bs. (\<forall>b \<in> set bs. \<forall>g \<in> set b. goroutine (map fst g) \<and> (\<forall>x \<in> set g. within_limits cfg x)) \<and>
      prefix (map length bs) sizes \<and> evs = map fst (concat (concat bs))" if "goroutines_of sizes evs" for sizes evs
  proof -
    from that obtain gs where gs: "evs = concat (concat gs)" "list_all (list_all goroutine) gs" "prefix (map length gs) sizes"
      unfolding goroutines_of_def by blast
    let ?timed = "map (\<lambda>ev. (ev, 0))"
    have "map fst (concat (concat (map (map ?timed) gs))) = evs"
      using gs(1) by (simp add: map_concat comp_def)
    with gs(2,3) zero show ?thesis
      by (intro exI [of _ "map (map ?timed) gs"]) (auto simp: list_all_iff comp_def)
  qed
  obtain got rest where rest: "trace c' = AReadyz got # rest"
    "rest \<in> {[], [APeers []]} \<or> questions rest \<or> (\<exists>qs e. questions qs \<and> rest = qs @ [AReboot e])"
    using emitsD [OF emits_check [OF assms(1)] assms(2,3)] by blast
  then consider "rest \<in> {[], [APeers []]}"
    | nodes evs where "goroutines_of (map length (batches 0 nodes)) evs" "rest = APeers nodes # evs \<or> (\<exists>e. rest = APeers nodes # evs @ [AReboot e])"
    unfolding questions_def by auto
  then show ?thesis
  proof cases
    case 1
    show ?thesis unfolding rest(1) by (rule exI) (rule check_takes.quiet [OF zero 1])
  next
    case (2 nodes evs)
    from timed [OF 2(1)] obtain bs where "\<forall>b \<in> set bs. \<forall>g \<in> set b. goroutine (map fst g) \<and> (\<forall>x \<in> set g. within_limits cfg x)"
      "prefix (map length bs) (map length (batches 0 nodes))" "evs = map fst (concat (concat bs))" by blast
    note bs = this
    obtain evs' where rest': "rest = APeers nodes # evs'" "evs' = map fst (concat (concat bs)) \<or> (\<exists>e. evs' = map fst (concat (concat bs)) @ [AReboot e])"
      using 2(2) bs(3) by auto
    show ?thesis unfolding rest(1) rest'(1) by (rule exI) (rule check_takes.asking [OF zero bs(1,2) rest'(2)])
  qed
qed

section \<open>Bounds\<close>

definition creds_requests :: "api_event list \<Rightarrow> nat" where
  "creds_requests evs = length (filter is_creds evs)"

lemma creds_requests_append [simp]: "creds_requests (xs @ ys) = creds_requests xs + creds_requests ys"
  by (simp add: creds_requests_def)

definition ask_time :: "ApiConnectivityCheckConfig \<Rightarrow> int" where
  "ask_time cfg = sint (cfg_PeerDialTimeout cfg) + sint (cfg_PeerRequestTimeout cfg)"

lemma sint_apiTimeout: "sint apiTimeout = 10000000000"
  by (simp add: apiTimeout_def Second_def)

lemma goroutine_times:
  assumes "goroutine (map fst g)" and "\<forall>x \<in> set g. within_limits cfg x" and "\<And>ev. 0 \<le> time_limit cfg ev"
  shows "lock_time g \<le> 10000000000 * int (creds_requests (map fst g)) \<and> work_time g \<le> ask_time cfg"
proof -
  have "0 \<le> sint (cfg_PeerDialTimeout cfg)" "0 \<le> sint (cfg_PeerRequestTimeout cfg)"
    using assms(3) [of "ADial [] (Inl NotFound)"] assms(3) [of "AIsHealthy 0 [] (Inl NotFound)"] by simp_all
  with assms(1,2) show ?thesis
    by (cases rule: goroutine.cases)
       (auto simp: map_eq_Cons_conv map_eq_append_conv lock_time_def work_time_def creds_requests_def within_limits_def
         ask_time_def sint_apiTimeout)
qed

lemma batch_end_le:
  assumes "\<forall>g \<in> set b. goroutine (map fst g) \<and> (\<forall>x \<in> set g. within_limits cfg x)" and "\<And>ev. 0 \<le> time_limit cfg ev"
  shows "batch_end lock latest b \<le>
    max latest (lock + 10000000000 * int (creds_requests (map fst (concat b))) + ask_time cfg)"
  using assms(1)
proof (induction b arbitrary: lock latest)
  case (Cons g gs)
  let ?L = "\<lambda>xs. 10000000000 * int (creds_requests (map fst xs))"
  have g: "lock_time g \<le> ?L g" "work_time g \<le> ask_time cfg"
    using goroutine_times [of g cfg] Cons.prems assms(2) by auto
  have "batch_end lock latest (g # gs) \<le> max (max latest (lock + lock_time g + work_time g))
      (lock + lock_time g + ?L (concat gs) + ask_time cfg)"
    using Cons.IH [of "lock + lock_time g" "max latest (lock + lock_time g + work_time g)"] Cons.prems by simp
  also have "\<dots> \<le> max latest (lock + ?L (concat (g # gs)) + ask_time cfg)"
    using g by (simp add: distrib_left max_def)
  finally show ?case .
qed simp

lemma batches_end_le:
  assumes "\<forall>b \<in> set bs. \<forall>g \<in> set b. goroutine (map fst g) \<and> (\<forall>x \<in> set g. within_limits cfg x)" and "\<And>ev. 0 \<le> time_limit cfg ev"
  shows "batches_end t bs \<le> t + 10000000000 * int (creds_requests (map fst (concat (concat bs)))) + int (length bs) * ask_time cfg"
  using assms(1)
proof (induction bs arbitrary: t)
  case (Cons b bs)
  have ask: "0 \<le> ask_time cfg"
    using assms(2) [of "ADial [] (Inl NotFound)"] assms(2) [of "AIsHealthy 0 [] (Inl NotFound)"] by (simp add: ask_time_def)
  have "batch_end t t b \<le> t + 10000000000 * int (creds_requests (map fst (concat b))) + ask_time cfg"
    using batch_end_le [of b cfg t t] Cons.prems assms(2) ask by fastforce
  then show ?case
    using Cons.IH [of "batch_end t t b"] Cons.prems by (simp add: algebra_simps)
qed simp

text \<open>A check that asks takes at most its time for the API server, one time for asking per round, and ten seconds per request for the credentials.\<close>

lemma asking_takes_at_most:
  assumes "check_takes cfg (AReadyz got # APeers nodes # evs) t t'" and "\<And>ev. 0 \<le> time_limit cfg ev"
  shows "t' \<le> t + sint (cfg_ApiServerTimeout cfg) + int (rounds 0 (length nodes)) * ask_time cfg +
    10000000000 * int (creds_requests evs)"
proof -
  from assms(1) consider (quiet) "nodes = []" "within_limits cfg (AReadyz got, t' - t)"
    | (asking) d bs where "t' = batches_end (t + d) bs" "within_limits cfg (AReadyz got, d)"
      "\<forall>b \<in> set bs. \<forall>g \<in> set b. goroutine (map fst g) \<and> (\<forall>x \<in> set g. within_limits cfg x)"
      "prefix (map length bs) (map length (batches 0 nodes))"
      "evs = map fst (concat (concat bs)) \<or> (\<exists>e. evs = map fst (concat (concat bs)) @ [AReboot e])"
    by (auto elim!: check_takes_askingE)
  then show ?thesis
  proof cases
    case quiet
    then have "0 \<le> int (rounds 0 (length nodes)) * ask_time cfg"
      using assms(2) [of "ADial [] (Inl NotFound)"] assms(2) [of "AIsHealthy 0 [] (Inl NotFound)"] by (simp add: ask_time_def)
    with quiet show ?thesis by (simp add: within_limits_def)
  next
    case (asking d bs)
    have len: "length bs \<le> rounds 0 (length nodes)"
      using prefix_length_le [OF asking(4)] by (simp add: length_batches)
    have ask: "0 \<le> ask_time cfg"
      using assms(2) [of "ADial [] (Inl NotFound)"] assms(2) [of "AIsHealthy 0 [] (Inl NotFound)"] by (simp add: ask_time_def)
    have creds: "creds_requests evs = creds_requests (map fst (concat (concat bs)))"
      using asking(5) by (auto simp: creds_requests_def)
    have "t' \<le> t + d + 10000000000 * int (creds_requests evs) + int (length bs) * ask_time cfg"
      unfolding creds asking(1) using batches_end_le [OF asking(3) assms(2)] by simp
    moreover have "int (length bs) * ask_time cfg \<le> int (rounds 0 (length nodes)) * ask_time cfg"
      using len ask by (intro mult_right_mono) auto
    ultimately show ?thesis using asking(2) by (simp add: within_limits_def)
  qed
qed

section \<open>Properties\<close>

text \<open>Below the threshold, a check that fails counts the error and asks nobody.\<close>

lemma failing_check:
  assumes "run_state (checkApiServer env cfg sched) c = (res, c')" and "trace c = []" and "hd (trace c') \<noteq> AReadyz (Inr 200)"
    and "errorCount c + 1 < cfg_MaxErrorsThreshold cfg"
  obtains got where "trace c' = [AReadyz got]" and "errorCount c' = errorCount c + 1"
proof -
  obtain got w where g: "run_state (api_readyz env) (world c) = (got, w)" by (metis surj_pair)
  have "got \<noteq> Inr 200"
    using run_checkApiServer_ok [of env c w cfg sched] g assms(1-3) by auto
  moreover have "run_state (handleError env cfg sched) (c\<lparr>world := w, trace := trace c @ [AReadyz got]\<rparr>) =
      (Return True, c\<lparr>world := w, trace := [AReadyz got], errorCount := errorCount c + 1\<rparr>)"
    using assms(2,4) by (simp add: handleError_def run_simps)
  ultimately have "c' = c\<lparr>world := w, trace := [AReadyz got], errorCount := errorCount c + 1\<rparr>"
    using run_checkApiServer_healthy [OF g] assms(1) by simp
  then show thesis by (intro that [of got]) simp_all
qed

lemma quiet_takes_at_most: "check_takes cfg [AReadyz got] t t' \<Longrightarrow> t' \<le> t + sint (cfg_ApiServerTimeout cfg)"
  by (auto elim!: check_takes_quietE simp: within_limits_def)

lemma failing_check_timed:
  assumes "checks env cfg t c ((evs, t') # rest)" and "hd evs \<noteq> AReadyz (Inr 200)" and "errorCount c + 1 < cfg_MaxErrorsThreshold cfg"
  obtains c' where "checks env cfg (t' + sint (cfg_CheckInterval cfg)) c' rest" and "errorCount c' = errorCount c + 1"
    and "t' \<le> t + sint (cfg_ApiServerTimeout cfg)"
  using assms(1)
proof (rule checks_ConsE)
  fix sched w res c' t''
  assume eq: "(evs, t') = (trace c', t'')" and run: "run_state (checkApiServer env cfg sched) (c\<lparr>world := w, trace := []\<rparr>) = (res, c')"
    and takes: "check_takes cfg (trace c') t t''" and rest: "checks env cfg (t'' + sint (cfg_CheckInterval cfg)) c' rest"
  obtain got where "trace c' = [AReadyz got]" "errorCount c' = errorCount c + 1"
    using failing_check [OF run] eq assms(2,3) by auto
  with eq takes rest quiet_takes_at_most [of cfg got t t'] show thesis by (intro that [of c']) simp_all
qed

text \<open>C11.
  How long an isolated node takes to bring itself down. An agent that has started runs its checks one after the other; \<open>t0\<close> is the end of the last one
  that reached the API server. If the next three checks fail, the agent knows peers, and none of them answers, then the third check calls the
  rebooter, at the latest 60 seconds after \<open>t0\<close> plus 10 seconds for each round of questions plus 10 seconds for each time that the agent has to ask for its
  credentials (none if it has them already). So a watchdog with a timeout of \<open>T\<close> seconds resets the node within the safe time that this agent
  computes if the rounds, the requests for credentials and \<open>T\<close> add up to at most 125 seconds.\<close>

theorem isolated_reboot_in_time:
  assumes "run_state (initPoisonPillAgent menv host) s = (Started ag, s')" and "cfg = ag_apiCheck ag"
    and "checks env cfg (t0 + sint (cfg_CheckInterval cfg)) c
      [(evs1, t1), (evs2, t2), (AReadyz (Inl err) # APeers nodes # evs, t3)]"
    and "errorCount c = 0" and "hd evs1 \<noteq> AReadyz (Inr 200)" and "hd evs2 \<noteq> AReadyz (Inr 200)"
    and "nodes \<noteq> []" and "answers evs = []"
  shows "(\<exists>e. last evs = AReboot e) \<and>
    t3 \<le> t0 + (60 + 10 * int (rounds 0 (length nodes)) + 10 * int (creds_requests evs)) * 1000000000 \<and>
    (10 * int (rounds 0 (length nodes)) + 10 * int (creds_requests evs) + T \<le> 125 \<longrightarrow>
      t3 + T * 1000000000 \<le> t0 + sint (SafeTimeToAssumeNodeRebooted (ag_reconciler ag)))"
proof -
  obtain t where safe: "SafeTimeToAssumeNodeRebooted (ag_reconciler ag) = safe_time t"
    and cfg: "cfg = \<lparr>cfg_MyNodeName = Getenv menv nodeNameEnvVar, cfg_CheckInterval = 15 * Second,
      cfg_MaxErrorsThreshold = 3, cfg_ApiServerTimeout = 5 * Second, cfg_PeerDialTimeout = 5 * Second,
      cfg_PeerRequestTimeout = 5 * Second, cfg_PeerHealthPort = 30001\<rparr>"
    using initPoisonPillAgent_started [OF assms(1)] assms(2) by auto
  have limits: "0 \<le> time_limit cfg ev" for ev
    by (cases "(cfg, ev)" rule: time_limit.cases) (simp_all add: cfg sint_apiTimeout Second_def)
  have times: "sint (cfg_CheckInterval cfg) = 15000000000" "sint (cfg_ApiServerTimeout cfg) = 5000000000"
      "ask_time cfg = 10000000000" "cfg_MaxErrorsThreshold cfg = 3"
    by (simp_all add: cfg ask_time_def Second_def)
  have below: "errorCount c + 1 < cfg_MaxErrorsThreshold cfg" using assms(4) times(4) by simp
  obtain c1 where c1: "checks env cfg (t1 + sint (cfg_CheckInterval cfg)) c1 [(evs2, t2), (AReadyz (Inl err) # APeers nodes # evs, t3)]"
      "errorCount c1 = errorCount c + 1" "t1 \<le> t0 + sint (cfg_CheckInterval cfg) + sint (cfg_ApiServerTimeout cfg)"
    by (rule failing_check_timed [OF assms(3,5) below])
  have below: "errorCount c1 + 1 < cfg_MaxErrorsThreshold cfg" using c1(2) assms(4) times(4) by simp
  obtain c2 where c2: "checks env cfg (t2 + sint (cfg_CheckInterval cfg)) c2 [(AReadyz (Inl err) # APeers nodes # evs, t3)]"
      "t2 \<le> t1 + sint (cfg_CheckInterval cfg) + sint (cfg_ApiServerTimeout cfg)"
    by (rule failing_check_timed [OF c1(1) assms(6) below])
  from c2(1) obtain sched3 w3 res3 c3 where check3: "fair_sched sched3"
      "run_state (checkApiServer env cfg sched3) (c2\<lparr>world := w3, trace := []\<rparr>) = (res3, c3)"
      "trace c3 = AReadyz (Inl err) # APeers nodes # evs"
      "check_takes cfg (AReadyz (Inl err) # APeers nodes # evs) (t2 + 15000000000) t3"
    by (rule checks_ConsE) (auto simp: times)
  have reboot: "\<exists>e. last evs = AReboot e"
  proof -
    have "trace (c2\<lparr>world := w3, trace := []\<rparr>) = []" by simp
    from isolated_node_reboots [OF check3(1) this check3(2,3) assms(7,8)] show ?thesis by (elim exE conjE) simp
  qed
  have "t3 \<le> t2 + 20000000000 + int (rounds 0 (length nodes)) * 10000000000 + 10000000000 * int (creds_requests evs)"
    using asking_takes_at_most [OF check3(4) limits] times by simp
  then have t3: "t3 \<le> t0 + (60 + 10 * int (rounds 0 (length nodes)) + 10 * int (creds_requests evs)) * 1000000000"
    using c1(3) c2(2) times by (simp add: algebra_simps)
  moreover have "185000000000 \<le> sint (SafeTimeToAssumeNodeRebooted (ag_reconciler ag))"
    unfolding safe by (rule safe_time_at_least)
  ultimately show ?thesis using reboot by auto
qed

section \<open>The worst case\<close>

text \<open>A network in which every peer can be dialled but never answers.\<close>

definition silent_env :: "NodeAddress list list \<Rightarrow> (unit, unit) api_env" where
  "silent_env nodes = \<lparr>api_readyz = ret (Inl (Other ''timeout'')), api_peers = ret nodes, api_creds = ret (Inr ()),
     api_dial = (\<lambda>_ _. ret (Inr 0)), api_isHealthy = (\<lambda>_ _. ret (Inl (Other ''timeout''))), api_close = (\<lambda>_. ret ()),
     api_reboot = ret (Return None)\<rparr>"

definition silent_peer :: "ApiConnectivityCheckConfig \<Rightarrow> string \<Rightarrow> timed_event list" where
  "silent_peer cfg ip =
     [(ADial (ip @ '':'' @ Itoa (cfg_PeerHealthPort cfg)) (Inr 0), sint (cfg_PeerDialTimeout cfg)),
      (AIsHealthy 0 (cfg_MyNodeName cfg) (Inl (Other ''timeout'')), sint (cfg_PeerRequestTimeout cfg)), (AClose 0, 0)]"

lemma askPeers_silent:
  assumes "clientCreds c = Some ()"
  shows "run_state (askPeers (silent_env nodes) cfg as results) c =
    (results @ replicate (length as) RequestFailed, c\<lparr>trace := trace c @ map fst (concat (map (silent_peer cfg) as))\<rparr>)"
  using assms
proof (induction as arbitrary: results c)
  case (Cons a as)
  have "run_state (getHealthStatusFromPeer (silent_env nodes) cfg a results) c =
      (results @ [RequestFailed], c\<lparr>trace := trace c @ map fst (silent_peer cfg a)\<rparr>)"
    using Cons.prems
    by (simp add: getHealthStatusFromPeer_def initClientCreds_def run_simps silent_env_def silent_peer_def Let_def)
  with Cons show ?case by simp
qed simp

lemma ask_batches_silent:
  assumes "clientCreds c = Some ()"
  shows "run_state (ask_batches (silent_env nodes) cfg (\<lambda>_ as. as) n bs i s) c =
    (Return False, c\<lparr>trace := trace c @ map fst (concat (concat (map (map (silent_peer cfg)) bs)))\<rparr>)"
  using assms
proof (induction bs arbitrary: i c)
  case (Cons b bs)
  have "sumPeersResponses (length b) (replicate (length b) RequestFailed) = Return (0, 0, 0, int (length b))"
    using sumPeersResponses_eq [of "replicate (length b) RequestFailed"]
    by (simp add: count_list_eq_length_filter code_defs)
  with Cons show ?case by (simp add: askPeers_silent)
qed simp

lemma check_silent:
  assumes "clientCreds c = Some ()" and "trace c = []" and "nodes \<noteq> []"
  shows "run_state (checkApiServer (silent_env nodes) cfg (\<lambda>_ as. as)) c =
    (Return (), c\<lparr>errorCount := errorCount c + 1, trace :=
       (if errorCount c + 1 < cfg_MaxErrorsThreshold cfg then [AReadyz (Inl (Other ''timeout''))]
        else AReadyz (Inl (Other ''timeout'')) # APeers nodes #
          map fst (concat (concat (map (map (silent_peer cfg)) (batches 0 nodes)))) @ [AReboot (Return None)])\<rparr>)"
proof -
  have env: "api_readyz (silent_env nodes) = ret (Inl (Other ''timeout''))" "api_peers (silent_env nodes) = ret nodes"
      "api_reboot (silent_env nodes) = ret (Return None)"
    by (simp_all add: silent_env_def)
  show ?thesis
    using assms
    by (simp add: checkApiServer_def handleError_def run_simps env Let_def handleError_loop_batches ask_batches_silent)
qed

lemma batches_nonempty: "b \<in> set (batches i nodes) \<Longrightarrow> b \<noteq> []"
proof (induction i nodes rule: batches.induct)
  case (1 i nodes)
  then show ?case
    using nodesBatchCount_pos [of "length nodes" i] by (cases "nodes = []") (auto simp: batches_Cons)
qed

lemma batch_end_silent:
  "batch_end lock latest (map (silent_peer cfg) b) = (if b = [] then latest else max latest (lock + ask_time cfg))"
  by (induction b arbitrary: latest) (auto simp: silent_peer_def lock_time_def work_time_def ask_time_def)

lemma batches_end_silent:
  assumes "0 \<le> ask_time cfg" and "\<forall>b \<in> set bs. b \<noteq> []"
  shows "batches_end t (map (map (silent_peer cfg)) bs) = t + int (length bs) * ask_time cfg"
  using assms(2)
proof (induction bs arbitrary: t)
  case (Cons b bs)
  then show ?case using assms(1) by (simp add: batch_end_silent distrib_right)
qed simp

lemma silent_peer_ok:
  assumes "\<And>ev. 0 \<le> time_limit cfg ev"
  shows "goroutine (map fst (silent_peer cfg ip)) \<and> (\<forall>x \<in> set (silent_peer cfg ip). within_limits cfg x)"
  using assms [of "ADial [] (Inl NotFound)"] assms [of "AIsHealthy 0 [] (Inl NotFound)"]
    goroutine.asked [of "[]"] by (simp add: silent_peer_def within_limits_def)

text \<open>
  The bound of \<open>isolated_reboot_in_time\<close> is reached: when the peers of an agent can be dialled but do not answer, and every call runs into its timeout, the
  rebooter is called exactly 60 seconds and 10 seconds per round after the last contact with the API server.
\<close>

lemma worst_case_reached:
  assumes "run_state (initPoisonPillAgent menv host) s = (Started ag, s')" and "cfg = ag_apiCheck ag"
    and "errorCount c = 0" and "clientCreds c = Some ()" and "nodes \<noteq> []"
  shows "\<exists>evs1 t1 evs2 t2 evs. checks (silent_env nodes) cfg (t0 + sint (cfg_CheckInterval cfg)) c
      [(evs1, t1), (evs2, t2), (AReadyz (Inl (Other ''timeout'')) # APeers nodes # evs,
        t0 + (60 + 10 * int (rounds 0 (length nodes))) * 1000000000)] \<and>
    hd evs1 \<noteq> AReadyz (Inr 200) \<and> hd evs2 \<noteq> AReadyz (Inr 200) \<and> answers evs = [] \<and> creds_requests evs = 0"
proof -
  have cfg: "cfg = \<lparr>cfg_MyNodeName = Getenv menv nodeNameEnvVar, cfg_CheckInterval = 15 * Second,
      cfg_MaxErrorsThreshold = 3, cfg_ApiServerTimeout = 5 * Second, cfg_PeerDialTimeout = 5 * Second,
      cfg_PeerRequestTimeout = 5 * Second, cfg_PeerHealthPort = 30001\<rparr>"
    using initPoisonPillAgent_started [OF assms(1)] assms(2) by auto
  have limits: "0 \<le> time_limit cfg ev" for ev
    by (cases "(cfg, ev)" rule: time_limit.cases) (simp_all add: cfg sint_apiTimeout Second_def)
  have times: "sint (cfg_CheckInterval cfg) = 15000000000" "sint (cfg_ApiServerTimeout cfg) = 5000000000"
      "ask_time cfg = 10000000000" "cfg_MaxErrorsThreshold cfg = 3"
    by (simp_all add: cfg ask_time_def Second_def)
  let ?env = "silent_env nodes" and ?ready = "AReadyz (Inl (Other ''timeout''))" and ?m = "1000000000"
  let ?bs = "map (map (silent_peer cfg)) (batches 0 nodes)"
  let ?evs = "map fst (concat (concat ?bs)) @ [AReboot (Return None)]"
  define c1 where "c1 = c\<lparr>trace := [?ready], errorCount := 1\<rparr>"
  define c2 where "c2 = c\<lparr>trace := [?ready], errorCount := 2\<rparr>"
  define c3 where "c3 = c\<lparr>trace := ?ready # APeers nodes # ?evs, errorCount := 3\<rparr>"
  have ready: "within_limits cfg (?ready, 5 * ?m)" using times by (simp add: within_limits_def)
  have runs: "run_state (checkApiServer ?env cfg (\<lambda>_ as. as)) (c\<lparr>world := (), trace := []\<rparr>) = (Return (), c1)"
    "run_state (checkApiServer ?env cfg (\<lambda>_ as. as)) (c1\<lparr>world := (), trace := []\<rparr>) = (Return (), c2)"
    "run_state (checkApiServer ?env cfg (\<lambda>_ as. as)) (c2\<lparr>world := (), trace := []\<rparr>) = (Return (), c3)"
    using assms(3-5) times(4) by (simp_all add: check_silent c1_def c2_def c3_def)
  have "batches_end (t0 + 55 * ?m + 5 * ?m) ?bs = t0 + (60 + 10 * int (rounds 0 (length nodes))) * ?m"
    using batches_end_silent [of cfg "batches 0 nodes"] batches_nonempty times(3) by (simp add: length_batches algebra_simps)
  moreover have "check_takes cfg (?ready # APeers nodes # ?evs) (t0 + 55 * ?m) (batches_end (t0 + 55 * ?m + 5 * ?m) ?bs)"
    by (rule check_takes.asking [OF ready]) (use silent_peer_ok [OF limits] in \<open>auto simp: comp_def\<close>)
  ultimately have "check_takes cfg (?ready # APeers nodes # ?evs) (t0 + 55 * ?m) (t0 + (60 + 10 * int (rounds 0 (length nodes))) * ?m)"
    by (simp only:)
  then have takes: "check_takes cfg (trace c3) (t0 + 55 * ?m) (t0 + (60 + 10 * int (rounds 0 (length nodes))) * ?m)"
    by (simp add: c3_def)
  have quiet: "check_takes cfg [?ready] t (t + 5 * ?m)" for t
    by (rule check_takes.quiet [OF ready]) simp
  have "checks ?env cfg (t0 + 15 * ?m) c [(trace c1, t0 + 20 * ?m), (trace c2, t0 + 40 * ?m),
      (trace c3, t0 + (60 + 10 * int (rounds 0 (length nodes))) * ?m)]"
    using quiet [of "t0 + 15 * ?m"] quiet [of "t0 + 35 * ?m"] takes
    by (intro checks.check [OF fair_id runs(1)] checks.check [OF fair_id runs(2)] checks.check [OF fair_id runs(3)] checks.none)
       (simp_all add: times c1_def c2_def add.commute)
  moreover have "answers ?evs = []" "creds_requests ?evs = 0"
    by (simp_all add: answers_def creds_requests_def silent_peer_def filter_empty_conv)
  ultimately show ?thesis
    by (intro exI [of _ "trace c1"] exI [of _ "t0 + 20 * ?m"] exI [of _ "trace c2"] exI [of _ "t0 + 40 * ?m"] exI [of _ ?evs])
       (simp add: times c1_def c2_def c3_def)
qed

text \<open>
  So the safe time can be too short. The minimum of 185 seconds counts eleven rounds and a buffer of 15 seconds; it counts neither the timeout of the watchdog
  nor the requests for credentials nor the rounds beyond the eleventh. With more than 8 peers and a watchdog of 60 seconds or more, an agent that runs with
  the minimum may be reset only after its node is taken for rebooted.
\<close>

lemma safe_time_can_be_too_short:
  assumes "run_state (initPoisonPillAgent menv host) s = (Started ag, s')" and "cfg = ag_apiCheck ag"
    and "Atoi (Getenv menv ''TIME_TO_ASSUME_NODE_REBOOTED'') = Inr t" and "0 \<le> t" and "t \<le> 185"
    and "errorCount c = 0" and "clientCreds c = Some ()" and "8 < length nodes" and "60 \<le> T"
  shows "\<exists>evs1 t1 evs2 t2 evs t3. checks (silent_env nodes) cfg (t0 + sint (cfg_CheckInterval cfg)) c
      [(evs1, t1), (evs2, t2), (AReadyz (Inl (Other ''timeout'')) # APeers nodes # evs, t3)] \<and>
    t0 + sint (SafeTimeToAssumeNodeRebooted (ag_reconciler ag)) < t3 + T * 1000000000"
proof -
  have "nodes \<noteq> []" using assms(8) by auto
  from worst_case_reached [OF assms(1,2,6,7) this, of t0] obtain evs1 t1 evs2 t2 evs where
    run: "checks (silent_env nodes) cfg (t0 + sint (cfg_CheckInterval cfg)) c
      [(evs1, t1), (evs2, t2), (AReadyz (Inl (Other ''timeout'')) # APeers nodes # evs,
        t0 + (60 + 10 * int (rounds 0 (length nodes))) * 1000000000)]" by blast
  have "7 \<le> int (rounds 0 (length nodes))"
    using rounds_small [of "length nodes - 3" 0] rounds_large [of "length nodes - 3" 0] assms(8)
    by (cases "length nodes - 3 < 20") (auto simp: rounds_0)
  moreover have "sint (SafeTimeToAssumeNodeRebooted (ag_reconciler ag)) = 185000000000"
    using initPoisonPillAgent_started [OF assms(1)] assms(3-5) sint_safe_time [of t] by auto
  ultimately have "t0 + sint (SafeTimeToAssumeNodeRebooted (ag_reconciler ag)) <
      t0 + (60 + 10 * int (rounds 0 (length nodes))) * 1000000000 + T * 1000000000"
    using assms(9) by simp
  with run show ?thesis by blast
qed

theorem isolated_reboot_in_time_witness:
  "\<exists>(ag :: unit agent) s' t3. run_state (initPoisonPillAgent sample_main_env ()) sample_main_state = (Started ag, s') \<and>
     t3 + 15 * 1000000000 \<le> sint (SafeTimeToAssumeNodeRebooted (ag_reconciler ag)) \<and> t3 = 70 * 1000000000"
proof -
  obtain ag :: "unit agent" and s' where r: "run_state (initPoisonPillAgent sample_main_env ()) sample_main_state = (Started ag, s')"
    using sample_agent_starts by blast
  let ?c = "\<lparr>world = (), trace = [], errorCount = 0, clientCreds = Some ()\<rparr> :: (unit, unit) ApiConnectivityCheck"
  have rounds: "rounds 0 (length [[]]) = 1" by (simp add: rounds.simps nodesBatchCount_def)
  obtain evs1 t1 evs2 t2 evs where w: "checks (silent_env [[]]) (ag_apiCheck ag) (0 + sint (cfg_CheckInterval (ag_apiCheck ag))) ?c
      [(evs1, t1), (evs2, t2), (AReadyz (Inl (Other ''timeout'')) # APeers [[]] # evs,
        0 + (60 + 10 * int (rounds 0 (length [[]]))) * 1000000000)]"
    "hd evs1 \<noteq> AReadyz (Inr 200)" "hd evs2 \<noteq> AReadyz (Inr 200)" "answers evs = []" "creds_requests evs = 0"
    using worst_case_reached [OF r refl, of ?c "[[]]" 0] by auto
  from isolated_reboot_in_time [OF r refl w(1) _ w(2,3) _ w(4), of 15] w(5) rounds
  have "0 + (60 + 10 * int 1) * 1000000000 + 15 * 1000000000 \<le> 0 + sint (SafeTimeToAssumeNodeRebooted (ag_reconciler ag))"
    by simp
  with r show ?thesis by auto
qed

end
