(* ===== verification/Spec2Isabelle.thy ===== *)
theory Spec2Isabelle
  imports Remediation_Cluster Remediation_Completion Object_Cache Config_Rollout Peer_Verdict Check_Timing
begin

text \<open>
  \<^bold>\<open>Poison Pill\<close>: remediation of unhealthy Kubernetes nodes without a management interface.

  \<^bold>\<open>The program.\<close> One binary (\<open>src/main.go\<close>) runs as a \<^emph>\<open>manager\<close>, which creates a default
  configuration and template and rolls out a daemon set, or as an \<^emph>\<open>agent\<close>, one per node. The manager runs the
  \<^emph>\<open>config controller\<close> (\<open>src/controllers/poisonpillconfig_controller.go\<close>): for a \<open>PoisonPillConfig\<close> it makes
  the certificates of the agents and keeps them in a secret (\<open>src/pkg/certificates\<close>), renders the manifests with the
  values of the configuration (\<open>src/pkg/render\<close>) and applies them (\<open>src/pkg/apply\<close>). An agent consists of
    \<^item> the \<^emph>\<open>remediation controller\<close> (\<open>src/controllers/poisonpillremediation_controller.go\<close>): for each
      \<open>PoisonPillRemediation\<close> (PPR) every agent takes the steps finalizer, cordon, backup of the node into
      the PPR status, wait until the node is assumed to have rebooted (the agent on the node itself reboots it),
      delete the node, create it again from the backup, clean up;
    \<^item> the \<^emph>\<open>connectivity check\<close> (\<open>src/pkg/apicheck/check.go\<close>): when the API server cannot be reached, it asks the peers
      whether this node is healthy, and reboots the node if it is not or if nobody answers;
    \<^item> the \<^emph>\<open>peer list\<close> (\<open>src/pkg/peers/peers.go\<close>) and the \<^emph>\<open>peer health service\<close>
      (\<open>src/pkg/peerhealth/server.go\<close>, \<open>client.go\<close>) by which agents ask each other, over mutual TLS with the certificates
      from the secret;
    \<^item> the \<^emph>\<open>rebooter\<close> (\<open>src/pkg/reboot/rebooter.go\<close>) and the \<^emph>\<open>watchdog\<close> (\<open>src/pkg/watchdog\<close>): feeding the
      hardware watchdog keeps the node up, and stopping to feed it reboots the node.
  The components interact through calls (check to rebooter to watchdog; controller to rebooter), through the API server
  (PPRs and nodes, changed by all agents at the same time), through the network (check to health
  service) and through the package variables \<open>lastSeenPprNamespace\<close> and \<open>wasLastSeenPprMachine\<close> (controller to health
  service), and from the manager to the agents through the secret and the environment variables that the rendered manifest
  sets. The contract between the parts is timing: nobody may delete a node before it is
  down, so the safe reboot time must cover the longest time an isolated node takes to reboot itself.

  \<^bold>\<open>How code is modelled.\<close> Structs are records and enumerations datatypes, with the names of the source (a prefix where
  HOL would clash). A handler is a term of the state monad over a record that extends \<open>io\<close>: its field \<open>world\<close> is
  the state of everything outside the program, \<open>trace\<close> the list of interactions with their answers (the code
  never reads it), and the further fields are the variables of the component. What is outside (API server, clock,
  network, system calls, commands) is a record of operations passed as an argument; the operations
  may answer anything, so stale caches, errors, lost races and concurrent writers are covered
  by quantification over that argument. An \<open>error\<close> is a value of \<open>go_error\<close>, which keeps the API
  reasons the code tests for. \<open>time.Duration\<close> is a 64-bit word read as signed; \<open>time.Time\<close> is an
  integer of nanoseconds. A call that can panic or block has a value of type \<open>call\<close>. Logging has no effect in the model, and a context with a timeout
  none beyond the errors that an operation may answer; only \<open>Check_Timing\<close> gives the events of a run durations within these timeouts.

  \<^bold>\<open>Theories.\<close>
    \<^item> \<open>Prelude\<close>: errors, durations, the monad and its trace, the rules \<open>emits\<close> (what a handler can put on the trace, whatever
      the world answers), \<open>world_inv\<close> (what it keeps of the world), \<open>leads\<close> (what a handler achieves in a world that
      answers as stated) and \<open>ensures\<close> (what holds of its result as long as the world keeps an invariant). \<open>Strconv\<close>: decimal printing and reading.
    \<^item> \<open>Kube_Objects\<close>: the API types of \<open>src/api\<close>, finalizers, taints (\<open>src/pkg/utils/taints.go\<close>), response codes.
    \<^item> \<open>Remediation\<close>: \<open>Reconcile\<close> and its helpers, one definition per function, \<open>Reconcile\<close> itself cut into
      the branch of a restored node (\<open>Reconcile_restored\<close>), the steps on the unhealthy node
      (\<open>Reconcile_unhealthy\<close>) and the wait, reboot and deletion (\<open>Reconcile_reboot\<close>).
      \<open>Remediation_Protocol\<close>: the abstract protocol as inductive relations and the proof that the handler holds
      exactly the conversations of the protocol. \<open>Remediation_Safety\<close>: what a single reconcile may do. \<open>Remediation_Cluster\<close>:
      any number of agents interleaved, and that none deletes a node early. \<open>Remediation_Lifecycle\<close>: the stages of a remediation, the
      contract \<open>api_store\<close> of an API server with resource versions that stores what it is sent but may fail any request, its extension \<open>api_server\<close> that never fails,
      and the stage one reconcile leads to.
      \<open>Remediation_Completion\<close>: concrete clusters that keep the contracts, that a remediation changes the cluster a bounded number of
      times even if requests fail, that it ends with the node restored and the PPR released, and what a \<open>Delete\<close> that comes late destroys.
    \<^item> \<open>Watchdog\<close>: \<open>synchronizedWatchdog\<close> (each region under the mutex is one definition), the Linux and the
      fake implementation, \<open>NewLinux\<close>; the goroutines as the step relation \<open>wd_step\<close>. \<open>Watchdog_Safety\<close>: its
      invariant, an equivalent scheduler \<open>wd_act\<close> that runs, the contract \<open>watchdog_contract\<close> of an implementation with its two
      interpretations, silence after \<open>Stop\<close>.
    \<^item> \<open>Reboot\<close>: the rebooter and the contract \<open>rebooter\<close> its callers rely on, interpreted on \<open>Reboot\<close>.
    \<^item> \<open>Peers\<close>: the label selector, the updates, and the accessor on an explicit store of slices.
    \<^item> \<open>Api_Check\<close>: one check, the error count, the questions, the verdict. \<open>Api_Check_Verdict\<close>: what the
      verdict means, its independence of the order of answers, and the number of rounds.
    \<^item> \<open>Peer_Health\<close>: the handler of a health request on the variables of the controller, and the client.
    \<^item> \<open>Proto_Wire\<close>: the wire format of protocol buffers (varints, tags, lengths, groups) with its round trips and the
      equivalence of the unrolled reader of varints with the loop. \<open>Proto_Message\<close>: from raw descriptors to coders, and reading
      back what was written. \<open>Peer_Messages\<close>: the messages of \<open>src/pkg/peerhealth/peerhealth.pb.go\<close>, whose
      coders are built from the generated bytes of the descriptor. \<open>Peer_Network\<close>: the generated gRPC service, the dispatch of a
      request in the gRPC server, and a network of agents that answer each other. \<open>Peer_Verdict\<close>: the check of \<open>Api_Check\<close>
      asking in that network: an isolated node whose PPR the peers see reboots, one for which they see none is spared, and one whose peers have no
      address asks itself.
    \<^item> \<open>Agent\<close>: \<open>main\<close> and the initialisation of manager and agent. \<open>Agent_Safety\<close>: the contract
      \<open>self_fencing\<close> of a check with a rebooter, interpreted on the wiring of \<open>main.go\<close>; the safe time that an agent computes; the start of the manager. \<open>Check_Timing\<close>: how long the checks of an
      isolated agent take, from the timeouts of their calls and the goroutines of a batch, against that safe time.
    \<^item> \<open>Unstructured\<close>: JSON-like objects as finite maps and the accessors of the unstructured package. \<open>Apply\<close>: merging a manifest with
      the existing object and \<open>ApplyObject\<close>. \<open>Apply_Merge\<close>: the merged metadata entry by entry, and that merging again changes nothing.
      \<open>Apply_Convergence\<close>: what an update keeps, the outcomes of \<open>ApplyObject\<close>, and exactly when it writes.
    \<^item> \<open>Certificates\<close>: making the chain, both certificate storages, the TLS configurations. \<open>Certificates_Trust\<close>: the contract
      \<open>cert_storage_reader\<close> of a storage, interpreted on both; the chain, the round trip through the secret, matching
      credentials. \<open>Peer_Server\<close>: \<open>Server.Start\<close> with these credentials, and that neither end talks without them.
    \<^item> \<open>Render\<close>: paths, the walk over a directory, templates and manifests. \<open>Render_Dir\<close>: the list of visits as a reference
      definition, equivalence of \<open>RenderDir\<close> with rendering its manifests in order, completeness of the list.
    \<^item> \<open>Config_Controller\<close>: the config controller, composed of the above with the combinator \<open>embed\<close>. \<open>Config_Rollout\<close>: certificates
      before agents, certificates never replaced, the safe time from the configuration to the agents.
    \<^item> \<open>Go_Memory\<close>: Go values in an explicit heap (pointers, slices, maps, interfaces) with their types, and the statements the deep copy generator
      emits. \<open>Go_Copying\<close>: the contract \<open>deep_copier\<close> of a copying function (equal content, nothing shared) and the copiers that keep it
      when composed. \<open>Deepcopy_Library\<close>: the copiers of the vendored types the API types contain. \<open>Deepcopy\<close>: every function of
      \<open>src/api/v1alpha1/zz_generated.deepcopy.go\<close>. \<open>Object_Cache\<close>: the registration of the kinds, and the read through the cache that
      relies on the copies: a controller that changes what it got never changes the cache.

  \<^bold>\<open>Bounds, loops and termination.\<close> There is no fuel. Loops over lists are structural; \<open>RemoveFinalizer_loop\<close>,
  \<open>popNodes_loop\<close>, \<open>handleError_loop\<close> and the walk over a directory tree have measures, so a result is proved to be reached, not assumed. The loops
  that run for ever (feeding, checking, updating the peers) are step relations or
  single rounds. Error counts and list lengths are mathematical integers: they grow by one per
  check. Durations keep their 64 bits and their overflow.

  \<^bold>\<open>Interleaving.\<close> Regions under a mutex and single API requests are atomic. The goroutines of one batch of questions run
  one after the other in any order; the order is an argument. Agents are interleaved at the
  granularity of API requests in \<open>Remediation_Cluster\<close>, whose safety results hold for every interleaving. In
  \<open>Remediation_Lifecycle\<close> and \<open>Remediation_Completion\<close> a reconcile is one step with current reads, and other writers act between the reconciles: their results do not carry over
  to reconciles that overlap, because \<open>Delete\<close> is sent without preconditions (\<open>late_delete_undoes\<close>). In \<open>Check_Timing\<close> a
  goroutine waits only for its calls and for the mutex; delays of the scheduler are not counted.

  \<^bold>\<open>Hypotheses on libraries and the surroundings.\<close> \<open>server_form\<close> (of \<open>Apply_Convergence\<close>): the existing object has its metadata in the form in which the API server returns
  it, so that reading and printing them changes nothing (\<open>codec_stable\<close> of \<open>Apply_Merge\<close> is the part of it that the lemmas on merging need). \<open>as_stored\<close> (of \<open>Certificates_Trust\<close>): the API server merges \<open>stringData\<close> into
  \<open>data\<close>. \<open>safe_time_handed_over\<close>: the variables of the agent are those that the rendered manifest says (\<open>container_env\<close>, where the quotes around the
  time are those of YAML). The locale \<open>api_store\<close> (of \<open>Remediation_Lifecycle\<close>) has the laws of an API server with one
  PPR, not owned by a machine, and its node; it is interpreted on a cluster behind a connection that loses requests and answers, and its
  extension \<open>api_server\<close>, without failures, on the cluster itself. The theorems of \<open>Peer_Verdict\<close> assume an invariant of the world under which each agent of the
  network is cut off from the API server or sees the PPR (\<open>sees_ppr\<close>), or finds none (\<open>sees_no_ppr\<close>), in terms of the PPRs that this agent has reconciled and of those that are
  stored; the agents for which this fails because of \<open>wasLastSeenPprMachine\<close> are excluded there and shown in \<open>node_ppr_missed_after_machine\<close>. That the network may lose any request is part of its
  model. Everything else that is outside may answer anything.

  \<^bold>\<open>Not modelled.\<close> RSA, X.509, PEM, the TLS handshake, HTTP/2, template engine, YAML decoder and \<open>SetControllerReference\<close>
  (libraries the sources only call: parameters); the features of protocol buffers that the messages do not use, and the reflective
  accessors of the generated messages that nothing calls (\<open>String\<close>, \<open>Descriptor\<close>); the registration with the
  controller framework (\<open>SetupWithManager\<close>), flag parsing and logging; the helpers of the end-to-end tests.
\<close>

end
